(* ===== verification/Mx27_Prelude.thy ===== *)
theory Mx27_Prelude
  imports Main "HOL-Library.Word"
begin

text \<open>
  Shared vocabulary of the development: the machine types of the C code, the faults a kernel
  path can run into, sequencing of fallible steps, error numbers, and the generic facts on
  words, bit fields and association lists that the components share.
\<close>

unbundle bit_operations_syntax

section \<open>Machine types\<close>

text \<open>
  \<^verbatim>\<open>unsigned long\<close>, \<^verbatim>\<open>u32\<close> and addresses are 32 bits wide on the ARM926 core; a plain
  \<^verbatim>\<open>int\<close> that is only compared and returned is an \<^typ>\<open>int\<close>.
\<close>

type_synonym u8 = "8 word"
type_synonym u16 = "16 word"
type_synonym u32 = "32 word"
type_synonym u64 = "64 word"

section \<open>Faults and sequencing\<close>

text \<open>
  What the C code does not return from: \<^verbatim>\<open>BUG()\<close>, a dereference of \<^verbatim>\<open>NULL\<close>, a division by
  zero (\<^verbatim>\<open>__div0\<close>), a busy loop that never ends, recursion beyond the kernel stack,
  \<^verbatim>\<open>panic()\<close>, linking an intrusive list node that is already linked, and an access beyond the end
  of an array.  Error numbers the code returns are ordinary values.
\<close>

datatype fault = BugOn | NullDeref | DivByZero | Hang | StackOverflow | Panic | ListCorrupt | OutOfBounds

type_synonym 'a result = "fault + 'a"

definition rbind :: "'e + 'a \<Rightarrow> ('a \<Rightarrow> 'e + 'b) \<Rightarrow> 'e + 'b" where
  "rbind m f = (case m of Inl e \<Rightarrow> Inl e | Inr x \<Rightarrow> f x)"

text \<open>Unsigned division as the C code performs it: dividing by zero is a fault.\<close>

definition udiv :: "'w::len word \<Rightarrow> 'w word \<Rightarrow> 'w word result" where
  "udiv a b = (if b = 0 then Inl DivByZero else Inr (a div b))"

text \<open>Dereferencing a pointer that may be \<^verbatim>\<open>NULL\<close>.\<close>

definition deref :: "'a option \<Rightarrow> 'a result" where
  "deref p = (case p of None \<Rightarrow> Inl NullDeref | Some x \<Rightarrow> Inr x)"

text \<open>A \<^verbatim>\<open>list_for_each_entry\<close> loop over a body that can fault.\<close>

fun rfold :: "('a \<Rightarrow> 's \<Rightarrow> 'e + 's) \<Rightarrow> 'a list \<Rightarrow> 's \<Rightarrow> 'e + 's" where
  "rfold f [] s = Inr s"
| "rfold f (x # xs) s = rbind (f x s) (rfold f xs)"

named_theorems field_simps_mx \<open>reading and writing bit fields of registers\<close>
named_theorems frame_simps \<open>what an operation leaves alone\<close>

section \<open>Error numbers\<close>

definition ENOENT :: int where [simp]: "ENOENT = 2"
definition ENXIO :: int where [simp]: "ENXIO = 6"
definition ENODEV :: int where [simp]: "ENODEV = 19"
definition ENOMEM :: int where [simp]: "ENOMEM = 12"
definition EBUSY :: int where [simp]: "EBUSY = 16"
definition ENOSYS :: int where [simp]: "ENOSYS = 38"
definition EINVAL :: int where [simp]: "EINVAL = 22"

section \<open>Bit fields\<close>

text \<open>
  \<open>fld_get sh w x\<close> reads the field of \<open>w\<close> bits that starts at bit \<open>sh\<close>;
  \<open>fld_set sh w v x\<close> is the read-modify-write \<^verbatim>\<open>(x & ~(mask << sh)) | (v << sh)\<close>.
\<close>

definition fld_get :: "nat \<Rightarrow> nat \<Rightarrow> u32 \<Rightarrow> u32" where
  "fld_get sh w x = drop_bit sh x AND mask w"

definition fld_set :: "nat \<Rightarrow> nat \<Rightarrow> u32 \<Rightarrow> u32 \<Rightarrow> u32" where
  "fld_set sh w v x = (x AND NOT (push_bit sh (mask w))) OR push_bit sh v"

definition fits :: "nat \<Rightarrow> u32 \<Rightarrow> bool" where
  "fits w v \<longleftrightarrow> v AND mask w = v"

section \<open>Facts on results\<close>

lemma rbind_simps [simp]:
  "rbind (Inl e) f = Inl e"
  "rbind (Inr x) f = f x"
  by (simp_all add: rbind_def)

lemma rbind_eq_Inr: "rbind m f = Inr y \<longleftrightarrow> (\<exists>x. m = Inr x \<and> f x = Inr y)"
  by (cases m) auto

lemma rbind_eq_Inl: "rbind m f = Inl e \<longleftrightarrow> m = Inl e \<or> (\<exists>x. m = Inr x \<and> f x = Inl e)"
  by (cases m) auto

lemma rbind_assoc: "rbind (rbind m f) g = rbind m (\<lambda>x. rbind (f x) g)"
  by (cases m) auto

lemma rbind_cong [fundef_cong]:
  "m = m' \<Longrightarrow> (\<And>x. m' = Inr x \<Longrightarrow> f x = g x) \<Longrightarrow> rbind m f = rbind m' g"
  by (cases m') auto

lemma udiv_eq_Inr [simp]: "udiv a b = Inr q \<longleftrightarrow> b \<noteq> 0 \<and> q = a div b"
  by (auto simp: udiv_def)

lemma deref_simps [simp]:
  "deref None = Inl NullDeref"
  "deref (Some x) = Inr x"
  by (simp_all add: deref_def)

lemma deref_eq_Inr [simp]: "deref p = Inr x \<longleftrightarrow> p = Some x"
  by (cases p) auto

section \<open>Facts on words\<close>

lemma bit_fld_get: "bit (fld_get sh w x) n \<longleftrightarrow> n < w \<and> bit x (n + sh)"
  by (auto simp: fld_get_def bit_simps add.commute dest: bit_imp_le_length)

lemma bit_fld_set:
  "bit (fld_set sh w v x) n \<longleftrightarrow>
     n < 32 \<and> (if n < sh then bit x n
               else if n < sh + w then bit v (n - sh)
               else bit x n \<or> bit v (n - sh))"
  by (auto simp: fld_set_def bit_simps dest: bit_imp_le_length)

lemma fits_bit: "fits w v \<Longrightarrow> bit v n \<Longrightarrow> n < w"
  unfolding fits_def by (metis bit_and_iff bit_mask_iff)

lemma fld_get_set [field_simps_mx]:
  assumes "fits w v" and "sh + w \<le> 32"
  shows "fld_get sh w (fld_set sh w v x) = v"
proof (rule bit_word_eqI)
  fix n assume "n < LENGTH(32)"
  show "bit (fld_get sh w (fld_set sh w v x)) n \<longleftrightarrow> bit v n"
    using assms by (auto simp: bit_fld_get bit_fld_set dest: fits_bit)
qed

lemma fld_set_set [field_simps_mx]:
  assumes "fits w v" and "fits w v'"
  shows "fld_set sh w v (fld_set sh w v' x) = fld_set sh w v x"
proof (rule bit_word_eqI)
  fix n assume "n < LENGTH(32)"
  then show "bit (fld_set sh w v (fld_set sh w v' x)) n \<longleftrightarrow> bit (fld_set sh w v x) n"
    using assms by (auto simp: bit_fld_set dest: fits_bit)
qed

lemma fld_set_get [field_simps_mx]: "sh + w \<le> 32 \<Longrightarrow> fld_set sh w (fld_get sh w x) x = x"
  by (rule bit_word_eqI) (auto simp: bit_fld_get bit_fld_set)

lemma fld_get_other [field_simps_mx]:
  assumes "fits w v" and "sh' + w' \<le> sh \<or> sh + w \<le> sh'" and "sh' + w' \<le> 32"
  shows "fld_get sh' w' (fld_set sh w v x) = fld_get sh' w' x"
proof (rule bit_word_eqI)
  fix n assume "n < LENGTH(32)"
  show "bit (fld_get sh' w' (fld_set sh w v x)) n \<longleftrightarrow> bit (fld_get sh' w' x) n"
    using assms by (auto simp: bit_fld_get bit_fld_set dest: fits_bit)
qed

lemma fits_get [simp]: "fits w (fld_get sh w x)"
  unfolding fits_def by (rule bit_word_eqI) (auto simp: bit_simps bit_fld_get)

lemma fits_iff_less: "w < 32 \<Longrightarrow> fits w v \<longleftrightarrow> unat v < 2 ^ w"
  unfolding fits_def
  by (metis take_bit_eq_mask unsigned_take_bit_eq take_bit_nat_eq_self_iff word_eq_iff_unsigned)

end
