(* ===== verification/Mx27_Bus.thy ===== *)
theory Mx27_Bus
  imports Mx27_Prelude
begin

text \<open>
  The memory-mapped registers of the i.MX27 as the code sees them: \<^verbatim>\<open>__raw_readl\<close>,
  \<^verbatim>\<open>__raw_writel\<close> and their halfword forms, and the address macros of
  \<^verbatim>\<open>include/asm-arm/arch-mxc/mx27.h\<close>.

  The peripherals themselves are not software of the repository.  What a store does to a
  register (\<open>wsem\<close>) and what a peripheral does between two polls of a register (\<open>tick\<close>) are
  parameters, carried in the bus state; a lemma that needs a register to behave as plain
  storage says so with \<open>storage\<close>.
\<close>

section \<open>The bus\<close>

record bus =
  mem :: "u32 \<Rightarrow> u32"
  wsem :: "u32 \<Rightarrow> u32 \<Rightarrow> u32 \<Rightarrow> u32"
  tick :: "(u32 \<Rightarrow> u32) \<Rightarrow> u32 \<Rightarrow> u32"

definition raw_readl :: "u32 \<Rightarrow> bus \<Rightarrow> u32" where
  "raw_readl a b = mem b a"

definition raw_writel :: "u32 \<Rightarrow> u32 \<Rightarrow> bus \<Rightarrow> bus" where
  "raw_writel v a b = b\<lparr>mem := (mem b)(a := wsem b a (mem b a) v)\<rparr>"

text \<open>Halfword accesses at a word-aligned address reach the low half of the word.\<close>

definition raw_readw :: "u32 \<Rightarrow> bus \<Rightarrow> u16" where
  "raw_readw a b = ucast (mem b a)"

definition raw_writew :: "u16 \<Rightarrow> u32 \<Rightarrow> bus \<Rightarrow> bus" where
  "raw_writew v a b = raw_writel ((mem b a AND NOT (mask 16)) OR ucast v) a b"

text \<open>One poll interval passes.\<close>

definition bus_tick :: "bus \<Rightarrow> bus" where
  "bus_tick b = b\<lparr>mem := tick b (mem b)\<rparr>"

text \<open>A register that holds what was last written to it.\<close>

definition storage :: "bus \<Rightarrow> u32 \<Rightarrow> bool" where
  "storage b a \<longleftrightarrow> (\<forall>x v. wsem b a x v = v)"

text \<open>A register whose bits are cleared by writing ones (interrupt status registers).\<close>

definition w1c :: "bus \<Rightarrow> u32 \<Rightarrow> bool" where
  "w1c b a \<longleftrightarrow> (\<forall>x v. wsem b a x v = x AND NOT v)"

section \<open>Address map\<close>

definition AIPI_BASE_ADDR :: u32 where [simp]: "AIPI_BASE_ADDR = 0x10000000"
definition AIPI_BASE_ADDR_VIRT :: u32 where [simp]: "AIPI_BASE_ADDR_VIRT = 0xD4000000"
definition SAHB1_BASE_ADDR :: u32 where [simp]: "SAHB1_BASE_ADDR = 0x80000000"
definition SAHB1_BASE_ADDR_VIRT :: u32 where [simp]: "SAHB1_BASE_ADDR_VIRT = 0xD4100000"
definition X_MEMC_BASE_ADDR :: u32 where [simp]: "X_MEMC_BASE_ADDR = 0xD8000000"
definition X_MEMC_BASE_ADDR_VIRT :: u32 where [simp]: "X_MEMC_BASE_ADDR_VIRT = 0xD4200000"
definition CS4_BASE_ADDR :: u32 where [simp]: "CS4_BASE_ADDR = 0xD4000000"
definition CS4_BASE_ADDR_VIRT :: u32 where [simp]: "CS4_BASE_ADDR_VIRT = 0xEB000000"
definition CS5_BASE_ADDR :: u32 where [simp]: "CS5_BASE_ADDR = 0xD6000000"
definition CS5_BASE_ADDR_VIRT :: u32 where [simp]: "CS5_BASE_ADDR_VIRT = 0xEC000000"

text \<open>\<^verbatim>\<open>SZ_1M\<close> of \<^verbatim>\<open>asm/sizes.h\<close>: every peripheral window is one megabyte.\<close>

definition SZ_1M :: u32 where [simp]: "SZ_1M = 0x00100000"

definition IO_ADDRESS :: "u32 \<Rightarrow> u32" where
  "IO_ADDRESS x =
     (if x \<ge> AIPI_BASE_ADDR \<and> x < AIPI_BASE_ADDR + SZ_1M
        then (x - AIPI_BASE_ADDR) + AIPI_BASE_ADDR_VIRT
      else if x \<ge> SAHB1_BASE_ADDR \<and> x < SAHB1_BASE_ADDR + SZ_1M
        then (x - SAHB1_BASE_ADDR) + SAHB1_BASE_ADDR_VIRT
      else if x \<ge> CS4_BASE_ADDR \<and> x < CS4_BASE_ADDR + SZ_1M
        then (x - CS4_BASE_ADDR) + CS4_BASE_ADDR_VIRT
      else if x \<ge> CS5_BASE_ADDR \<and> x < CS5_BASE_ADDR + SZ_1M
        then (x - CS5_BASE_ADDR) + CS5_BASE_ADDR_VIRT
      else if x \<ge> X_MEMC_BASE_ADDR \<and> x < X_MEMC_BASE_ADDR + SZ_1M
        then (x - X_MEMC_BASE_ADDR) + X_MEMC_BASE_ADDR_VIRT
      else 0xDEADBEEF)"

definition GPIO_BASE_ADDR :: u32 where [simp]: "GPIO_BASE_ADDR = 0x10015000"
definition CCM_BASE_ADDR :: u32 where [simp]: "CCM_BASE_ADDR = 0x10027000"
definition SYSCTRL_BASE_ADDR :: u32 where [simp]: "SYSCTRL_BASE_ADDR = 0x10027800"

section \<open>Register fields as an interface\<close>

text \<open>
  What the drivers expect of a field of a register: reading back what was set, the last
  setting winning, writing back what was read changing nothing.
\<close>

locale reg_field =
  fixes get :: "u32 \<Rightarrow> u32"
    and set :: "u32 \<Rightarrow> u32 \<Rightarrow> u32"
    and ok :: "u32 \<Rightarrow> bool"
  assumes get_set: "ok v \<Longrightarrow> get (set v x) = v"
    and set_set: "ok v \<Longrightarrow> ok v' \<Longrightarrow> set v (set v' x) = set v x"
    and set_get: "set (get x) x = x"
    and ok_get: "ok (get x)"
begin

lemma set_inj: "ok v \<Longrightarrow> ok v' \<Longrightarrow> set v x = set v' x \<Longrightarrow> v = v'"
  by (metis get_set)

lemma restore: "ok v \<Longrightarrow> set (get x) (set v x) = x"
  by (metis ok_get set_get set_set)

end

lemma reg_field_fld: "sh + w \<le> 32 \<Longrightarrow> reg_field (fld_get sh w) (fld_set sh w) (fits w)"
  by unfold_locales (simp_all add: field_simps_mx)

section \<open>Facts on the bus\<close>

lemma readl_writel_same: "storage b a \<Longrightarrow> raw_readl a (raw_writel v a b) = v"
  by (simp add: raw_readl_def raw_writel_def storage_def)

lemma readl_writel_w1c: "w1c b a \<Longrightarrow> raw_readl a (raw_writel v a b) = raw_readl a b AND NOT v"
  by (simp add: raw_readl_def raw_writel_def w1c_def)

lemma readl_writel_other [simp]: "a \<noteq> a' \<Longrightarrow> raw_readl a' (raw_writel v a b) = raw_readl a' b"
  by (simp add: raw_readl_def raw_writel_def)

lemma writel_frame [simp]:
  "wsem (raw_writel v a b) = wsem b"
  "tick (raw_writel v a b) = tick b"
  "storage (raw_writel v a b) = storage b"
  "w1c (raw_writel v a b) = w1c b"
  by (simp_all add: raw_writel_def storage_def w1c_def fun_eq_iff)

lemma writew_frame [simp]:
  "wsem (raw_writew v a b) = wsem b"
  "tick (raw_writew v a b) = tick b"
  "storage (raw_writew v a b) = storage b"
  "w1c (raw_writew v a b) = w1c b"
  "a \<noteq> a' \<Longrightarrow> raw_readl a' (raw_writew v a b) = raw_readl a' b"
  by (simp_all add: raw_writew_def)

lemma writel_readl_same: "storage b a \<Longrightarrow> raw_writel (raw_readl a b) a b = b"
  by (simp add: raw_readl_def raw_writel_def storage_def)

lemma writel_commute:
  "a \<noteq> a' \<Longrightarrow> raw_writel v a (raw_writel v' a' b) = raw_writel v' a' (raw_writel v a b)"
  by (simp add: raw_writel_def fun_upd_twist)

lemma IO_ADDRESS_aipi:
  "AIPI_BASE_ADDR \<le> x \<Longrightarrow> x < AIPI_BASE_ADDR + SZ_1M \<Longrightarrow> IO_ADDRESS x = x + 0xC4000000"
  by (simp add: IO_ADDRESS_def)

lemma IO_ADDRESS_values [simp]:
  "IO_ADDRESS 0x10015000 = 0xD4015000"
  "IO_ADDRESS 0x10027000 = 0xD4027000"
  "IO_ADDRESS 0x10027800 = 0xD4027800"
  "IO_ADDRESS 0x10027854 = 0xD4027854"
  by (simp_all add: IO_ADDRESS_def)

end
