(* ===== verification/Crm_Regs.thy ===== *)
theory Crm_Regs
  imports Mx27_Bus
begin

text \<open>
  The registers of the clock control module and their fields, from
  \<^verbatim>\<open>arch/arm/mach-mx27/crm_regs.h\<close>: addresses, bit offsets (natural numbers) and masks.
\<close>

definition CCM_CSCR :: u32 where [simp]: "CCM_CSCR = IO_ADDRESS CCM_BASE_ADDR + 0x0"
definition CCM_MPCTL0 :: u32 where [simp]: "CCM_MPCTL0 = IO_ADDRESS CCM_BASE_ADDR + 0x4"
definition CCM_SPCTL0 :: u32 where [simp]: "CCM_SPCTL0 = IO_ADDRESS CCM_BASE_ADDR + 0xC"
definition CCM_SPCTL1 :: u32 where [simp]: "CCM_SPCTL1 = IO_ADDRESS CCM_BASE_ADDR + 0x10"
definition CCM_PCDR0 :: u32 where [simp]: "CCM_PCDR0 = IO_ADDRESS CCM_BASE_ADDR + 0x18"
definition CCM_PCDR1 :: u32 where [simp]: "CCM_PCDR1 = IO_ADDRESS CCM_BASE_ADDR + 0x1C"
definition CCM_PCCR0 :: u32 where [simp]: "CCM_PCCR0 = IO_ADDRESS CCM_BASE_ADDR + 0x20"
definition CCM_PCCR1 :: u32 where [simp]: "CCM_PCCR1 = IO_ADDRESS CCM_BASE_ADDR + 0x24"
definition CCM_CCSR :: u32 where [simp]: "CCM_CCSR = IO_ADDRESS CCM_BASE_ADDR + 0x28"
definition CCM_CSCR_USB_OFFSET :: nat where [simp]: "CCM_CSCR_USB_OFFSET = 28"
definition CCM_CSCR_USB_MASK :: u32 where [simp]: "CCM_CSCR_USB_MASK = push_bit 28 0x7"
definition CCM_CSCR_SP :: u32 where [simp]: "CCM_CSCR_SP = push_bit 17 1"
definition CCM_CSCR_MCU :: u32 where [simp]: "CCM_CSCR_MCU = push_bit 16 1"
definition CCM_CSCR_ARM_SRC :: u32 where [simp]: "CCM_CSCR_ARM_SRC = push_bit 15 1"
definition CCM_CSCR_ARM_OFFSET :: nat where [simp]: "CCM_CSCR_ARM_OFFSET = 12"
definition CCM_CSCR_ARM_MASK :: u32 where [simp]: "CCM_CSCR_ARM_MASK = push_bit 12 0x3"
definition CCM_CSCR_PRESC_OFFSET :: nat where [simp]: "CCM_CSCR_PRESC_OFFSET = 13"
definition CCM_CSCR_PRESC_MASK :: u32 where [simp]: "CCM_CSCR_PRESC_MASK = push_bit 13 0x7"
definition CCM_CSCR_BCLK_OFFSET :: nat where [simp]: "CCM_CSCR_BCLK_OFFSET = 9"
definition CCM_CSCR_BCLK_MASK :: u32 where [simp]: "CCM_CSCR_BCLK_MASK = push_bit 9 0xF"
definition CCM_CSCR_IPDIV_OFFSET :: nat where [simp]: "CCM_CSCR_IPDIV_OFFSET = 8"
definition CCM_CSCR_IPDIV :: u32 where [simp]: "CCM_CSCR_IPDIV = push_bit 8 1"
definition CCM_CSCR_AHB_OFFSET :: nat where [simp]: "CCM_CSCR_AHB_OFFSET = 8"
definition CCM_CSCR_AHB_MASK :: u32 where [simp]: "CCM_CSCR_AHB_MASK = push_bit 8 0x3"
definition CCM_CSCR_SPEN :: u32 where [simp]: "CCM_CSCR_SPEN = push_bit 1 1"
definition CCM_MPCTL0_PD_OFFSET :: nat where [simp]: "CCM_MPCTL0_PD_OFFSET = 26"
definition CCM_MPCTL0_PD_MASK :: u32 where [simp]: "CCM_MPCTL0_PD_MASK = push_bit 26 0xF"
definition CCM_MPCTL0_MFD_OFFSET :: nat where [simp]: "CCM_MPCTL0_MFD_OFFSET = 16"
definition CCM_MPCTL0_MFD_MASK :: u32 where [simp]: "CCM_MPCTL0_MFD_MASK = push_bit 16 0x3FF"
definition CCM_MPCTL0_MFI_OFFSET :: nat where [simp]: "CCM_MPCTL0_MFI_OFFSET = 10"
definition CCM_MPCTL0_MFI_MASK :: u32 where [simp]: "CCM_MPCTL0_MFI_MASK = push_bit 10 0xF"
definition CCM_MPCTL0_MFN_OFFSET :: nat where [simp]: "CCM_MPCTL0_MFN_OFFSET = 0"
definition CCM_MPCTL0_MFN_MASK :: u32 where [simp]: "CCM_MPCTL0_MFN_MASK = 0x3FF"
definition CCM_SPCTL0_PD_OFFSET :: nat where [simp]: "CCM_SPCTL0_PD_OFFSET = 26"
definition CCM_SPCTL0_PD_MASK :: u32 where [simp]: "CCM_SPCTL0_PD_MASK = push_bit 26 0xF"
definition CCM_SPCTL0_MFD_OFFSET :: nat where [simp]: "CCM_SPCTL0_MFD_OFFSET = 16"
definition CCM_SPCTL0_MFD_MASK :: u32 where [simp]: "CCM_SPCTL0_MFD_MASK = push_bit 16 0x3FF"
definition CCM_SPCTL0_MFI_OFFSET :: nat where [simp]: "CCM_SPCTL0_MFI_OFFSET = 10"
definition CCM_SPCTL0_MFI_MASK :: u32 where [simp]: "CCM_SPCTL0_MFI_MASK = push_bit 10 0xF"
definition CCM_SPCTL0_MFN_OFFSET :: nat where [simp]: "CCM_SPCTL0_MFN_OFFSET = 0"
definition CCM_SPCTL0_MFN_MASK :: u32 where [simp]: "CCM_SPCTL0_MFN_MASK = 0x3FF"
definition CCM_SPCTL1_LF :: u32 where [simp]: "CCM_SPCTL1_LF = push_bit 15 1"
definition CCM_PCDR0_SSI2BAUDDIV_OFFSET :: nat where [simp]: "CCM_PCDR0_SSI2BAUDDIV_OFFSET = 26"
definition CCM_PCDR0_SSI2BAUDDIV_MASK :: u32 where [simp]: "CCM_PCDR0_SSI2BAUDDIV_MASK = push_bit 26 0x3F"
definition CCM_PCDR0_CLKO_EN :: u32 where [simp]: "CCM_PCDR0_CLKO_EN = 25"
definition CCM_PCDR0_CLKODIV_OFFSET :: nat where [simp]: "CCM_PCDR0_CLKODIV_OFFSET = 22"
definition CCM_PCDR0_CLKODIV_MASK :: u32 where [simp]: "CCM_PCDR0_CLKODIV_MASK = push_bit 22 0x7"
definition CCM_PCDR0_SSI1BAUDDIV_OFFSET :: nat where [simp]: "CCM_PCDR0_SSI1BAUDDIV_OFFSET = 16"
definition CCM_PCDR0_SSI1BAUDDIV_MASK :: u32 where [simp]: "CCM_PCDR0_SSI1BAUDDIV_MASK = push_bit 16 0x3F"
definition CCM_PCDR0_VPUDIV2_OFFSET :: nat where [simp]: "CCM_PCDR0_VPUDIV2_OFFSET = 10"
definition CCM_PCDR0_VPUDIV2_MASK :: u32 where [simp]: "CCM_PCDR0_VPUDIV2_MASK = push_bit 10 0x3F"
definition CCM_PCDR0_NFCDIV2_OFFSET :: nat where [simp]: "CCM_PCDR0_NFCDIV2_OFFSET = 6"
definition CCM_PCDR0_NFCDIV2_MASK :: u32 where [simp]: "CCM_PCDR0_NFCDIV2_MASK = push_bit 6 0xF"
definition CCM_PCDR0_NFCDIV_OFFSET :: nat where [simp]: "CCM_PCDR0_NFCDIV_OFFSET = 12"
definition CCM_PCDR0_NFCDIV_MASK :: u32 where [simp]: "CCM_PCDR0_NFCDIV_MASK = push_bit 12 0xF"
definition CCM_PCDR0_VPUDIV_OFFSET :: nat where [simp]: "CCM_PCDR0_VPUDIV_OFFSET = 8"
definition CCM_PCDR0_VPUDIV_MASK :: u32 where [simp]: "CCM_PCDR0_VPUDIV_MASK = push_bit 8 0xF"
definition CCM_PCDR1_PERDIV1_MASK :: u32 where [simp]: "CCM_PCDR1_PERDIV1_MASK = 0x3F"
definition CCM_PCCR0_CSPI1_OFFSET :: nat where [simp]: "CCM_PCCR0_CSPI1_OFFSET = 31"
definition CCM_PCCR0_CSPI2_OFFSET :: nat where [simp]: "CCM_PCCR0_CSPI2_OFFSET = 30"
definition CCM_PCCR0_CSPI3_OFFSET :: nat where [simp]: "CCM_PCCR0_CSPI3_OFFSET = 29"
definition CCM_PCCR0_DMA_MASK :: u32 where [simp]: "CCM_PCCR0_DMA_MASK = push_bit 28 1"
definition CCM_PCCR0_EMMA_MASK :: u32 where [simp]: "CCM_PCCR0_EMMA_MASK = push_bit 27 1"
definition CCM_PCCR0_FEC_MASK :: u32 where [simp]: "CCM_PCCR0_FEC_MASK = push_bit 26 1"
definition CCM_PCCR0_GPIO_OFFSET :: nat where [simp]: "CCM_PCCR0_GPIO_OFFSET = 25"
definition CCM_PCCR0_GPT1_OFFSET :: nat where [simp]: "CCM_PCCR0_GPT1_OFFSET = 24"
definition CCM_PCCR0_GPT1_MASK :: u32 where [simp]: "CCM_PCCR0_GPT1_MASK = push_bit 24 1"
definition CCM_PCCR0_GPT2_OFFSET :: nat where [simp]: "CCM_PCCR0_GPT2_OFFSET = 23"
definition CCM_PCCR0_GPT3_OFFSET :: nat where [simp]: "CCM_PCCR0_GPT3_OFFSET = 22"
definition CCM_PCCR0_GPT4_OFFSET :: nat where [simp]: "CCM_PCCR0_GPT4_OFFSET = 21"
definition CCM_PCCR0_GPT5_OFFSET :: nat where [simp]: "CCM_PCCR0_GPT5_OFFSET = 20"
definition CCM_PCCR0_GPT6_OFFSET :: nat where [simp]: "CCM_PCCR0_GPT6_OFFSET = 19"
definition CCM_PCCR0_I2C1_OFFSET :: nat where [simp]: "CCM_PCCR0_I2C1_OFFSET = 18"
definition CCM_PCCR0_I2C2_OFFSET :: nat where [simp]: "CCM_PCCR0_I2C2_OFFSET = 17"
definition CCM_PCCR0_IIM_OFFSET :: nat where [simp]: "CCM_PCCR0_IIM_OFFSET = 16"
definition CCM_PCCR0_KPP_OFFSET :: nat where [simp]: "CCM_PCCR0_KPP_OFFSET = 15"
definition CCM_PCCR0_LCDC_OFFSET :: nat where [simp]: "CCM_PCCR0_LCDC_OFFSET = 14"
definition CCM_PCCR0_MSHC_MASK :: u32 where [simp]: "CCM_PCCR0_MSHC_MASK = push_bit 13 1"
definition CCM_PCCR0_OWIRE_OFFSET :: nat where [simp]: "CCM_PCCR0_OWIRE_OFFSET = 12"
definition CCM_PCCR0_PWM_OFFSET :: nat where [simp]: "CCM_PCCR0_PWM_OFFSET = 11"
definition CCM_PCCR0_RTC_OFFSET :: nat where [simp]: "CCM_PCCR0_RTC_OFFSET = 9"
definition CCM_PCCR0_RTIC_MASK :: u32 where [simp]: "CCM_PCCR0_RTIC_MASK = push_bit 8 1"
definition CCM_PCCR0_SAHARA_MASK :: u32 where [simp]: "CCM_PCCR0_SAHARA_MASK = push_bit 7 1"
definition CCM_PCCR0_SCC_OFFSET :: nat where [simp]: "CCM_PCCR0_SCC_OFFSET = 6"
definition CCM_PCCR0_SDHC1_OFFSET :: nat where [simp]: "CCM_PCCR0_SDHC1_OFFSET = 5"
definition CCM_PCCR0_SDHC2_OFFSET :: nat where [simp]: "CCM_PCCR0_SDHC2_OFFSET = 4"
definition CCM_PCCR0_SDHC3_OFFSET :: nat where [simp]: "CCM_PCCR0_SDHC3_OFFSET = 3"
definition CCM_PCCR0_SLCDC_MASK :: u32 where [simp]: "CCM_PCCR0_SLCDC_MASK = push_bit 2 1"
definition CCM_PCCR0_SSI1_IPG_OFFSET :: nat where [simp]: "CCM_PCCR0_SSI1_IPG_OFFSET = 1"
definition CCM_PCCR0_SSI2_IPG_OFFSET :: nat where [simp]: "CCM_PCCR0_SSI2_IPG_OFFSET = 0"
definition CCM_PCCR1_UART1_OFFSET :: nat where [simp]: "CCM_PCCR1_UART1_OFFSET = 31"
definition CCM_PCCR1_UART2_OFFSET :: nat where [simp]: "CCM_PCCR1_UART2_OFFSET = 30"
definition CCM_PCCR1_UART3_OFFSET :: nat where [simp]: "CCM_PCCR1_UART3_OFFSET = 29"
definition CCM_PCCR1_UART4_OFFSET :: nat where [simp]: "CCM_PCCR1_UART4_OFFSET = 28"
definition CCM_PCCR1_UART5_OFFSET :: nat where [simp]: "CCM_PCCR1_UART5_OFFSET = 27"
definition CCM_PCCR1_UART6_OFFSET :: nat where [simp]: "CCM_PCCR1_UART6_OFFSET = 26"
definition CCM_PCCR1_USBOTG_OFFSET :: nat where [simp]: "CCM_PCCR1_USBOTG_OFFSET = 25"
definition CCM_PCCR1_WDT_OFFSET :: nat where [simp]: "CCM_PCCR1_WDT_OFFSET = 24"
definition CCM_PCCR1_HCLK_ATA_OFFSET :: nat where [simp]: "CCM_PCCR1_HCLK_ATA_OFFSET = 23"
definition CCM_PCCR1_HCLK_BROM_OFFSET :: nat where [simp]: "CCM_PCCR1_HCLK_BROM_OFFSET = 22"
definition CCM_PCCR1_HCLK_CSI_OFFSET :: nat where [simp]: "CCM_PCCR1_HCLK_CSI_OFFSET = 21"
definition CCM_PCCR1_HCLK_DMA_MASK :: u32 where [simp]: "CCM_PCCR1_HCLK_DMA_MASK = push_bit 20 1"
definition CCM_PCCR1_HCLK_EMI_OFFSET :: nat where [simp]: "CCM_PCCR1_HCLK_EMI_OFFSET = 19"
definition CCM_PCCR1_HCLK_EMI_MASK :: u32 where [simp]: "CCM_PCCR1_HCLK_EMI_MASK = push_bit 19 1"
definition CCM_PCCR1_HCLK_EMMA_MASK :: u32 where [simp]: "CCM_PCCR1_HCLK_EMMA_MASK = push_bit 18 1"
definition CCM_PCCR1_HCLK_FEC_MASK :: u32 where [simp]: "CCM_PCCR1_HCLK_FEC_MASK = push_bit 17 1"
definition CCM_PCCR1_HCLK_VPU_MASK :: u32 where [simp]: "CCM_PCCR1_HCLK_VPU_MASK = push_bit 16 1"
definition CCM_PCCR1_HCLK_LCDC_OFFSET :: nat where [simp]: "CCM_PCCR1_HCLK_LCDC_OFFSET = 15"
definition CCM_PCCR1_HCLK_RTIC_MASK :: u32 where [simp]: "CCM_PCCR1_HCLK_RTIC_MASK = push_bit 14 1"
definition CCM_PCCR1_HCLK_SAHARA_MASK :: u32 where [simp]: "CCM_PCCR1_HCLK_SAHARA_MASK = push_bit 13 1"
definition CCM_PCCR1_HCLK_SLCDC_MASK :: u32 where [simp]: "CCM_PCCR1_HCLK_SLCDC_MASK = push_bit 12 1"
definition CCM_PCCR1_HCLK_USBOTG_OFFSET :: nat where [simp]: "CCM_PCCR1_HCLK_USBOTG_OFFSET = 11"
definition CCM_PCCR1_PERCLK1_OFFSET :: nat where [simp]: "CCM_PCCR1_PERCLK1_OFFSET = 10"
definition CCM_PCCR1_PERCLK1_MASK :: u32 where [simp]: "CCM_PCCR1_PERCLK1_MASK = push_bit 10 1"
definition CCM_PCCR1_PERCLK2_OFFSET :: nat where [simp]: "CCM_PCCR1_PERCLK2_OFFSET = 9"
definition CCM_PCCR1_PERCLK3_OFFSET :: nat where [simp]: "CCM_PCCR1_PERCLK3_OFFSET = 8"
definition CCM_PCCR1_PERCLK4_OFFSET :: nat where [simp]: "CCM_PCCR1_PERCLK4_OFFSET = 7"
definition CCM_PCCR1_VPU_BAUD_MASK :: u32 where [simp]: "CCM_PCCR1_VPU_BAUD_MASK = push_bit 6 1"
definition CCM_PCCR1_SSI1_BAUD_OFFSET :: nat where [simp]: "CCM_PCCR1_SSI1_BAUD_OFFSET = 5"
definition CCM_PCCR1_SSI2_BAUD_OFFSET :: nat where [simp]: "CCM_PCCR1_SSI2_BAUD_OFFSET = 4"
definition CCM_PCCR1_NFC_BAUD_OFFSET :: nat where [simp]: "CCM_PCCR1_NFC_BAUD_OFFSET = 3"
definition CCM_PCCR1_MSHC_BAUD_MASK :: u32 where [simp]: "CCM_PCCR1_MSHC_BAUD_MASK = push_bit 2 1"
definition CCM_CCSR_CLKOSEL_OFFSET :: nat where [simp]: "CCM_CCSR_CLKOSEL_OFFSET = 0"
definition CCM_CCSR_CLKOSEL_MASK :: u32 where [simp]: "CCM_CCSR_CLKOSEL_MASK = 0x1F"
definition SYS_CHIP_ID :: u32 where [simp]: "SYS_CHIP_ID = 0x00"

end
