(* ===== verification/Plat_Clock.thy ===== *)
theory Plat_Clock
  imports Mx27_Bus
begin

text \<open>
  The clock framework of \<^verbatim>\<open>arch/arm/plat-mxc/clock.c\<close>: looking clocks up, reference-counted
  enabling through the parent and secondary links, rate changes and their propagation to the
  children, re-parenting, registration.

  The framework is generic in the machine.  A clock pointer is a value of \<open>'c\<close>, a function
  pointer of \<^verbatim>\<open>struct clk\<close> a value of \<open>'f\<close>, the registers a value of \<open>'h\<close>; what a function
  pointer does when called is the record \<open>clk_fns\<close>, which the machine supplies
  (\<open>Mx27_Clock\<close>).  The recursions over the tree carry the depth of the kernel stack as fuel.
\<close>

section \<open>Data\<close>

record ('c, 'f) clk =
  owner :: "nat option"
  name :: string
  clk_id :: int
  parent :: "'c option"
  secondary :: "'c option"
  rate :: u32
  usecount :: u8
  enable_shift :: u8
  enable_reg :: u32
  recalc :: "'f option"
  set_rate :: "'f option"
  round_rate :: "'f option"
  enable :: "'f option"
  disable :: "'f option"
  set_parent :: "'f option"

text \<open>
  The framework's state: the clock structures, the list \<^verbatim>\<open>clocks\<close>, the registers, and the
  modules that own clocks with their liveness and reference counts.
\<close>

record ('c, 'f, 'h) clksys =
  clk_of :: "'c \<Rightarrow> ('c, 'f) clk"
  clocks :: "'c list"
  hw :: 'h
  mod_live :: "nat \<Rightarrow> bool"
  mod_ref :: "nat \<Rightarrow> int"

record ('c, 'f, 'h) clk_fns =
  call_recalc :: "'f \<Rightarrow> 'c \<Rightarrow> ('c, 'f, 'h) clksys \<Rightarrow> ('c, 'f, 'h) clksys result"
  call_set_rate :: "'f \<Rightarrow> 'c \<Rightarrow> u32 \<Rightarrow> ('c, 'f, 'h) clksys \<Rightarrow> (int \<times> ('c, 'f, 'h) clksys) result"
  call_round_rate :: "'f \<Rightarrow> 'c \<Rightarrow> u32 \<Rightarrow> ('c, 'f, 'h) clksys \<Rightarrow> u32 result"
  call_enable :: "'f \<Rightarrow> 'c \<Rightarrow> ('c, 'f, 'h) clksys \<Rightarrow> (int \<times> ('c, 'f, 'h) clksys) result"
  call_disable :: "'f \<Rightarrow> 'c \<Rightarrow> ('c, 'f, 'h) clksys \<Rightarrow> ('c, 'f, 'h) clksys result"
  call_set_parent :: "'f \<Rightarrow> 'c \<Rightarrow> 'c \<Rightarrow> ('c, 'f, 'h) clksys \<Rightarrow> (int \<times> ('c, 'f, 'h) clksys) result"

text \<open>A \<^verbatim>\<open>struct clk *\<close> argument: \<^verbatim>\<open>NULL\<close>, an \<^verbatim>\<open>ERR_PTR\<close>, or a clock.\<close>

datatype 'c handle = NullClk | ErrClk int | Clk 'c

text \<open>The \<^verbatim>\<open>struct device *\<close> argument of \<^verbatim>\<open>clk_get\<close>, as far as the function looks at it.\<close>

datatype device = NoDevice | OtherBusDevice | PlatformDevice int

definition upd_clk :: "'c \<Rightarrow> (('c, 'f) clk \<Rightarrow> ('c, 'f) clk) \<Rightarrow> ('c, 'f, 'h) clksys \<Rightarrow> ('c, 'f, 'h) clksys" where
  "upd_clk c f s = s\<lparr>clk_of := (clk_of s)(c := f (clk_of s c))\<rparr>"

abbreviation set_clk_rate :: "'c \<Rightarrow> u32 \<Rightarrow> ('c, 'f, 'h) clksys \<Rightarrow> ('c, 'f, 'h) clksys" where
  "set_clk_rate c r \<equiv> upd_clk c (rate_update (\<lambda>_. r))"

section \<open>Module references\<close>

definition try_module_get :: "nat option \<Rightarrow> ('c, 'f, 'h) clksys \<Rightarrow> bool \<times> ('c, 'f, 'h) clksys" where
  "try_module_get m s =
     (case m of None \<Rightarrow> (True, s)
      | Some k \<Rightarrow> if mod_live s k then (True, s\<lparr>mod_ref := (mod_ref s)(k := mod_ref s k + 1)\<rparr>)
                 else (False, s))"

definition module_put :: "nat option \<Rightarrow> ('c, 'f, 'h) clksys \<Rightarrow> ('c, 'f, 'h) clksys" where
  "module_put m s =
     (case m of None \<Rightarrow> s | Some k \<Rightarrow> s\<lparr>mod_ref := (mod_ref s)(k := mod_ref s k - 1)\<rparr>)"

section \<open>Lookup\<close>

text \<open>One pass of \<^verbatim>\<open>list_for_each_entry\<close>: the first clock that matches and whose module is live.\<close>

fun clk_find :: "(('c, 'f) clk \<Rightarrow> bool) \<Rightarrow> 'c list \<Rightarrow> ('c, 'f, 'h) clksys \<Rightarrow> 'c option \<times> ('c, 'f, 'h) clksys" where
  "clk_find P [] s = (None, s)"
| "clk_find P (c # cs) s =
     (if P (clk_of s c) then
        (case try_module_get (owner (clk_of s c)) s of
           (True, s') \<Rightarrow> (Some c, s')
         | (False, s') \<Rightarrow> clk_find P cs s')
      else clk_find P cs s)"

text \<open>\<^verbatim>\<open>strrchr(id, '.')\<close>: what precedes and what follows the last dot.\<close>

definition split_last_dot :: "string \<Rightarrow> (string \<times> string) option" where
  "split_last_dot str =
     (case dropWhile (\<lambda>ch. ch \<noteq> CHR ''.'') (rev str) of
        [] \<Rightarrow> None
      | _ # pre \<Rightarrow> Some (rev pre, rev (takeWhile (\<lambda>ch. ch \<noteq> CHR ''.'') (rev str))))"

definition dev_idno :: "device \<Rightarrow> int" where
  "dev_idno dev = (case dev of PlatformDevice i \<Rightarrow> i | _ \<Rightarrow> -1)"

text \<open>
  \<^verbatim>\<open>simple_strtol\<close> is not in the repository: it is the argument \<open>strtol\<close>.  The function
  cuts the caller's string at the last dot, so the string is part of the result.
\<close>

definition clk_get ::
  "(string \<Rightarrow> int) \<Rightarrow> device \<Rightarrow> string option \<Rightarrow> ('c, 'f, 'h) clksys
     \<Rightarrow> 'c handle \<times> string option \<times> ('c, 'f, 'h) clksys" where
  "clk_get strtol dev idp s =
     (case idp of None \<Rightarrow> (ErrClk (- ENOENT), None, s)
      | Some nm \<Rightarrow>
        (case clk_find (\<lambda>k. clk_id k = dev_idno dev \<and> name k = nm) (clocks s) s of
           (Some c, s1) \<Rightarrow> (Clk c, Some nm, s1)
         | (None, s1) \<Rightarrow>
           (let (nm2, r2) =
                  (case split_last_dot nm of
                     None \<Rightarrow> (nm, (None, s1))
                   | Some (pre, post) \<Rightarrow>
                       (pre, clk_find (\<lambda>k. clk_id k = strtol post \<and> name k = pre) (clocks s1) s1))
            in case r2 of
                 (Some c, s2) \<Rightarrow> (Clk c, Some nm2, s2)
               | (None, s2) \<Rightarrow>
                 (case clk_find (\<lambda>k. name k = nm2) (clocks s2) s2 of
                    (Some c, s3) \<Rightarrow> (Clk c, Some nm2, s3)
                  | (None, s3) \<Rightarrow> (ErrClk (- ENOENT), Some nm2, s3)))))"

definition clk_put :: "'c handle \<Rightarrow> ('c, 'f, 'h) clksys \<Rightarrow> ('c, 'f, 'h) clksys" where
  "clk_put h s = (case h of Clk c \<Rightarrow> module_put (owner (clk_of s c)) s | _ \<Rightarrow> s)"

section \<open>Enabling and disabling\<close>

abbreviation dec_use :: "'c \<Rightarrow> ('c, 'f, 'h) clksys \<Rightarrow> ('c, 'f, 'h) clksys" where
  "dec_use c \<equiv> upd_clk c (usecount_update (\<lambda>n. n - 1))"

abbreviation inc_use :: "'c \<Rightarrow> ('c, 'f, 'h) clksys \<Rightarrow> ('c, 'f, 'h) clksys" where
  "inc_use c \<equiv> upd_clk c (usecount_update (\<lambda>n. n + 1))"

text \<open>\<^verbatim>\<open>__clk_disable\<close>, at most \<open>n\<close> calls deep.\<close>

fun clk_disable_rec ::
  "('c, 'f, 'h) clk_fns \<Rightarrow> nat \<Rightarrow> 'c \<Rightarrow> ('c, 'f, 'h) clksys \<Rightarrow> ('c, 'f, 'h) clksys result" where
  "clk_disable_rec F 0 c s = Inl StackOverflow"
| "clk_disable_rec F (Suc n) c s =
     (if 0 < sint (usecount (clk_of s c)) then
        let s1 = dec_use c s in
        if usecount (clk_of s1 c) = 0 then
          rbind (case disable (clk_of s1 c) of None \<Rightarrow> Inr s1 | Some f \<Rightarrow> call_disable F f c s1) (\<lambda>s2.
          rbind (case parent (clk_of s2 c) of None \<Rightarrow> Inr s2 | Some p \<Rightarrow> clk_disable_rec F n p s2) (\<lambda>s3.
          case secondary (clk_of s3 c) of None \<Rightarrow> Inr s3 | Some q \<Rightarrow> clk_disable_rec F n q s3))
        else Inr s1
      else Inr s)"

text \<open>The roll-back labels \<open>err3\<close>, \<open>err2\<close> and \<open>err1\<close> of \<^verbatim>\<open>__clk_enable\<close>.\<close>

definition clk_unwind ::
  "('c, 'f, 'h) clk_fns \<Rightarrow> nat \<Rightarrow> 'c option \<Rightarrow> ('c, 'f, 'h) clksys \<Rightarrow> ('c, 'f, 'h) clksys result" where
  "clk_unwind F n d s = (case d of None \<Rightarrow> Inr s | Some q \<Rightarrow> clk_disable_rec F n q s)"

text \<open>\<^verbatim>\<open>__clk_enable\<close>, at most \<open>n\<close> calls deep.\<close>

fun clk_enable_rec ::
  "('c, 'f, 'h) clk_fns \<Rightarrow> nat \<Rightarrow> 'c \<Rightarrow> ('c, 'f, 'h) clksys \<Rightarrow> (int \<times> ('c, 'f, 'h) clksys) result" where
  "clk_enable_rec F 0 c s = Inl StackOverflow"
| "clk_enable_rec F (Suc n) c s =
     (let s1 = inc_use c s in
      if usecount (clk_of s c) = 0 then
        rbind (case parent (clk_of s1 c) of None \<Rightarrow> Inr (0, s1) | Some p \<Rightarrow> clk_enable_rec F n p s1) (\<lambda>(r1, s2).
        if r1 \<noteq> 0 then Inr (r1, dec_use c s2)
        else
        rbind (case secondary (clk_of s2 c) of None \<Rightarrow> Inr (0, s2) | Some q \<Rightarrow> clk_enable_rec F n q s2) (\<lambda>(r2, s3).
        if r2 \<noteq> 0 then
          rbind (clk_unwind F n (parent (clk_of s3 c)) s3) (\<lambda>s4. Inr (r2, dec_use c s4))
        else
        rbind (case enable (clk_of s3 c) of None \<Rightarrow> Inr (0, s3) | Some f \<Rightarrow> call_enable F f c s3) (\<lambda>(r3, s4).
        if r3 \<noteq> 0 then
          rbind (clk_unwind F n (secondary (clk_of s4 c)) s4) (\<lambda>s5.
          rbind (clk_unwind F n (parent (clk_of s5 c)) s5) (\<lambda>s6. Inr (r3, dec_use c s6)))
        else Inr (0, s4))))
      else Inr (0, s1))"

text \<open>The depth of nested calls the kernel stack allows; the clock tree needs far fewer.\<close>

definition CLK_DEPTH :: nat where
  "CLK_DEPTH = 32"

definition clk_enable ::
  "('c, 'f, 'h) clk_fns \<Rightarrow> 'c handle \<Rightarrow> ('c, 'f, 'h) clksys \<Rightarrow> (int \<times> ('c, 'f, 'h) clksys) result" where
  "clk_enable F h s =
     (case h of Clk c \<Rightarrow> clk_enable_rec F CLK_DEPTH c s | _ \<Rightarrow> Inr (- EINVAL, s))"

definition clk_disable ::
  "('c, 'f, 'h) clk_fns \<Rightarrow> 'c handle \<Rightarrow> ('c, 'f, 'h) clksys \<Rightarrow> ('c, 'f, 'h) clksys result" where
  "clk_disable F h s = (case h of Clk c \<Rightarrow> clk_disable_rec F CLK_DEPTH c s | _ \<Rightarrow> Inr s)"

definition clk_get_usecount :: "'c handle \<Rightarrow> ('c, 'f, 'h) clksys \<Rightarrow> int" where
  "clk_get_usecount h s = (case h of Clk c \<Rightarrow> sint (usecount (clk_of s c)) | _ \<Rightarrow> 0)"

section \<open>Rates and parents\<close>

definition clk_get_rate :: "'c handle \<Rightarrow> ('c, 'f, 'h) clksys \<Rightarrow> u32" where
  "clk_get_rate h s = (case h of Clk c \<Rightarrow> rate (clk_of s c) | _ \<Rightarrow> 0)"

text \<open>The result of the callback is an \<^verbatim>\<open>unsigned long\<close> returned as \<^verbatim>\<open>long\<close>.\<close>

definition clk_round_rate ::
  "('c, 'f, 'h) clk_fns \<Rightarrow> 'c handle \<Rightarrow> u32 \<Rightarrow> ('c, 'f, 'h) clksys \<Rightarrow> int result" where
  "clk_round_rate F h r s =
     (case h of
        Clk c \<Rightarrow> (case round_rate (clk_of s c) of
                    None \<Rightarrow> Inr 0
                  | Some f \<Rightarrow> rbind (call_round_rate F f c r s) (\<lambda>v. Inr (sint v)))
      | _ \<Rightarrow> Inr 0)"

text \<open>Recompute a clock, or copy the parent's rate when it has no \<^verbatim>\<open>recalc\<close>.\<close>

definition refresh_rate ::
  "('c, 'f, 'h) clk_fns \<Rightarrow> 'c \<Rightarrow> 'c \<Rightarrow> ('c, 'f, 'h) clksys \<Rightarrow> ('c, 'f, 'h) clksys result" where
  "refresh_rate F t d s =
     (case recalc (clk_of s d) of
        Some f \<Rightarrow> call_recalc F f d s
      | None \<Rightarrow> Inr (set_clk_rate d (rate (clk_of s t)) s))"

text \<open>\<^verbatim>\<open>propagate_rate\<close>, at most \<open>n\<close> calls deep.\<close>

fun propagate_rec ::
  "('c, 'f, 'h) clk_fns \<Rightarrow> nat \<Rightarrow> 'c \<Rightarrow> ('c, 'f, 'h) clksys \<Rightarrow> ('c, 'f, 'h) clksys result" where
  "propagate_rec F 0 t s = Inl StackOverflow"
| "propagate_rec F (Suc n) t s =
     rfold (\<lambda>d s. if parent (clk_of s d) \<noteq> Some t then Inr s
                  else rbind (refresh_rate F t d s) (propagate_rec F n d)) (clocks s) s"

definition propagate_rate ::
  "('c, 'f, 'h) clk_fns \<Rightarrow> 'c handle \<Rightarrow> ('c, 'f, 'h) clksys \<Rightarrow> ('c, 'f, 'h) clksys result" where
  "propagate_rate F h s = (case h of Clk t \<Rightarrow> propagate_rec F CLK_DEPTH t s | _ \<Rightarrow> Inr s)"

definition clk_set_rate ::
  "('c, 'f, 'h) clk_fns \<Rightarrow> 'c handle \<Rightarrow> u32 \<Rightarrow> ('c, 'f, 'h) clksys \<Rightarrow> (int \<times> ('c, 'f, 'h) clksys) result" where
  "clk_set_rate F h r s =
     (case h of
        Clk c \<Rightarrow>
          (case set_rate (clk_of s c) of
             None \<Rightarrow> Inr (- EINVAL, s)
           | Some f \<Rightarrow>
               if r = 0 then Inr (- EINVAL, s)
               else rbind (call_set_rate F f c r s) (\<lambda>(ret, s1).
                    if ret = 0 then rbind (propagate_rate F (Clk c) s1) (\<lambda>s2. Inr (ret, s2))
                    else Inr (ret, s1)))
      | _ \<Rightarrow> Inr (- EINVAL, s))"

definition clk_set_parent ::
  "('c, 'f, 'h) clk_fns \<Rightarrow> 'c handle \<Rightarrow> 'c handle \<Rightarrow> ('c, 'f, 'h) clksys \<Rightarrow> (int \<times> ('c, 'f, 'h) clksys) result" where
  "clk_set_parent F h hp s =
     (case (h, hp) of
        (Clk c, Clk p) \<Rightarrow>
          (case set_parent (clk_of s c) of
             None \<Rightarrow> Inr (- EINVAL, s)
           | Some f \<Rightarrow>
               rbind (call_set_parent F f c p s) (\<lambda>(ret, s1).
               if ret = 0 then
                 rbind (refresh_rate F p c (upd_clk c (parent_update (\<lambda>_. Some p)) s1)) (\<lambda>s2.
                 rbind (propagate_rate F (Clk c) s2) (\<lambda>s3. Inr (ret, s3)))
               else Inr (ret, s1)))
      | _ \<Rightarrow> Inr (- EINVAL, s))"

definition clk_get_parent :: "'c handle \<Rightarrow> ('c, 'f, 'h) clksys \<Rightarrow> 'c handle" where
  "clk_get_parent h s =
     (case h of Clk c \<Rightarrow> (case parent (clk_of s c) of None \<Rightarrow> NullClk | Some p \<Rightarrow> Clk p)
      | _ \<Rightarrow> NullClk)"

section \<open>Registration\<close>

text \<open>
  \<^verbatim>\<open>list_add\<close> puts the node first; adding a linked node corrupts the list, deleting an unlinked
  one follows a null or poisoned pointer.
\<close>

definition clk_register :: "'c handle \<Rightarrow> ('c, 'f, 'h) clksys \<Rightarrow> (int \<times> ('c, 'f, 'h) clksys) result" where
  "clk_register h s =
     (case h of
        Clk c \<Rightarrow> if c \<in> set (clocks s) then Inl ListCorrupt
                else Inr (0, s\<lparr>clocks := c # clocks s\<rparr>)
      | _ \<Rightarrow> Inr (- EINVAL, s))"

definition clk_unregister :: "'c handle \<Rightarrow> ('c, 'f, 'h) clksys \<Rightarrow> ('c, 'f, 'h) clksys result" where
  "clk_unregister h s =
     (case h of
        Clk c \<Rightarrow> if c \<in> set (clocks s) then Inr (s\<lparr>clocks := remove1 c (clocks s)\<rparr>)
                else Inl NullDeref
      | _ \<Rightarrow> Inr s)"

end
