(* ===== verification/Clock_Refs.thy ===== *)
theory Clock_Refs
  imports Plat_Clock
begin

text \<open>
  Reference counting in the clock framework.  The interface between the framework and a
  machine is the locale \<open>clk_gates\<close>: the enable and disable callbacks of the machine change
  registers only.  Under it, and for a tree of parent and secondary links that a rank
  function orders, the use count of every clock is the number of its outside users plus the
  number of links to it from clocks in use; enabling and disabling keep this, a failed enable
  takes everything back, and the stack depth needed is bounded by the rank.
\<close>

section \<open>The abstract account of use counts\<close>

text \<open>How often clock \<open>d\<close> refers to clock \<open>x\<close>: as parent, as secondary clock, or both.\<close>

definition links :: "('c, 'f, 'h) clksys \<Rightarrow> 'c \<Rightarrow> 'c \<Rightarrow> int" where
  "links s d x = (if parent (clk_of s d) = Some x then 1 else 0)
               + (if secondary (clk_of s d) = Some x then 1 else 0)"

definition in_use :: "('c, 'f, 'h) clksys \<Rightarrow> 'c set" where
  "in_use s = {d. usecount (clk_of s d) \<noteq> 0}"

text \<open>
  \<open>refs_ok ext s\<close>: with \<open>ext x\<close> outside users of each clock \<open>x\<close>, the use counts add up.
\<close>

definition refs_ok :: "('c \<Rightarrow> int) \<Rightarrow> ('c, 'f, 'h) clksys \<Rightarrow> bool" where
  "refs_ok ext s \<longleftrightarrow>
     finite (in_use s) \<and>
     (\<forall>x. ext x + (\<Sum>d\<in>in_use s. links s d x) = sint (usecount (clk_of s x))) \<and>
     (\<forall>x. 0 \<le> sint (usecount (clk_of s x)))"

text \<open>
  The signed 8-bit counters do not overflow as long as the outside users of a clock and all the
  clocks that can refer to it stay below 128.
\<close>

definition room :: "('c \<Rightarrow> int) \<Rightarrow> ('c, 'f, 'h) clksys \<Rightarrow> bool" where
  "room ext s \<longleftrightarrow>
     finite {d. \<exists>x. links s d x \<noteq> 0} \<and>
     (\<forall>x. ext x + (\<Sum>d\<in>{d. \<exists>x. links s d x \<noteq> 0}. links s d x) \<le> 127)"

definition tree_ok :: "('c \<Rightarrow> nat) \<Rightarrow> ('c, 'f, 'h) clksys \<Rightarrow> bool" where
  "tree_ok rank s \<longleftrightarrow> (\<forall>c p. links s c p \<noteq> 0 \<longrightarrow> rank p < rank c)"

text \<open>Everything but the registers and the use counts is the same.\<close>

definition same_shape :: "('c, 'f, 'h) clksys \<Rightarrow> ('c, 'f, 'h) clksys \<Rightarrow> bool" where
  "same_shape s t \<longleftrightarrow>
     (\<forall>x. (clk_of t x)\<lparr>usecount := 0\<rparr> = (clk_of s x)\<lparr>usecount := 0\<rparr>) \<and>
     clocks t = clocks s \<and> mod_live t = mod_live s \<and> mod_ref t = mod_ref s"

section \<open>Frame facts\<close>

lemma same_shape_refl [simp]: "same_shape s s"
  by (simp add: same_shape_def)

lemma same_shape_trans: "same_shape s t \<Longrightarrow> same_shape t u \<Longrightarrow> same_shape s u"
  by (simp add: same_shape_def)

lemma same_shape_use [simp]: "same_shape s (upd_clk c (usecount_update g) s)"
  by (simp add: same_shape_def upd_clk_def)

lemma same_shape_use_iff [simp]:
  "same_shape s (upd_clk c (usecount_update g) t) \<longleftrightarrow> same_shape s t"
  "same_shape (upd_clk c (usecount_update g) s) t \<longleftrightarrow> same_shape s t"
  by (auto simp: same_shape_def upd_clk_def split: if_splits)

lemma same_shape_hw [simp]:
  "same_shape s (t\<lparr>hw := h\<rparr>) \<longleftrightarrow> same_shape s t"
  "same_shape (s\<lparr>hw := h\<rparr>) t \<longleftrightarrow> same_shape s t"
  by (simp_all add: same_shape_def)

lemma same_shapeD:
  assumes "same_shape s t"
  shows "parent (clk_of t x) = parent (clk_of s x)"
    and "secondary (clk_of t x) = secondary (clk_of s x)"
    and "rate (clk_of t x) = rate (clk_of s x)"
    and "enable (clk_of t x) = enable (clk_of s x)"
    and "disable (clk_of t x) = disable (clk_of s x)"
    and "recalc (clk_of t x) = recalc (clk_of s x)"
    and "links t = links s"
    and "clocks t = clocks s"
    and "clk_id (clk_of t x) = clk_id (clk_of s x)"
proof -
  have e: "(clk_of t y)\<lparr>usecount := 0\<rparr> = (clk_of s y)\<lparr>usecount := 0\<rparr>" for y
    using assms by (simp add: same_shape_def)
  show "parent (clk_of t x) = parent (clk_of s x)" "secondary (clk_of t x) = secondary (clk_of s x)"
    "rate (clk_of t x) = rate (clk_of s x)" "enable (clk_of t x) = enable (clk_of s x)"
    "disable (clk_of t x) = disable (clk_of s x)" "recalc (clk_of t x) = recalc (clk_of s x)"
    "clk_id (clk_of t x) = clk_id (clk_of s x)"
    using arg_cong [OF e, of parent x] arg_cong [OF e, of secondary x] arg_cong [OF e, of rate x]
      arg_cong [OF e, of clk_id x]
      arg_cong [OF e, of enable x] arg_cong [OF e, of disable x] arg_cong [OF e, of recalc x]
    by simp_all
  show "clocks t = clocks s" using assms by (simp add: same_shape_def)
  have "parent (clk_of t y) = parent (clk_of s y)" "secondary (clk_of t y) = secondary (clk_of s y)" for y
    using arg_cong [OF e, of parent y] arg_cong [OF e, of secondary y] by simp_all
  then show "links t = links s" by (simp add: links_def fun_eq_iff)
qed

lemma upd_clk_simps [simp]:
  "clk_of (upd_clk c g s) x = (if x = c then g (clk_of s c) else clk_of s x)"
  "clocks (upd_clk c g s) = clocks s"
  "hw (upd_clk c g s) = hw s"
  "mod_live (upd_clk c g s) = mod_live s"
  "mod_ref (upd_clk c g s) = mod_ref s"
  by (simp_all add: upd_clk_def)

lemma links_hw [simp]: "links (s\<lparr>hw := h\<rparr>) = links s"
  by (simp add: links_def fun_eq_iff)

lemma links_use [simp]: "links (upd_clk c (usecount_update g) s) = links s"
  by (simp add: links_def fun_eq_iff)

lemma links_nonneg [simp]: "0 \<le> links s d x"
  by (simp add: links_def)

lemma in_use_hw [simp]: "in_use (s\<lparr>hw := h\<rparr>) = in_use s"
  by (simp add: in_use_def)

lemma tree_ok_shape: "same_shape s t \<Longrightarrow> tree_ok rank t = tree_ok rank s"
  by (simp add: tree_ok_def same_shapeD(7))

lemma room_shape: "same_shape s t \<Longrightarrow> room ext t = room ext s"
  by (simp add: room_def same_shapeD(7))

lemma tree_ok_parent: "tree_ok rank s \<Longrightarrow> parent (clk_of s c) = Some p \<Longrightarrow> rank p < rank c"
  by (auto simp: tree_ok_def links_def)

lemma tree_ok_secondary: "tree_ok rank s \<Longrightarrow> secondary (clk_of s c) = Some p \<Longrightarrow> rank p < rank c"
  by (auto simp: tree_ok_def links_def)


section \<open>How single counter updates move the account\<close>

abbreviation one :: "'c option \<Rightarrow> 'c \<Rightarrow> int" where
  "one d x \<equiv> (if d = Some x then 1 else 0)"

lemma links_one: "links s c x = one (parent (clk_of s c)) x + one (secondary (clk_of s c)) x"
  by (simp add: links_def)

lemma sint_inc8: "0 \<le> sint (u :: u8) \<Longrightarrow> sint u < 127 \<Longrightarrow> sint (u + 1) = sint u + 1"
  by (simp add: sint_word_ariths signed_take_bit_int_eq_self)

lemma sint_dec8: "0 < sint (u :: u8) \<Longrightarrow> sint (u - 1) = sint u - 1"
  using sint_less [of u] by (simp add: sint_word_ariths signed_take_bit_int_eq_self)

lemma in_use_inc: "usecount (clk_of s c) = 0 \<Longrightarrow> in_use (inc_use c s) = insert c (in_use s)"
  by (auto simp: in_use_def split: if_splits)

lemma in_use_dec: "usecount (clk_of s c) = 1 \<Longrightarrow> in_use (dec_use c s) = in_use s - {c}"
  by (auto simp: in_use_def split: if_splits)

lemma in_use_change:
  "usecount (clk_of s c) \<noteq> 0 \<Longrightarrow> g (usecount (clk_of s c)) \<noteq> 0
    \<Longrightarrow> in_use (upd_clk c (usecount_update g) s) = in_use s"
  by (auto simp: in_use_def split: if_splits)

lemma refs_ok_hw [simp]: "refs_ok ext (s\<lparr>hw := h\<rparr>) = refs_ok ext s"
  by (simp add: refs_ok_def)

lemma refs_ok_cong: "refs_ok ext s \<Longrightarrow> (\<And>x. ext x = ext' x) \<Longrightarrow> refs_ok ext' s"
  using ext [of ext ext'] by simp

lemma refs_okI:
  "finite (in_use s) \<Longrightarrow> (\<And>x. ext x + (\<Sum>d\<in>in_use s. links s d x) = sint (usecount (clk_of s x)))
    \<Longrightarrow> (\<And>x. 0 \<le> sint (usecount (clk_of s x))) \<Longrightarrow> refs_ok ext s"
  by (simp add: refs_ok_def)

lemma refs_okD:
  assumes "refs_ok ext s"
  shows "finite (in_use s)"
    and "ext x = sint (usecount (clk_of s x)) - (\<Sum>d\<in>in_use s. links s d x)"
    and "0 \<le> sint (usecount (clk_of s x))"
proof -
  have "ext x + (\<Sum>d\<in>in_use s. links s d x) = sint (usecount (clk_of s x))"
    using assms by (simp add: refs_ok_def)
  then show "ext x = sint (usecount (clk_of s x)) - (\<Sum>d\<in>in_use s. links s d x)" by linarith
qed (use assms in \<open>simp_all add: refs_ok_def\<close>)

lemma refs_ok_activate:
  assumes "refs_ok ext s" and "usecount (clk_of s c) = 0"
  shows "refs_ok (\<lambda>x. ext x + one (Some c) x - links s c x) (inc_use c s)"
proof -
  have "c \<notin> in_use s" using assms(2) by (simp add: in_use_def)
  then show ?thesis
    using assms(2) by (intro refs_okI) (auto simp: in_use_inc refs_okD [OF assms(1)])
qed

lemma refs_ok_deactivate:
  assumes "refs_ok ext s" and "usecount (clk_of s c) = 1"
  shows "refs_ok (\<lambda>x. ext x - one (Some c) x + links s c x) (dec_use c s)"
proof -
  have "c \<in> in_use s" using assms(2) by (simp add: in_use_def)
  then have "(\<Sum>d\<in>in_use s. links s d x) = links s c x + (\<Sum>d\<in>in_use s - {c}. links s d x)" for x
    using refs_okD(1) [OF assms(1)] by (simp add: sum.remove)
  then show ?thesis
    using assms(2) by (intro refs_okI) (auto simp: in_use_dec refs_okD [OF assms(1)])
qed

lemma refs_ok_inc:
  assumes "refs_ok ext s" and "usecount (clk_of s c) \<noteq> 0" and "sint (usecount (clk_of s c)) < 127"
  shows "refs_ok (\<lambda>x. ext x + one (Some c) x) (inc_use c s)"
proof -
  have i: "sint (usecount (clk_of s c) + 1) = sint (usecount (clk_of s c)) + 1"
    using refs_okD(3) [OF assms(1)] assms(3) by (rule sint_inc8)
  have "usecount (clk_of s c) + 1 \<noteq> 0"
    using i refs_okD(3) [OF assms(1), of c] by (metis add_nonneg_pos less_irrefl signed_0 zero_less_one)
  then show ?thesis
    using assms(2) i by (intro refs_okI) (auto simp: in_use_change refs_okD [OF assms(1)])
qed

lemma refs_ok_dec:
  assumes "refs_ok ext s" and "0 < sint (usecount (clk_of s c))" and "usecount (clk_of s c) - 1 \<noteq> 0"
  shows "refs_ok (\<lambda>x. ext x - one (Some c) x) (dec_use c s)"
proof -
  have "usecount (clk_of s c) \<noteq> 0" using assms(2) by auto
  then show ?thesis
    using assms(2,3) sint_dec8 [OF assms(2)]
    by (intro refs_okI) (auto simp: in_use_change refs_okD [OF assms(1)])
qed

section \<open>What a call at some rank can touch\<close>

definition below :: "('c \<Rightarrow> nat) \<Rightarrow> nat \<Rightarrow> ('c, 'f, 'h) clksys \<Rightarrow> ('c, 'f, 'h) clksys \<Rightarrow> bool" where
  "below rank k s t \<longleftrightarrow> same_shape s t \<and> (\<forall>x. k \<le> rank x \<longrightarrow> clk_of t x = clk_of s x)"

text \<open>References that come from clocks in use of rank at least \<open>k\<close>.\<close>

definition top_refs :: "('c \<Rightarrow> nat) \<Rightarrow> nat \<Rightarrow> ('c, 'f, 'h) clksys \<Rightarrow> 'c \<Rightarrow> int" where
  "top_refs rank k s x = (\<Sum>d\<in>{d \<in> in_use s. k \<le> rank d}. links s d x)"

lemma below_refl [simp]: "below rank k s s"
  by (simp add: below_def)

lemma below_trans: "below rank k s t \<Longrightarrow> below rank k t u \<Longrightarrow> below rank k s u"
  by (auto simp: below_def intro: same_shape_trans)

lemma below_mono: "below rank k s t \<Longrightarrow> k \<le> k' \<Longrightarrow> below rank k' s t"
  by (simp add: below_def)

lemma below_use [simp]: "rank c < k \<Longrightarrow> below rank k s (upd_clk c (usecount_update g) s)"
  by (auto simp: below_def)

lemma below_hw [simp]: "below rank k s (t\<lparr>hw := h\<rparr>) = below rank k s t"
  by (simp add: below_def)

lemma belowD: "below rank k s t \<Longrightarrow> k \<le> rank x \<Longrightarrow> clk_of t x = clk_of s x"
  by (simp add: below_def)

lemma below_shape: "below rank k s t \<Longrightarrow> same_shape s t"
  by (simp add: below_def)

lemma top_refs_below: "below rank k s t \<Longrightarrow> top_refs rank k t = top_refs rank k s"
proof -
  assume b: "below rank k s t"
  then have "{d \<in> in_use t. k \<le> rank d} = {d \<in> in_use s. k \<le> rank d}"
    by (auto simp: in_use_def belowD)
  then show ?thesis
    using b by (simp add: top_refs_def fun_eq_iff same_shapeD(7) [OF below_shape [OF b]])
qed

lemma top_refs_hw [simp]: "top_refs rank k (s\<lparr>hw := h\<rparr>) = top_refs rank k s"
  by (simp add: top_refs_def fun_eq_iff)

lemma top_refs_mono:
  assumes "finite (in_use s)" and "k \<le> k'"
  shows "top_refs rank k' s x \<le> top_refs rank k s x"
  unfolding top_refs_def using assms by (intro sum_mono2) auto

lemma top_refs_insert:
  assumes "finite (in_use s)" and "c \<in> in_use s"
  shows "links s c x + top_refs rank (Suc (rank c)) s x \<le> top_refs rank (rank c) s x"
proof -
  let ?A = "{d \<in> in_use s. Suc (rank c) \<le> rank d}"
  have "links s c x + top_refs rank (Suc (rank c)) s x = (\<Sum>d\<in>insert c ?A. links s d x)"
    using assms by (simp add: top_refs_def)
  also have "\<dots> \<le> top_refs rank (rank c) s x"
    unfolding top_refs_def using assms by (intro sum_mono2) auto
  finally show ?thesis .
qed

lemma refs_le_total:
  assumes "finite {d. \<exists>x. links s d x \<noteq> 0}" and "finite (in_use s)"
  shows "(\<Sum>d\<in>in_use s. links s d x) \<le> (\<Sum>d\<in>{d. \<exists>x. links s d x \<noteq> 0}. links s d x)"
proof -
  have "(\<Sum>d\<in>in_use s. links s d x) = (\<Sum>d\<in>in_use s \<inter> {d. \<exists>x. links s d x \<noteq> 0}. links s d x)"
    using assms(2) by (intro sum.mono_neutral_right) auto
  also have "\<dots> \<le> (\<Sum>d\<in>{d. \<exists>x. links s d x \<noteq> 0}. links s d x)"
    using assms(1) by (intro sum_mono2) auto
  finally show ?thesis .
qed

lemma room_count:
  assumes "refs_ok ext s" and "room (\<lambda>x. ext x + one (Some c) x) s"
  shows "sint (usecount (clk_of s c)) < 127"
proof -
  have "ext c + 1 + (\<Sum>d\<in>{d. \<exists>x. links s d x \<noteq> 0}. links s d c) \<le> 127"
    using assms(2) by (auto simp: room_def dest: spec [of _ c])
  then show ?thesis
    using refs_le_total [of s c] assms(2) refs_okD(1) [OF assms(1)] refs_okD(2) [OF assms(1), of c] by (simp add: room_def)
qed

lemma room_mono: "room ext s \<Longrightarrow> (\<And>x. ext' x \<le> ext x) \<Longrightarrow> room ext' s"
  by (fastforce simp: room_def intro: order_trans [OF add_right_mono])

section \<open>The interface to the machine's gates\<close>

text \<open>
  What the framework needs of the enable and disable callbacks: they change registers only, and
  keep whatever condition \<open>hwok\<close> the machine's callbacks rely on.
\<close>

locale clk_gates =
  fixes F :: "('c, 'f, 'h) clk_fns"
    and hwok :: "'h \<Rightarrow> bool"
  assumes enable_hw: "hwok (hw s) \<Longrightarrow> call_enable F f c s = Inr (r, s') \<Longrightarrow> \<exists>h. hwok h \<and> s' = s\<lparr>hw := h\<rparr>"
    and disable_hw: "hwok (hw s) \<Longrightarrow> call_disable F f c s = Inr s' \<Longrightarrow> \<exists>h. hwok h \<and> s' = s\<lparr>hw := h\<rparr>"

text \<open>The optional recursive call of \<^verbatim>\<open>__clk_enable\<close> on the parent or the secondary clock.\<close>

definition clk_enable_opt ::
  "('c, 'f, 'h) clk_fns \<Rightarrow> nat \<Rightarrow> 'c option \<Rightarrow> ('c, 'f, 'h) clksys \<Rightarrow> (int \<times> ('c, 'f, 'h) clksys) result" where
  "clk_enable_opt F n d s = (case d of None \<Rightarrow> Inr (0, s) | Some p \<Rightarrow> clk_enable_rec F n p s)"

definition keeps :: "('h \<Rightarrow> bool) \<Rightarrow> ('c \<Rightarrow> nat) \<Rightarrow> nat \<Rightarrow> ('c, 'f, 'h) clksys \<Rightarrow> ('c, 'f, 'h) clksys \<Rightarrow> bool" where
  "keeps hwok rank k s t \<longleftrightarrow> hwok (hw s) \<and> hwok (hw t) \<and> below rank k s t"

lemma keeps_trans: "keeps hwok rank k s t \<Longrightarrow> keeps hwok rank k t u \<Longrightarrow> keeps hwok rank k s u"
  by (auto simp: keeps_def intro: below_trans)

lemma keeps_mono: "keeps hwok rank k s t \<Longrightarrow> k \<le> k' \<Longrightarrow> keeps hwok rank k' s t"
  by (auto simp: keeps_def intro: below_mono)

lemma keeps_tree: "keeps hwok rank k s t \<Longrightarrow> tree_ok rank t = tree_ok rank s"
  by (auto simp: keeps_def tree_ok_shape dest: below_shape)

lemma keepsD:
  assumes "keeps hwok rank k s t"
  shows "hwok (hw s)" "hwok (hw t)" "below rank k s t" "same_shape s t"
    "k \<le> rank c \<Longrightarrow> clk_of t c = clk_of s c"
  using assms by (auto simp: keeps_def below_def)

text \<open>What one level of \<^verbatim>\<open>__clk_disable\<close> does on each of its paths.\<close>

context clk_gates
begin

lemma disable_cases:
  assumes "clk_disable_rec F (Suc n) c s = Inr s'" and "hwok (hw s)"
  obtains (unused) "\<not> 0 < sint (usecount (clk_of s c))" "s' = s"
  | (shared) "0 < sint (usecount (clk_of s c))" "usecount (clk_of s c) - 1 \<noteq> 0" "s' = dec_use c s"
  | (last) h s3 where "usecount (clk_of s c) = 1" "hwok h"
      "clk_unwind F n (parent (clk_of s c)) ((dec_use c s)\<lparr>hw := h\<rparr>) = Inr s3"
      "clk_unwind F n (secondary (clk_of s3 c)) s3 = Inr s'"
proof (cases "0 < sint (usecount (clk_of s c)) \<and> usecount (clk_of s c) = 1")
  case True
  then obtain s2 s3 where
    s2: "(case disable (clk_of s c) of None \<Rightarrow> Inr (dec_use c s)
          | Some f \<Rightarrow> call_disable F f c (dec_use c s)) = Inr s2"
    and s3: "clk_unwind F n (parent (clk_of s2 c)) s2 = Inr s3"
      "clk_unwind F n (secondary (clk_of s3 c)) s3 = Inr s'"
    using assms(1) by (auto simp: Let_def rbind_eq_Inr clk_unwind_def)
  obtain h where h: "hwok h" "s2 = (dec_use c s)\<lparr>hw := h\<rparr>"
  proof (cases "disable (clk_of s c)")
    case None
    with s2 assms(2) show ?thesis by (intro that [of "hw s"]) (auto simp: upd_clk_def)
  next
    case (Some f)
    with s2 show ?thesis using disable_hw [of "dec_use c s" f c s2] assms(2) that by auto
  qed
  show ?thesis using True h s3 by (intro last [of h s3]) simp_all
next
  case False
  then show ?thesis using assms(1) unused shared by (auto simp: Let_def split: if_splits)
qed

lemma unwind_keeps:
  assumes IH: "\<forall>c s s'. hwok (hw s) \<longrightarrow> tree_ok rank s \<longrightarrow> clk_disable_rec F n c s = Inr s'
      \<longrightarrow> keeps hwok rank (Suc (rank c)) s s'"
    and "hwok (hw s)" "tree_ok rank s" "clk_unwind F n d s = Inr s'"
    and "\<And>q. d = Some q \<Longrightarrow> rank q < k"
  shows "keeps hwok rank k s s'"
proof (cases d)
  case None
  then show ?thesis using assms(2,4) by (simp add: clk_unwind_def keeps_def)
next
  case (Some q)
  then have "keeps hwok rank (Suc (rank q)) s s'" using assms(2-4) IH by (simp add: clk_unwind_def)
  then show ?thesis using assms(5) [OF Some] by (auto intro: keeps_mono)
qed

lemma disable_keeps:
  "hwok (hw s) \<Longrightarrow> tree_ok rank s \<Longrightarrow> clk_disable_rec F n c s = Inr s' \<Longrightarrow> keeps hwok rank (Suc (rank c)) s s'"
proof (induction n arbitrary: c s s')
  case (Suc n)
  have IH: "\<forall>c s s'. hwok (hw s) \<longrightarrow> tree_ok rank s \<longrightarrow> clk_disable_rec F n c s = Inr s'
      \<longrightarrow> keeps hwok rank (Suc (rank c)) s s'"
    using Suc.IH by blast
  show ?case
  proof (rule disable_cases [OF Suc.prems(3,1)])
    fix h s3
    assume h: "hwok h"
      and p: "clk_unwind F n (parent (clk_of s c)) ((dec_use c s)\<lparr>hw := h\<rparr>) = Inr s3"
      and q: "clk_unwind F n (secondary (clk_of s3 c)) s3 = Inr s'"
    let ?s2 = "(dec_use c s)\<lparr>hw := h\<rparr>"
    have k2: "keeps hwok rank (Suc (rank c)) s ?s2"
      using Suc.prems(1) h by (simp add: keeps_def)
    have t2: "tree_ok rank ?s2" using keeps_tree [OF k2] Suc.prems(2) by simp
    have k3: "keeps hwok rank (rank c) ?s2 s3"
      using unwind_keeps [OF IH _ t2 p] h tree_ok_parent [OF Suc.prems(2)] by simp
    have t3: "tree_ok rank s3" using keeps_tree [OF k3] t2 by simp
    have "keeps hwok rank (rank c) s3 s'"
      using unwind_keeps [OF IH keepsD(2) [OF k3] t3 q] tree_ok_secondary [OF t3] by blast
    then show ?thesis using k2 k3 by (meson keeps_mono keeps_trans le_SucI order_refl)
  qed (use Suc.prems in \<open>simp_all add: keeps_def\<close>)
qed simp

end

section \<open>Disabling keeps the account\<close>

lemma total_refs_top: "(\<Sum>d\<in>in_use s. links s d x) = top_refs rank 0 s x"
  by (simp add: top_refs_def)

text \<open>
  \<open>releases F hwok rank n\<close>: \<^verbatim>\<open>__clk_disable\<close> with \<open>n\<close> levels of stack gives one reference back.
  The reference must be there: an outside one, or one held by a clock of higher rank.
\<close>

definition releases ::
  "('c, 'f, 'h) clk_fns \<Rightarrow> ('h \<Rightarrow> bool) \<Rightarrow> ('c \<Rightarrow> nat) \<Rightarrow> nat \<Rightarrow> bool" where
  "releases F hwok rank n \<longleftrightarrow>
     (\<forall>c s s' ext. hwok (hw s) \<longrightarrow> tree_ok rank s \<longrightarrow> refs_ok ext s \<longrightarrow>
        (\<forall>x. rank x \<le> rank c \<longrightarrow> one (Some c) x \<le> ext x + top_refs rank (Suc (rank c)) s x) \<longrightarrow>
        clk_disable_rec F n c s = Inr s' \<longrightarrow>
        refs_ok (\<lambda>x. ext x - one (Some c) x) s')"

context clk_gates
begin

lemma unwind_keeps':
  "hwok (hw s) \<Longrightarrow> tree_ok rank s \<Longrightarrow> clk_unwind F n d s = Inr s' \<Longrightarrow> (\<And>q. d = Some q \<Longrightarrow> rank q < k)
    \<Longrightarrow> keeps hwok rank k s s'"
  using unwind_keeps disable_keeps by blast

lemma unwind_releases:
  assumes "releases F hwok rank n" and "hwok (hw s)" and "tree_ok rank s" and ok: "refs_ok ext s"
    and "\<And>q. d = Some q \<Longrightarrow> rank q < k"
    and "\<And>x. rank x < k \<Longrightarrow> one d x \<le> ext x + top_refs rank k s x"
    and "clk_unwind F n d s = Inr s'"
  shows "refs_ok (\<lambda>x. ext x - one d x) s'"
proof (cases d)
  case None
  then show ?thesis using assms(7) ok by (simp add: clk_unwind_def)
next
  case (Some q)
  then have q: "rank q < k" using assms(5) by simp
  have "one (Some q) x \<le> ext x + top_refs rank (Suc (rank q)) s x" if "rank x \<le> rank q" for x
  proof -
    have "one d x \<le> ext x + top_refs rank k s x" using that q assms(6) by simp
    also have "\<dots> \<le> ext x + top_refs rank (Suc (rank q)) s x"
      using top_refs_mono [OF refs_okD(1) [OF ok], of "Suc (rank q)" k] q by simp
    finally show ?thesis using Some by simp
  qed
  then show ?thesis
    using assms(1-4,7) Some unfolding releases_def clk_unwind_def by simp
qed

lemma unwind2_releases:
  assumes R: "releases F hwok rank n" and "hwok (hw s)" and "tree_ok rank s" and ok: "refs_ok ext s"
    and d1: "\<And>q. d1 = Some q \<Longrightarrow> rank q < k" and d2: "\<And>q. d2 = Some q \<Longrightarrow> rank q < k"
    and cover: "\<And>x. rank x < k \<Longrightarrow> one d1 x + one d2 x \<le> ext x + top_refs rank k s x"
    and u1: "clk_unwind F n d1 s = Inr s2" and u2: "clk_unwind F n d2 s2 = Inr s'"
  shows "refs_ok (\<lambda>x. ext x - one d1 x - one d2 x) s'" and "keeps hwok rank k s s'"
proof -
  have k1: "keeps hwok rank k s s2" using unwind_keeps' [OF assms(2,3) u1 d1] by blast
  have t2: "tree_ok rank s2" using keeps_tree [OF k1] assms(3) by simp
  have k2: "keeps hwok rank k s2 s'" using unwind_keeps' [OF keepsD(2) [OF k1] t2 u2 d2] by blast
  show "keeps hwok rank k s s'" using k1 k2 by (rule keeps_trans)
  have "one d1 x \<le> ext x + top_refs rank k s x" if "rank x < k" for x
    using cover [OF that] by (simp split: if_splits)
  then have ok2: "refs_ok (\<lambda>x. ext x - one d1 x) s2"
    using unwind_releases [OF R assms(2,3) ok d1 _ u1] by blast
  have "one d2 x \<le> (ext x - one d1 x) + top_refs rank k s2 x" if "rank x < k" for x
    using cover [OF that] top_refs_below [OF keepsD(3) [OF k1]] by simp
  then show "refs_ok (\<lambda>x. ext x - one d1 x - one d2 x) s'"
    using unwind_releases [OF R keepsD(2) [OF k1] t2 ok2 d2 _ u2] by blast
qed

lemma disable_releases: "releases F hwok rank n"
proof (induction n)
  case (Suc n)
  have "refs_ok (\<lambda>x. ext x - one (Some c) x) s'"
    if hs: "hwok (hw s)" and ts: "tree_ok rank s" and ok: "refs_ok ext s"
      and cover: "\<And>x. rank x \<le> rank c \<Longrightarrow> one (Some c) x \<le> ext x + top_refs rank (Suc (rank c)) s x"
      and run: "clk_disable_rec F (Suc n) c s = Inr s'" for c s s' ext
  proof (rule disable_cases [OF run hs])
    assume "\<not> 0 < sint (usecount (clk_of s c))"
    moreover have "1 \<le> ext c + top_refs rank (Suc (rank c)) s c" using cover [of c] by simp
    moreover have "top_refs rank (Suc (rank c)) s c \<le> top_refs rank 0 s c"
      by (rule top_refs_mono [OF refs_okD(1) [OF ok]]) simp
    ultimately show ?thesis using refs_okD(2) [OF ok, of c] by (simp add: total_refs_top [of _ _ rank])
  next
    assume "0 < sint (usecount (clk_of s c))" "usecount (clk_of s c) - 1 \<noteq> 0" "s' = dec_use c s"
    then show ?thesis using refs_ok_dec [OF ok] by simp
  next
    fix h s3
    let ?s2 = "(dec_use c s)\<lparr>hw := h\<rparr>"
    let ?e = "\<lambda>x. ext x - one (Some c) x + links s c x"
    assume u: "usecount (clk_of s c) = 1" and h: "hwok h"
      and p: "clk_unwind F n (parent (clk_of s c)) ?s2 = Inr s3"
      and q: "clk_unwind F n (secondary (clk_of s3 c)) s3 = Inr s'"
    have h2: "hwok (hw ?s2)" using h by simp
    have b2: "below rank (Suc (rank c)) s ?s2" by simp
    have t2: "tree_ok rank ?s2" using tree_ok_shape [OF below_shape [OF b2]] ts by simp
    have ok2: "refs_ok ?e ?s2" using refs_ok_deactivate [OF ok u] by simp
    note pr = tree_ok_parent [OF ts] and qr = tree_ok_secondary [OF ts]
    have k3: "keeps hwok rank (rank c) ?s2 s3" using unwind_keeps' [OF h2 t2 p pr] by blast
    have q': "clk_unwind F n (secondary (clk_of s c)) s3 = Inr s'"
      using q same_shapeD(2) [OF keepsD(4) [OF k3], of c] by simp
    have "one (parent (clk_of s c)) x + one (secondary (clk_of s c)) x \<le> ?e x + top_refs rank (rank c) ?s2 x"
      if "rank x < rank c" for x
    proof -
      have "0 \<le> ext x - one (Some c) x + top_refs rank (Suc (rank c)) s x"
        using cover [of x] that by simp
      also have "top_refs rank (Suc (rank c)) s x \<le> top_refs rank (rank c) ?s2 x"
        using top_refs_mono [OF refs_okD(1) [OF ok2], of "rank c" "Suc (rank c)" rank x]
          top_refs_below [OF b2] by simp
      finally show ?thesis by (simp add: links_one)
    qed
    from unwind2_releases(1) [OF Suc h2 t2 ok2 pr qr this p q']
    show ?thesis by (rule refs_ok_cong) (use links_one [of s c] in auto)
  qed
  then show ?case unfolding releases_def by blast
qed (simp add: releases_def)

end

section \<open>Enabling keeps the account, and a failed enable takes everything back\<close>

context clk_gates
begin

lemma enable_cases:
  assumes "clk_enable_rec F (Suc n) c s = Inr (r, s')" and "hwok (hw s)"
    and keep: "\<forall>d s r s'. hwok (hw s) \<longrightarrow> clk_enable_opt F n d s = Inr (r, s') \<longrightarrow> hwok (hw s')"
  obtains (shared) "usecount (clk_of s c) \<noteq> 0" "r = 0" "s' = inc_use c s"
  | (fail1) s2 where "usecount (clk_of s c) = 0" "r \<noteq> 0"
      "clk_enable_opt F n (parent (clk_of s c)) (inc_use c s) = Inr (r, s2)" "s' = dec_use c s2"
  | (fail2) s2 s3 s4 where "usecount (clk_of s c) = 0" "r \<noteq> 0"
      "clk_enable_opt F n (parent (clk_of s c)) (inc_use c s) = Inr (0, s2)"
      "clk_enable_opt F n (secondary (clk_of s2 c)) s2 = Inr (r, s3)"
      "clk_unwind F n (parent (clk_of s3 c)) s3 = Inr s4" "s' = dec_use c s4"
  | (fail3) s2 s3 h s5 s6 where "usecount (clk_of s c) = 0" "r \<noteq> 0" "hwok h"
      "clk_enable_opt F n (parent (clk_of s c)) (inc_use c s) = Inr (0, s2)"
      "clk_enable_opt F n (secondary (clk_of s2 c)) s2 = Inr (0, s3)"
      "clk_unwind F n (secondary (clk_of s3 c)) (s3\<lparr>hw := h\<rparr>) = Inr s5"
      "clk_unwind F n (parent (clk_of s5 c)) s5 = Inr s6" "s' = dec_use c s6"
  | (switched_on) s2 s3 h where "usecount (clk_of s c) = 0" "r = 0" "hwok h"
      "clk_enable_opt F n (parent (clk_of s c)) (inc_use c s) = Inr (0, s2)"
      "clk_enable_opt F n (secondary (clk_of s2 c)) s2 = Inr (0, s3)" "s' = s3\<lparr>hw := h\<rparr>"
proof (cases "usecount (clk_of s c) = 0")
  case True
  then obtain r1 s2 where e1: "clk_enable_opt F n (parent (clk_of s c)) (inc_use c s) = Inr (r1, s2)"
    using assms(1) by (auto simp: Let_def rbind_eq_Inr clk_enable_opt_def)
  note run = assms(1) [simplified Let_def clk_enable_rec.simps, folded clk_enable_opt_def]
  show ?thesis
  proof (cases "r1 = 0")
    case False
    then show ?thesis using run True e1 fail1 [of s2] by simp
  next
    case r1: True
    then obtain r2 s3 where e2: "clk_enable_opt F n (secondary (clk_of s2 c)) s2 = Inr (r2, s3)"
      using run True e1 by (auto simp: rbind_eq_Inr)
    have h3: "hwok (hw s3)" using keep e1 e2 assms(2) by (metis upd_clk_simps(3))
    show ?thesis
    proof (cases "r2 = 0")
      case False
      then show ?thesis using run True e1 e2 r1 fail2 [of s2 s3] by (auto simp: rbind_eq_Inr)
    next
      case r2: True
      then obtain r3 s4 where e3: "(case enable (clk_of s3 c) of None \<Rightarrow> Inr (0, s3)
          | Some f \<Rightarrow> call_enable F f c s3) = Inr (r3, s4)"
        using run True e1 e2 r1 by (auto simp: rbind_eq_Inr)
      then obtain h where h: "hwok h" "s4 = s3\<lparr>hw := h\<rparr>"
        using enable_hw [OF h3] h3 by (cases "enable (clk_of s3 c)") force+
      show ?thesis
      proof (cases "r3 = 0")
        case False
        then show ?thesis
          using run True e1 e2 e3 r1 r2 h fail3 [of h s2 s3] by (auto simp: rbind_eq_Inr)
      next
        case r3: True
        then show ?thesis using run True e1 e2 e3 r1 r2 h switched_on [of h s2 s3] by simp
      qed
    qed
  qed
qed (use assms(1) shared in \<open>simp add: Let_def\<close>)

lemma disable_hwok: "hwok (hw s) \<Longrightarrow> clk_disable_rec F n c s = Inr s' \<Longrightarrow> hwok (hw s')"
proof (induction n arbitrary: c s s')
  case (Suc n)
  have u: "hwok (hw t')" if "hwok (hw t)" "clk_unwind F n d t = Inr t'" for d t t'
    using that Suc.IH [OF that(1)] by (cases d) (auto simp: clk_unwind_def)
  show ?case
  proof (rule disable_cases [OF Suc.prems(2,1)])
    fix h s3
    assume "hwok h" and p: "clk_unwind F n (parent (clk_of s c)) ((dec_use c s)\<lparr>hw := h\<rparr>) = Inr s3"
      and q: "clk_unwind F n (secondary (clk_of s3 c)) s3 = Inr s'"
    then show ?thesis using u [OF _ q] u [OF _ p] by simp
  qed (use Suc.prems(1) in simp_all)
qed simp

lemma unwind_hwok: "hwok (hw s) \<Longrightarrow> clk_unwind F n d s = Inr s' \<Longrightarrow> hwok (hw s')"
  using disable_hwok [of s n _ s'] by (cases d) (auto simp: clk_unwind_def)

lemma enable_hwok: "hwok (hw s) \<Longrightarrow> clk_enable_rec F n c s = Inr (r, s') \<Longrightarrow> hwok (hw s')"
proof (induction n arbitrary: c s r s')
  case (Suc n)
  have e: "hwok (hw t')" if "hwok (hw t)" "clk_enable_opt F n d t = Inr (q, t')" for d t q t'
    using that Suc.IH [OF that(1)] by (cases d) (auto simp: clk_enable_opt_def)
  have e0: "hwok (hw t)" if "clk_enable_opt F n d (inc_use c s) = Inr (q, t)" for d q t
    using e [OF _ that] Suc.prems(1) by simp
  have keep: "\<forall>d s r s'. hwok (hw s) \<longrightarrow> clk_enable_opt F n d s = Inr (r, s') \<longrightarrow> hwok (hw s')"
    by (intro allI impI) (erule (1) e)
  show ?case
  proof (rule enable_cases [OF Suc.prems(2,1) keep])
    fix s2 assume "clk_enable_opt F n (parent (clk_of s c)) (inc_use c s) = Inr (r, s2)" "s' = dec_use c s2"
    then show ?thesis using e0 [of _ r s2] by simp
  next
    fix s2 s3 s4
    assume "clk_enable_opt F n (parent (clk_of s c)) (inc_use c s) = Inr (0, s2)"
      "clk_enable_opt F n (secondary (clk_of s2 c)) s2 = Inr (r, s3)"
      "clk_unwind F n (parent (clk_of s3 c)) s3 = Inr s4" "s' = dec_use c s4"
    then show ?thesis using e0 [of _ 0 s2] e [of s2 _ r s3] unwind_hwok [of s3 n _ s4] by simp
  next
    fix h s3 s5 s6
    assume "hwok h" "clk_unwind F n (secondary (clk_of s3 c)) (s3\<lparr>hw := h\<rparr>) = Inr s5"
      "clk_unwind F n (parent (clk_of s5 c)) s5 = Inr s6" "s' = dec_use c s6"
    then show ?thesis using unwind_hwok [of "s3\<lparr>hw := h\<rparr>" n _ s5] unwind_hwok [of s5 n _ s6] by simp
  qed (use Suc.prems(1) in simp_all)
qed simp

lemma enable_opt_hwok: "hwok (hw s) \<Longrightarrow> clk_enable_opt F n d s = Inr (r, s') \<Longrightarrow> hwok (hw s')"
  using enable_hwok [of s n _ r s'] by (cases d) (auto simp: clk_enable_opt_def)

lemma enable_opts_hwok:
  "\<forall>d s r s'. hwok (hw s) \<longrightarrow> clk_enable_opt F n d s = Inr (r, s') \<longrightarrow> hwok (hw s')"
  by (intro allI impI) (erule (1) enable_opt_hwok)

lemmas enable_step = enable_cases [OF _ _ enable_opts_hwok]

lemma enable_opt_keeps:
  assumes IH: "\<forall>c s r s'. hwok (hw s) \<longrightarrow> tree_ok rank s \<longrightarrow> clk_enable_rec F n c s = Inr (r, s')
      \<longrightarrow> keeps hwok rank (Suc (rank c)) s s'"
    and "hwok (hw s)" "tree_ok rank s" "clk_enable_opt F n d s = Inr (r, s')"
    and "\<And>q. d = Some q \<Longrightarrow> rank q < k"
  shows "keeps hwok rank k s s'"
proof (cases d)
  case None
  then show ?thesis using assms(2,4) by (simp add: clk_enable_opt_def keeps_def)
next
  case (Some q)
  then have "keeps hwok rank (Suc (rank q)) s s'" using assms(2-4) IH by (simp add: clk_enable_opt_def)
  then show ?thesis using assms(5) [OF Some] by (auto intro: keeps_mono)
qed

text \<open>
  The two recursive calls of \<^verbatim>\<open>__clk_enable\<close> on clock \<open>c\<close>, and the roll-back calls, leave
  \<open>c\<close> itself and everything of its rank or above alone.
\<close>

lemma enable_opt2_keeps:
  assumes IH: "\<forall>c s r s'. hwok (hw s) \<longrightarrow> tree_ok rank s \<longrightarrow> clk_enable_rec F n c s = Inr (r, s')
      \<longrightarrow> keeps hwok rank (Suc (rank c)) s s'"
    and hs: "hwok (hw s)" and ts: "tree_ok rank s" and "same_shape s s1" "hwok (hw s1)"
    and e1: "clk_enable_opt F n (parent (clk_of s c)) s1 = Inr (r1, s2)"
    and e2: "clk_enable_opt F n (secondary (clk_of s2 c)) s2 = Inr (r2, s3)"
  shows "keeps hwok rank (rank c) s1 s2" "keeps hwok rank (rank c) s2 s3"
    "clk_enable_opt F n (secondary (clk_of s c)) s2 = Inr (r2, s3)"
proof -
  have t1: "tree_ok rank s1" using tree_ok_shape [OF assms(4)] ts by simp
  show k2: "keeps hwok rank (rank c) s1 s2"
    using enable_opt_keeps [OF IH assms(5) t1 e1] tree_ok_parent [OF ts] by blast
  have t2: "tree_ok rank s2" using keeps_tree [OF k2] t1 by simp
  show "keeps hwok rank (rank c) s2 s3"
    using enable_opt_keeps [OF IH keepsD(2) [OF k2] t2 e2] tree_ok_secondary [OF t2] by blast
  show "clk_enable_opt F n (secondary (clk_of s c)) s2 = Inr (r2, s3)"
    using e2 same_shapeD(2) [OF same_shape_trans [OF assms(4) keepsD(4) [OF k2]], of c] by simp
qed

lemma unwind_shape:
  assumes "hwok (hw s)" "tree_ok rank s" "same_shape s s1" "hwok (hw s1)"
    and "clk_unwind F n d s1 = Inr s2" and "d = parent (clk_of s c) \<or> d = secondary (clk_of s c)"
  shows "keeps hwok rank (rank c) s1 s2" "same_shape s s2"
proof -
  have t1: "tree_ok rank s1" using tree_ok_shape [OF assms(3)] assms(2) by simp
  show k: "keeps hwok rank (rank c) s1 s2"
    using unwind_keeps' [OF assms(4) t1 assms(5)] assms(6)
      tree_ok_parent [OF assms(2), of c] tree_ok_secondary [OF assms(2), of c] by metis
  show "same_shape s s2" using assms(3) keepsD(4) [OF k] by (rule same_shape_trans)
qed

lemma enable_paths:
  assumes IH: "\<forall>c s r s'. hwok (hw s) \<longrightarrow> tree_ok rank s \<longrightarrow> clk_enable_rec F n c s = Inr (r, s')
      \<longrightarrow> keeps hwok rank (Suc (rank c)) s s'"
    and run: "clk_enable_rec F (Suc n) c s = Inr (r, s')" and hs: "hwok (hw s)" and ts: "tree_ok rank s"
  obtains (shared) "usecount (clk_of s c) \<noteq> 0" "r = 0" "s' = inc_use c s"
  | (fail1) s2 where "usecount (clk_of s c) = 0" "r \<noteq> 0"
      "clk_enable_opt F n (parent (clk_of s c)) (inc_use c s) = Inr (r, s2)" "s' = dec_use c s2"
      "keeps hwok rank (rank c) (inc_use c s) s2"
  | (fail2) s2 s3 s4 where "usecount (clk_of s c) = 0" "r \<noteq> 0"
      "clk_enable_opt F n (parent (clk_of s c)) (inc_use c s) = Inr (0, s2)"
      "clk_enable_opt F n (secondary (clk_of s c)) s2 = Inr (r, s3)"
      "clk_unwind F n (parent (clk_of s c)) s3 = Inr s4" "s' = dec_use c s4"
      "keeps hwok rank (rank c) (inc_use c s) s2" "keeps hwok rank (rank c) s2 s3"
      "keeps hwok rank (rank c) s3 s4"
  | (fail3) s2 s3 h s5 s6 where "usecount (clk_of s c) = 0" "r \<noteq> 0" "hwok h"
      "clk_enable_opt F n (parent (clk_of s c)) (inc_use c s) = Inr (0, s2)"
      "clk_enable_opt F n (secondary (clk_of s c)) s2 = Inr (0, s3)"
      "clk_unwind F n (secondary (clk_of s c)) (s3\<lparr>hw := h\<rparr>) = Inr s5"
      "clk_unwind F n (parent (clk_of s c)) s5 = Inr s6" "s' = dec_use c s6"
      "keeps hwok rank (rank c) (inc_use c s) s2" "keeps hwok rank (rank c) s2 s3"
      "keeps hwok rank (rank c) (s3\<lparr>hw := h\<rparr>) s5" "keeps hwok rank (rank c) s5 s6"
  | (switched_on) s2 s3 h where "usecount (clk_of s c) = 0" "r = 0" "hwok h"
      "clk_enable_opt F n (parent (clk_of s c)) (inc_use c s) = Inr (0, s2)"
      "clk_enable_opt F n (secondary (clk_of s c)) s2 = Inr (0, s3)" "s' = s3\<lparr>hw := h\<rparr>"
      "keeps hwok rank (rank c) (inc_use c s) s2" "keeps hwok rank (rank c) s2 s3"
proof -
  have i: "same_shape s (inc_use c s)" "hwok (hw (inc_use c s))" using hs by simp_all
  note both = enable_opt2_keeps [OF IH hs ts i]
  note unw = unwind_shape [OF hs ts]
  show thesis
  proof (rule enable_step [OF run hs])
    assume "usecount (clk_of s c) \<noteq> 0" "r = 0" "s' = inc_use c s" then show thesis by (rule shared)
  next
    fix s2
    assume a: "usecount (clk_of s c) = 0" "r \<noteq> 0"
      "clk_enable_opt F n (parent (clk_of s c)) (inc_use c s) = Inr (r, s2)" "s' = dec_use c s2"
    have "tree_ok rank (inc_use c s)" using tree_ok_shape [OF i(1)] ts by simp
    then have "keeps hwok rank (rank c) (inc_use c s) s2"
      using enable_opt_keeps [OF IH i(2) _ a(3)] tree_ok_parent [OF ts] by blast
    then show thesis using a by (intro fail1)
  next
    fix s2 s3 s4
    assume a: "usecount (clk_of s c) = 0" "r \<noteq> 0"
      and e: "clk_enable_opt F n (parent (clk_of s c)) (inc_use c s) = Inr (0, s2)"
      "clk_enable_opt F n (secondary (clk_of s2 c)) s2 = Inr (r, s3)"
      and u: "clk_unwind F n (parent (clk_of s3 c)) s3 = Inr s4" "s' = dec_use c s4"
    note k = both [OF e]
    have sh: "same_shape s s3"
      using i(1) keepsD(4) [OF k(1)] keepsD(4) [OF k(2)] by (blast intro: same_shape_trans)
    note u' = u(1) [unfolded same_shapeD(1) [OF sh]]
    show thesis
      using a e(1) k(3) u' u(2) k(1,2) unw(1) [OF sh keepsD(2) [OF k(2)] u' disjI1 [OF refl]]
      by (rule fail2)
  next
    fix s2 s3 h s5 s6
    assume a: "usecount (clk_of s c) = 0" "r \<noteq> 0" "hwok h"
      and e: "clk_enable_opt F n (parent (clk_of s c)) (inc_use c s) = Inr (0, s2)"
      "clk_enable_opt F n (secondary (clk_of s2 c)) s2 = Inr (0, s3)"
      and u: "clk_unwind F n (secondary (clk_of s3 c)) (s3\<lparr>hw := h\<rparr>) = Inr s5"
      "clk_unwind F n (parent (clk_of s5 c)) s5 = Inr s6" "s' = dec_use c s6"
    note k = both [OF e]
    have sh: "same_shape s s3"
      using i(1) keepsD(4) [OF k(1)] keepsD(4) [OF k(2)] by (blast intro: same_shape_trans)
    then have sh': "same_shape s (s3\<lparr>hw := h\<rparr>)" by simp
    have h3: "hwok (hw (s3\<lparr>hw := h\<rparr>))" using a(3) by simp
    note u1 = u(1) [unfolded same_shapeD(2) [OF sh]]
    note k5 = unw [OF sh' h3 u1 disjI2 [OF refl]]
    note u2 = u(2) [unfolded same_shapeD(1) [OF k5(2)]]
    show thesis
      using a e(1) k(3) u1 u2 u(3) k(1,2) k5(1) unw(1) [OF k5(2) keepsD(2) [OF k5(1)] u2 disjI1 [OF refl]]
      by (rule fail3)
  next
    fix s2 s3 h
    assume a: "usecount (clk_of s c) = 0" "r = 0" "hwok h"
      and e: "clk_enable_opt F n (parent (clk_of s c)) (inc_use c s) = Inr (0, s2)"
      "clk_enable_opt F n (secondary (clk_of s2 c)) s2 = Inr (0, s3)" and s': "s' = s3\<lparr>hw := h\<rparr>"
    note k = both [OF e]
    show thesis using a e(1) k(3) s' k(1,2) by (rule switched_on)
  qed
qed

lemma enable_keeps:
  "hwok (hw s) \<Longrightarrow> tree_ok rank s \<Longrightarrow> clk_enable_rec F n c s = Inr (r, s') \<Longrightarrow> keeps hwok rank (Suc (rank c)) s s'"
proof (induction n arbitrary: c s r s')
  case (Suc n)
  have IH: "\<forall>c s r s'. hwok (hw s) \<longrightarrow> tree_ok rank s \<longrightarrow> clk_enable_rec F n c s = Inr (r, s')
      \<longrightarrow> keeps hwok rank (Suc (rank c)) s s'"
    using Suc.IH by blast
  have i: "keeps hwok rank (Suc (rank c)) s (inc_use c s)" using Suc.prems(1) by (simp add: keeps_def)
  have up: "keeps hwok rank (Suc (rank c)) t u" if "keeps hwok rank (rank c) t u" for t u
    using that by (rule keeps_mono) simp
  have dec: "keeps hwok rank (Suc (rank c)) s (dec_use c t)" if "keeps hwok rank (Suc (rank c)) s t" for t
    using that below_trans [OF keepsD(3) [OF that], of "dec_use c t"] by (simp add: keeps_def)
  have hwu: "keeps hwok rank (Suc (rank c)) s (t\<lparr>hw := h\<rparr>)" if "keeps hwok rank (Suc (rank c)) s t" "hwok h" for t h
    using that by (simp add: keeps_def)
  note tr = keeps_trans [of hwok rank "Suc (rank c)"]
  show ?case
  proof (rule enable_paths [OF IH Suc.prems(3,1,2)])
    assume "s' = inc_use c s" then show ?thesis using i by simp
  next
    fix s2 assume "s' = dec_use c s2" and k: "keeps hwok rank (rank c) (inc_use c s) s2"
    then show ?thesis using dec [OF tr [OF i up [OF k]]] by simp
  next
    fix s2 s3 s4
    assume "s' = dec_use c s4" and k: "keeps hwok rank (rank c) (inc_use c s) s2"
      "keeps hwok rank (rank c) s2 s3" "keeps hwok rank (rank c) s3 s4"
    then show ?thesis using dec [OF tr [OF tr [OF tr [OF i up [OF k(1)]] up [OF k(2)]] up [OF k(3)]]] by simp
  next
    fix s2 s3 h s5 s6
    assume h: "hwok h" and "s' = dec_use c s6" and k: "keeps hwok rank (rank c) (inc_use c s) s2"
      "keeps hwok rank (rank c) s2 s3" "keeps hwok rank (rank c) (s3\<lparr>hw := h\<rparr>) s5" "keeps hwok rank (rank c) s5 s6"
    moreover have "keeps hwok rank (Suc (rank c)) s (s3\<lparr>hw := h\<rparr>)"
      using hwu [OF tr [OF tr [OF i up [OF k(1)]] up [OF k(2)]] h] .
    ultimately show ?thesis using dec [OF tr [OF tr [OF _ up [OF k(3)]] up [OF k(4)]]] by simp
  next
    fix s2 s3 h
    assume h: "hwok h" and "s' = s3\<lparr>hw := h\<rparr>" and k: "keeps hwok rank (rank c) (inc_use c s) s2"
      "keeps hwok rank (rank c) s2 s3"
    then show ?thesis using hwu [OF tr [OF tr [OF i up [OF k(1)]] up [OF k(2)]] h] by simp
  qed
qed simp

lemma enable_all_keep:
  "\<forall>c s r s'. hwok (hw s) \<longrightarrow> tree_ok rank s \<longrightarrow> clk_enable_rec F n c s = Inr (r, s')
      \<longrightarrow> keeps hwok rank (Suc (rank c)) s s'"
  by (intro allI impI) (erule (2) enable_keeps)

end

section \<open>The account of enabling\<close>

definition acquires ::
  "('c, 'f, 'h) clk_fns \<Rightarrow> ('h \<Rightarrow> bool) \<Rightarrow> ('c \<Rightarrow> nat) \<Rightarrow> nat \<Rightarrow> bool" where
  "acquires F hwok rank n \<longleftrightarrow>
     (\<forall>c s r s' ext. hwok (hw s) \<longrightarrow> tree_ok rank s \<longrightarrow> refs_ok ext s \<longrightarrow>
        room (\<lambda>x. ext x + one (Some c) x) s \<longrightarrow>
        (\<forall>x. rank x \<le> rank c \<longrightarrow> 0 \<le> ext x + top_refs rank (Suc (rank c)) s x) \<longrightarrow>
        clk_enable_rec F n c s = Inr (r, s') \<longrightarrow>
        refs_ok (\<lambda>x. ext x + (if r = 0 then one (Some c) x else 0)) s')"

lemma acquiresD:
  "acquires F hwok rank n \<Longrightarrow> hwok (hw s) \<Longrightarrow> tree_ok rank s \<Longrightarrow> refs_ok ext s
    \<Longrightarrow> room (\<lambda>x. ext x + one (Some c) x) s
    \<Longrightarrow> \<forall>x. rank x \<le> rank c \<longrightarrow> 0 \<le> ext x + top_refs rank (Suc (rank c)) s x
    \<Longrightarrow> clk_enable_rec F n c s = Inr (r, s')
    \<Longrightarrow> refs_ok (\<lambda>x. ext x + (if r = 0 then one (Some c) x else 0)) s'"
  unfolding acquires_def by blast

lemma refs_ok_rollback:
  assumes "refs_ok (\<lambda>x. ext x + one (Some c) x - links s c x) t"
    and "clk_of t c = clk_of (inc_use c s) c" and "usecount (clk_of s c) = 0"
  shows "refs_ok ext (dec_use c t)"
proof -
  have "usecount (clk_of t c) = 1" and l: "links t c = links s c"
    using assms(2,3) by (simp_all add: links_def fun_eq_iff)
  from refs_ok_deactivate [OF assms(1) this(1)] show ?thesis
    by (rule refs_ok_cong) (simp add: l)
qed

context clk_gates
begin

lemma enable_opt_acquires:
  assumes "acquires F hwok rank n" and "hwok (hw s)" and "tree_ok rank s" and ok: "refs_ok ext s"
    and "room (\<lambda>x. ext x + one d x) s"
    and "\<forall>q. d = Some q \<longrightarrow> rank q < k"
    and "\<forall>x. rank x < k \<longrightarrow> 0 \<le> ext x + top_refs rank k s x"
    and "clk_enable_opt F n d s = Inr (r, s')"
  shows "refs_ok (\<lambda>x. ext x + (if r = 0 then one d x else 0)) s'"
proof (cases d)
  case None
  then show ?thesis using assms(8) ok by (simp add: clk_enable_opt_def)
next
  case (Some q)
  then have q: "rank q < k" using assms(6) by simp
  have "0 \<le> ext x + top_refs rank (Suc (rank q)) s x" if "rank x \<le> rank q" for x
  proof -
    have "0 \<le> ext x + top_refs rank k s x" using that q assms(7) by simp
    also have "\<dots> \<le> ext x + top_refs rank (Suc (rank q)) s x"
      using top_refs_mono [OF refs_okD(1) [OF ok], of "Suc (rank q)" k] q by simp
    finally show ?thesis .
  qed
  then show ?thesis
    using acquiresD [OF assms(1-4), of q r s'] assms(5,8) unfolding Some by (simp add: clk_enable_opt_def)
qed

lemma enable_first_acquires:
  assumes A: "acquires F hwok rank n"
    and hs: "hwok (hw s)" and ts: "tree_ok rank s" and ok: "refs_ok ext s"
    and room: "room (\<lambda>x. ext x + one (Some c) x) s"
    and cover: "\<forall>x. rank x \<le> rank c \<longrightarrow> 0 \<le> ext x + top_refs rank (Suc (rank c)) s x"
    and u: "usecount (clk_of s c) = 0"
  defines "e \<equiv> \<lambda>x. ext x + one (Some c) x - links s c x"
  defines "T \<equiv> top_refs rank (rank c) (inc_use c s)"
  shows "refs_ok e (inc_use c s)"
    and "\<forall>x. rank x < rank c \<longrightarrow> 0 \<le> e x + T x"
    and "room (\<lambda>x. e x + one (parent (clk_of s c)) x) (inc_use c s)"
    and "room (\<lambda>x. e x + one (parent (clk_of s c)) x + one (secondary (clk_of s c)) x) (inc_use c s)"
proof -
  show ok1: "refs_ok e (inc_use c s)" unfolding e_def by (rule refs_ok_activate [OF ok u])
  have r: "room (\<lambda>x. ext x + one (Some c) x) (inc_use c s)"
    using room room_shape [of s "inc_use c s"] by simp
  then show "room (\<lambda>x. e x + one (parent (clk_of s c)) x) (inc_use c s)"
    "room (\<lambda>x. e x + one (parent (clk_of s c)) x + one (secondary (clk_of s c)) x) (inc_use c s)"
    by (auto elim!: room_mono simp: e_def links_one)
  have "0 \<le> e x + T x" if x: "rank x < rank c" for x
  proof -
  have "c \<in> in_use (inc_use c s)" using u by (simp add: in_use_def)
  then have "links s c x + top_refs rank (Suc (rank c)) (inc_use c s) x \<le> T x"
    using top_refs_insert [OF refs_okD(1) [OF ok1], of c x rank] by (simp add: T_def)
  moreover have "top_refs rank (Suc (rank c)) (inc_use c s) = top_refs rank (Suc (rank c)) s"
    by (rule top_refs_below) simp
  ultimately show "0 \<le> e x + T x" using cover [rule_format, of x] x by (auto simp: e_def)
  qed
  then show "\<forall>x. rank x < rank c \<longrightarrow> 0 \<le> e x + T x" by blast
qed

lemma enable_acquires: "acquires F hwok rank n"
proof (induction n)
  case (Suc n)
  have "refs_ok (\<lambda>x. ext x + (if r = 0 then one (Some c) x else 0)) s'"
    if hs: "hwok (hw s)" and ts: "tree_ok rank s" and ok: "refs_ok ext s"
      and room: "room (\<lambda>x. ext x + one (Some c) x) s"
      and cover: "\<forall>x. rank x \<le> rank c \<longrightarrow> 0 \<le> ext x + top_refs rank (Suc (rank c)) s x"
      and run: "clk_enable_rec F (Suc n) c s = Inr (r, s')" for c s r s' ext
  proof -
    let ?s1 = "inc_use c s" and ?p = "parent (clk_of s c)" and ?q = "secondary (clk_of s c)"
    let ?e = "\<lambda>x. ext x + one (Some c) x - links s c x"
    note first = enable_first_acquires [OF Suc hs ts ok room cover]
    have pr: "\<forall>q. ?p = Some q \<longrightarrow> rank q < rank c" and qr: "\<forall>q. ?q = Some q \<longrightarrow> rank q < rank c"
      using tree_ok_parent [OF ts] tree_ok_secondary [OF ts] by blast+
    have h1: "hwok (hw ?s1)" and t1: "tree_ok rank ?s1"
      using hs ts tree_ok_shape [of s ?s1] by simp_all
    have up: "refs_ok (\<lambda>x. ?e x + (if r1 = 0 then one ?p x else 0)) s2"
      if "usecount (clk_of s c) = 0" "clk_enable_opt F n ?p ?s1 = Inr (r1, s2)" for r1 s2
      using enable_opt_acquires [OF Suc h1 t1 first(1) [OF that(1)] first(3) [OF that(1)] pr
          first(2) [OF that(1)] that(2)] .
    have up2: "refs_ok (\<lambda>x. ?e x + one ?p x + (if r2 = 0 then one ?q x else 0)) s3"
      if z: "usecount (clk_of s c) = 0" and e1: "clk_enable_opt F n ?p ?s1 = Inr (0, s2)"
        and e2: "clk_enable_opt F n ?q s2 = Inr (r2, s3)" and k: "keeps hwok rank (rank c) ?s1 s2" for s2 r2 s3
    proof -
      have ok2: "refs_ok (\<lambda>x. ?e x + one ?p x) s2" using up [OF z e1] by simp
      have t2: "tree_ok rank s2" using keeps_tree [OF k] t1 by simp
      have r2: "room (\<lambda>x. ?e x + one ?p x + one ?q x) s2"
        using first(4) [OF z] room_shape [OF keepsD(4) [OF k]] by simp
      have c2: "\<forall>x. rank x < rank c \<longrightarrow> 0 \<le> ?e x + one ?p x + top_refs rank (rank c) s2 x"
        using first(2) [OF z] top_refs_below [OF keepsD(3) [OF k]] by auto
      show ?thesis using enable_opt_acquires [OF Suc keepsD(2) [OF k] t2 ok2 r2 qr c2 e2] .
    qed
    note rb = refs_ok_rollback [of ext c s]
    show ?thesis
    proof (rule enable_paths [OF enable_all_keep run hs ts])
      assume "usecount (clk_of s c) \<noteq> 0" "r = 0" "s' = inc_use c s"
      then show ?thesis using refs_ok_inc [OF ok _ room_count [OF ok room]] by simp
    next
      fix s2
      assume z: "usecount (clk_of s c) = 0" and "r \<noteq> 0" and e1: "clk_enable_opt F n ?p ?s1 = Inr (r, s2)"
        and s': "s' = dec_use c s2" and k: "keeps hwok rank (rank c) ?s1 s2"
      then show ?thesis using rb [OF _ keepsD(5) [OF k order_refl] z] up [OF z e1] by simp
    next
      fix s2 s3 s4
      assume z: "usecount (clk_of s c) = 0" and "r \<noteq> 0" and e1: "clk_enable_opt F n ?p ?s1 = Inr (0, s2)"
        and e2: "clk_enable_opt F n ?q s2 = Inr (r, s3)" and u: "clk_unwind F n ?p s3 = Inr s4"
        and s': "s' = dec_use c s4" and k: "keeps hwok rank (rank c) ?s1 s2"
          "keeps hwok rank (rank c) s2 s3" "keeps hwok rank (rank c) s3 s4"
      note k3 = keeps_trans [OF k(1,2)] and k4 = keeps_trans [OF keeps_trans [OF k(1,2)] k(3)]
      have ok3: "refs_ok (\<lambda>x. ?e x + one ?p x) s3" using up2 [OF z e1 e2 k(1)] \<open>r \<noteq> 0\<close> by simp
      have "one ?p x \<le> ?e x + one ?p x + top_refs rank (rank c) s3 x" if "rank x < rank c" for x
        using first(2) [OF z, rule_format, OF that] fun_cong [OF top_refs_below [OF keepsD(3) [OF k3]], of x]
        by linarith
      then have "refs_ok (\<lambda>x. ?e x + one ?p x - one ?p x) s4"
        using unwind_releases [OF disable_releases keepsD(2) [OF k3] _ ok3 _ _ u] keeps_tree [OF k3] t1 pr
        by blast
      then show ?thesis using rb [OF _ keepsD(5) [OF k4 order_refl] z] s' \<open>r \<noteq> 0\<close> by simp
    next
      fix s2 s3 h s5 s6
      assume z: "usecount (clk_of s c) = 0" and "r \<noteq> 0" and e1: "clk_enable_opt F n ?p ?s1 = Inr (0, s2)"
        and e2: "clk_enable_opt F n ?q s2 = Inr (0, s3)" and u: "clk_unwind F n ?q (s3\<lparr>hw := h\<rparr>) = Inr s5"
          "clk_unwind F n ?p s5 = Inr s6" and s': "s' = dec_use c s6"
        and k: "keeps hwok rank (rank c) ?s1 s2" "keeps hwok rank (rank c) s2 s3"
          "keeps hwok rank (rank c) (s3\<lparr>hw := h\<rparr>) s5" "keeps hwok rank (rank c) s5 s6"
      note k3 = keeps_trans [OF k(1,2)] and k6 = keeps_trans [OF k(3,4)]
      have ok3: "refs_ok (\<lambda>x. ?e x + one ?p x + one ?q x) (s3\<lparr>hw := h\<rparr>)" using up2 [OF z e1 e2 k(1)] by simp
      have t3: "tree_ok rank (s3\<lparr>hw := h\<rparr>)"
        using keeps_tree [OF k3] t1 tree_ok_shape [of s3 "s3\<lparr>hw := h\<rparr>"] by simp
      have "one ?q x + one ?p x \<le> ?e x + one ?p x + one ?q x + top_refs rank (rank c) (s3\<lparr>hw := h\<rparr>) x"
        if "rank x < rank c" for x
        using first(2) [OF z, rule_format, OF that] fun_cong [OF top_refs_below [OF keepsD(3) [OF k3]], of x]
        unfolding top_refs_hw by linarith
      then have "refs_ok (\<lambda>x. ?e x + one ?p x + one ?q x - one ?q x - one ?p x) s6"
        using unwind2_releases(1) [OF disable_releases keepsD(1) [OF k(3)] t3 ok3 _ _ _ u] pr qr by blast
      then have ok6: "refs_ok ?e s6" by (rule refs_ok_cong) simp
      have "clk_of s6 c = clk_of ?s1 c"
        using keepsD(5) [OF k6 order_refl] keepsD(5) [OF k3 order_refl] by simp
      then show ?thesis using rb [OF ok6 _ z] s' \<open>r \<noteq> 0\<close> by simp
    next
      fix s2 s3 h
      assume z: "usecount (clk_of s c) = 0" "r = 0" and e1: "clk_enable_opt F n ?p ?s1 = Inr (0, s2)"
        and e2: "clk_enable_opt F n ?q s2 = Inr (0, s3)" and s': "s' = s3\<lparr>hw := h\<rparr>"
        and k: "keeps hwok rank (rank c) ?s1 s2"
      from up2 [OF z(1) e1 e2 k] have "refs_ok (\<lambda>x. ext x + one (Some c) x) s3"
        by (rule refs_ok_cong) (simp add: links_one)
      then show ?thesis using z(2) s' by simp
    qed
  qed
  then show ?case unfolding acquires_def by blast
qed (simp add: acquires_def)

end

end
