(* ===== verification/Clock_Use.thy ===== *)
theory Clock_Use
  imports Clock_Refs
begin

text \<open>
  What the users of the clock framework can rely on, from the account of use counts: a clock in
  use has its parent and its secondary clock in use, disabling undoes enabling, the recursion
  fits the stack, and any sequence of balanced calls keeps the account.
\<close>

section \<open>Consequences of the account\<close>

lemma top_refs_nonneg: "0 \<le> top_refs rank k s x"
  unfolding top_refs_def by (intro sum_nonneg) simp

lemma in_use_link:
  assumes "refs_ok ext s" and "0 \<le> ext x" and "d \<in> in_use s" and "links s d x \<noteq> 0"
  shows "0 < sint (usecount (clk_of s x))"
proof -
  have "0 < links s d x" using assms(4) links_nonneg [of s d x] by linarith
  then have "0 < (\<Sum>d\<in>in_use s. links s d x)"
    using assms(1,3) by (intro sum_pos2 [of _ d]) (auto dest: refs_okD(1))
  then show ?thesis using refs_okD(2) [OF assms(1), of x] assms(2) by linarith
qed

lemma in_use_ancestors:
  assumes "refs_ok ext s" and "\<And>x. 0 \<le> ext x" and "0 < sint (usecount (clk_of s d))"
    and "parent (clk_of s d) = Some x \<or> secondary (clk_of s d) = Some x"
  shows "0 < sint (usecount (clk_of s x))"
proof (rule in_use_link [OF assms(1,2)])
  show "d \<in> in_use s" using assms(3) by (auto simp: in_use_def)
  show "links s d x \<noteq> 0" using assms(4) by (auto simp: links_def)
qed

text \<open>In one tree the use counts are determined by the outside users.\<close>

lemma refs_ok_unique:
  assumes s: "refs_ok ext s" and t: "refs_ok ext t" and sh: "same_shape s t" and tree: "tree_ok rank s"
  shows "usecount (clk_of t x) = usecount (clk_of s x)"
proof -
  have fin: "finite (in_use s \<union> in_use t)" using s t by (auto dest: refs_okD(1))
  define M where "M = Suc (Max (rank ` (in_use s \<union> in_use t)))"
  have big: "usecount (clk_of s x) = 0 \<and> usecount (clk_of t x) = 0" if "M \<le> rank x" for x
  proof -
    have "x \<notin> in_use s \<union> in_use t"
    proof
      assume "x \<in> in_use s \<union> in_use t"
      then have "rank x \<le> Max (rank ` (in_use s \<union> in_use t))" using fin by simp
      then show False using that by (simp add: M_def)
    qed
    then show ?thesis by (simp add: in_use_def)
  qed
  have "\<forall>x. M - rank x = k \<longrightarrow> usecount (clk_of t x) = usecount (clk_of s x)" for k
  proof (induction k rule: less_induct)
    case (less k)
    show ?case
    proof (intro allI impI)
      fix x assume k: "M - rank x = k"
      show "usecount (clk_of t x) = usecount (clk_of s x)"
      proof (cases "M \<le> rank x")
        case True then show ?thesis using big by simp
      next
        case False
        have same: "usecount (clk_of t d) = usecount (clk_of s d)" if "links s d x \<noteq> 0" for d
        proof -
          have "rank x < rank d" using tree that by (simp add: tree_ok_def)
          then show ?thesis using less [of "M - rank d"] False k by auto
        qed
        have "(\<Sum>d\<in>in_use s. links s d x) = (\<Sum>d\<in>in_use s \<union> in_use t. links s d x)"
          using fin same by (intro sum.mono_neutral_left) (auto simp: in_use_def)
        moreover have "(\<Sum>d\<in>in_use t. links s d x) = (\<Sum>d\<in>in_use s \<union> in_use t. links s d x)"
          using fin same by (intro sum.mono_neutral_left) (auto simp: in_use_def)
        ultimately have "sint (usecount (clk_of t x)) = sint (usecount (clk_of s x))"
          using refs_okD(2) [OF s, of x] refs_okD(2) [OF t, of x] same_shapeD(7) [OF sh] by simp
        then show ?thesis by (rule signed_word_eqI)
      qed
    qed
  qed
  then show ?thesis by blast
qed

lemma same_clocks:
  assumes "refs_ok ext s" "refs_ok ext t" "same_shape s t" "tree_ok rank s"
  shows "clk_of t = clk_of s"
proof
  fix x
  have e: "(clk_of t x)\<lparr>usecount := 0\<rparr> = (clk_of s x)\<lparr>usecount := 0\<rparr>"
    using assms(3) by (simp add: same_shape_def)
  have u: "usecount (clk_of t x) = usecount (clk_of s x)" using refs_ok_unique [OF assms] .
  show "clk_of t x = clk_of s x"
    using arg_cong [OF e, of "usecount_update (\<lambda>_. usecount (clk_of s x))"] u
    by (metis (no_types, lifting) clk.surjective clk.update_convs(7))
qed

section \<open>The public calls\<close>

context clk_gates
begin

lemma clk_enable_refs:
  assumes "hwok (hw s)" "tree_ok rank s" "refs_ok ext s" "\<And>x. 0 \<le> ext x"
    and "room (\<lambda>x. ext x + one (Some c) x) s"
    and "clk_enable F (Clk c) s = Inr (r, s')"
  shows "refs_ok (if r = 0 then ext(c := ext c + 1) else ext) s'"
    and "keeps hwok rank (Suc (rank c)) s s'"
proof -
  have run: "clk_enable_rec F CLK_DEPTH c s = Inr (r, s')" using assms(6) by (simp add: clk_enable_def)
  have "\<forall>x. rank x \<le> rank c \<longrightarrow> 0 \<le> ext x + top_refs rank (Suc (rank c)) s x"
    using assms(4) by (simp add: top_refs_nonneg add_nonneg_nonneg)
  from acquiresD [OF enable_acquires assms(1-3,5) this run]
  show "refs_ok (if r = 0 then ext(c := ext c + 1) else ext) s'" by (rule refs_ok_cong) simp
  show "keeps hwok rank (Suc (rank c)) s s'" using assms(1,2) run by (rule enable_keeps)
qed

lemma clk_disable_refs:
  assumes "hwok (hw s)" "tree_ok rank s" "refs_ok ext s" "\<And>x. 0 \<le> ext x" "0 < ext c"
    and "clk_disable F (Clk c) s = Inr s'"
  shows "refs_ok (ext(c := ext c - 1)) s'" and "keeps hwok rank (Suc (rank c)) s s'"
proof -
  have run: "clk_disable_rec F CLK_DEPTH c s = Inr s'" using assms(6) by (simp add: clk_disable_def)
  have "one (Some c) x \<le> ext x + top_refs rank (Suc (rank c)) s x" for x
    using assms(4) [of x] assms(5) top_refs_nonneg [of rank "Suc (rank c)" s x] by auto
  then have "refs_ok (\<lambda>x. ext x - one (Some c) x) s'"
    using disable_releases [of rank CLK_DEPTH] assms(1-3) run unfolding releases_def by blast
  then show "refs_ok (ext(c := ext c - 1)) s'" by (rule refs_ok_cong) simp
  show "keeps hwok rank (Suc (rank c)) s s'" using assms(1,2) run by (rule disable_keeps)
qed

lemma enable_then_disable:
  assumes "hwok (hw s)" "tree_ok rank s" "refs_ok ext s" "\<And>x. 0 \<le> ext x"
    and "room (\<lambda>x. ext x + one (Some c) x) s"
    and en: "clk_enable F (Clk c) s = Inr (0, s1)" and dis: "clk_disable F (Clk c) s1 = Inr s2"
  shows "clk_of s2 = clk_of s"
proof -
  note e = clk_enable_refs [OF assms(1-5) en]
  have t1: "tree_ok rank s1" using keeps_tree [OF e(2)] assms(2) by simp
  have e1: "refs_ok (ext(c := ext c + 1)) s1" using e(1) by simp
  have nn: "0 \<le> (ext(c := ext c + 1)) x" for x using assms(4) [of x] by auto
  have pos: "0 < (ext(c := ext c + 1)) c" using assms(4) [of c] by simp
  note d = clk_disable_refs [OF keepsD(2) [OF e(2)] t1 e1 nn pos dis]
  have "refs_ok ext s2" using d(1) by (rule refs_ok_cong) simp
  then show ?thesis
    using same_clocks [OF assms(3) _ _ assms(2)] keepsD(4) [OF keeps_trans [OF e(2) d(2)]] by blast
qed

end

lemma refs_ok_unused: "(\<And>x. usecount (clk_of s x) = 0) \<Longrightarrow> refs_ok (\<lambda>_. 0) s"
  by (simp add: refs_ok_def in_use_def)

section \<open>Which callbacks an enable can reach\<close>

text \<open>
  An enable of \<open>c\<close> runs the enable callbacks of \<open>c\<close> and of clocks that \<open>c\<close> reaches by parent and
  secondary links.  If those succeed and keep a condition on the registers, so does the enable.
\<close>

context clk_gates
begin

lemma enable_reaches:
  assumes tree: "tree_ok rank s0"
    and closed: "\<forall>c p. Q c \<longrightarrow> links s0 c p \<noteq> 0 \<longrightarrow> Q p"
    and callback: "\<forall>c f s r s'. Q c \<longrightarrow> same_shape s0 s \<longrightarrow> hwok (hw s) \<longrightarrow> I (hw s)
      \<longrightarrow> enable (clk_of s0 c) = Some f \<longrightarrow> call_enable F f c s = Inr (r, s') \<longrightarrow> r = 0 \<and> I (hw s')"
    and "Q c" "same_shape s0 s" "hwok (hw s)" "I (hw s)" "clk_enable_rec F n c s = Inr (r, s')"
  shows "r = 0 \<and> I (hw s')"
  using assms(4-)
proof (induction n arbitrary: c s r s')
  case (Suc n)
  have IH: "r = 0 \<and> I (hw u) \<and> same_shape s0 u \<and> hwok (hw u)"
    if a: "\<And>q. d = Some q \<Longrightarrow> Q q" "same_shape s0 t" "hwok (hw t)" "I (hw t)"
      and run: "clk_enable_opt F n d t = Inr (r, u)" for d t r u
  proof (cases d)
    case (Some q)
    have run': "clk_enable_rec F n q t = Inr (r, u)" using run Some by (simp add: clk_enable_opt_def)
    have "tree_ok rank t" using tree_ok_shape [OF a(2)] tree by simp
    from enable_keeps [OF a(3) this run']
    have k: "keeps hwok rank (Suc (rank q)) t u" .
    show ?thesis
      using Suc.IH [OF a(1) [OF Some] a(2-4) run'] keepsD(2) [OF k] same_shape_trans [OF a(2) keepsD(4) [OF k]]
      by simp
  qed (use that in \<open>simp add: clk_enable_opt_def\<close>)
  let ?s1 = "inc_use c s"
  have p: "Q q" if "parent (clk_of t c) = Some q \<or> secondary (clk_of t c) = Some q" "same_shape s0 t" for t q
    using closed Suc.prems(1) that same_shapeD(1,2) [OF that(2), of c] unfolding links_def by fastforce
  show ?case
  proof (cases "usecount (clk_of s c) = 0")
    case True
    have sh1: "same_shape s0 ?s1" using Suc.prems(2) by simp
    obtain r1 s2 where e1: "clk_enable_opt F n (parent (clk_of ?s1 c)) ?s1 = Inr (r1, s2)"
      using Suc.prems(5) True by (auto simp: Let_def rbind_eq_Inr clk_enable_opt_def)
    have i2: "r1 = 0" "I (hw s2)" "same_shape s0 s2" "hwok (hw s2)"
      using IH [OF _ sh1 _ _ e1] p [OF _ sh1] Suc.prems(3,4) by auto
    obtain r2 s3 where e2: "clk_enable_opt F n (secondary (clk_of s2 c)) s2 = Inr (r2, s3)"
      using Suc.prems(5) True e1 i2(1) by (auto simp: Let_def rbind_eq_Inr clk_enable_opt_def)
    have i3: "r2 = 0" "I (hw s3)" "same_shape s0 s3" "hwok (hw s3)"
      using IH [OF _ i2(3,4,2) e2] p [OF _ i2(3)] by auto
    have run: "rbind (case enable (clk_of s3 c) of None \<Rightarrow> Inr (0, s3) | Some f \<Rightarrow> call_enable F f c s3) (\<lambda>(r3, s4).
        if r3 \<noteq> 0 then
          rbind (clk_unwind F n (secondary (clk_of s4 c)) s4) (\<lambda>s5.
          rbind (clk_unwind F n (parent (clk_of s5 c)) s5) (\<lambda>s6. Inr (r3, dec_use c s6)))
        else Inr (0, s4)) = Inr (r, s')"
      using Suc.prems(5) True e1 e2 i2(1) i3(1) by (simp add: Let_def clk_enable_opt_def)
    show ?thesis
    proof (cases "enable (clk_of s3 c)")
      case (Some f)
      obtain r3 s4 where c: "call_enable F f c s3 = Inr (r3, s4)" using run Some by (auto simp: rbind_eq_Inr)
      have "enable (clk_of s0 c) = Some f" using same_shapeD(4) [OF i3(3), of c] Some by simp
      then have "r3 = 0 \<and> I (hw s4)" using callback Suc.prems(1) i3 c by blast
      then show ?thesis using run Some c by simp
    qed (use run i3 in simp)
  qed (use Suc.prems in \<open>auto simp: Let_def\<close>)
qed simp

end

section \<open>The recursion fits the stack\<close>

text \<open>When the callbacks return, so do the framework's calls, in a stack as deep as the rank.\<close>

locale clk_gates_live = clk_gates F hwok
  for F :: "('c, 'f, 'h) clk_fns" and hwok :: "'h \<Rightarrow> bool" +
  assumes enable_live: "hwok (hw s) \<Longrightarrow> \<exists>r s'. call_enable F f c s = Inr (r, s')"
    and disable_live: "hwok (hw s) \<Longrightarrow> \<exists>s'. call_disable F f c s = Inr s'"
begin

lemma disable_returns:
  "hwok (hw s) \<Longrightarrow> tree_ok rank s \<Longrightarrow> rank c < n \<Longrightarrow> \<exists>s'. clk_disable_rec F n c s = Inr s'"
proof (induction n arbitrary: c s)
  case (Suc n)
  let ?s1 = "dec_use c s"
  have t1: "tree_ok rank ?s1" using tree_ok_shape [of s ?s1] Suc.prems(2) by simp
  have go: "\<exists>u. clk_unwind F n d t = Inr u \<and> keeps hwok rank (rank c) t u"
    if "hwok (hw t)" "tree_ok rank t" "\<And>q. d = Some q \<Longrightarrow> rank q < rank c" for d t
  proof -
    have "\<exists>u. clk_unwind F n d t = Inr u"
      using Suc.IH [OF that(1,2)] that(3) Suc.prems(3) by (cases d) (auto simp: clk_unwind_def)
    then show ?thesis using unwind_keeps' [OF that(1,2)] that(3) by blast
  qed
  obtain s2 where s2: "(case disable (clk_of ?s1 c) of None \<Rightarrow> Inr ?s1 | Some f \<Rightarrow> call_disable F f c ?s1) = Inr s2"
      and h2: "hwok (hw s2)" and sh2: "same_shape s s2"
  proof (cases "disable (clk_of ?s1 c)")
    case None then show ?thesis using that Suc.prems(1) by simp
  next
    case (Some f)
    obtain s2 where "call_disable F f c ?s1 = Inr s2" using disable_live [of ?s1] Suc.prems(1) by auto
    then show ?thesis using that disable_hw [of ?s1 f c s2] Suc.prems(1) Some by auto
  qed
  have t2: "tree_ok rank s2" using tree_ok_shape [OF sh2] Suc.prems(2) by simp
  obtain s3 where s3: "clk_unwind F n (parent (clk_of s2 c)) s2 = Inr s3" and k3: "keeps hwok rank (rank c) s2 s3"
    using go [OF h2 t2] tree_ok_parent [OF t2] by blast
  have t3: "tree_ok rank s3" using keeps_tree [OF k3] t2 by simp
  obtain s4 where "clk_unwind F n (secondary (clk_of s3 c)) s3 = Inr s4"
    using go [OF keepsD(2) [OF k3] t3] tree_ok_secondary [OF t3] by blast
  then show ?case using s2 s3 by (simp add: Let_def rbind_eq_Inr clk_unwind_def)
qed simp

lemma unwind_returns:
  "hwok (hw s) \<Longrightarrow> tree_ok rank s \<Longrightarrow> (\<And>q. d = Some q \<Longrightarrow> rank q < n) \<Longrightarrow> \<exists>s'. clk_unwind F n d s = Inr s'"
  using disable_returns [of s rank _ n] by (cases d) (auto simp: clk_unwind_def)

lemma enable_returns:
  "hwok (hw s) \<Longrightarrow> tree_ok rank s \<Longrightarrow> rank c < n \<Longrightarrow> \<exists>r s'. clk_enable_rec F n c s = Inr (r, s')"
proof (induction n arbitrary: c s)
  case (Suc n)
  let ?s1 = "inc_use c s"
  have h1: "hwok (hw ?s1)" and t1: "tree_ok rank ?s1"
    using tree_ok_shape [of s ?s1] Suc.prems(1,2) by simp_all
  have go: "\<exists>r u. clk_enable_opt F n d t = Inr (r, u) \<and> hwok (hw u) \<and> tree_ok rank u"
    if a: "hwok (hw t)" "tree_ok rank t" "\<And>q. d = Some q \<Longrightarrow> rank q < rank c" for d t
  proof -
    have "\<exists>r u. clk_enable_opt F n d t = Inr (r, u)"
      using Suc.IH [OF a(1,2)] a(3) Suc.prems(3) by (cases d) (auto simp: clk_enable_opt_def)
    then obtain r u where e: "clk_enable_opt F n d t = Inr (r, u)" by blast
    have "keeps hwok rank (rank c) t u" using enable_opt_keeps [OF enable_all_keep a(1,2) e] a(3) by blast
    then show ?thesis using e keepsD(2) keeps_tree a(2) by blast
  qed
  have un: "\<exists>u. clk_unwind F n d t = Inr u \<and> hwok (hw u) \<and> tree_ok rank u"
    if a: "hwok (hw t)" "tree_ok rank t" "\<And>q. d = Some q \<Longrightarrow> rank q < rank c" for d t
  proof -
    have "\<And>q. d = Some q \<Longrightarrow> rank q < n" using a(3) Suc.prems(3) by force
    then obtain u where e: "clk_unwind F n d t = Inr u" using unwind_returns [OF a(1,2), of d n] by blast
    have "keeps hwok rank (rank c) t u" using unwind_keeps' [OF a(1,2) e] a(3) by blast
    then show ?thesis using e keepsD(2) keeps_tree a(2) by blast
  qed
  obtain r1 s2 where e1: "clk_enable_opt F n (parent (clk_of ?s1 c)) ?s1 = Inr (r1, s2)"
      and h2: "hwok (hw s2)" and t2: "tree_ok rank s2"
    using go [OF h1 t1] tree_ok_parent [OF t1] by blast
  obtain r2 s3 where e2: "clk_enable_opt F n (secondary (clk_of s2 c)) s2 = Inr (r2, s3)"
      and h3: "hwok (hw s3)" and t3: "tree_ok rank s3"
    using go [OF h2 t2] tree_ok_secondary [OF t2] by blast
  obtain r3 s4 where e3: "(case enable (clk_of s3 c) of None \<Rightarrow> Inr (0, s3) | Some f \<Rightarrow> call_enable F f c s3) = Inr (r3, s4)"
      and h4: "hwok (hw s4)" and t4: "tree_ok rank s4"
  proof (cases "enable (clk_of s3 c)")
    case (Some f)
    obtain r3 s4 where c: "call_enable F f c s3 = Inr (r3, s4)" using enable_live [OF h3] by blast
    then obtain h where "hwok h" "s4 = s3\<lparr>hw := h\<rparr>" using enable_hw [OF h3] by blast
    then show ?thesis using that c Some t3 tree_ok_shape [of s3 s4] by simp
  qed (use that h3 t3 in simp)
  obtain v3 where v3: "clk_unwind F n (parent (clk_of s3 c)) s3 = Inr v3"
    using un [OF h3 t3] tree_ok_parent [OF t3] by blast
  obtain s5 where s5: "clk_unwind F n (secondary (clk_of s4 c)) s4 = Inr s5" and h5: "hwok (hw s5)" and t5: "tree_ok rank s5"
    using un [OF h4 t4] tree_ok_secondary [OF t4] by blast
  obtain s6 where s6: "clk_unwind F n (parent (clk_of s5 c)) s5 = Inr s6"
    using un [OF h5 t5] tree_ok_parent [OF t5] by blast
  show ?case
    using e1 e2 e3 v3 s5 s6 unfolding clk_enable_opt_def clk_enable_rec.simps by (simp add: Let_def)
qed simp

end

end
