(* ===== verification/Clock_Rates.thy ===== *)
theory Clock_Rates
  imports Clock_Use
begin

text \<open>
  Rates in the clock framework.  The interface \<open>clk_rates\<close> says what a machine's rate callbacks
  may do: a \<^verbatim>\<open>recalc\<close> computes the rate of its clock from the registers and the rate of the
  parent, and the others change registers and rates only.  From it: \<^verbatim>\<open>propagate_rate\<close> brings every
  registered descendant up to date and touches nothing else, it ends, and rate changes leave
  the use counts and the tree alone.
\<close>

section \<open>Changes of rates only\<close>

definition same_uses :: "('c, 'f, 'h) clksys \<Rightarrow> ('c, 'f, 'h) clksys \<Rightarrow> bool" where
  "same_uses s t \<longleftrightarrow>
     (\<forall>x. (clk_of t x)\<lparr>rate := 0\<rparr> = (clk_of s x)\<lparr>rate := 0\<rparr>) \<and>
     clocks t = clocks s \<and> mod_live t = mod_live s \<and> mod_ref t = mod_ref s"

definition only_rates :: "'c set \<Rightarrow> ('c, 'f, 'h) clksys \<Rightarrow> ('c, 'f, 'h) clksys \<Rightarrow> bool" where
  "only_rates A s t \<longleftrightarrow>
     same_uses s t \<and> hw t = hw s \<and> (\<forall>x. x \<notin> A \<longrightarrow> rate (clk_of t x) = rate (clk_of s x))"

text \<open>A clock is settled when refreshing it would not change its rate.\<close>

definition settled :: "('c, 'f, 'h) clk_fns \<Rightarrow> ('c, 'f, 'h) clksys \<Rightarrow> 'c \<Rightarrow> bool" where
  "settled F s d \<longleftrightarrow> (\<forall>p. parent (clk_of s d) = Some p \<longrightarrow> refresh_rate F p d s = Inr s)"

text \<open>Registered children, and the registered clocks below a clock.\<close>

definition kids :: "('c, 'f, 'h) clksys \<Rightarrow> ('c \<times> 'c) set" where
  "kids s = {(d, p). d \<in> set (clocks s) \<and> parent (clk_of s d) = Some p}"

definition descendants :: "('c, 'f, 'h) clksys \<Rightarrow> 'c \<Rightarrow> 'c set" where
  "descendants s t = {d. (d, t) \<in> (kids s)\<^sup>+}"

text \<open>The part of the tree that one pass of the loop over the children of \<open>t\<close> in \<open>xs\<close> reaches.\<close>

fun branch :: "('c, 'f, 'h) clksys \<Rightarrow> 'c \<Rightarrow> 'c list \<Rightarrow> 'c set" where
  "branch s t [] = {}"
| "branch s t (d # xs) =
     (if parent (clk_of s d) = Some t then insert d (descendants s d) else {}) \<union> branch s t xs"

lemma same_uses_refl [simp]: "same_uses s s"
  by (simp add: same_uses_def)

lemma same_uses_trans: "same_uses s t \<Longrightarrow> same_uses t u \<Longrightarrow> same_uses s u"
  by (simp add: same_uses_def)

lemma same_uses_hw [simp]:
  "same_uses s (t\<lparr>hw := h\<rparr>) \<longleftrightarrow> same_uses s t"
  by (simp add: same_uses_def)

lemma same_uses_rate [simp]: "same_uses s (set_clk_rate c r t) \<longleftrightarrow> same_uses s t"
  by (auto simp: same_uses_def split: if_splits)

lemma same_usesD:
  assumes "same_uses s t"
  shows "parent (clk_of t x) = parent (clk_of s x)"
    and "secondary (clk_of t x) = secondary (clk_of s x)"
    and "usecount (clk_of t x) = usecount (clk_of s x)"
    and "recalc (clk_of t x) = recalc (clk_of s x)"
    and "clk_id (clk_of t x) = clk_id (clk_of s x)"
    and "clocks t = clocks s"
proof -
  have e: "(clk_of t x)\<lparr>rate := 0\<rparr> = (clk_of s x)\<lparr>rate := 0\<rparr>"
    using assms by (simp add: same_uses_def)
  show "parent (clk_of t x) = parent (clk_of s x)" "secondary (clk_of t x) = secondary (clk_of s x)"
    "usecount (clk_of t x) = usecount (clk_of s x)" "recalc (clk_of t x) = recalc (clk_of s x)"
    "clk_id (clk_of t x) = clk_id (clk_of s x)"
    using arg_cong [OF e, of parent] arg_cong [OF e, of secondary] arg_cong [OF e, of usecount]
      arg_cong [OF e, of recalc] arg_cong [OF e, of clk_id] by simp_all
  show "clocks t = clocks s" using assms by (simp add: same_uses_def)
qed

lemma same_uses_links: "same_uses s t \<Longrightarrow> links t = links s"
  by (simp add: links_def fun_eq_iff same_usesD)

lemma same_uses_refs: "same_uses s t \<Longrightarrow> refs_ok ext t = refs_ok ext s"
  by (simp add: refs_ok_def in_use_def same_uses_links same_usesD(3))

lemma same_uses_tree: "same_uses s t \<Longrightarrow> tree_ok rank t = tree_ok rank s"
  by (simp add: tree_ok_def same_uses_links)

lemma tree_ok_iff:
  "tree_ok rank s \<longleftrightarrow>
     (\<forall>c p. parent (clk_of s c) = Some p \<or> secondary (clk_of s c) = Some p \<longrightarrow> rank p < rank c)"
proof -
  have "links s c p \<noteq> 0 \<longleftrightarrow> parent (clk_of s c) = Some p \<or> secondary (clk_of s c) = Some p" for c p
    by (simp add: links_def)
  then show ?thesis by (simp only: tree_ok_def)
qed

lemma same_uses_room: "same_uses s t \<Longrightarrow> room ext t = room ext s"
  by (simp add: room_def same_uses_links)

lemma same_uses_kids: "same_uses s t \<Longrightarrow> kids t = kids s"
  by (simp add: kids_def same_usesD(1,6))

lemma same_uses_descendants: "same_uses s t \<Longrightarrow> descendants t = descendants s"
  by (simp add: descendants_def same_uses_kids fun_eq_iff)

lemma same_uses_reparent:
  assumes "same_uses s t"
  shows "same_uses (upd_clk c (parent_update (\<lambda>_. q)) s) (upd_clk c (parent_update (\<lambda>_. q)) t)"
proof -
  have "(clk_of t c)\<lparr>rate := 0\<rparr> = (clk_of s c)\<lparr>rate := 0\<rparr>"
    using assms by (simp add: same_uses_def)
  from arg_cong [OF this, of "parent_update (\<lambda>_. q)"]
  have "(clk_of t c)\<lparr>parent := q, rate := 0\<rparr> = (clk_of s c)\<lparr>parent := q, rate := 0\<rparr>"
    by (cases "clk_of t c", cases "clk_of s c") simp
  then show ?thesis using assms by (simp add: same_uses_def)
qed

lemma same_clk:
  assumes "same_uses s t" and "rate (clk_of t x) = rate (clk_of s x)"
  shows "clk_of t x = clk_of s x"
proof -
  have e: "(clk_of t x)\<lparr>rate := 0\<rparr> = (clk_of s x)\<lparr>rate := 0\<rparr>"
    using assms(1) by (simp add: same_uses_def)
  show ?thesis
    using arg_cong [OF e, of "rate_update (\<lambda>_. rate (clk_of s x))"] assms(2)
    by (cases "clk_of t x", cases "clk_of s x") simp
qed

lemma only_rates_refl [simp]: "only_rates A s s"
  by (simp add: only_rates_def)

lemma only_rates_trans: "only_rates A s t \<Longrightarrow> only_rates B t u \<Longrightarrow> only_rates (A \<union> B) s u"
  by (auto simp: only_rates_def intro: same_uses_trans)

lemma only_rates_mono: "only_rates A s t \<Longrightarrow> A \<subseteq> B \<Longrightarrow> only_rates B s t"
  by (auto simp: only_rates_def)

lemma only_rates_set [simp]: "only_rates {c} s (set_clk_rate c r s)"
  by (simp add: only_rates_def)

lemma only_ratesD:
  assumes "only_rates A s t"
  shows "same_uses s t" "hw t = hw s" "x \<notin> A \<Longrightarrow> rate (clk_of t x) = rate (clk_of s x)"
  using assms by (simp_all add: only_rates_def)

lemma set_clk_rate_same [simp]: "set_clk_rate c (rate (clk_of s c)) s = s"
  by (simp add: upd_clk_def)

lemma set_clk_rate_twice [simp]: "set_clk_rate c r (set_clk_rate c r' s) = set_clk_rate c r s"
  by (simp add: upd_clk_def)

lemma kids_rank: "(d, t) \<in> (kids s)\<^sup>+ \<Longrightarrow> tree_ok rank s \<Longrightarrow> rank t < rank d"
  by (induction rule: trancl_induct) (auto simp: kids_def dest!: tree_ok_parent [of rank s])

lemma descendants_child: "d \<in> set (clocks s) \<Longrightarrow> parent (clk_of s d) = Some t \<Longrightarrow> d \<in> descendants s t"
  by (auto simp: descendants_def kids_def)

lemma in_kids: "(d, p) \<in> kids s \<longleftrightarrow> d \<in> set (clocks s) \<and> parent (clk_of s d) = Some p"
  by (simp add: kids_def)

lemma in_branch:
  "x \<in> branch s t xs \<longleftrightarrow> (\<exists>d\<in>set xs. parent (clk_of s d) = Some t \<and> x \<in> insert d (descendants s d))"
  by (induction xs) auto

lemma branch_all: "branch s t (clocks s) = descendants s t"
proof (intro set_eqI iffI)
  fix x assume "x \<in> branch s t (clocks s)"
  then obtain d where "(d, t) \<in> kids s" "x = d \<or> (x, d) \<in> (kids s)\<^sup>+"
    unfolding in_branch descendants_def in_kids by blast
  then show "x \<in> descendants s t" by (auto simp: descendants_def intro: trancl_into_trancl)
next
  fix x assume "x \<in> descendants s t"
  then obtain d where "(d, t) \<in> kids s" "x = d \<or> (x, d) \<in> (kids s)\<^sup>+"
    by (auto simp: descendants_def elim: tranclE)
  then show "x \<in> branch s t (clocks s)" unfolding in_branch descendants_def in_kids by blast
qed

lemma same_uses_branch: "same_uses s t \<Longrightarrow> branch t c xs = branch s c xs"
  by (induction xs) (simp_all add: same_uses_descendants same_usesD(1))

lemma descendants_trans:
  "p \<in> descendants s t \<Longrightarrow> x \<in> set (clocks s) \<Longrightarrow> parent (clk_of s x) = Some p \<Longrightarrow> x \<in> descendants s t"
  by (auto simp: descendants_def kids_def intro: trancl_into_trancl2)

lemma descendants_parent:
  "x \<in> descendants s t \<Longrightarrow> x \<in> set (clocks s) \<and> (\<exists>p. parent (clk_of s x) = Some p \<and> p \<in> insert t (descendants s t))"
  by (auto simp: descendants_def kids_def elim: converse_tranclE)

section \<open>The interface to the machine's rate callbacks\<close>

text \<open>
  \<open>ok\<close> is the machine's condition on the state, \<open>view\<close> the part of the registers that rates are
  computed from.
\<close>

locale clk_rates =
  fixes F :: "('c, 'f, 'h) clk_fns"
    and ok :: "('c, 'f, 'h) clksys \<Rightarrow> bool"
    and view :: "'h \<Rightarrow> 'v"
  assumes recalc_own:
      "ok s \<Longrightarrow> recalc (clk_of s c) = Some f \<Longrightarrow> call_recalc F f c s = Inr s' \<Longrightarrow> \<exists>r. s' = set_clk_rate c r s"
    and recalc_local:
      "ok s \<Longrightarrow> ok t \<Longrightarrow> recalc (clk_of s c) = Some f \<Longrightarrow> call_recalc F f c s = Inr (set_clk_rate c r s)
        \<Longrightarrow> clk_id (clk_of t c) = clk_id (clk_of s c) \<Longrightarrow> recalc (clk_of t c) = recalc (clk_of s c)
        \<Longrightarrow> parent (clk_of t c) = parent (clk_of s c) \<Longrightarrow> view (hw t) = view (hw s)
        \<Longrightarrow> (\<And>p. parent (clk_of s c) = Some p \<Longrightarrow> rate (clk_of t p) = rate (clk_of s p))
        \<Longrightarrow> call_recalc F f c t = Inr (set_clk_rate c r t)"
    and recalc_live:
      "ok s \<Longrightarrow> recalc (clk_of s c) = Some f \<Longrightarrow> parent (clk_of s c) \<noteq> None \<Longrightarrow> \<exists>s'. call_recalc F f c s = Inr s'"
    and set_rate_frame: "ok s \<Longrightarrow> call_set_rate F f c r s = Inr (ret, s') \<Longrightarrow> ok s' \<and> same_uses s s'"
    and set_parent_frame:
      "ok s \<Longrightarrow> call_set_parent F f c p s = Inr (ret, s') \<Longrightarrow> ok s' \<and>
         (if ret = 0 then same_uses (upd_clk c (parent_update (\<lambda>_. Some p)) s) (upd_clk c (parent_update (\<lambda>_. Some p)) s')
          else same_uses s s')"
    and ok_rates: "ok s \<Longrightarrow> same_uses s t \<Longrightarrow> hw t = hw s \<Longrightarrow> ok t"
    and ok_reparent: "ok s \<Longrightarrow> ok (upd_clk c (parent_update (\<lambda>_. Some p)) s)"
begin

lemma refresh_own: "ok s \<Longrightarrow> refresh_rate F p d s = Inr s' \<Longrightarrow> \<exists>r. s' = set_clk_rate d r s"
  by (cases "recalc (clk_of s d)") (auto simp: refresh_rate_def dest: recalc_own)

lemma refresh_only: "ok s \<Longrightarrow> refresh_rate F p d s = Inr s' \<Longrightarrow> only_rates {d} s s'"
  by (drule (1) refresh_own) (elim exE, simp)

lemma ok_only: "ok s \<Longrightarrow> only_rates A s t \<Longrightarrow> ok t"
  unfolding only_rates_def using ok_rates by blast

lemma refresh_local:
  assumes "ok s" "ok t" and "refresh_rate F p d s = Inr (set_clk_rate d r s)" and "parent (clk_of s d) = Some p"
    and "clk_id (clk_of t d) = clk_id (clk_of s d)" "recalc (clk_of t d) = recalc (clk_of s d)"
      "parent (clk_of t d) = parent (clk_of s d)"
    and "view (hw t) = view (hw s)" and "rate (clk_of t p) = rate (clk_of s p)"
  shows "refresh_rate F p d t = Inr (set_clk_rate d r t)"
proof (cases "recalc (clk_of s d)")
  case None
  have "set_clk_rate d (rate (clk_of s p)) s = set_clk_rate d r s"
    using assms(3) None by (simp add: refresh_rate_def)
  from arg_cong [OF this, of "\<lambda>s. rate (clk_of s d)"] have "rate (clk_of s p) = r" by simp
  then show ?thesis using None assms(6,9) by (simp add: refresh_rate_def)
next
  case (Some f)
  then have "call_recalc F f d s = Inr (set_clk_rate d r s)" using assms(3) by (simp add: refresh_rate_def)
  then have "call_recalc F f d t = Inr (set_clk_rate d r t)"
    using assms Some by (intro recalc_local [of s t d f r]) auto
  then show ?thesis using Some assms(6) by (simp add: refresh_rate_def)
qed

lemma refresh_settles:
  assumes "ok s" and "refresh_rate F p d s = Inr s'" and "parent (clk_of s d) = Some p" and "p \<noteq> d"
  shows "settled F s' d"
proof -
  obtain r where r: "s' = set_clk_rate d r s" using refresh_own [OF assms(1,2)] by blast
  have ok': "ok s'" using ok_only [OF assms(1) refresh_only [OF assms(1,2)]] .
  have "refresh_rate F p d s' = Inr (set_clk_rate d r s')"
    using assms ok' r by (intro refresh_local [of s s' p d r]) auto
  then show ?thesis using assms(3) r by (simp add: settled_def)
qed

lemma settled_view:
  assumes "ok s" "ok t" and "settled F s d" and "parent (clk_of s d) = Some p"
    and "clk_id (clk_of t d) = clk_id (clk_of s d)" "recalc (clk_of t d) = recalc (clk_of s d)"
      "parent (clk_of t d) = parent (clk_of s d)" "rate (clk_of t d) = rate (clk_of s d)"
    and "view (hw t) = view (hw s)" and "rate (clk_of t p) = rate (clk_of s p)"
  shows "settled F t d"
proof -
  have "refresh_rate F p d s = Inr (set_clk_rate d (rate (clk_of s d)) s)"
    using assms(3,4) by (simp add: settled_def)
  from refresh_local [OF assms(1,2) this assms(4-7,9,10)]
  have "refresh_rate F p d t = Inr (set_clk_rate d (rate (clk_of t d)) t)" using assms(8) by simp
  then show ?thesis using assms(4,7) by (simp add: settled_def)
qed

lemma settled_frame:
  assumes "ok s" and "settled F s d" and "only_rates A s t" and "d \<notin> A" and "p \<notin> A"
    and "parent (clk_of s d) = Some p"
  shows "settled F t d"
proof -
  have u: "same_uses s t" using assms(3) by (simp add: only_rates_def)
  have "rate (clk_of t d) = rate (clk_of s d)" "rate (clk_of t p) = rate (clk_of s p)" "hw t = hw s"
    using assms(3-5) by (simp_all add: only_rates_def)
  then show ?thesis
    using settled_view [OF assms(1) ok_only [OF assms(1,3)] assms(2,6)] same_usesD [OF u] by simp
qed

lemma propagate_loop:
  assumes IH: "\<forall>d s s'. ok s \<longrightarrow> tree_ok rank s \<longrightarrow> propagate_rec F n d s = Inr s'
      \<longrightarrow> only_rates (descendants s d) s s' \<and> (\<forall>x\<in>descendants s d. settled F s' x)"
    and "ok s" and "tree_ok rank s" and "set xs \<subseteq> set (clocks s)"
    and "rfold (\<lambda>d s. if parent (clk_of s d) \<noteq> Some t then Inr s
                  else rbind (refresh_rate F t d s) (propagate_rec F n d)) xs s = Inr s'"
  shows "only_rates (branch s t xs) s s' \<and> (\<forall>x\<in>branch s t xs. settled F s' x)"
  using assms(2-)
proof (induction xs arbitrary: s)
  case (Cons d xs)
  show ?case
  proof (cases "parent (clk_of s d) = Some t")
    case False
    then show ?thesis using Cons.IH [of s] Cons.prems by simp
  next
    case True
    then obtain s1 s2 where s1: "refresh_rate F t d s = Inr s1" and s2: "propagate_rec F n d s1 = Inr s2"
      and rest: "rfold (\<lambda>d s. if parent (clk_of s d) \<noteq> Some t then Inr s
                  else rbind (refresh_rate F t d s) (propagate_rec F n d)) xs s2 = Inr s'"
      using Cons.prems(4) by (auto simp: rbind_eq_Inr)
    have td: "rank t < rank d" using tree_ok_parent [OF Cons.prems(2) True] .
    have o1: "only_rates {d} s s1" using refresh_only [OF Cons.prems(1) s1] .
    have k1: "ok s1" using ok_only [OF Cons.prems(1) o1] .
    have t1: "tree_ok rank s1" using same_uses_tree [OF only_ratesD(1) [OF o1]] Cons.prems(2) by simp
    have o2: "only_rates (descendants s d) s1 s2" and st2: "\<forall>x\<in>descendants s d. settled F s2 x"
      using IH [rule_format, OF k1 t1 s2] same_uses_descendants [OF only_ratesD(1) [OF o1]] by simp_all
    have o12: "only_rates (insert d (descendants s d)) s s2" using only_rates_trans [OF o1 o2] by simp
    note u2 = only_ratesD(1) [OF o12]
    have t2: "tree_ok rank s2" using same_uses_tree [OF u2] Cons.prems(2) by simp
    have "set xs \<subseteq> set (clocks s2)" using Cons.prems(3) same_usesD(6) [OF u2] by simp
    have k2: "ok s2" using ok_only [OF Cons.prems(1) o12] .
    from Cons.IH [OF k2 t2 \<open>set xs \<subseteq> set (clocks s2)\<close> rest]
    have o3: "only_rates (branch s t xs) s2 s'" and st3: "\<forall>x\<in>branch s t xs. settled F s' x"
      unfolding same_uses_branch [OF u2] by simp_all
    have down: "rank y < rank x" if "x \<in> descendants s y" for x y
      using that kids_rank [OF _ Cons.prems(2)] by (simp add: descendants_def)
    have "t \<notin> descendants s d" "d \<notin> descendants s d" "t \<noteq> d"
      using down [of t d] down [of d d] td by auto
    then have sd: "settled F s2 d"
      using settled_frame [OF k1 refresh_settles [OF Cons.prems(1) s1 True] o2] True same_usesD(1) [OF only_ratesD(1) [OF o1], of d]
      by simp
    have "settled F s' x" if x: "x \<in> insert d (descendants s d)" "x \<notin> branch s t xs" for x
    proof -
      obtain p where p: "parent (clk_of s x) = Some p" "p = t \<or> p \<in> insert d (descendants s d)" "x \<in> set (clocks s)"
        using x(1) True Cons.prems(3) descendants_parent [of x s d] by auto
      have "p \<notin> branch s t xs"
      proof
        assume "p \<in> branch s t xs"
        then obtain e where e: "e \<in> set xs" "parent (clk_of s e) = Some t" "p \<in> insert e (descendants s e)"
          by (auto simp: in_branch)
        then have "x \<in> descendants s e" using p descendants_trans [of p s e x] descendants_child [of x s e] by auto
        then show False using e x(2) by (auto simp: in_branch)
      qed
      moreover have "p \<noteq> x" using tree_ok_parent [OF Cons.prems(2) p(1)] by auto
      moreover have "settled F s2 x" using x(1) sd st2 by auto
      ultimately show ?thesis using settled_frame [OF k2 _ o3 x(2)] same_usesD(1) [OF u2, of x] p(1) by simp
    qed
    then have "\<forall>x\<in>insert d (descendants s d) \<union> branch s t xs. settled F s' x" using st3 by blast
    then show ?thesis using only_rates_trans [OF o12 o3] True by simp
  qed
qed simp

lemma propagate_settles:
  "ok s \<Longrightarrow> tree_ok rank s \<Longrightarrow> propagate_rec F n t s = Inr s'
    \<Longrightarrow> only_rates (descendants s t) s s' \<and> (\<forall>x\<in>descendants s t. settled F s' x)"
proof (induction n arbitrary: t s s')
  case (Suc n)
  have IH: "\<forall>d s s'. ok s \<longrightarrow> tree_ok rank s \<longrightarrow> propagate_rec F n d s = Inr s'
      \<longrightarrow> only_rates (descendants s d) s s' \<and> (\<forall>x\<in>descendants s d. settled F s' x)"
    using Suc.IH by blast
  show ?case
    using propagate_loop [OF IH Suc.prems(1,2) order_refl] Suc.prems(3) by (simp add: branch_all)
qed simp

lemma propagate_loop_returns:
  assumes IH: "\<forall>d s. ok s \<longrightarrow> tree_ok rank s \<longrightarrow> M < n + rank d \<longrightarrow> (\<exists>s'. propagate_rec F n d s = Inr s')"
    and "ok s" "tree_ok rank s" "\<forall>x. rank x \<le> M" "M < Suc n + rank t"
  shows "\<exists>s'. rfold (\<lambda>d s. if parent (clk_of s d) \<noteq> Some t then Inr s
                  else rbind (refresh_rate F t d s) (propagate_rec F n d)) xs s = Inr s'"
  using assms(2-3)
proof (induction xs arbitrary: s)
  case (Cons d xs)
  show ?case
  proof (cases "parent (clk_of s d) = Some t")
    case True
    obtain s1 where s1: "refresh_rate F t d s = Inr s1"
      using recalc_live [OF Cons.prems(1), of d] True by (cases "recalc (clk_of s d)") (fastforce simp: refresh_rate_def)+
    have o1: "only_rates {d} s s1" using refresh_only [OF Cons.prems(1) s1] .
    have h1: "ok s1" and t1: "tree_ok rank s1"
      using Cons.prems same_uses_tree [OF only_ratesD(1) [OF o1]] ok_only [OF _ o1] by simp_all
    obtain s2 where s2: "propagate_rec F n d s1 = Inr s2"
      using IH h1 t1 assms(5) tree_ok_parent [OF Cons.prems(2) True] by force
    note o2 = propagate_settles [OF h1 t1 s2, THEN conjunct1]
    have "ok s2" "tree_ok rank s2"
      using h1 t1 same_uses_tree [OF only_ratesD(1) [OF o2]] ok_only [OF _ o2] by simp_all
    from Cons.IH [OF this] show ?thesis using True s1 s2 by simp
  qed (use Cons in simp)
qed simp

lemma propagate_returns:
  "ok s \<Longrightarrow> tree_ok rank s \<Longrightarrow> \<forall>x. rank x \<le> M \<Longrightarrow> M < n + rank t \<Longrightarrow> \<exists>s'. propagate_rec F n t s = Inr s'"
proof (induction n arbitrary: t s)
  case 0
  then show ?case by (simp add: leD)
next
  case (Suc n)
  have IH: "\<forall>d s. ok s \<longrightarrow> tree_ok rank s \<longrightarrow> M < n + rank d \<longrightarrow> (\<exists>s'. propagate_rec F n d s = Inr s')"
    using Suc.IH Suc.prems(3) by blast
  show ?case using propagate_loop_returns [OF IH Suc.prems] by simp
qed

lemma clk_set_rate_frame:
  assumes "ok s" "tree_ok rank s" "clk_set_rate F h r s = Inr (ret, s')"
  shows "ok s'" "same_uses s s'"
proof -
  have "ok s' \<and> same_uses s s'"
  proof (cases h)
    case (Clk c)
    show ?thesis
    proof (cases "set_rate (clk_of s c)")
      case (Some f)
      show ?thesis
      proof (cases "r = 0")
        case False
        then obtain ret1 s1 where s1: "call_set_rate F f c r s = Inr (ret1, s1)"
          using assms(3) Clk Some by (auto simp: clk_set_rate_def rbind_eq_Inr)
        note f1 = set_rate_frame [OF assms(1) s1]
        have t1: "tree_ok rank s1" using f1 same_uses_tree assms(2) by blast
        consider "s' = s1" | "propagate_rec F CLK_DEPTH c s1 = Inr s'"
          using assms(3) Clk Some False s1
          by (auto simp: clk_set_rate_def rbind_eq_Inr propagate_rate_def split: if_splits)
        then show ?thesis
        proof cases
          case 2
          note o = propagate_settles [OF f1 [THEN conjunct1] t1 2, THEN conjunct1]
          show ?thesis using f1 only_ratesD(1) [OF o] same_uses_trans ok_only [OF _ o] by metis
        qed (use f1 in simp)
      qed (use assms Clk Some in \<open>simp add: clk_set_rate_def\<close>)
    qed (use assms Clk in \<open>simp add: clk_set_rate_def\<close>)
  qed (use assms in \<open>simp_all add: clk_set_rate_def\<close>)
  then show "ok s'" "same_uses s s'" by simp_all
qed

lemma clk_set_rate_settles:
  assumes "ok s" "tree_ok rank s" "clk_set_rate F (Clk c) r s = Inr (0, s')"
    and "d \<in> descendants s c"
  shows "settled F s' d"
proof -
  obtain f s1 where f: "set_rate (clk_of s c) = Some f" "call_set_rate F f c r s = Inr (0, s1)"
    and run: "propagate_rec F CLK_DEPTH c s1 = Inr s'"
    using assms(3)
    by (auto simp: clk_set_rate_def rbind_eq_Inr propagate_rate_def split: option.splits if_splits)
  note f1 = set_rate_frame [OF assms(1) f(2)]
  have "tree_ok rank s1" using f1 same_uses_tree assms(2) by blast
  from propagate_settles [OF f1 [THEN conjunct1] this run] show ?thesis
    using assms(4) same_uses_descendants [OF f1 [THEN conjunct2]] by simp
qed

lemma clk_set_parent_effect:
  assumes "ok s" "tree_ok rank s" "rank p < rank c"
    and run: "clk_set_parent F (Clk c) (Clk p) s = Inr (0, s')"
  shows "ok s'"
    and "same_uses (upd_clk c (parent_update (\<lambda>_. Some p)) s) s'"
    and "tree_ok rank s'"
    and "settled F s' c"
    and "d \<in> descendants s' c \<Longrightarrow> settled F s' d"
proof -
  let ?re = "upd_clk c (parent_update (\<lambda>_. Some p))"
  obtain f where fp: "set_parent (clk_of s c) = Some f"
    using run by (cases "set_parent (clk_of s c)") (simp_all add: clk_set_parent_def)
  obtain ret s1 where f0: "call_set_parent F f c p s = Inr (ret, s1)"
    using run fp by (auto simp: clk_set_parent_def rbind_eq_Inr)
  then have f: "call_set_parent F f c p s = Inr (0, s1)"
    using run fp by (simp add: clk_set_parent_def split: if_splits)
  obtain s2 where s2: "refresh_rate F p c (?re s1) = Inr s2" and s': "propagate_rec F CLK_DEPTH c s2 = Inr s'"
    using run fp f by (auto simp: clk_set_parent_def rbind_eq_Inr propagate_rate_def)
  note f1 = set_parent_frame [OF assms(1) f]
  have u1: "same_uses (?re s) (?re s1)" using f1 by simp
  have k1: "ok (?re s1)" using f1 ok_reparent by blast
  have "tree_ok rank (?re s)" using assms(2,3) by (simp add: tree_ok_iff)
  then have t1: "tree_ok rank (?re s1)" using same_uses_tree [OF u1] by simp
  have o2: "only_rates {c} (?re s1) s2" using refresh_only [OF k1 s2] .
  have k2: "ok s2" using ok_only [OF k1 o2] .
  have t2: "tree_ok rank s2" using same_uses_tree [OF only_ratesD(1) [OF o2]] t1 by simp
  have o3: "only_rates (descendants s2 c) s2 s'" and st: "\<forall>x\<in>descendants s2 c. settled F s' x"
    using propagate_settles [OF k2 t2 s'] by simp_all
  show "ok s'" using ok_only [OF k2 o3] .
  show "same_uses (?re s) s'"
    using same_uses_trans [OF u1 same_uses_trans [OF only_ratesD(1) [OF o2] only_ratesD(1) [OF o3]]] .
  show "tree_ok rank s'" using same_uses_tree [OF only_ratesD(1) [OF o3]] t2 by simp
  have "settled F s2 c" using refresh_settles [OF k1 s2] assms(3) by auto
  moreover have par: "parent (clk_of s2 c) = Some p" using same_usesD(1) [OF only_ratesD(1) [OF o2], of c] by simp
  moreover have "c \<notin> descendants s2 c" "p \<notin> descendants s2 c"
    using kids_rank [OF _ t2, of c c] kids_rank [OF _ t2, of p c] assms(3) by (auto simp: descendants_def)
  moreover have "p \<noteq> c" using assms(3) by auto
  ultimately show "settled F s' c" using settled_frame [OF k2 _ o3, of c p] by simp
  show "d \<in> descendants s' c \<Longrightarrow> settled F s' d"
    unfolding same_uses_descendants [OF only_ratesD(1) [OF o3]] by (rule st [rule_format])
qed

lemma clk_set_parent_fails:
  assumes "ok s" and "clk_set_parent F h hp s = Inr (ret, s')" and "ret \<noteq> 0"
  shows "ok s' \<and> same_uses s s'"
  using assms
  by (auto simp: clk_set_parent_def rbind_eq_Inr split: handle.splits option.splits if_splits
      dest!: set_parent_frame [OF assms(1)])

end

lemma refs_ok_reparent:
  assumes "refs_ok ext s" and "usecount (clk_of s c) = 0"
  shows "refs_ok ext (upd_clk c (parent_update (\<lambda>_. Some p)) s)"
proof -
  let ?t = "upd_clk c (parent_update (\<lambda>_. Some p)) s"
  have i: "in_use ?t = in_use s" by (auto simp: in_use_def)
  have "c \<notin> in_use s" using assms(2) by (simp add: in_use_def)
  then have "(\<Sum>d\<in>in_use s. links ?t d x) = (\<Sum>d\<in>in_use s. links s d x)" for x
    by (intro sum.cong) (auto simp: links_def)
  then show ?thesis using assms(1) by (auto simp: refs_ok_def i split: if_splits)
qed

section \<open>Sequences of calls\<close>

text \<open>
  What drivers do with the framework, one call after the other, within three limits: a clock has at
  most \<open>B\<close> outside users at a time (its counter has eight bits), a driver disables only what it has
  enabled, and a clock is given another parent only while it is not in use.  The code checks none of
  them.  The ghost \<open>ext\<close> counts the outside users, starting from \<open>ext0\<close> in \<open>s0\<close>.
\<close>

inductive usage :: "('c, 'f, 'h) clk_fns \<Rightarrow> int \<Rightarrow> ('c \<Rightarrow> int) \<Rightarrow> ('c, 'f, 'h) clksys
    \<Rightarrow> ('c \<Rightarrow> int) \<Rightarrow> ('c, 'f, 'h) clksys \<Rightarrow> bool"
  for F B ext0 s0 where
  usage_start: "usage F B ext0 s0 ext0 s0"
| usage_enable: "usage F B ext0 s0 ext s \<Longrightarrow> ext c < B \<Longrightarrow> clk_enable F (Clk c) s = Inr (r, s')
    \<Longrightarrow> usage F B ext0 s0 (if r = 0 then ext(c := ext c + 1) else ext) s'"
| usage_disable: "usage F B ext0 s0 ext s \<Longrightarrow> 0 < ext c \<Longrightarrow> clk_disable F (Clk c) s = Inr s'
    \<Longrightarrow> usage F B ext0 s0 (ext(c := ext c - 1)) s'"
| usage_set_rate: "usage F B ext0 s0 ext s \<Longrightarrow> clk_set_rate F h r s = Inr (ret, s')
    \<Longrightarrow> usage F B ext0 s0 ext s'"
| usage_set_parent: "usage F B ext0 s0 ext s \<Longrightarrow> clk_set_parent F (Clk c) (Clk p) s = Inr (ret, s')
    \<Longrightarrow> usecount (clk_of s c) = 0 \<Longrightarrow> usage F B ext0 s0 ext s'"

text \<open>A machine: gates and rates together.\<close>

locale clk_machine = clk_gates F hwok + clk_rates F ok view
  for F :: "('c, 'f, 'h) clk_fns" and hwok :: "'h \<Rightarrow> bool"
    and ok :: "('c, 'f, 'h) clksys \<Rightarrow> bool" and view :: "'h \<Rightarrow> 'v" +
  assumes ok_hw: "ok s \<Longrightarrow> hwok (hw s)"
    and ok_gates: "ok s \<Longrightarrow> same_shape s t \<Longrightarrow> hwok (hw t) \<Longrightarrow> ok t"

text \<open>
  A machine that keeps its tree: \<open>wf\<close> bounds the counters, survives a change of use counts and of
  rates, and a change of parent that succeeds leads to a clock of lower rank.
\<close>

locale clk_tree = clk_machine F hwok ok view
  for F :: "('c, 'f, 'h) clk_fns" and hwok :: "'h \<Rightarrow> bool"
    and ok :: "('c, 'f, 'h) clksys \<Rightarrow> bool" and view :: "'h \<Rightarrow> 'v" +
  fixes wf :: "('c, 'f, 'h) clksys \<Rightarrow> bool" and rank :: "'c \<Rightarrow> nat" and B :: int
  assumes wf_ok: "wf s \<Longrightarrow> ok s" and wf_tree: "wf s \<Longrightarrow> tree_ok rank s" and wf_room: "wf s \<Longrightarrow> room (\<lambda>_. B) s"
    and wf_shape: "wf s \<Longrightarrow> same_shape s s' \<Longrightarrow> hwok (hw s') \<Longrightarrow> wf s'"
    and wf_uses: "wf s \<Longrightarrow> same_uses s s' \<Longrightarrow> ok s' \<Longrightarrow> wf s'"
    and parent_rank: "wf s \<Longrightarrow> clk_set_parent F (Clk c) (Clk p) s = Inr (0, s') \<Longrightarrow> rank p < rank c"
    and wf_parent: "wf s \<Longrightarrow> clk_set_parent F (Clk c) (Clk p) s = Inr (0, s') \<Longrightarrow>
      wf (upd_clk c (parent_update (\<lambda>_. Some p)) s)"
begin

lemma usage_invariant:
  assumes "usage F B ext0 s0 ext s" and "wf s0"
    and "refs_ok ext0 s0" and "\<forall>x. 0 \<le> ext0 x \<and> ext0 x \<le> B"
  shows "wf s \<and> refs_ok ext s \<and> (\<forall>x. 0 \<le> ext x \<and> ext x \<le> B)"
  using assms(1)
proof induction
  case usage_start
  then show ?case using assms by simp
next
  case (usage_enable ext s c r s')
  then have w: "wf s" and inv: "refs_ok ext s" "\<And>x. 0 \<le> ext x" and b: "\<And>x. ext x \<le> B" by simp_all
  note t = wf_ok [OF w] wf_tree [OF w] wf_room [OF w]
  have "room (\<lambda>x. ext x + one (Some c) x) s"
    using b usage_enable(2) by (intro room_mono [OF t(3)]) auto
  note e = clk_enable_refs [OF ok_hw [OF t(1)] t(2) inv this usage_enable(3)]
  have "0 \<le> (if r = 0 then ext(c := ext c + 1) else ext) x
      \<and> (if r = 0 then ext(c := ext c + 1) else ext) x \<le> B" for x
    using inv(2) [of x] b [of x] usage_enable(2) by auto
  then show ?case using e(1) wf_shape [OF w keepsD(4,2) [OF e(2)]] by blast
next
  case (usage_disable ext s c s')
  then have w: "wf s" and inv: "refs_ok ext s" "\<And>x. 0 \<le> ext x" and b: "\<And>x. ext x \<le> B" by simp_all
  note t = wf_ok [OF w] wf_tree [OF w] wf_room [OF w]
  note d = clk_disable_refs [OF ok_hw [OF t(1)] t(2) inv usage_disable(2,3)]
  have "0 \<le> (ext(c := ext c - 1)) x \<and> (ext(c := ext c - 1)) x \<le> B" for x
    using inv(2) [of x] b [of x] usage_disable(2) by auto
  then show ?case using d(1) wf_shape [OF w keepsD(4,2) [OF d(2)]] by blast
next
  case (usage_set_rate ext s h r ret s')
  then have w: "wf s" by simp
  note t = wf_ok [OF w] wf_tree [OF w] wf_room [OF w]
  note f = clk_set_rate_frame [OF t(1,2) usage_set_rate(2)]
  show ?case using usage_set_rate.IH wf_uses [OF w f(2,1)] same_uses_refs [OF f(2)] by simp
next
  case (usage_set_parent ext s c p ret s')
  then have w: "wf s" by simp
  note t = wf_ok [OF w] wf_tree [OF w] wf_room [OF w]
  show ?case
  proof (cases "ret = 0")
    case True
    then have run: "clk_set_parent F (Clk c) (Clk p) s = Inr (0, s')" using usage_set_parent(2) by simp
    note e = clk_set_parent_effect [OF t(1,2) parent_rank [OF w run] run]
    have "refs_ok ext s'"
      using refs_ok_reparent [of ext s c p] usage_set_parent.IH usage_set_parent(3) same_uses_refs [OF e(2)] by simp
    then show ?thesis using wf_uses [OF wf_parent [OF w run] e(2,1)] usage_set_parent.IH by simp
  next
    case False
    then have f: "ok s'" "same_uses s s'" using clk_set_parent_fails [OF t(1) usage_set_parent(2)] by simp_all
    show ?thesis using usage_set_parent.IH wf_uses [OF w f(2,1)] same_uses_refs [OF f(2)] by simp
  qed
qed

end

end
