(* ===== verification/Mx27_Clk_Tables.thy ===== *)
theory Mx27_Clk_Tables
  imports Crm_Regs Clock_Rates
begin

text \<open>
  The clocks of the i.MX27, from \<^verbatim>\<open>arch/arm/mach-mx27/clock.c\<close>: one constructor of \<open>clkid\<close> for each
  \<^verbatim>\<open>struct clk\<close> object or array, one constructor of \<open>clkfn\<close> for each callback, and the static
  initialisers, one definition for each object.
\<close>

section \<open>Pointers\<close>

text \<open>\<open>uart1_clk i\<close> is \<^verbatim>\<open>&uart1_clk[i]\<close>; the arrays are used only below their length.\<close>

datatype (plugins only: code size) clkid =
    ckih_clk
  | ckil_clk
  | mpll_clk
  | mpll_main_clk nat
  | spll_clk
  | cpu_clk
  | ahb_clk
  | ipg_clk
  | per_clk nat
  | uart1_clk nat
  | uart2_clk nat
  | uart3_clk nat
  | uart4_clk nat
  | uart5_clk nat
  | uart6_clk nat
  | gpt1_clk nat
  | gpt2_clk nat
  | gpt3_clk nat
  | gpt4_clk nat
  | gpt5_clk nat
  | gpt6_clk nat
  | pwm_clk nat
  | sdhc1_clk nat
  | sdhc2_clk nat
  | sdhc3_clk nat
  | cspi1_clk nat
  | cspi2_clk nat
  | cspi3_clk nat
  | lcdc_clk nat
  | csi_clk nat
  | usb_clk nat
  | ssi1_clk nat
  | ssi2_clk nat
  | nfc_clk
  | vpu_clk
  | dma_clk
  | rtic_clk
  | brom_clk
  | emma_clk
  | slcdc_clk
  | fec_clk
  | emi_clk
  | sahara2_clk
  | ata_clk
  | mstick1_clk
  | wdog_clk
  | gpio_clk
  | i2c_clk nat
  | iim_clk
  | kpp_clk
  | owire_clk
  | rtc_clk
  | scc_clk
  | clko_clk

text \<open>The function \<^verbatim>\<open>_clk_enable\<close> as a pointer is \<open>clk_enable_fn\<close>, and so on.\<close>

datatype (plugins only: code size) clkfn =
    clk_enable_fn | clk_disable_fn | clk_spll_enable_fn | clk_spll_disable_fn
  | clk_dma_enable_fn | clk_dma_disable_fn | clk_rtic_enable_fn | clk_rtic_disable_fn
  | clk_emma_enable_fn | clk_emma_disable_fn | clk_slcdc_enable_fn | clk_slcdc_disable_fn
  | clk_fec_enable_fn | clk_fec_disable_fn | clk_vpu_enable_fn | clk_vpu_disable_fn
  | clk_sahara2_enable_fn | clk_sahara2_disable_fn | clk_mstick1_enable_fn
  | clk_mstick1_disable_fn | clk_pll_recalc_fn | clk_mpll_main_recalc_fn
  | clk_cpu_set_parent_fn | clk_cpu_round_rate_fn | clk_cpu_set_rate_fn | clk_cpu_recalc_fn
  | clk_ahb_recalc_fn | clk_perclkx_recalc_fn | clk_perclkx_round_rate_fn
  | clk_perclkx_set_rate_fn | clk_vpu_round_rate_fn | clk_vpu_set_rate_fn | clk_usb_recalc_fn
  | clk_ssi1_recalc_fn | clk_ssi2_recalc_fn | clk_nfc_recalc_fn | clk_vpu_recalc_fn
  | clk_ipg_recalc_fn | clk_parent_round_rate_fn | clk_parent_set_rate_fn
  | clk_clko_round_rate_fn | clk_clko_set_rate_fn | clk_clko_recalc_fn
  | clk_clko_set_parent_fn | clk_clko_enable_fn | clk_clko_disable_fn

text \<open>The hardware: the bus, and the chip revision \<^verbatim>\<open>sysrev\<close> with its update flag.\<close>

record mx27 =
  io :: bus
  sysrev :: u32
  sysrev_updated :: bool

type_synonym mx27_clk = "(clkid, clkfn) clk"
type_synonym mx27_sys = "(clkid, clkfn, mx27) clksys"

definition CKIH_CLK_FREQ :: u32 where [simp]: "CKIH_CLK_FREQ = 26000000"
definition CKIH_CLK_FREQ_27MHZ :: u32 where [simp]: "CKIH_CLK_FREQ_27MHZ = 27000000"
definition CKIL_CLK_FREQ :: u32 where [simp]: "CKIL_CLK_FREQ = 32768"

section \<open>Static initialisers\<close>

named_theorems clk_tables \<open>the initial values of the clock structures\<close>

definition null_clk :: mx27_clk where
  "null_clk = \<lparr>owner = None, name = [], clk_id = 0, parent = None, secondary = None, rate = 0,
     usecount = 0, enable_shift = 0, enable_reg = 0, recalc = None, set_rate = None,
     round_rate = None, enable = None, disable = None, set_parent = None\<rparr>"

definition elem :: "mx27_clk list \<Rightarrow> nat \<Rightarrow> mx27_clk" where
  "elem xs i = (if i < length xs then xs ! i else null_clk)"

definition ckih_clk_init :: "mx27_clk" where [clk_tables]:
  "ckih_clk_init =
   null_clk\<lparr>name := ''ckih'', rate := 0\<rparr>"

definition ckil_clk_init :: "mx27_clk" where [clk_tables]:
  "ckil_clk_init =
   null_clk\<lparr>name := ''ckil'', rate := CKIL_CLK_FREQ\<rparr>"

definition mpll_clk_init :: "mx27_clk" where [clk_tables]:
  "mpll_clk_init =
   null_clk\<lparr>name := ''mpll'', parent := Some ckih_clk,
     recalc := Some clk_pll_recalc_fn\<rparr>"

definition mpll_main_clk_init :: "mx27_clk list" where [clk_tables]:
  "mpll_main_clk_init =
   [null_clk\<lparr>name := ''mpll_main'', clk_id := 0, parent := Some mpll_clk,
     recalc := Some clk_mpll_main_recalc_fn\<rparr>,
   null_clk\<lparr>name := ''mpll_main'', clk_id := 1, parent := Some mpll_clk,
     recalc := Some clk_mpll_main_recalc_fn\<rparr>]"

definition spll_clk_init :: "mx27_clk" where [clk_tables]:
  "spll_clk_init =
   null_clk\<lparr>name := ''spll'', parent := Some ckih_clk, recalc := Some clk_pll_recalc_fn,
     enable := Some clk_spll_enable_fn, disable := Some clk_spll_disable_fn\<rparr>"

definition cpu_clk_init :: "mx27_clk" where [clk_tables]:
  "cpu_clk_init =
   null_clk\<lparr>name := ''cpu_clk'', parent := Some (mpll_main_clk 1),
     set_parent := Some clk_cpu_set_parent_fn, round_rate := Some clk_cpu_round_rate_fn,
     set_rate := Some clk_cpu_set_rate_fn, recalc := Some clk_cpu_recalc_fn\<rparr>"

definition ahb_clk_init :: "mx27_clk" where [clk_tables]:
  "ahb_clk_init =
   null_clk\<lparr>name := ''ahb_clk'', parent := Some (mpll_main_clk 1),
     recalc := Some clk_ahb_recalc_fn\<rparr>"

definition ipg_clk_init :: "mx27_clk" where [clk_tables]:
  "ipg_clk_init =
   null_clk\<lparr>name := ''ipg_clk'', parent := Some ahb_clk,
     recalc := Some clk_ipg_recalc_fn\<rparr>"

definition per_clk_init :: "mx27_clk list" where [clk_tables]:
  "per_clk_init =
   [null_clk\<lparr>name := ''per_clk'', clk_id := 0, parent := Some (mpll_main_clk 1),
     recalc := Some clk_perclkx_recalc_fn, enable := Some clk_enable_fn, enable_reg := CCM_PCCR1,
     enable_shift := of_nat CCM_PCCR1_PERCLK1_OFFSET, disable := Some clk_disable_fn\<rparr>,
   null_clk\<lparr>name := ''per_clk'', clk_id := 1, parent := Some (mpll_main_clk 1),
     recalc := Some clk_perclkx_recalc_fn, enable := Some clk_enable_fn, enable_reg := CCM_PCCR1,
     enable_shift := of_nat CCM_PCCR1_PERCLK2_OFFSET, disable := Some clk_disable_fn\<rparr>,
   null_clk\<lparr>name := ''per_clk'', clk_id := 2, parent := Some (mpll_main_clk 1),
     round_rate := Some clk_perclkx_round_rate_fn, set_rate := Some clk_perclkx_set_rate_fn,
     recalc := Some clk_perclkx_recalc_fn, enable := Some clk_enable_fn, enable_reg := CCM_PCCR1,
     enable_shift := of_nat CCM_PCCR1_PERCLK3_OFFSET, disable := Some clk_disable_fn\<rparr>,
   null_clk\<lparr>name := ''per_clk'', clk_id := 3, parent := Some (mpll_main_clk 1),
     round_rate := Some clk_perclkx_round_rate_fn, set_rate := Some clk_perclkx_set_rate_fn,
     recalc := Some clk_perclkx_recalc_fn, enable := Some clk_enable_fn, enable_reg := CCM_PCCR1,
     enable_shift := of_nat CCM_PCCR1_PERCLK4_OFFSET, disable := Some clk_disable_fn\<rparr>]"

definition uart1_clk_init :: "mx27_clk list" where [clk_tables]:
  "uart1_clk_init =
   [null_clk\<lparr>name := ''uart_clk'', clk_id := 0, parent := Some (per_clk 0),
     secondary := Some (uart1_clk 1)\<rparr>,
   null_clk\<lparr>name := ''uart_ipg_clk'', clk_id := 0, parent := Some ipg_clk,
     enable := Some clk_enable_fn, enable_reg := CCM_PCCR1,
     enable_shift := of_nat CCM_PCCR1_UART1_OFFSET, disable := Some clk_disable_fn\<rparr>]"

definition uart2_clk_init :: "mx27_clk list" where [clk_tables]:
  "uart2_clk_init =
   [null_clk\<lparr>name := ''uart_clk'', clk_id := 1, parent := Some (per_clk 0),
     secondary := Some (uart2_clk 1)\<rparr>,
   null_clk\<lparr>name := ''uart_ipg_clk'', clk_id := 1, parent := Some ipg_clk,
     enable := Some clk_enable_fn, enable_reg := CCM_PCCR1,
     enable_shift := of_nat CCM_PCCR1_UART2_OFFSET, disable := Some clk_disable_fn\<rparr>]"

definition uart3_clk_init :: "mx27_clk list" where [clk_tables]:
  "uart3_clk_init =
   [null_clk\<lparr>name := ''uart_clk'', clk_id := 2, parent := Some (per_clk 0),
     secondary := Some (uart3_clk 1)\<rparr>,
   null_clk\<lparr>name := ''uart_ipg_clk'', clk_id := 2, parent := Some ipg_clk,
     enable := Some clk_enable_fn, enable_reg := CCM_PCCR1,
     enable_shift := of_nat CCM_PCCR1_UART3_OFFSET, disable := Some clk_disable_fn\<rparr>]"

definition uart4_clk_init :: "mx27_clk list" where [clk_tables]:
  "uart4_clk_init =
   [null_clk\<lparr>name := ''uart_clk'', clk_id := 3, parent := Some (per_clk 0),
     secondary := Some (uart4_clk 1)\<rparr>,
   null_clk\<lparr>name := ''uart_ipg_clk'', clk_id := 3, parent := Some ipg_clk,
     enable := Some clk_enable_fn, enable_reg := CCM_PCCR1,
     enable_shift := of_nat CCM_PCCR1_UART4_OFFSET, disable := Some clk_disable_fn\<rparr>]"

definition uart5_clk_init :: "mx27_clk list" where [clk_tables]:
  "uart5_clk_init =
   [null_clk\<lparr>name := ''uart_clk'', clk_id := 4, parent := Some (per_clk 0),
     secondary := Some (uart5_clk 1)\<rparr>,
   null_clk\<lparr>name := ''uart_ipg_clk'', clk_id := 4, parent := Some ipg_clk,
     enable := Some clk_enable_fn, enable_reg := CCM_PCCR1,
     enable_shift := of_nat CCM_PCCR1_UART5_OFFSET, disable := Some clk_disable_fn\<rparr>]"

definition uart6_clk_init :: "mx27_clk list" where [clk_tables]:
  "uart6_clk_init =
   [null_clk\<lparr>name := ''uart_clk'', clk_id := 5, parent := Some (per_clk 0),
     secondary := Some (uart6_clk 1)\<rparr>,
   null_clk\<lparr>name := ''uart_ipg_clk'', clk_id := 5, parent := Some ipg_clk,
     enable := Some clk_enable_fn, enable_reg := CCM_PCCR1,
     enable_shift := of_nat CCM_PCCR1_UART6_OFFSET, disable := Some clk_disable_fn\<rparr>]"

definition gpt1_clk_init :: "mx27_clk list" where [clk_tables]:
  "gpt1_clk_init =
   [null_clk\<lparr>name := ''gpt_clk'', clk_id := 0, parent := Some (per_clk 0),
     secondary := Some (gpt1_clk 1)\<rparr>,
   null_clk\<lparr>name := ''gpt_ipg_clk'', clk_id := 0, parent := Some ipg_clk,
     enable := Some clk_enable_fn, enable_reg := CCM_PCCR0,
     enable_shift := of_nat CCM_PCCR0_GPT1_OFFSET, disable := Some clk_disable_fn\<rparr>]"

definition gpt2_clk_init :: "mx27_clk list" where [clk_tables]:
  "gpt2_clk_init =
   [null_clk\<lparr>name := ''gpt_clk'', clk_id := 1, parent := Some (per_clk 0),
     secondary := Some (gpt2_clk 1)\<rparr>,
   null_clk\<lparr>name := ''gpt_ipg_clk'', clk_id := 1, parent := Some ipg_clk,
     enable := Some clk_enable_fn, enable_reg := CCM_PCCR0,
     enable_shift := of_nat CCM_PCCR0_GPT2_OFFSET, disable := Some clk_disable_fn\<rparr>]"

definition gpt3_clk_init :: "mx27_clk list" where [clk_tables]:
  "gpt3_clk_init =
   [null_clk\<lparr>name := ''gpt_clk'', clk_id := 2, parent := Some (per_clk 0),
     secondary := Some (gpt3_clk 1)\<rparr>,
   null_clk\<lparr>name := ''gpt_ipg_clk'', clk_id := 2, parent := Some ipg_clk,
     enable := Some clk_enable_fn, enable_reg := CCM_PCCR0,
     enable_shift := of_nat CCM_PCCR0_GPT3_OFFSET, disable := Some clk_disable_fn\<rparr>]"

definition gpt4_clk_init :: "mx27_clk list" where [clk_tables]:
  "gpt4_clk_init =
   [null_clk\<lparr>name := ''gpt_clk'', clk_id := 3, parent := Some (per_clk 0),
     secondary := Some (gpt4_clk 1)\<rparr>,
   null_clk\<lparr>name := ''gpt_ipg_clk'', clk_id := 3, parent := Some ipg_clk,
     enable := Some clk_enable_fn, enable_reg := CCM_PCCR0,
     enable_shift := of_nat CCM_PCCR0_GPT4_OFFSET, disable := Some clk_disable_fn\<rparr>]"

definition gpt5_clk_init :: "mx27_clk list" where [clk_tables]:
  "gpt5_clk_init =
   [null_clk\<lparr>name := ''gpt_clk'', clk_id := 4, parent := Some (per_clk 0),
     secondary := Some (gpt5_clk 1)\<rparr>,
   null_clk\<lparr>name := ''gpt_ipg_clk'', clk_id := 4, parent := Some ipg_clk,
     enable := Some clk_enable_fn, enable_reg := CCM_PCCR0,
     enable_shift := of_nat CCM_PCCR0_GPT5_OFFSET, disable := Some clk_disable_fn\<rparr>]"

definition gpt6_clk_init :: "mx27_clk list" where [clk_tables]:
  "gpt6_clk_init =
   [null_clk\<lparr>name := ''gpt_clk'', clk_id := 5, parent := Some (per_clk 0),
     secondary := Some (gpt6_clk 1)\<rparr>,
   null_clk\<lparr>name := ''gpt_ipg_clk'', clk_id := 5, parent := Some ipg_clk,
     enable := Some clk_enable_fn, enable_reg := CCM_PCCR0,
     enable_shift := of_nat CCM_PCCR0_GPT6_OFFSET, disable := Some clk_disable_fn\<rparr>]"

definition pwm_clk_init :: "mx27_clk list" where [clk_tables]:
  "pwm_clk_init =
   [null_clk\<lparr>name := ''pwm_clk'', parent := Some (per_clk 0),
     secondary := Some (pwm_clk 1)\<rparr>,
   null_clk\<lparr>name := ''pwm_clk'', parent := Some ipg_clk, enable := Some clk_enable_fn,
     enable_reg := CCM_PCCR0, enable_shift := of_nat CCM_PCCR0_PWM_OFFSET,
     disable := Some clk_disable_fn\<rparr>]"

definition sdhc1_clk_init :: "mx27_clk list" where [clk_tables]:
  "sdhc1_clk_init =
   [null_clk\<lparr>name := ''sdhc_clk'', clk_id := 0, parent := Some (per_clk 1),
     secondary := Some (sdhc1_clk 1)\<rparr>,
   null_clk\<lparr>name := ''sdhc_ipg_clk'', clk_id := 0, parent := Some ipg_clk,
     enable := Some clk_enable_fn, enable_reg := CCM_PCCR0,
     enable_shift := of_nat CCM_PCCR0_SDHC1_OFFSET, disable := Some clk_disable_fn\<rparr>]"

definition sdhc2_clk_init :: "mx27_clk list" where [clk_tables]:
  "sdhc2_clk_init =
   [null_clk\<lparr>name := ''sdhc_clk'', clk_id := 1, parent := Some (per_clk 1),
     secondary := Some (sdhc2_clk 1)\<rparr>,
   null_clk\<lparr>name := ''sdhc_ipg_clk'', clk_id := 1, parent := Some ipg_clk,
     enable := Some clk_enable_fn, enable_reg := CCM_PCCR0,
     enable_shift := of_nat CCM_PCCR0_SDHC2_OFFSET, disable := Some clk_disable_fn\<rparr>]"

definition sdhc3_clk_init :: "mx27_clk list" where [clk_tables]:
  "sdhc3_clk_init =
   [null_clk\<lparr>name := ''sdhc_clk'', clk_id := 2, parent := Some (per_clk 1),
     secondary := Some (sdhc3_clk 1)\<rparr>,
   null_clk\<lparr>name := ''sdhc_ipg_clk'', clk_id := 2, parent := Some ipg_clk,
     enable := Some clk_enable_fn, enable_reg := CCM_PCCR0,
     enable_shift := of_nat CCM_PCCR0_SDHC3_OFFSET, disable := Some clk_disable_fn\<rparr>]"

definition cspi1_clk_init :: "mx27_clk list" where [clk_tables]:
  "cspi1_clk_init =
   [null_clk\<lparr>name := ''cspi_clk'', clk_id := 0, parent := Some (per_clk 1),
     secondary := Some (cspi1_clk 1)\<rparr>,
   null_clk\<lparr>name := ''cspi_ipg_clk'', clk_id := 0, parent := Some ipg_clk,
     enable := Some clk_enable_fn, enable_reg := CCM_PCCR0,
     enable_shift := of_nat CCM_PCCR0_CSPI1_OFFSET, disable := Some clk_disable_fn\<rparr>]"

definition cspi2_clk_init :: "mx27_clk list" where [clk_tables]:
  "cspi2_clk_init =
   [null_clk\<lparr>name := ''cspi_clk'', clk_id := 1, parent := Some (per_clk 1),
     secondary := Some (cspi2_clk 1)\<rparr>,
   null_clk\<lparr>name := ''cspi_ipg_clk'', clk_id := 1, parent := Some ipg_clk,
     enable := Some clk_enable_fn, enable_reg := CCM_PCCR0,
     enable_shift := of_nat CCM_PCCR0_CSPI2_OFFSET, disable := Some clk_disable_fn\<rparr>]"

definition cspi3_clk_init :: "mx27_clk list" where [clk_tables]:
  "cspi3_clk_init =
   [null_clk\<lparr>name := ''cspi_clk'', clk_id := 2, parent := Some (per_clk 1),
     secondary := Some (cspi3_clk 1)\<rparr>,
   null_clk\<lparr>name := ''cspi_ipg_clk'', clk_id := 2, parent := Some ipg_clk,
     enable := Some clk_enable_fn, enable_reg := CCM_PCCR0,
     enable_shift := of_nat CCM_PCCR0_CSPI3_OFFSET, disable := Some clk_disable_fn\<rparr>]"

definition lcdc_clk_init :: "mx27_clk list" where [clk_tables]:
  "lcdc_clk_init =
   [null_clk\<lparr>name := ''lcdc_clk'', parent := Some (per_clk 2),
     secondary := Some (lcdc_clk 1), round_rate := Some clk_parent_round_rate_fn,
     set_rate := Some clk_parent_set_rate_fn\<rparr>,
   null_clk\<lparr>name := ''lcdc_ipg_clk'', parent := Some ipg_clk,
     secondary := Some (lcdc_clk 2), enable := Some clk_enable_fn, enable_reg := CCM_PCCR0,
     enable_shift := of_nat CCM_PCCR0_LCDC_OFFSET, disable := Some clk_disable_fn\<rparr>,
   null_clk\<lparr>name := ''lcdc_ahb_clk'', parent := Some ahb_clk,
     enable := Some clk_enable_fn, enable_reg := CCM_PCCR1,
     enable_shift := of_nat CCM_PCCR1_HCLK_LCDC_OFFSET, disable := Some clk_disable_fn\<rparr>]"

definition csi_clk_init :: "mx27_clk list" where [clk_tables]:
  "csi_clk_init =
   [null_clk\<lparr>name := ''csi_perclk'', parent := Some (per_clk 3),
     secondary := Some (csi_clk 1), round_rate := Some clk_parent_round_rate_fn,
     set_rate := Some clk_parent_set_rate_fn\<rparr>,
   null_clk\<lparr>name := ''csi_ahb_clk'', parent := Some ahb_clk, enable := Some clk_enable_fn,
     enable_reg := CCM_PCCR1, enable_shift := of_nat CCM_PCCR1_HCLK_CSI_OFFSET,
     disable := Some clk_disable_fn\<rparr>]"

definition usb_clk_init :: "mx27_clk list" where [clk_tables]:
  "usb_clk_init =
   [null_clk\<lparr>name := ''usb_clk'', parent := Some spll_clk,
     recalc := Some clk_usb_recalc_fn, enable := Some clk_enable_fn, enable_reg := CCM_PCCR1,
     enable_shift := of_nat CCM_PCCR1_USBOTG_OFFSET, disable := Some clk_disable_fn\<rparr>,
   null_clk\<lparr>name := ''usb_ahb_clk'', parent := Some ahb_clk, enable := Some clk_enable_fn,
     enable_reg := CCM_PCCR1, enable_shift := of_nat CCM_PCCR1_HCLK_USBOTG_OFFSET,
     disable := Some clk_disable_fn\<rparr>]"

definition ssi1_clk_init :: "mx27_clk list" where [clk_tables]:
  "ssi1_clk_init =
   [null_clk\<lparr>name := ''ssi_clk'', clk_id := 0, parent := Some (mpll_main_clk 1),
     secondary := Some (ssi1_clk 1), recalc := Some clk_ssi1_recalc_fn,
     enable := Some clk_enable_fn, enable_reg := CCM_PCCR1,
     enable_shift := of_nat CCM_PCCR1_SSI1_BAUD_OFFSET, disable := Some clk_disable_fn\<rparr>,
   null_clk\<lparr>name := ''ssi_ipg_clk'', clk_id := 0, parent := Some ipg_clk,
     enable := Some clk_enable_fn, enable_reg := CCM_PCCR0,
     enable_shift := of_nat CCM_PCCR0_SSI1_IPG_OFFSET, disable := Some clk_disable_fn\<rparr>]"

definition ssi2_clk_init :: "mx27_clk list" where [clk_tables]:
  "ssi2_clk_init =
   [null_clk\<lparr>name := ''ssi_clk'', clk_id := 1, parent := Some (mpll_main_clk 1),
     secondary := Some (ssi2_clk 1), recalc := Some clk_ssi2_recalc_fn,
     enable := Some clk_enable_fn, enable_reg := CCM_PCCR1,
     enable_shift := of_nat CCM_PCCR1_SSI2_BAUD_OFFSET, disable := Some clk_disable_fn\<rparr>,
   null_clk\<lparr>name := ''ssi_ipg_clk'', clk_id := 1, parent := Some ipg_clk,
     enable := Some clk_enable_fn, enable_reg := CCM_PCCR0,
     enable_shift := of_nat CCM_PCCR0_SSI2_IPG_OFFSET, disable := Some clk_disable_fn\<rparr>]"

definition nfc_clk_init :: "mx27_clk" where [clk_tables]:
  "nfc_clk_init =
   null_clk\<lparr>name := ''nfc_clk'', parent := Some cpu_clk, recalc := Some clk_nfc_recalc_fn,
     enable := Some clk_enable_fn, enable_reg := CCM_PCCR1,
     enable_shift := of_nat CCM_PCCR1_NFC_BAUD_OFFSET, disable := Some clk_disable_fn\<rparr>"

definition vpu_clk_init :: "mx27_clk" where [clk_tables]:
  "vpu_clk_init =
   null_clk\<lparr>name := ''vpu_clk'', parent := Some (mpll_main_clk 1),
     round_rate := Some clk_vpu_round_rate_fn, set_rate := Some clk_vpu_set_rate_fn,
     recalc := Some clk_vpu_recalc_fn, enable := Some clk_vpu_enable_fn,
     disable := Some clk_vpu_disable_fn\<rparr>"

definition dma_clk_init :: "mx27_clk" where [clk_tables]:
  "dma_clk_init =
   null_clk\<lparr>name := ''dma_clk'', parent := Some ahb_clk, enable := Some clk_dma_enable_fn,
     disable := Some clk_dma_disable_fn\<rparr>"

definition rtic_clk_init :: "mx27_clk" where [clk_tables]:
  "rtic_clk_init =
   null_clk\<lparr>name := ''rtic_clk'', parent := Some ahb_clk,
     enable := Some clk_rtic_enable_fn, disable := Some clk_rtic_disable_fn\<rparr>"

definition brom_clk_init :: "mx27_clk" where [clk_tables]:
  "brom_clk_init =
   null_clk\<lparr>name := ''brom_clk'', parent := Some ahb_clk, enable := Some clk_enable_fn,
     enable_reg := CCM_PCCR1, enable_shift := of_nat CCM_PCCR1_HCLK_BROM_OFFSET,
     disable := Some clk_disable_fn\<rparr>"

definition emma_clk_init :: "mx27_clk" where [clk_tables]:
  "emma_clk_init =
   null_clk\<lparr>name := ''emma_clk'', parent := Some ahb_clk,
     enable := Some clk_emma_enable_fn, disable := Some clk_emma_disable_fn\<rparr>"

definition slcdc_clk_init :: "mx27_clk" where [clk_tables]:
  "slcdc_clk_init =
   null_clk\<lparr>name := ''slcdc_clk'', parent := Some ahb_clk,
     enable := Some clk_slcdc_enable_fn, disable := Some clk_slcdc_disable_fn\<rparr>"

definition fec_clk_init :: "mx27_clk" where [clk_tables]:
  "fec_clk_init =
   null_clk\<lparr>name := ''fec_clk'', parent := Some ahb_clk, enable := Some clk_fec_enable_fn,
     disable := Some clk_fec_disable_fn\<rparr>"

definition emi_clk_init :: "mx27_clk" where [clk_tables]:
  "emi_clk_init =
   null_clk\<lparr>name := ''emi_clk'', parent := Some ahb_clk, enable := Some clk_enable_fn,
     enable_reg := CCM_PCCR1, enable_shift := of_nat CCM_PCCR1_HCLK_EMI_OFFSET,
     disable := Some clk_disable_fn\<rparr>"

definition sahara2_clk_init :: "mx27_clk" where [clk_tables]:
  "sahara2_clk_init =
   null_clk\<lparr>name := ''sahara_clk'', parent := Some ahb_clk,
     enable := Some clk_sahara2_enable_fn, disable := Some clk_sahara2_disable_fn\<rparr>"

definition ata_clk_init :: "mx27_clk" where [clk_tables]:
  "ata_clk_init =
   null_clk\<lparr>name := ''ata_clk'', parent := Some ahb_clk, enable := Some clk_enable_fn,
     enable_reg := CCM_PCCR1, enable_shift := of_nat CCM_PCCR1_HCLK_ATA_OFFSET,
     disable := Some clk_disable_fn\<rparr>"

definition mstick1_clk_init :: "mx27_clk" where [clk_tables]:
  "mstick1_clk_init =
   null_clk\<lparr>name := ''mstick1_clk'', parent := Some ipg_clk,
     enable := Some clk_mstick1_enable_fn, disable := Some clk_mstick1_disable_fn\<rparr>"

definition wdog_clk_init :: "mx27_clk" where [clk_tables]:
  "wdog_clk_init =
   null_clk\<lparr>name := ''wdog_clk'', parent := Some ipg_clk, enable := Some clk_enable_fn,
     enable_reg := CCM_PCCR1, enable_shift := of_nat CCM_PCCR1_WDT_OFFSET,
     disable := Some clk_disable_fn\<rparr>"

definition gpio_clk_init :: "mx27_clk" where [clk_tables]:
  "gpio_clk_init =
   null_clk\<lparr>name := ''gpio_clk'', parent := Some ipg_clk, enable := Some clk_enable_fn,
     enable_reg := CCM_PCCR1, enable_shift := of_nat CCM_PCCR0_GPIO_OFFSET,
     disable := Some clk_disable_fn\<rparr>"

definition i2c_clk_init :: "mx27_clk list" where [clk_tables]:
  "i2c_clk_init =
   [null_clk\<lparr>name := ''i2c_clk'', clk_id := 0, parent := Some ipg_clk,
     enable := Some clk_enable_fn, enable_reg := CCM_PCCR0,
     enable_shift := of_nat CCM_PCCR0_I2C1_OFFSET, disable := Some clk_disable_fn\<rparr>,
   null_clk\<lparr>name := ''i2c_clk'', clk_id := 1, parent := Some ipg_clk,
     enable := Some clk_enable_fn, enable_reg := CCM_PCCR0,
     enable_shift := of_nat CCM_PCCR0_I2C2_OFFSET, disable := Some clk_disable_fn\<rparr>]"

definition iim_clk_init :: "mx27_clk" where [clk_tables]:
  "iim_clk_init =
   null_clk\<lparr>name := ''iim_clk'', parent := Some ipg_clk, enable := Some clk_enable_fn,
     enable_reg := CCM_PCCR0, enable_shift := of_nat CCM_PCCR0_IIM_OFFSET,
     disable := Some clk_disable_fn\<rparr>"

definition kpp_clk_init :: "mx27_clk" where [clk_tables]:
  "kpp_clk_init =
   null_clk\<lparr>name := ''kpp_clk'', parent := Some ipg_clk, enable := Some clk_enable_fn,
     enable_reg := CCM_PCCR0, enable_shift := of_nat CCM_PCCR0_KPP_OFFSET,
     disable := Some clk_disable_fn\<rparr>"

definition owire_clk_init :: "mx27_clk" where [clk_tables]:
  "owire_clk_init =
   null_clk\<lparr>name := ''owire_clk'', parent := Some ipg_clk, enable := Some clk_enable_fn,
     enable_reg := CCM_PCCR0, enable_shift := of_nat CCM_PCCR0_OWIRE_OFFSET,
     disable := Some clk_disable_fn\<rparr>"

definition rtc_clk_init :: "mx27_clk" where [clk_tables]:
  "rtc_clk_init =
   null_clk\<lparr>name := ''rtc_clk'', parent := Some ipg_clk, enable := Some clk_enable_fn,
     enable_reg := CCM_PCCR0, enable_shift := of_nat CCM_PCCR0_RTC_OFFSET,
     disable := Some clk_disable_fn\<rparr>"

definition scc_clk_init :: "mx27_clk" where [clk_tables]:
  "scc_clk_init =
   null_clk\<lparr>name := ''scc_clk'', parent := Some ipg_clk, enable := Some clk_enable_fn,
     enable_reg := CCM_PCCR0, enable_shift := of_nat CCM_PCCR0_SCC_OFFSET,
     disable := Some clk_disable_fn\<rparr>"

definition clko_clk_init :: "mx27_clk" where [clk_tables]:
  "clko_clk_init =
   null_clk\<lparr>name := ''clko_clk'', recalc := Some clk_clko_recalc_fn,
     set_rate := Some clk_clko_set_rate_fn, round_rate := Some clk_clko_round_rate_fn,
     set_parent := Some clk_clko_set_parent_fn, enable := Some clk_clko_enable_fn,
     disable := Some clk_clko_disable_fn\<rparr>"

section \<open>The table of all clocks\<close>

definition mx27_clk_init :: "clkid \<Rightarrow> mx27_clk" where
  "mx27_clk_init c =
     (case c of
        ckih_clk \<Rightarrow> ckih_clk_init
      | ckil_clk \<Rightarrow> ckil_clk_init
      | mpll_clk \<Rightarrow> mpll_clk_init
      | mpll_main_clk i \<Rightarrow> elem mpll_main_clk_init i
      | spll_clk \<Rightarrow> spll_clk_init
      | cpu_clk \<Rightarrow> cpu_clk_init
      | ahb_clk \<Rightarrow> ahb_clk_init
      | ipg_clk \<Rightarrow> ipg_clk_init
      | per_clk i \<Rightarrow> elem per_clk_init i
      | uart1_clk i \<Rightarrow> elem uart1_clk_init i
      | uart2_clk i \<Rightarrow> elem uart2_clk_init i
      | uart3_clk i \<Rightarrow> elem uart3_clk_init i
      | uart4_clk i \<Rightarrow> elem uart4_clk_init i
      | uart5_clk i \<Rightarrow> elem uart5_clk_init i
      | uart6_clk i \<Rightarrow> elem uart6_clk_init i
      | gpt1_clk i \<Rightarrow> elem gpt1_clk_init i
      | gpt2_clk i \<Rightarrow> elem gpt2_clk_init i
      | gpt3_clk i \<Rightarrow> elem gpt3_clk_init i
      | gpt4_clk i \<Rightarrow> elem gpt4_clk_init i
      | gpt5_clk i \<Rightarrow> elem gpt5_clk_init i
      | gpt6_clk i \<Rightarrow> elem gpt6_clk_init i
      | pwm_clk i \<Rightarrow> elem pwm_clk_init i
      | sdhc1_clk i \<Rightarrow> elem sdhc1_clk_init i
      | sdhc2_clk i \<Rightarrow> elem sdhc2_clk_init i
      | sdhc3_clk i \<Rightarrow> elem sdhc3_clk_init i
      | cspi1_clk i \<Rightarrow> elem cspi1_clk_init i
      | cspi2_clk i \<Rightarrow> elem cspi2_clk_init i
      | cspi3_clk i \<Rightarrow> elem cspi3_clk_init i
      | lcdc_clk i \<Rightarrow> elem lcdc_clk_init i
      | csi_clk i \<Rightarrow> elem csi_clk_init i
      | usb_clk i \<Rightarrow> elem usb_clk_init i
      | ssi1_clk i \<Rightarrow> elem ssi1_clk_init i
      | ssi2_clk i \<Rightarrow> elem ssi2_clk_init i
      | nfc_clk \<Rightarrow> nfc_clk_init
      | vpu_clk \<Rightarrow> vpu_clk_init
      | dma_clk \<Rightarrow> dma_clk_init
      | rtic_clk \<Rightarrow> rtic_clk_init
      | brom_clk \<Rightarrow> brom_clk_init
      | emma_clk \<Rightarrow> emma_clk_init
      | slcdc_clk \<Rightarrow> slcdc_clk_init
      | fec_clk \<Rightarrow> fec_clk_init
      | emi_clk \<Rightarrow> emi_clk_init
      | sahara2_clk \<Rightarrow> sahara2_clk_init
      | ata_clk \<Rightarrow> ata_clk_init
      | mstick1_clk \<Rightarrow> mstick1_clk_init
      | wdog_clk \<Rightarrow> wdog_clk_init
      | gpio_clk \<Rightarrow> gpio_clk_init
      | i2c_clk i \<Rightarrow> elem i2c_clk_init i
      | iim_clk \<Rightarrow> iim_clk_init
      | kpp_clk \<Rightarrow> kpp_clk_init
      | owire_clk \<Rightarrow> owire_clk_init
      | rtc_clk \<Rightarrow> rtc_clk_init
      | scc_clk \<Rightarrow> scc_clk_init
      | clko_clk \<Rightarrow> clko_clk_init)"

definition mxc_clks :: "clkid list" where
  "mxc_clks =
    [ckih_clk, ckil_clk, mpll_clk, mpll_main_clk 0, mpll_main_clk 1, spll_clk, cpu_clk,
     ahb_clk, ipg_clk, per_clk 0, per_clk 1, per_clk 2, per_clk 3, clko_clk, uart1_clk 0,
     uart1_clk 1, uart2_clk 0, uart2_clk 1, uart3_clk 0, uart3_clk 1, uart4_clk 0,
     uart4_clk 1, uart5_clk 0, uart5_clk 1, uart6_clk 0, uart6_clk 1, gpt1_clk 0,
     gpt1_clk 1, gpt2_clk 0, gpt2_clk 1, gpt3_clk 0, gpt3_clk 1, gpt4_clk 0, gpt4_clk 1,
     gpt5_clk 0, gpt5_clk 1, gpt6_clk 0, gpt6_clk 1, pwm_clk 0, pwm_clk 1, sdhc1_clk 0,
     sdhc1_clk 1, sdhc2_clk 0, sdhc2_clk 1, sdhc3_clk 0, sdhc3_clk 1, cspi1_clk 0,
     cspi1_clk 1, cspi2_clk 0, cspi2_clk 1, cspi3_clk 0, cspi3_clk 1, lcdc_clk 0,
     lcdc_clk 1, lcdc_clk 2, csi_clk 0, csi_clk 1, usb_clk 0, usb_clk 1, ssi1_clk 0,
     ssi1_clk 1, ssi2_clk 0, ssi2_clk 1, nfc_clk, vpu_clk, dma_clk, rtic_clk, brom_clk,
     emma_clk, slcdc_clk, fec_clk, emi_clk, sahara2_clk, ata_clk, mstick1_clk, wdog_clk,
     gpio_clk, i2c_clk 0, i2c_clk 1, iim_clk, kpp_clk, owire_clk, rtc_clk, scc_clk]"

end
