(* ===== verification/Mx27_Clk_Ops.thy ===== *)
theory Mx27_Clk_Ops
  imports Mx27_Clk_Tables
begin

text \<open>
  The callbacks of \<^verbatim>\<open>arch/arm/mach-mx27/clock.c\<close>, the dispatch from function pointers to
  them, the chip revision of \<^verbatim>\<open>cpu.c\<close> and the initialisation of the clock tree.  The leading
  underscore of a static C function is written \<open>u_\<close>.
\<close>

section \<open>Register access and chip revision\<close>

definition rd :: "u32 \<Rightarrow> mx27_sys \<Rightarrow> u32" where
  "rd a s = raw_readl a (io (hw s))"

definition wr :: "u32 \<Rightarrow> u32 \<Rightarrow> mx27_sys \<Rightarrow> mx27_sys" where
  "wr v a s = s\<lparr>hw := (hw s)\<lparr>io := raw_writel v a (io (hw s))\<rparr>\<rparr>"

definition CSCR :: "mx27_sys \<Rightarrow> u32" where "CSCR s = rd CCM_CSCR s"
definition PCDR0 :: "mx27_sys \<Rightarrow> u32" where "PCDR0 s = rd CCM_PCDR0 s"
definition PCDR1 :: "mx27_sys \<Rightarrow> u32" where "PCDR1 s = rd CCM_PCDR1 s"

definition CHIP_REV_1_0 :: u32 where [simp]: "CHIP_REV_1_0 = 0x10"
definition CHIP_REV_2_0 :: u32 where [simp]: "CHIP_REV_2_0 = 0x20"

definition is_rev :: "u32 \<Rightarrow> u32 \<Rightarrow> int" where
  "is_rev sv rv = (if sv = rv then 1 else if sv < rv then -1 else 2)"

text \<open>\<^verbatim>\<open>cpu_is_mx27()\<close> is the constant 1 in this configuration.\<close>

definition cpu_is_mx27_rev :: "u32 \<Rightarrow> mx27_sys \<Rightarrow> int" where
  "cpu_is_mx27_rev rv s = is_rev (sysrev (hw s)) rv"

text \<open>\<^verbatim>\<open>clk->parent->rate\<close>.\<close>

definition parent_rate :: "clkid \<Rightarrow> mx27_sys \<Rightarrow> u32 result" where
  "parent_rate c s = rbind (deref (parent (clk_of s c))) (\<lambda>p. Inr (rate (clk_of s p)))"

section \<open>Gates\<close>

definition u_clk_enable :: "clkid \<Rightarrow> mx27_sys \<Rightarrow> (int \<times> mx27_sys) result" where
  "u_clk_enable c s =
     (let a = enable_reg (clk_of s c);
          reg = rd a s OR push_bit (unat (enable_shift (clk_of s c))) 1
      in Inr (0, wr reg a s))"

definition u_clk_disable :: "clkid \<Rightarrow> mx27_sys \<Rightarrow> mx27_sys result" where
  "u_clk_disable c s =
     (let a = enable_reg (clk_of s c);
          reg = rd a s AND NOT (push_bit (unat (enable_shift (clk_of s c))) 1)
      in Inr (wr reg a s))"

text \<open>The busy wait for the lock flag; each turn lets time pass on the bus.\<close>

partial_function (option) spll_wait :: "bus \<Rightarrow> bus option" where
  "spll_wait b =
     (if raw_readl CCM_SPCTL1 b AND CCM_SPCTL1_LF = 0 then spll_wait (bus_tick b) else Some b)"

declare spll_wait.simps [code]

definition u_clk_spll_enable :: "clkid \<Rightarrow> mx27_sys \<Rightarrow> (int \<times> mx27_sys) result" where
  "u_clk_spll_enable c s =
     (let s1 = wr (rd CCM_CSCR s OR CCM_CSCR_SPEN) CCM_CSCR s
      in case spll_wait (io (hw s1)) of
           None \<Rightarrow> Inl Hang
         | Some b \<Rightarrow> Inr (0, s1\<lparr>hw := (hw s1)\<lparr>io := b\<rparr>\<rparr>))"

definition u_clk_spll_disable :: "clkid \<Rightarrow> mx27_sys \<Rightarrow> mx27_sys result" where
  "u_clk_spll_disable c s = Inr (wr (rd CCM_CSCR s AND NOT CCM_CSCR_SPEN) CCM_CSCR s)"

definition u_clk_pccr01_enable :: "u32 \<Rightarrow> u32 \<Rightarrow> mx27_sys \<Rightarrow> mx27_sys" where
  "u_clk_pccr01_enable mask0 mask1 s =
     (let s1 = wr (rd CCM_PCCR0 s OR mask0) CCM_PCCR0 s
      in wr (rd CCM_PCCR1 s1 OR mask1) CCM_PCCR1 s1)"

definition u_clk_pccr01_disable :: "u32 \<Rightarrow> u32 \<Rightarrow> mx27_sys \<Rightarrow> mx27_sys" where
  "u_clk_pccr01_disable mask0 mask1 s =
     (let s1 = wr (rd CCM_PCCR0 s AND NOT mask0) CCM_PCCR0 s
      in wr (rd CCM_PCCR1 s1 AND NOT mask1) CCM_PCCR1 s1)"

definition u_clk_pccr10_enable :: "u32 \<Rightarrow> u32 \<Rightarrow> mx27_sys \<Rightarrow> mx27_sys" where
  "u_clk_pccr10_enable mask1 mask0 s =
     (let s1 = wr (rd CCM_PCCR1 s OR mask1) CCM_PCCR1 s
      in wr (rd CCM_PCCR0 s1 OR mask0) CCM_PCCR0 s1)"

definition u_clk_pccr10_disable :: "u32 \<Rightarrow> u32 \<Rightarrow> mx27_sys \<Rightarrow> mx27_sys" where
  "u_clk_pccr10_disable mask1 mask0 s =
     (let s1 = wr (rd CCM_PCCR1 s AND NOT mask1) CCM_PCCR1 s
      in wr (rd CCM_PCCR0 s1 AND NOT mask0) CCM_PCCR0 s1)"

definition u_clk_dma_enable :: "clkid \<Rightarrow> mx27_sys \<Rightarrow> (int \<times> mx27_sys) result" where
  "u_clk_dma_enable c s = Inr (0, u_clk_pccr01_enable CCM_PCCR0_DMA_MASK CCM_PCCR1_HCLK_DMA_MASK s)"

definition u_clk_dma_disable :: "clkid \<Rightarrow> mx27_sys \<Rightarrow> mx27_sys result" where
  "u_clk_dma_disable c s = Inr (u_clk_pccr01_disable CCM_PCCR0_DMA_MASK CCM_PCCR1_HCLK_DMA_MASK s)"

definition u_clk_rtic_enable :: "clkid \<Rightarrow> mx27_sys \<Rightarrow> (int \<times> mx27_sys) result" where
  "u_clk_rtic_enable c s = Inr (0, u_clk_pccr01_enable CCM_PCCR0_RTIC_MASK CCM_PCCR1_HCLK_RTIC_MASK s)"

definition u_clk_rtic_disable :: "clkid \<Rightarrow> mx27_sys \<Rightarrow> mx27_sys result" where
  "u_clk_rtic_disable c s = Inr (u_clk_pccr01_disable CCM_PCCR0_RTIC_MASK CCM_PCCR1_HCLK_RTIC_MASK s)"

definition u_clk_emma_enable :: "clkid \<Rightarrow> mx27_sys \<Rightarrow> (int \<times> mx27_sys) result" where
  "u_clk_emma_enable c s = Inr (0, u_clk_pccr01_enable CCM_PCCR0_EMMA_MASK CCM_PCCR1_HCLK_EMMA_MASK s)"

definition u_clk_emma_disable :: "clkid \<Rightarrow> mx27_sys \<Rightarrow> mx27_sys result" where
  "u_clk_emma_disable c s = Inr (u_clk_pccr01_disable CCM_PCCR0_EMMA_MASK CCM_PCCR1_HCLK_EMMA_MASK s)"

definition u_clk_slcdc_enable :: "clkid \<Rightarrow> mx27_sys \<Rightarrow> (int \<times> mx27_sys) result" where
  "u_clk_slcdc_enable c s = Inr (0, u_clk_pccr01_enable CCM_PCCR0_SLCDC_MASK CCM_PCCR1_HCLK_SLCDC_MASK s)"

definition u_clk_slcdc_disable :: "clkid \<Rightarrow> mx27_sys \<Rightarrow> mx27_sys result" where
  "u_clk_slcdc_disable c s = Inr (u_clk_pccr01_disable CCM_PCCR0_SLCDC_MASK CCM_PCCR1_HCLK_SLCDC_MASK s)"

definition u_clk_fec_enable :: "clkid \<Rightarrow> mx27_sys \<Rightarrow> (int \<times> mx27_sys) result" where
  "u_clk_fec_enable c s = Inr (0, u_clk_pccr01_enable CCM_PCCR0_FEC_MASK CCM_PCCR1_HCLK_FEC_MASK s)"

definition u_clk_fec_disable :: "clkid \<Rightarrow> mx27_sys \<Rightarrow> mx27_sys result" where
  "u_clk_fec_disable c s = Inr (u_clk_pccr01_disable CCM_PCCR0_FEC_MASK CCM_PCCR1_HCLK_FEC_MASK s)"

definition u_clk_vpu_enable :: "clkid \<Rightarrow> mx27_sys \<Rightarrow> (int \<times> mx27_sys) result" where
  "u_clk_vpu_enable c s =
     Inr (0, wr (rd CCM_PCCR1 s OR (CCM_PCCR1_VPU_BAUD_MASK OR CCM_PCCR1_HCLK_VPU_MASK)) CCM_PCCR1 s)"

definition u_clk_vpu_disable :: "clkid \<Rightarrow> mx27_sys \<Rightarrow> mx27_sys result" where
  "u_clk_vpu_disable c s =
     Inr (wr (rd CCM_PCCR1 s AND NOT (CCM_PCCR1_VPU_BAUD_MASK OR CCM_PCCR1_HCLK_VPU_MASK)) CCM_PCCR1 s)"

definition u_clk_sahara2_enable :: "clkid \<Rightarrow> mx27_sys \<Rightarrow> (int \<times> mx27_sys) result" where
  "u_clk_sahara2_enable c s = Inr (0, u_clk_pccr01_enable CCM_PCCR0_SAHARA_MASK CCM_PCCR1_HCLK_SAHARA_MASK s)"

definition u_clk_sahara2_disable :: "clkid \<Rightarrow> mx27_sys \<Rightarrow> mx27_sys result" where
  "u_clk_sahara2_disable c s = Inr (u_clk_pccr01_disable CCM_PCCR0_SAHARA_MASK CCM_PCCR1_HCLK_SAHARA_MASK s)"

definition u_clk_mstick1_enable :: "clkid \<Rightarrow> mx27_sys \<Rightarrow> (int \<times> mx27_sys) result" where
  "u_clk_mstick1_enable c s = Inr (0, u_clk_pccr10_enable CCM_PCCR1_MSHC_BAUD_MASK CCM_PCCR0_MSHC_MASK s)"

definition u_clk_mstick1_disable :: "clkid \<Rightarrow> mx27_sys \<Rightarrow> mx27_sys result" where
  "u_clk_mstick1_disable c s = Inr (u_clk_pccr10_disable CCM_PCCR1_MSHC_BAUD_MASK CCM_PCCR0_MSHC_MASK s)"

section \<open>Rates\<close>

definition u_clk_pll_recalc :: "clkid \<Rightarrow> mx27_sys \<Rightarrow> mx27_sys result" where
  "u_clk_pll_recalc c s =
     rbind (deref (parent (clk_of s c))) (\<lambda>p.
     let ref_clk = (if p = ckil_clk then rate (clk_of s p) * 1024 else rate (clk_of s p)) in
     rbind (if c = mpll_clk then
              let reg = rd CCM_MPCTL0 s in
              Inr (drop_bit CCM_MPCTL0_PD_OFFSET (reg AND CCM_MPCTL0_PD_MASK),
                   drop_bit CCM_MPCTL0_MFD_OFFSET (reg AND CCM_MPCTL0_MFD_MASK),
                   drop_bit CCM_MPCTL0_MFI_OFFSET (reg AND CCM_MPCTL0_MFI_MASK),
                   drop_bit CCM_MPCTL0_MFN_OFFSET (reg AND CCM_MPCTL0_MFN_MASK), s)
            else if c = spll_clk then
              let reg = rd CCM_SPCTL0 s;
                  s1 = (if cpu_is_mx27_rev CHIP_REV_2_0 s = 1 then wr reg CCM_SPCTL0 s else s) in
              Inr (drop_bit CCM_SPCTL0_PD_OFFSET (reg AND CCM_SPCTL0_PD_MASK),
                   drop_bit CCM_SPCTL0_MFD_OFFSET (reg AND CCM_SPCTL0_MFD_MASK),
                   drop_bit CCM_SPCTL0_MFI_OFFSET (reg AND CCM_SPCTL0_MFI_MASK),
                   drop_bit CCM_SPCTL0_MFN_OFFSET (reg AND CCM_SPCTL0_MFN_MASK), s1)
            else Inl BugOn)
       (\<lambda>(pdf, mfd, mfi, mfn, s1).
        let mfi = (if mfi \<le> 5 then 5 else mfi);
            temp = 2 * ucast ref_clk * ucast mfn :: u64 in
        rbind (udiv temp (ucast (mfd + 1))) (\<lambda>temp.
        rbind (udiv (2 * ucast ref_clk * ucast mfi + temp) (ucast (pdf + 1))) (\<lambda>temp.
        Inr (set_clk_rate c (ucast temp) s1)))))"

definition u_clk_mpll_main_recalc :: "clkid \<Rightarrow> mx27_sys \<Rightarrow> mx27_sys result" where
  "u_clk_mpll_main_recalc c s =
     (if clk_id (clk_of s c) = 0 then
        rbind (parent_rate c s) (\<lambda>pr. Inr (set_clk_rate c pr s))
      else if clk_id (clk_of s c) = 1 then
        rbind (parent_rate c s) (\<lambda>pr. Inr (set_clk_rate c (2 * pr div 3) s))
      else Inr s)"

text \<open>The store of \<^verbatim>\<open>__raw_writel(CCM_CSCR, cscr)\<close>: the value is \<^verbatim>\<open>CCM_CSCR\<close>, the address \<^verbatim>\<open>cscr\<close>.\<close>

definition u_clk_cpu_set_parent :: "clkid \<Rightarrow> clkid \<Rightarrow> mx27_sys \<Rightarrow> (int \<times> mx27_sys) result" where
  "u_clk_cpu_set_parent c p s =
     (let cscr = CSCR s in
      if parent (clk_of s c) = Some p then Inr (0, s)
      else if cpu_is_mx27_rev CHIP_REV_2_0 s > 0 then
        (if p = mpll_main_clk 0 then
           Inr (0, upd_clk c (parent_update (\<lambda>_. Some p)) (wr CCM_CSCR (cscr OR CCM_CSCR_ARM_SRC) s))
         else if p = mpll_main_clk 1 then
           Inr (0, upd_clk c (parent_update (\<lambda>_. Some p)) (wr CCM_CSCR (cscr AND NOT CCM_CSCR_ARM_SRC) s))
         else Inr (- EINVAL, s))
      else Inr (- ENODEV, s))"

text \<open>The divider is an \<^verbatim>\<open>int\<close> here, so it is compared as a signed number.\<close>

definition u_clk_cpu_round_rate :: "clkid \<Rightarrow> u32 \<Rightarrow> mx27_sys \<Rightarrow> u32 result" where
  "u_clk_cpu_round_rate c r s =
     rbind (parent_rate c s) (\<lambda>pr.
     rbind (udiv pr r) (\<lambda>q.
     let div1 = (if pr mod r \<noteq> 0 then q + 1 else q);
         div2 = (if 4 < sint div1 then 4 else div1)
     in udiv pr div2))"

definition u_clk_cpu_set_rate :: "clkid \<Rightarrow> u32 \<Rightarrow> mx27_sys \<Rightarrow> (int \<times> mx27_sys) result" where
  "u_clk_cpu_set_rate c r s =
     rbind (parent_rate c s) (\<lambda>pr.
     rbind (udiv pr r) (\<lambda>q.
     if 4 < sint q \<or> sint q < 1 then Inr (- EINVAL, s)
     else rbind (udiv pr q) (\<lambda>v.
       if v \<noteq> r then Inr (- EINVAL, s)
       else
         let reg = (CSCR s AND NOT CCM_CSCR_ARM_MASK) OR push_bit CCM_CSCR_ARM_OFFSET (q - 1)
         in Inr (0, set_clk_rate c r (wr CCM_CSCR reg s)))))"

definition u_clk_cpu_recalc :: "clkid \<Rightarrow> mx27_sys \<Rightarrow> mx27_sys result" where
  "u_clk_cpu_recalc c s =
     (let dv = (if cpu_is_mx27_rev CHIP_REV_2_0 s > 0
                then drop_bit CCM_CSCR_ARM_OFFSET (CSCR s AND CCM_CSCR_ARM_MASK)
                else drop_bit CCM_CSCR_PRESC_OFFSET (CSCR s AND CCM_CSCR_PRESC_MASK))
      in rbind (parent_rate c s) (\<lambda>pr. rbind (udiv pr (dv + 1)) (\<lambda>v. Inr (set_clk_rate c v s))))"

definition u_clk_ahb_recalc :: "clkid \<Rightarrow> mx27_sys \<Rightarrow> mx27_sys result" where
  "u_clk_ahb_recalc c s =
     (let bclk_pdf = (if cpu_is_mx27_rev CHIP_REV_2_0 s > 0
                      then drop_bit CCM_CSCR_AHB_OFFSET (CSCR s AND CCM_CSCR_AHB_MASK)
                      else drop_bit CCM_CSCR_BCLK_OFFSET (CSCR s AND CCM_CSCR_BCLK_MASK))
      in rbind (parent_rate c s) (\<lambda>pr. rbind (udiv pr (bclk_pdf + 1)) (\<lambda>v. Inr (set_clk_rate c v s))))"

definition u_clk_perclkx_recalc :: "clkid \<Rightarrow> mx27_sys \<Rightarrow> mx27_sys result" where
  "u_clk_perclkx_recalc c s =
     (let i = clk_id (clk_of s c) in
      if i < 0 \<or> 3 < i then Inr s
      else
        let perclk_pdf = drop_bit (nat i * 8) (PCDR1 s) AND CCM_PCDR1_PERDIV1_MASK
        in rbind (parent_rate c s) (\<lambda>pr. rbind (udiv pr (perclk_pdf + 1)) (\<lambda>v. Inr (set_clk_rate c v s))))"

definition u_clk_perclkx_round_rate :: "clkid \<Rightarrow> u32 \<Rightarrow> mx27_sys \<Rightarrow> u32 result" where
  "u_clk_perclkx_round_rate c r s =
     rbind (parent_rate c s) (\<lambda>pr.
     rbind (udiv pr r) (\<lambda>q.
     let div1 = (if pr mod r \<noteq> 0 then q + 1 else q);
         div2 = (if 64 < div1 then 64 else div1)
     in udiv pr div2))"

definition u_clk_perclkx_set_rate :: "clkid \<Rightarrow> u32 \<Rightarrow> mx27_sys \<Rightarrow> (int \<times> mx27_sys) result" where
  "u_clk_perclkx_set_rate c r s =
     (let i = clk_id (clk_of s c) in
      if i < 0 \<or> 3 < i then Inr (- EINVAL, s)
      else
        rbind (parent_rate c s) (\<lambda>pr.
        rbind (udiv pr r) (\<lambda>q.
        if 64 < q \<or> q < 1 then Inr (- EINVAL, s)
        else rbind (udiv pr q) (\<lambda>v.
          if v \<noteq> r then Inr (- EINVAL, s)
          else
            let reg = rd CCM_PCDR1 s AND NOT (push_bit (nat i * 8) CCM_PCDR1_PERDIV1_MASK);
                reg = reg OR push_bit (nat i * 8) (q - 1)
            in Inr (0, set_clk_rate c r (wr reg CCM_PCDR1 s))))))"

definition u_clk_vpu_round_rate :: "clkid \<Rightarrow> u32 \<Rightarrow> mx27_sys \<Rightarrow> u32 result" where
  "u_clk_vpu_round_rate c r s =
     rbind (parent_rate c s) (\<lambda>pr.
     rbind (udiv (pr * 2) r) (\<lambda>q.
     let div1 = (if (pr * 2) mod r \<noteq> 0 then q + 1 else q);
         div2 = (if div1 < 4 then 4 else div1);
         div3 = (if 67 < div2 then 67 else div2)
     in udiv (pr * 2) div3))"

definition u_clk_vpu_set_rate :: "clkid \<Rightarrow> u32 \<Rightarrow> mx27_sys \<Rightarrow> (int \<times> mx27_sys) result" where
  "u_clk_vpu_set_rate c r s =
     rbind (parent_rate c s) (\<lambda>pr.
     rbind (udiv (pr * 2) r) (\<lambda>q.
     if 67 < q \<or> q < 4 then Inr (- EINVAL, s)
     else rbind (udiv (pr * 2) q) (\<lambda>v.
       if v \<noteq> r then Inr (- EINVAL, s)
       else
         let reg = rd CCM_PCDR0 s AND NOT 0x0000FC00;
             reg = reg OR push_bit 10 (q - 4)
         in Inr (0, set_clk_rate c r (wr reg CCM_PCDR0 s)))))"

definition u_clk_usb_recalc :: "clkid \<Rightarrow> mx27_sys \<Rightarrow> mx27_sys result" where
  "u_clk_usb_recalc c s =
     (let usb_pdf = drop_bit CCM_CSCR_USB_OFFSET (CSCR s AND CCM_CSCR_USB_MASK)
      in rbind (parent_rate c s) (\<lambda>pr. rbind (udiv pr (usb_pdf + 1)) (\<lambda>v. Inr (set_clk_rate c v s))))"

definition u_clk_ssi1_recalc :: "clkid \<Rightarrow> mx27_sys \<Rightarrow> mx27_sys result" where
  "u_clk_ssi1_recalc c s =
     (let ssi1_pdf = drop_bit CCM_PCDR0_SSI1BAUDDIV_OFFSET (PCDR0 s AND CCM_PCDR0_SSI1BAUDDIV_MASK);
          ssi1_pdf = (if cpu_is_mx27_rev CHIP_REV_2_0 s > 0 then ssi1_pdf + 4
                      else if ssi1_pdf < 2 then 124 else ssi1_pdf)
      in rbind (parent_rate c s) (\<lambda>pr. rbind (udiv (2 * pr) ssi1_pdf) (\<lambda>v. Inr (set_clk_rate c v s))))"

definition u_clk_ssi2_recalc :: "clkid \<Rightarrow> mx27_sys \<Rightarrow> mx27_sys result" where
  "u_clk_ssi2_recalc c s =
     (let ssi2_pdf = drop_bit CCM_PCDR0_SSI2BAUDDIV_OFFSET (PCDR0 s AND CCM_PCDR0_SSI2BAUDDIV_MASK);
          ssi2_pdf = (if cpu_is_mx27_rev CHIP_REV_2_0 s > 0 then ssi2_pdf + 4
                      else if ssi2_pdf < 2 then 124 else ssi2_pdf)
      in rbind (parent_rate c s) (\<lambda>pr. rbind (udiv (2 * pr) ssi2_pdf) (\<lambda>v. Inr (set_clk_rate c v s))))"

definition u_clk_nfc_recalc :: "clkid \<Rightarrow> mx27_sys \<Rightarrow> mx27_sys result" where
  "u_clk_nfc_recalc c s =
     (let nfc_pdf = (if cpu_is_mx27_rev CHIP_REV_2_0 s > 0
                     then drop_bit CCM_PCDR0_NFCDIV2_OFFSET (PCDR0 s AND CCM_PCDR0_NFCDIV2_MASK)
                     else drop_bit CCM_PCDR0_NFCDIV_OFFSET (PCDR0 s AND CCM_PCDR0_NFCDIV_MASK))
      in rbind (parent_rate c s) (\<lambda>pr. rbind (udiv pr (nfc_pdf + 1)) (\<lambda>v. Inr (set_clk_rate c v s))))"

definition u_clk_vpu_recalc :: "clkid \<Rightarrow> mx27_sys \<Rightarrow> mx27_sys result" where
  "u_clk_vpu_recalc c s =
     (let vpu_pdf = (if cpu_is_mx27_rev CHIP_REV_2_0 s > 0
                     then drop_bit CCM_PCDR0_VPUDIV2_OFFSET (PCDR0 s AND CCM_PCDR0_VPUDIV2_MASK) + 4
                     else let p = drop_bit CCM_PCDR0_VPUDIV_OFFSET (PCDR0 s AND CCM_PCDR0_VPUDIV_MASK)
                          in if p < 2 then 124 else p)
      in rbind (parent_rate c s) (\<lambda>pr. rbind (udiv (2 * pr) vpu_pdf) (\<lambda>v. Inr (set_clk_rate c v s))))"

definition u_clk_ipg_recalc :: "clkid \<Rightarrow> mx27_sys \<Rightarrow> mx27_sys result" where
  "u_clk_ipg_recalc c s =
     (let ipg_pdf = (if cpu_is_mx27_rev CHIP_REV_2_0 s > 0 then 1
                     else drop_bit CCM_CSCR_IPDIV_OFFSET (CSCR s AND CCM_CSCR_IPDIV))
      in rbind (parent_rate c s) (\<lambda>pr. rbind (udiv pr (ipg_pdf + 1)) (\<lambda>v. Inr (set_clk_rate c v s))))"

section \<open>The CLKO output\<close>

definition u_clk_clko_round_rate :: "clkid \<Rightarrow> u32 \<Rightarrow> mx27_sys \<Rightarrow> u32 result" where
  "u_clk_clko_round_rate c r s =
     rbind (parent_rate c s) (\<lambda>pr.
     rbind (udiv pr r) (\<lambda>q.
     let div1 = (if pr mod r \<noteq> 0 then q + 1 else q);
         div2 = (if 8 < div1 then 8 else div1)
     in udiv pr div2))"

definition u_clk_clko_set_rate :: "clkid \<Rightarrow> u32 \<Rightarrow> mx27_sys \<Rightarrow> (int \<times> mx27_sys) result" where
  "u_clk_clko_set_rate c r s =
     rbind (parent_rate c s) (\<lambda>pr.
     rbind (udiv pr r) (\<lambda>q.
     if 8 < q \<or> q < 1 then Inr (- EINVAL, s)
     else rbind (udiv pr q) (\<lambda>v.
       if v \<noteq> r then Inr (- EINVAL, s)
       else
         let reg = rd CCM_PCDR0 s AND NOT CCM_PCDR0_CLKODIV_MASK;
             reg = reg OR push_bit CCM_PCDR0_CLKODIV_OFFSET (q - 1)
         in Inr (0, set_clk_rate c r (wr reg CCM_PCDR0 s)))))"

text \<open>In C the shift binds tighter than the mask: the field read is the low three bits.\<close>

definition u_clk_clko_recalc :: "clkid \<Rightarrow> mx27_sys \<Rightarrow> mx27_sys result" where
  "u_clk_clko_recalc c s =
     (let dv = (rd CCM_PCDR0 s AND drop_bit CCM_PCDR0_CLKODIV_OFFSET CCM_PCDR0_CLKODIV_MASK) + 1
      in rbind (parent_rate c s) (\<lambda>pr. rbind (udiv pr dv) (\<lambda>v. Inr (set_clk_rate c v s))))"

definition u_clk_clko_set_parent :: "clkid \<Rightarrow> clkid \<Rightarrow> mx27_sys \<Rightarrow> (int \<times> mx27_sys) result" where
  "u_clk_clko_set_parent c p s =
     (let reg = rd CCM_CCSR s AND NOT CCM_CCSR_CLKOSEL_MASK;
          sel = (\<lambda>v. Inr (0, wr (reg OR push_bit CCM_CCSR_CLKOSEL_OFFSET v) CCM_CCSR s))
      in if p = ckil_clk then sel 0
         else if p = ckih_clk then sel 2
         else if Some p = parent (clk_of s mpll_clk) then sel 3
         else if Some p = parent (clk_of s spll_clk) then sel 4
         else if p = mpll_clk then sel 5
         else if p = spll_clk then sel 6
         else if p = cpu_clk then sel 7
         else if p = ahb_clk then sel 8
         else if p = ipg_clk then sel 9
         else if p = per_clk 0 then sel 0xA
         else if p = per_clk 1 then sel 0xB
         else if p = per_clk 2 then sel 0xC
         else if p = per_clk 3 then sel 0xD
         else if p = ssi1_clk 0 then sel 0xE
         else if p = ssi2_clk 0 then sel 0xF
         else if p = nfc_clk then sel 0x10
         else if p = mstick1_clk then sel 0x11
         else if p = vpu_clk then sel 0x12
         else if p = usb_clk 0 then sel 0x15
         else Inr (- EINVAL, s))"

definition u_clk_clko_enable :: "clkid \<Rightarrow> mx27_sys \<Rightarrow> (int \<times> mx27_sys) result" where
  "u_clk_clko_enable c s = Inr (0, wr (rd CCM_PCDR0 s OR CCM_PCDR0_CLKO_EN) CCM_PCDR0 s)"

definition u_clk_clko_disable :: "clkid \<Rightarrow> mx27_sys \<Rightarrow> mx27_sys result" where
  "u_clk_clko_disable c s = Inr (wr (rd CCM_PCDR0 s AND NOT CCM_PCDR0_CLKO_EN) CCM_PCDR0 s)"

section \<open>Calls through function pointers\<close>

text \<open>
  \<open>call\<close> is the dispatch one stack level down.  A pointer of another type is never stored in a
  field, so the last case of each dispatch is not reached.
\<close>

definition u_clk_parent_round_rate ::
  "(clkfn \<Rightarrow> clkid \<Rightarrow> u32 \<Rightarrow> mx27_sys \<Rightarrow> u32 result) \<Rightarrow> clkid \<Rightarrow> u32 \<Rightarrow> mx27_sys \<Rightarrow> u32 result" where
  "u_clk_parent_round_rate call c r s =
     rbind (deref (parent (clk_of s c))) (\<lambda>p.
     rbind (deref (round_rate (clk_of s p))) (\<lambda>f. call f p r s))"

definition u_clk_parent_set_rate ::
  "(clkfn \<Rightarrow> clkid \<Rightarrow> u32 \<Rightarrow> mx27_sys \<Rightarrow> (int \<times> mx27_sys) result)
     \<Rightarrow> clkid \<Rightarrow> u32 \<Rightarrow> mx27_sys \<Rightarrow> (int \<times> mx27_sys) result" where
  "u_clk_parent_set_rate call c r s =
     rbind (deref (parent (clk_of s c))) (\<lambda>p.
     rbind (deref (set_rate (clk_of s p))) (\<lambda>f.
     rbind (call f p r s) (\<lambda>(ret, s1).
     if ret = 0 then Inr (ret, set_clk_rate c r s1) else Inr (ret, s1))))"

primrec mx27_round_rate :: "nat \<Rightarrow> clkfn \<Rightarrow> clkid \<Rightarrow> u32 \<Rightarrow> mx27_sys \<Rightarrow> u32 result" where
  "mx27_round_rate 0 = (\<lambda>f c r s. Inl StackOverflow)"
| "mx27_round_rate (Suc n) = (\<lambda>f c r s.
     case f of
       clk_cpu_round_rate_fn \<Rightarrow> u_clk_cpu_round_rate c r s
     | clk_perclkx_round_rate_fn \<Rightarrow> u_clk_perclkx_round_rate c r s
     | clk_vpu_round_rate_fn \<Rightarrow> u_clk_vpu_round_rate c r s
     | clk_parent_round_rate_fn \<Rightarrow> u_clk_parent_round_rate (mx27_round_rate n) c r s
     | clk_clko_round_rate_fn \<Rightarrow> u_clk_clko_round_rate c r s
     | _ \<Rightarrow> Inr 0)"

primrec mx27_set_rate :: "nat \<Rightarrow> clkfn \<Rightarrow> clkid \<Rightarrow> u32 \<Rightarrow> mx27_sys \<Rightarrow> (int \<times> mx27_sys) result" where
  "mx27_set_rate 0 = (\<lambda>f c r s. Inl StackOverflow)"
| "mx27_set_rate (Suc n) = (\<lambda>f c r s.
     case f of
       clk_cpu_set_rate_fn \<Rightarrow> u_clk_cpu_set_rate c r s
     | clk_perclkx_set_rate_fn \<Rightarrow> u_clk_perclkx_set_rate c r s
     | clk_vpu_set_rate_fn \<Rightarrow> u_clk_vpu_set_rate c r s
     | clk_parent_set_rate_fn \<Rightarrow> u_clk_parent_set_rate (mx27_set_rate n) c r s
     | clk_clko_set_rate_fn \<Rightarrow> u_clk_clko_set_rate c r s
     | _ \<Rightarrow> Inr (0, s))"

definition mx27_enable :: "clkfn \<Rightarrow> clkid \<Rightarrow> mx27_sys \<Rightarrow> (int \<times> mx27_sys) result" where
  "mx27_enable f c s =
     (case f of
        clk_enable_fn \<Rightarrow> u_clk_enable c s
      | clk_spll_enable_fn \<Rightarrow> u_clk_spll_enable c s
      | clk_dma_enable_fn \<Rightarrow> u_clk_dma_enable c s
      | clk_rtic_enable_fn \<Rightarrow> u_clk_rtic_enable c s
      | clk_emma_enable_fn \<Rightarrow> u_clk_emma_enable c s
      | clk_slcdc_enable_fn \<Rightarrow> u_clk_slcdc_enable c s
      | clk_fec_enable_fn \<Rightarrow> u_clk_fec_enable c s
      | clk_vpu_enable_fn \<Rightarrow> u_clk_vpu_enable c s
      | clk_sahara2_enable_fn \<Rightarrow> u_clk_sahara2_enable c s
      | clk_mstick1_enable_fn \<Rightarrow> u_clk_mstick1_enable c s
      | clk_clko_enable_fn \<Rightarrow> u_clk_clko_enable c s
      | _ \<Rightarrow> Inr (0, s))"

definition mx27_disable :: "clkfn \<Rightarrow> clkid \<Rightarrow> mx27_sys \<Rightarrow> mx27_sys result" where
  "mx27_disable f c s =
     (case f of
        clk_disable_fn \<Rightarrow> u_clk_disable c s
      | clk_spll_disable_fn \<Rightarrow> u_clk_spll_disable c s
      | clk_dma_disable_fn \<Rightarrow> u_clk_dma_disable c s
      | clk_rtic_disable_fn \<Rightarrow> u_clk_rtic_disable c s
      | clk_emma_disable_fn \<Rightarrow> u_clk_emma_disable c s
      | clk_slcdc_disable_fn \<Rightarrow> u_clk_slcdc_disable c s
      | clk_fec_disable_fn \<Rightarrow> u_clk_fec_disable c s
      | clk_vpu_disable_fn \<Rightarrow> u_clk_vpu_disable c s
      | clk_sahara2_disable_fn \<Rightarrow> u_clk_sahara2_disable c s
      | clk_mstick1_disable_fn \<Rightarrow> u_clk_mstick1_disable c s
      | clk_clko_disable_fn \<Rightarrow> u_clk_clko_disable c s
      | _ \<Rightarrow> Inr s)"

definition mx27_recalc :: "clkfn \<Rightarrow> clkid \<Rightarrow> mx27_sys \<Rightarrow> mx27_sys result" where
  "mx27_recalc f c s =
     (case f of
        clk_pll_recalc_fn \<Rightarrow> u_clk_pll_recalc c s
      | clk_mpll_main_recalc_fn \<Rightarrow> u_clk_mpll_main_recalc c s
      | clk_cpu_recalc_fn \<Rightarrow> u_clk_cpu_recalc c s
      | clk_ahb_recalc_fn \<Rightarrow> u_clk_ahb_recalc c s
      | clk_perclkx_recalc_fn \<Rightarrow> u_clk_perclkx_recalc c s
      | clk_usb_recalc_fn \<Rightarrow> u_clk_usb_recalc c s
      | clk_ssi1_recalc_fn \<Rightarrow> u_clk_ssi1_recalc c s
      | clk_ssi2_recalc_fn \<Rightarrow> u_clk_ssi2_recalc c s
      | clk_nfc_recalc_fn \<Rightarrow> u_clk_nfc_recalc c s
      | clk_vpu_recalc_fn \<Rightarrow> u_clk_vpu_recalc c s
      | clk_ipg_recalc_fn \<Rightarrow> u_clk_ipg_recalc c s
      | clk_clko_recalc_fn \<Rightarrow> u_clk_clko_recalc c s
      | _ \<Rightarrow> Inr s)"

definition mx27_set_parent :: "clkfn \<Rightarrow> clkid \<Rightarrow> clkid \<Rightarrow> mx27_sys \<Rightarrow> (int \<times> mx27_sys) result" where
  "mx27_set_parent f c p s =
     (case f of
        clk_cpu_set_parent_fn \<Rightarrow> u_clk_cpu_set_parent c p s
      | clk_clko_set_parent_fn \<Rightarrow> u_clk_clko_set_parent c p s
      | _ \<Rightarrow> Inr (0, s))"

definition mx27_fns :: "(clkid, clkfn, mx27) clk_fns" where
  "mx27_fns =
     \<lparr>call_recalc = mx27_recalc, call_set_rate = mx27_set_rate CLK_DEPTH,
      call_round_rate = mx27_round_rate CLK_DEPTH, call_enable = mx27_enable,
      call_disable = mx27_disable, call_set_parent = mx27_set_parent\<rparr>"

section \<open>Chip revision at boot\<close>

definition SYS_CHIP_VERSION_OFFSET :: nat where [simp]: "SYS_CHIP_VERSION_OFFSET = 28"
definition SYS_CHIP_VERSION_MASK :: u32 where [simp]: "SYS_CHIP_VERSION_MASK = push_bit 28 0xF"
definition SYS_CHIP_ID :: u32 where [simp]: "SYS_CHIP_ID = 0x00"

definition system_rev_tbl :: "(u32 \<times> u32) list" where
  "system_rev_tbl = [(0x00, CHIP_REV_1_0), (0x01, CHIP_REV_2_0)]"

text \<open>The command line option; \<open>strtoul\<close> is the kernel's \<^verbatim>\<open>simple_strtoul\<close> in base 16.\<close>

definition system_rev_setup :: "(string \<Rightarrow> u32) \<Rightarrow> string \<Rightarrow> mx27_sys \<Rightarrow> mx27_sys" where
  "system_rev_setup strtoul arg s =
     s\<lparr>hw := (hw s)\<lparr>sysrev := strtoul arg, sysrev_updated := True\<rparr>\<rparr>"

definition read_system_rev :: "mx27_sys \<Rightarrow> u32" where
  "read_system_rev s =
     (let v = rd (IO_ADDRESS SYSCTRL_BASE_ADDR + SYS_CHIP_ID) s;
          v = drop_bit SYS_CHIP_VERSION_OFFSET (v AND SYS_CHIP_VERSION_MASK)
      in case map_of system_rev_tbl v of Some r \<Rightarrow> r | None \<Rightarrow> snd (last system_rev_tbl))"

definition system_rev_update :: "mx27_sys \<Rightarrow> mx27_sys result" where
  "system_rev_update s =
     (if \<not> sysrev_updated (hw s)
      then Inr (s\<lparr>hw := (hw s)\<lparr>sysrev := read_system_rev s\<rparr>\<rparr>)
      else if sysrev (hw s) \<in> set (map snd system_rev_tbl) then Inr s
      else Inl Panic)"

definition mxc_cpu_common_init :: "mx27_sys \<Rightarrow> mx27_sys result" where
  "mxc_cpu_common_init s = system_rev_update s"

section \<open>Initialisation of the tree\<close>

abbreviation reparent :: "clkid \<Rightarrow> clkid \<Rightarrow> mx27_sys \<Rightarrow> mx27_sys" where
  "reparent c p \<equiv> upd_clk c (parent_update (\<lambda>_. Some p))"

definition probe_mxc_clocks :: "mx27_sys \<Rightarrow> mx27_sys" where
  "probe_mxc_clocks s =
     (if cpu_is_mx27_rev CHIP_REV_2_0 s > 0 then
        let s = (if CSCR s AND 0x8000 \<noteq> 0 then reparent cpu_clk (mpll_main_clk 0) s else s);
            s = (if CSCR s AND 0x00800000 = 0 then reparent (ssi2_clk 0) spll_clk s else s);
            s = (if CSCR s AND 0x00400000 = 0 then reparent (ssi1_clk 0) spll_clk s else s)
        in if CSCR s AND 0x00200000 = 0 then reparent vpu_clk spll_clk s else s
      else
        let s = reparent cpu_clk mpll_clk s;
            s = upd_clk cpu_clk (\<lambda>k. k\<lparr>set_parent := None, round_rate := None, set_rate := None\<rparr>) s;
            s = reparent ahb_clk mpll_clk s;
            s = fold (\<lambda>i. reparent (per_clk i) mpll_clk) [0..<length per_clk_init] s;
            s = reparent (ssi1_clk 0) mpll_clk s;
            s = reparent (ssi2_clk 0) mpll_clk s
        in reparent vpu_clk mpll_clk s)"

definition MXC_CKIH_SOURCE :: bool where "MXC_CKIH_SOURCE = False"

text \<open>The source of the main PLL, from \<^verbatim>\<open>CSCR\<close>, and the rate of the high frequency input.\<close>

definition select_mpll :: "u32 \<Rightarrow> mx27_sys \<Rightarrow> mx27_sys" where
  "select_mpll cscr = reparent mpll_clk (if cscr AND CCM_CSCR_MCU \<noteq> 0 then ckih_clk else ckil_clk)"

definition select_ckih :: "mx27_sys \<Rightarrow> mx27_sys" where
  "select_ckih = set_clk_rate ckih_clk (if MXC_CKIH_SOURCE then CKIH_CLK_FREQ_27MHZ else CKIH_CLK_FREQ)"

text \<open>\<^verbatim>\<open>c.recalc(&c)\<close>, \<^verbatim>\<open>c.enable(&c)\<close> and \<^verbatim>\<open>c.disable(&c)\<close>.\<close>

definition do_recalc :: "clkid \<Rightarrow> mx27_sys \<Rightarrow> mx27_sys result" where
  "do_recalc c s = rbind (deref (recalc (clk_of s c))) (\<lambda>f. mx27_recalc f c s)"

definition do_enable :: "clkid \<Rightarrow> mx27_sys \<Rightarrow> mx27_sys result" where
  "do_enable c s =
     rbind (deref (enable (clk_of s c))) (\<lambda>f. rbind (mx27_enable f c s) (\<lambda>(r, s). Inr s))"

definition do_disable :: "clkid \<Rightarrow> mx27_sys \<Rightarrow> mx27_sys result" where
  "do_disable c s = rbind (deref (disable (clk_of s c))) (\<lambda>f. mx27_disable f c s)"

definition clk_early_get_timer_rate :: "mx27_sys \<Rightarrow> (u32 \<times> mx27_sys) result" where
  "clk_early_get_timer_rate s =
     rbind (mxc_cpu_common_init s) (\<lambda>s.
     let s = probe_mxc_clocks (select_ckih (select_mpll (CSCR s) s)) in
     rbind (do_recalc mpll_clk s) (\<lambda>s.
     rbind (if cpu_is_mx27_rev CHIP_REV_2_0 s > 0
            then rbind (do_recalc (mpll_main_clk 0) s) (do_recalc (mpll_main_clk 1))
            else Inr s) (\<lambda>s.
     rbind (do_recalc (per_clk 0) s) (\<lambda>s.
     rbind (do_enable (per_clk 0) s) (\<lambda>s.
     rbind (do_enable (gpt1_clk 1) s) (\<lambda>s.
     Inr (rate (clk_of s (per_clk 0)), s)))))))"

definition register_mxc_clk :: "clkid \<Rightarrow> mx27_sys \<Rightarrow> mx27_sys result" where
  "register_mxc_clk c s =
     (if (c = mpll_main_clk 0 \<or> c = mpll_main_clk 1) \<and> cpu_is_mx27_rev CHIP_REV_1_0 s = 1 then Inr s
      else rbind (clk_register (Clk c) s) (\<lambda>(r, s). Inr s))"

definition call_clk_enable :: "clkid \<Rightarrow> mx27_sys \<Rightarrow> mx27_sys result" where
  "call_clk_enable c s = rbind (clk_enable mx27_fns (Clk c) s) (\<lambda>(r, s). Inr s)"

definition mxc_clocks_init :: "mx27_sys \<Rightarrow> (int \<times> mx27_sys) result" where
  "mxc_clocks_init s =
     rbind (rfold register_mxc_clk mxc_clks s) (\<lambda>s.
     let s = wr CCM_PCCR0_GPT1_MASK CCM_PCCR0 s;
         s = wr (CCM_PCCR1_PERCLK1_MASK OR CCM_PCCR1_HCLK_EMI_MASK) CCM_PCCR1 s in
     rbind (do_disable spll_clk s) (\<lambda>s.
     let cscr = CSCR s;
         s = select_mpll cscr s;
         s = reparent spll_clk (if cscr AND CCM_CSCR_SP \<noteq> 0 then ckih_clk else ckil_clk) s;
         s = select_ckih s in
     rbind (propagate_rate mx27_fns (Clk ckih_clk) s) (\<lambda>s.
     rbind (propagate_rate mx27_fns (Clk ckil_clk) s) (\<lambda>s.
     rbind (call_clk_enable emi_clk s) (\<lambda>s.
     rbind (call_clk_enable gpio_clk s) (\<lambda>s.
     rbind (call_clk_enable iim_clk s) (\<lambda>s.
     rbind (call_clk_enable (gpt1_clk 0) s) (\<lambda>s.
     Inr (0, s)))))))))"

text \<open>The static state of the module before any of it runs, on given hardware.\<close>

definition mx27_boot :: "mx27 \<Rightarrow> mx27_sys" where
  "mx27_boot h = \<lparr>clk_of = mx27_clk_init, clocks = [], hw = h, mod_live = (\<lambda>_. True), mod_ref = (\<lambda>_. 0)\<rparr>"

end
