(* ===== verification/Mx27_Clk_Spec.thy ===== *)
theory Mx27_Clk_Spec
  imports Mx27_Clk_Ops
begin

text \<open>
  What the rate callbacks of the i.MX27 promise, as one function of the registers: \<open>recalc_value\<close>
  gives the rate of a clock from the clock control registers and the rate of its parent.  The
  callbacks refine it, and every register access they make leaves the rest of the state alone.
  From this the machine's callbacks satisfy the interfaces of the clock framework.
\<close>

section \<open>Rates as a function of the registers\<close>

record rate_regs =
  v_cscr :: u32
  v_mpctl0 :: u32
  v_spctl0 :: u32
  v_pcdr0 :: u32
  v_pcdr1 :: u32
  v_rev :: u32

definition rate_view :: "mx27 \<Rightarrow> rate_regs" where
  "rate_view h =
     \<lparr>v_cscr = raw_readl CCM_CSCR (io h), v_mpctl0 = raw_readl CCM_MPCTL0 (io h),
      v_spctl0 = raw_readl CCM_SPCTL0 (io h), v_pcdr0 = raw_readl CCM_PCDR0 (io h),
      v_pcdr1 = raw_readl CCM_PCDR1 (io h), v_rev = sysrev h\<rparr>"

text \<open>The second revision of the chip (TO2) and later.\<close>

definition to2 :: "rate_regs \<Rightarrow> bool" where
  "to2 v \<longleftrightarrow> CHIP_REV_2_0 \<le> v_rev v"

definition pll_value :: "u32 \<Rightarrow> u32 \<Rightarrow> u32" where
  "pll_value reg ref_clk =
     (let pdf = fld_get 26 4 reg; mfd = fld_get 16 10 reg; mfn = fld_get 0 10 reg;
          mfi = (if fld_get 10 4 reg \<le> 5 then 5 else fld_get 10 4 reg)
      in ucast ((2 * (ucast ref_clk :: u64) * ucast mfi + 2 * ucast ref_clk * ucast mfn div ucast (mfd + 1))
                div ucast (pdf + 1)))"

text \<open>Dividers of the SSI and VPU fields: offset by four on TO2, zero and one mean 62 halves before.\<close>

definition half_div :: "rate_regs \<Rightarrow> u32 \<Rightarrow> u32" where
  "half_div v d = (if to2 v then d + 4 else if d < 2 then 124 else d)"

definition recalc_value :: "clkfn \<Rightarrow> clkid \<Rightarrow> int \<Rightarrow> rate_regs \<Rightarrow> clkid \<Rightarrow> u32 \<Rightarrow> u32" where
  "recalc_value f c i v p pr =
     (case f of
        clk_pll_recalc_fn \<Rightarrow>
          pll_value (if c = mpll_clk then v_mpctl0 v else v_spctl0 v) (if p = ckil_clk then pr * 1024 else pr)
      | clk_mpll_main_recalc_fn \<Rightarrow> if i = 0 then pr else 2 * pr div 3
      | clk_cpu_recalc_fn \<Rightarrow> pr div ((if to2 v then fld_get 12 2 (v_cscr v) else fld_get 13 3 (v_cscr v)) + 1)
      | clk_ahb_recalc_fn \<Rightarrow> pr div ((if to2 v then fld_get 8 2 (v_cscr v) else fld_get 9 4 (v_cscr v)) + 1)
      | clk_perclkx_recalc_fn \<Rightarrow> pr div (fld_get (nat i * 8) 6 (v_pcdr1 v) + 1)
      | clk_usb_recalc_fn \<Rightarrow> pr div (fld_get 28 3 (v_cscr v) + 1)
      | clk_ssi1_recalc_fn \<Rightarrow> 2 * pr div half_div v (fld_get 16 6 (v_pcdr0 v))
      | clk_ssi2_recalc_fn \<Rightarrow> 2 * pr div half_div v (fld_get 26 6 (v_pcdr0 v))
      | clk_nfc_recalc_fn \<Rightarrow> pr div ((if to2 v then fld_get 6 4 (v_pcdr0 v) else fld_get 12 4 (v_pcdr0 v)) + 1)
      | clk_vpu_recalc_fn \<Rightarrow>
          2 * pr div half_div v (if to2 v then fld_get 10 6 (v_pcdr0 v) else fld_get 8 4 (v_pcdr0 v))
      | clk_ipg_recalc_fn \<Rightarrow> pr div ((if to2 v then 1 else fld_get 8 1 (v_cscr v)) + 1)
      | clk_clko_recalc_fn \<Rightarrow> pr div (fld_get 0 3 (v_pcdr0 v) + 1)
      | _ \<Rightarrow> 0)"

text \<open>Which callback may be the \<^verbatim>\<open>recalc\<close> of which clock.\<close>

definition recalc_fits :: "clkid \<Rightarrow> mx27_clk \<Rightarrow> bool" where
  "recalc_fits c k =
     (case recalc k of None \<Rightarrow> True
      | Some f \<Rightarrow>
        (case f of
           clk_pll_recalc_fn \<Rightarrow> c = mpll_clk \<or> c = spll_clk
         | clk_mpll_main_recalc_fn \<Rightarrow> clk_id k = 0 \<or> clk_id k = 1
         | clk_perclkx_recalc_fn \<Rightarrow> 0 \<le> clk_id k \<and> clk_id k \<le> 3
         | clk_cpu_recalc_fn \<Rightarrow> True | clk_ahb_recalc_fn \<Rightarrow> True | clk_usb_recalc_fn \<Rightarrow> True
         | clk_ssi1_recalc_fn \<Rightarrow> True | clk_ssi2_recalc_fn \<Rightarrow> True | clk_nfc_recalc_fn \<Rightarrow> True
         | clk_vpu_recalc_fn \<Rightarrow> True | clk_ipg_recalc_fn \<Rightarrow> True | clk_clko_recalc_fn \<Rightarrow> True
         | _ \<Rightarrow> False))"

text \<open>
  What the callbacks rely on of the hardware: the clock control registers hold what is written
  to them, and the serial PLL, once its enable bit is set, locks after some time.  Of a PLL that is
  not enabled nothing is assumed: the wait for it may not end.
\<close>

definition ccm_regs :: "u32 list" where
  "ccm_regs = [CCM_CSCR, CCM_MPCTL0, CCM_SPCTL0, CCM_PCDR0, CCM_PCDR1, CCM_PCCR0, CCM_PCCR1, CCM_CCSR]"

definition pll_locks :: "bus \<Rightarrow> bool" where
  "pll_locks b \<longleftrightarrow>
     (\<forall>m. m CCM_CSCR AND CCM_CSCR_SPEN \<noteq> 0 \<longrightarrow> (\<exists>n. (tick b ^^ n) m CCM_SPCTL1 AND CCM_SPCTL1_LF \<noteq> 0))"

definition mx27_hwok :: "mx27 \<Rightarrow> bool" where
  "mx27_hwok h \<longleftrightarrow> (\<forall>a \<in> set ccm_regs. storage (io h) a) \<and> pll_locks (io h)"

definition mx27_ok :: "mx27_sys \<Rightarrow> bool" where
  "mx27_ok s \<longleftrightarrow> mx27_hwok (hw s) \<and> (\<forall>c. recalc_fits c (clk_of s c))"

section \<open>Register access\<close>

lemma wr_frame [simp]:
  "clk_of (wr v a s) = clk_of s" "clocks (wr v a s) = clocks s"
  "mod_live (wr v a s) = mod_live s" "mod_ref (wr v a s) = mod_ref s"
  "sysrev (hw (wr v a s)) = sysrev (hw s)"
  "sysrev_updated (hw (wr v a s)) = sysrev_updated (hw s)"
  "wsem (io (hw (wr v a s))) = wsem (io (hw s))"
  "tick (io (hw (wr v a s))) = tick (io (hw s))"
  "storage (io (hw (wr v a s))) = storage (io (hw s))"
  by (simp_all add: wr_def)

lemma wr_hw: "wr v a s = s\<lparr>hw := hw (wr v a s)\<rparr>"
  by (simp add: wr_def)

lemma rd_wr_other [simp]: "a \<noteq> a' \<Longrightarrow> rd a' (wr v a s) = rd a' s"
  by (simp add: rd_def wr_def)

lemma rd_wr_same: "storage (io (hw s)) a \<Longrightarrow> rd a (wr v a s) = v"
  by (simp add: rd_def wr_def readl_writel_same)

lemma rd_upd [simp]: "rd a (upd_clk c g s) = rd a s"
  by (simp add: rd_def)

lemma wr_rd_same: "storage (io (hw s)) a \<Longrightarrow> wr (rd a s) a s = s"
  by (simp add: rd_def wr_def writel_readl_same)

lemma pll_locks_tick: "tick b' = tick b \<Longrightarrow> pll_locks b' = pll_locks b"
  by (simp add: pll_locks_def)

lemma hwok_wr [simp]: "mx27_hwok (hw (wr v a s)) = mx27_hwok (hw s)"
  by (simp add: mx27_hwok_def pll_locks_tick [of "io (hw (wr v a s))" "io (hw s)"])

lemma hwok_storage: "mx27_hwok h \<Longrightarrow> a \<in> set ccm_regs \<Longrightarrow> storage (io h) a"
  by (simp add: mx27_hwok_def)

text \<open>The wait for the PLL returns when the PLL locks.\<close>

lemma spll_wait_returns:
  "(tick b ^^ n) (mem b) CCM_SPCTL1 AND CCM_SPCTL1_LF \<noteq> 0 \<Longrightarrow>
    \<exists>m. spll_wait b = Some (b\<lparr>mem := m\<rparr>)"
proof (induction n arbitrary: b)
  case 0
  then show ?case by (intro exI [of _ "mem b"]) (simp add: spll_wait.simps [of b] raw_readl_def)
next
  case (Suc n)
  show ?case
  proof (cases "raw_readl CCM_SPCTL1 b AND CCM_SPCTL1_LF = 0")
    case True
    have "(tick (bus_tick b) ^^ n) (mem (bus_tick b)) CCM_SPCTL1 AND CCM_SPCTL1_LF \<noteq> 0"
      using Suc.prems by (simp add: bus_tick_def funpow_Suc_right del: funpow.simps)
    from Suc.IH [OF this] obtain m where "spll_wait (bus_tick b) = Some ((bus_tick b)\<lparr>mem := m\<rparr>)" by blast
    then show ?thesis
      using True by (intro exI [of _ m]) (simp add: spll_wait.simps [of b] bus_tick_def)
  next
    case False
    then show ?thesis by (intro exI [of _ "mem b"]) (simp add: spll_wait.simps [of b])
  qed
qed

section \<open>Gates change registers only\<close>

definition hw_only :: "mx27_sys \<Rightarrow> mx27_sys \<Rightarrow> bool" where
  "hw_only s s' \<longleftrightarrow> mx27_hwok (hw s') \<and> s' = s\<lparr>hw := hw s'\<rparr>"

lemma hw_only_refl [simp]: "mx27_hwok (hw s) \<Longrightarrow> hw_only s s"
  by (simp add: hw_only_def)

lemma hw_only_wr [simp]: "hw_only s s' \<Longrightarrow> hw_only s (wr v a s')"
  unfolding hw_only_def by (metis clksys.update_convs(3) hwok_wr wr_hw clksys.surjective)

lemma hw_only_ex: "hw_only s s' \<Longrightarrow> \<exists>h. mx27_hwok h \<and> s' = s\<lparr>hw := h\<rparr>"
  unfolding hw_only_def by blast

lemmas gate_defs =
  u_clk_enable_def u_clk_disable_def u_clk_spll_disable_def u_clk_pccr01_enable_def
  u_clk_pccr01_disable_def u_clk_pccr10_enable_def u_clk_pccr10_disable_def u_clk_dma_enable_def
  u_clk_dma_disable_def u_clk_rtic_enable_def u_clk_rtic_disable_def u_clk_emma_enable_def
  u_clk_emma_disable_def u_clk_slcdc_enable_def u_clk_slcdc_disable_def u_clk_fec_enable_def
  u_clk_fec_disable_def u_clk_vpu_enable_def u_clk_vpu_disable_def u_clk_sahara2_enable_def
  u_clk_sahara2_disable_def u_clk_mstick1_enable_def u_clk_mstick1_disable_def
  u_clk_clko_enable_def u_clk_clko_disable_def

lemma spen_set: "(x OR CCM_CSCR_SPEN) AND CCM_CSCR_SPEN \<noteq> 0"
  by (simp add: bit.conj_disj_distrib2 CCM_CSCR_SPEN_def)

lemma spll_enable_effect:
  assumes "mx27_hwok (hw s)"
  shows "\<exists>s'. u_clk_spll_enable c s = Inr (0, s') \<and> hw_only s s'"
proof -
  let ?s1 = "wr (rd CCM_CSCR s OR CCM_CSCR_SPEN) CCM_CSCR s"
  have "pll_locks (io (hw ?s1))" using assms hwok_wr [of _ _ s] unfolding mx27_hwok_def by blast
  moreover have "mem (io (hw ?s1)) CCM_CSCR AND CCM_CSCR_SPEN \<noteq> 0"
    using rd_wr_same [OF hwok_storage [OF assms], of CCM_CSCR "rd CCM_CSCR s OR CCM_CSCR_SPEN"] spen_set
    by (simp add: rd_def raw_readl_def ccm_regs_def)
  ultimately obtain n where "(tick (io (hw ?s1)) ^^ n) (mem (io (hw ?s1))) CCM_SPCTL1 AND CCM_SPCTL1_LF \<noteq> 0"
    unfolding pll_locks_def by blast
  from spll_wait_returns [OF this] obtain m where
    w: "spll_wait (io (hw ?s1)) = Some ((io (hw ?s1))\<lparr>mem := m\<rparr>)" by blast
  let ?s2 = "?s1\<lparr>hw := (hw ?s1)\<lparr>io := (io (hw ?s1))\<lparr>mem := m\<rparr>\<rparr>\<rparr>"
  have "mx27_hwok (hw ?s2)"
    using assms by (simp add: mx27_hwok_def pll_locks_def storage_def)
  then have "hw_only s ?s2"
    by (simp add: hw_only_def wr_def)
  moreover have "u_clk_spll_enable c s = Inr (0, ?s2)"
    using w by (simp add: u_clk_spll_enable_def Let_def)
  ultimately show ?thesis by blast
qed

lemma mx27_enable_effect:
  assumes "mx27_hwok (hw s)"
  shows "\<exists>s'. mx27_enable f c s = Inr (0, s') \<and> hw_only s s'"
  using assms spll_enable_effect [OF assms, of c]
  by (cases f) (simp_all add: mx27_enable_def gate_defs Let_def)

lemma mx27_disable_effect:
  assumes "mx27_hwok (hw s)"
  shows "\<exists>s'. mx27_disable f c s = Inr s' \<and> hw_only s s'"
  using assms by (cases f) (simp_all add: mx27_disable_def gate_defs Let_def)

interpretation gates: clk_gates_live mx27_fns mx27_hwok
proof unfold_locales
  fix s :: mx27_sys and f c r s'
  assume h: "mx27_hwok (hw s)"
  note e = mx27_enable_effect [OF h, of f c] and d = mx27_disable_effect [OF h, of f c]
  show "\<exists>h. mx27_hwok h \<and> s' = s\<lparr>hw := h\<rparr>" if "call_enable mx27_fns f c s = Inr (r, s')"
    using e that hw_only_ex [of s] by (auto simp: mx27_fns_def)
  show "\<exists>h. mx27_hwok h \<and> s' = s\<lparr>hw := h\<rparr>" if "call_disable mx27_fns f c s = Inr s'"
    using d that hw_only_ex [of s] by (auto simp: mx27_fns_def)
  show "\<exists>r s'. call_enable mx27_fns f c s = Inr (r, s')" using e by (auto simp: mx27_fns_def)
  show "\<exists>s'. call_disable mx27_fns f c s = Inr s'" using d by (auto simp: mx27_fns_def)
qed

section \<open>The rate callbacks refine \<open>recalc_value\<close>\<close>

lemma drop_and_push: "n + w \<le> 32 \<Longrightarrow> drop_bit n (x AND push_bit n (mask w)) = fld_get n w (x :: u32)"
  by (rule bit_word_eqI) (auto simp: bit_simps bit_fld_get add.commute dest: bit_imp_le_length)

lemma field_reads [field_simps_mx]:
  "drop_bit CCM_MPCTL0_PD_OFFSET (x AND CCM_MPCTL0_PD_MASK) = fld_get 26 4 x"
  "drop_bit CCM_MPCTL0_MFD_OFFSET (x AND CCM_MPCTL0_MFD_MASK) = fld_get 16 10 x"
  "drop_bit CCM_MPCTL0_MFI_OFFSET (x AND CCM_MPCTL0_MFI_MASK) = fld_get 10 4 x"
  "drop_bit CCM_MPCTL0_MFN_OFFSET (x AND CCM_MPCTL0_MFN_MASK) = fld_get 0 10 x"
  "drop_bit CCM_SPCTL0_PD_OFFSET (x AND CCM_SPCTL0_PD_MASK) = fld_get 26 4 x"
  "drop_bit CCM_SPCTL0_MFD_OFFSET (x AND CCM_SPCTL0_MFD_MASK) = fld_get 16 10 x"
  "drop_bit CCM_SPCTL0_MFI_OFFSET (x AND CCM_SPCTL0_MFI_MASK) = fld_get 10 4 x"
  "drop_bit CCM_SPCTL0_MFN_OFFSET (x AND CCM_SPCTL0_MFN_MASK) = fld_get 0 10 x"
  "drop_bit CCM_CSCR_ARM_OFFSET (x AND CCM_CSCR_ARM_MASK) = fld_get 12 2 x"
  "drop_bit CCM_CSCR_PRESC_OFFSET (x AND CCM_CSCR_PRESC_MASK) = fld_get 13 3 x"
  "drop_bit CCM_CSCR_AHB_OFFSET (x AND CCM_CSCR_AHB_MASK) = fld_get 8 2 x"
  "drop_bit CCM_CSCR_BCLK_OFFSET (x AND CCM_CSCR_BCLK_MASK) = fld_get 9 4 x"
  "drop_bit CCM_CSCR_USB_OFFSET (x AND CCM_CSCR_USB_MASK) = fld_get 28 3 x"
  "drop_bit CCM_CSCR_IPDIV_OFFSET (x AND CCM_CSCR_IPDIV) = fld_get 8 1 x"
  "drop_bit CCM_PCDR0_SSI1BAUDDIV_OFFSET (x AND CCM_PCDR0_SSI1BAUDDIV_MASK) = fld_get 16 6 x"
  "drop_bit CCM_PCDR0_SSI2BAUDDIV_OFFSET (x AND CCM_PCDR0_SSI2BAUDDIV_MASK) = fld_get 26 6 x"
  "drop_bit CCM_PCDR0_NFCDIV2_OFFSET (x AND CCM_PCDR0_NFCDIV2_MASK) = fld_get 6 4 x"
  "drop_bit CCM_PCDR0_NFCDIV_OFFSET (x AND CCM_PCDR0_NFCDIV_MASK) = fld_get 12 4 x"
  "drop_bit CCM_PCDR0_VPUDIV2_OFFSET (x AND CCM_PCDR0_VPUDIV2_MASK) = fld_get 10 6 x"
  "drop_bit CCM_PCDR0_VPUDIV_OFFSET (x AND CCM_PCDR0_VPUDIV_MASK) = fld_get 8 4 x"
  "x AND drop_bit CCM_PCDR0_CLKODIV_OFFSET CCM_PCDR0_CLKODIV_MASK = fld_get 0 3 x"
  "drop_bit n x AND CCM_PCDR1_PERDIV1_MASK = fld_get n 6 x"
  using drop_and_push [of 26 4 x]
    drop_and_push [of 16 10 x]
    drop_and_push [of 10 4 x]
    drop_and_push [of 12 2 x]
    drop_and_push [of 13 3 x]
    drop_and_push [of 8 2 x]
    drop_and_push [of 9 4 x]
    drop_and_push [of 28 3 x]
    drop_and_push [of 8 1 x]
    drop_and_push [of 16 6 x]
    drop_and_push [of 26 6 x]
    drop_and_push [of 6 4 x]
    drop_and_push [of 12 4 x]
    drop_and_push [of 10 6 x]
    drop_and_push [of 8 4 x]
  by (simp_all add: mask_eq_exp_minus_1 fld_get_def)

lemma fld_get_less: "w < 32 \<Longrightarrow> unat (fld_get n w x) < 2 ^ w"
  using fits_iff_less fits_get by blast

lemma fld_succ_nonzero [simp]:
  assumes "w < 32" shows "fld_get n w x + 1 \<noteq> 0"
proof
  assume "fld_get n w x + 1 = 0"
  then have "fld_get n w x = - 1" by (simp add: eq_neg_iff_add_eq_0)
  then have "bit (fld_get n w x) 31" by simp
  then show False using assms by (simp add: bit_fld_get)
qed

lemma fld_plus4_nonzero [simp]:
  assumes "w < 30" shows "fld_get n w x + 4 \<noteq> 0"
proof
  assume "fld_get n w x + 4 = 0"
  then have e: "fld_get n w x = - 4" by (simp add: eq_neg_iff_add_eq_0)
  have "bit (- 4 :: u32) 31" by (simp add: bit_minus_iff)
  then show False using assms e bit_fld_get [of n w x 31] by simp
qed

lemma udiv_ge2 [simp]: "\<not> b < 2 \<Longrightarrow> udiv a b = Inr (a div b)" for a b :: u32
  by (auto simp: udiv_def)

lemma udiv_nonzero [simp]: "b \<noteq> 0 \<Longrightarrow> udiv a b = Inr (a div b)"
  by (simp add: udiv_def)

lemma to2_rev [simp]: "0 < cpu_is_mx27_rev CHIP_REV_2_0 s \<longleftrightarrow> to2 (rate_view (hw s))"
  by (auto simp: cpu_is_mx27_rev_def is_rev_def to2_def rate_view_def)

lemma view_reads:
  "v_cscr (rate_view (hw s)) = CSCR s" "v_pcdr0 (rate_view (hw s)) = PCDR0 s"
  "v_pcdr1 (rate_view (hw s)) = PCDR1 s" "v_mpctl0 (rate_view (hw s)) = rd CCM_MPCTL0 s"
  "v_spctl0 (rate_view (hw s)) = rd CCM_SPCTL0 s" "PCDR0 s = rd CCM_PCDR0 s"
  by (simp_all add: rate_view_def CSCR_def PCDR0_def PCDR1_def rd_def)

lemma ucast_eq_zero: "(ucast (a :: u32) :: u64) = 0 \<longleftrightarrow> a = 0"
  by transfer simp

lemma ucast_succ_nonzero [simp]:
  assumes "w < 32" shows "(ucast (fld_get n w x + 1) :: u64) \<noteq> 0"
  using fld_succ_nonzero [OF assms, of n x] by (simp add: ucast_eq_zero)

lemmas recalc_defs =
  u_clk_mpll_main_recalc_def u_clk_cpu_recalc_def u_clk_ahb_recalc_def u_clk_perclkx_recalc_def
  u_clk_usb_recalc_def u_clk_ssi1_recalc_def u_clk_ssi2_recalc_def u_clk_nfc_recalc_def
  u_clk_vpu_recalc_def u_clk_ipg_recalc_def u_clk_clko_recalc_def

lemmas recalc_fields = recalc_defs [unfolded field_reads to2_rev]

lemma pll_refines:
  assumes "mx27_hwok (hw s)" and "c = mpll_clk \<or> c = spll_clk" and "parent (clk_of s c) = Some p"
  shows "u_clk_pll_recalc c s = Inr (set_clk_rate c
    (recalc_value clk_pll_recalc_fn c i (rate_view (hw s)) p (rate (clk_of s p))) s)"
proof -
  have "wr (rd CCM_SPCTL0 s) CCM_SPCTL0 s = s"
    using assms(1) by (intro wr_rd_same hwok_storage) (simp_all add: ccm_regs_def)
  then show ?thesis
    using assms(2,3) unfolding u_clk_pll_recalc_def field_reads Let_def
    by (auto simp: recalc_value_def pll_value_def view_reads Let_def simp del: CCM_SPCTL0_def CCM_MPCTL0_def)
qed

lemma recalc_refines_value:
  assumes ok: "mx27_ok s" and "recalc (clk_of s c) = Some f" and p: "parent (clk_of s c) = Some p"
  shows "mx27_recalc f c s = Inr (set_clk_rate c
    (recalc_value f c (clk_id (clk_of s c)) (rate_view (hw s)) p (rate (clk_of s p))) s)"
proof -
  have fits: "recalc_fits c (clk_of s c)" and h: "mx27_hwok (hw s)" using ok by (simp_all add: mx27_ok_def)
  have pr: "parent_rate c s = Inr (rate (clk_of s p))" using p by (simp add: parent_rate_def)
  note pll = pll_refines [OF h _ p]
  show ?thesis
    using fits assms(2) pr pll unfolding recalc_fits_def
    by (cases f) (auto simp: mx27_recalc_def recalc_fields Let_def recalc_value_def view_reads half_div_def)
qed

end
