(* ===== verification/Mx27_Clk_Machine.thy ===== *)
theory Mx27_Clk_Machine
  imports Mx27_Clk_Spec
begin

text \<open>
  The i.MX27 callbacks satisfy the interfaces of the clock framework: the gates change registers
  only, the rate callbacks compute rates from the registers and the parent, and the rest of the
  state is left alone.
\<close>

section \<open>The callbacks satisfy the interfaces\<close>

lemma ok_wr [simp]: "mx27_ok (wr v a s) = mx27_ok s"
  by (simp add: mx27_ok_def)

lemma same_uses_wr [simp]: "same_uses s (wr v a t) = same_uses s t"
  by (simp add: same_uses_def)

lemma recalc_fits_cong:
  "recalc k' = recalc k \<Longrightarrow> clk_id k' = clk_id k \<Longrightarrow> recalc_fits c k' = recalc_fits c k"
  by (simp only: recalc_fits_def)

lemma recalc_fits_upd [simp]:
  "recalc_fits c (k\<lparr>rate := r\<rparr>) = recalc_fits c k"
  "recalc_fits c (k\<lparr>parent := p\<rparr>) = recalc_fits c k"
  by (rule recalc_fits_cong; simp)+

lemma ok_rate [simp]: "mx27_ok (set_clk_rate c r s) = mx27_ok s"
  by (auto simp: mx27_ok_def split: if_splits)

lemma ok_par [simp]: "mx27_ok (reparent c p s) = mx27_ok s"
  by (auto simp: mx27_ok_def split: if_splits)

lemmas set_rate_defs =
  u_clk_cpu_set_rate_def u_clk_perclkx_set_rate_def u_clk_vpu_set_rate_def u_clk_clko_set_rate_def

lemma mx27_set_rate_frame:
  "mx27_ok s \<Longrightarrow> mx27_set_rate n f c r s = Inr (ret, s') \<Longrightarrow> mx27_ok s' \<and> same_uses s s'"
proof (induction n arbitrary: f c s ret s')
  case (Suc n)
  have par: "mx27_ok s' \<and> same_uses s s'"
    if run: "u_clk_parent_set_rate (mx27_set_rate n) c r s = Inr (ret, s')"
  proof -
    obtain p g s1 ret1 where "mx27_set_rate n g p r s = Inr (ret1, s1)"
      and s': "s' = (if ret1 = 0 then set_clk_rate c r s1 else s1)"
      using run by (auto simp: u_clk_parent_set_rate_def rbind_eq_Inr split: if_splits)
    from Suc.IH [OF Suc.prems(1) this(1)] s' show ?thesis by simp
  qed
  show ?case
    using Suc.prems par
    by (cases f) (auto simp: set_rate_defs rbind_eq_Inr Let_def split: if_splits)
qed simp

lemma mx27_set_parent_frame:
  assumes "mx27_ok s" and "mx27_set_parent f c p s = Inr (ret, s')"
  shows "mx27_ok s'"
    and "if ret = 0 then same_uses (reparent c p s) (reparent c p s') else same_uses s s'"
  using assms
  by (cases f; auto simp: mx27_set_parent_def u_clk_cpu_set_parent_def u_clk_clko_set_parent_def Let_def
      same_uses_def split: if_splits)+

lemma recalc_without_parent:
  assumes "recalc_fits c (clk_of s c)" and "recalc (clk_of s c) = Some f" and "parent (clk_of s c) = None"
  shows "mx27_recalc f c s = Inl NullDeref"
proof -
  have "parent_rate c s = Inl NullDeref" using assms(3) by (simp add: parent_rate_def)
  then show ?thesis
    using assms unfolding recalc_fits_def
    by (cases f) (auto simp: mx27_recalc_def recalc_fields u_clk_pll_recalc_def Let_def)
qed

interpretation mx27: clk_machine mx27_fns mx27_hwok mx27_ok rate_view
proof unfold_locales
  fix s t :: mx27_sys and f c r ret p s'
  assume ok: "mx27_ok s"
  show "\<exists>r. s' = set_clk_rate c r s"
    if "recalc (clk_of s c) = Some f" "call_recalc mx27_fns f c s = Inr s'"
    using that ok recalc_without_parent [of c s f] recalc_refines_value [OF ok that(1)]
    by (cases "parent (clk_of s c)") (auto simp: mx27_fns_def mx27_ok_def)
  show "call_recalc mx27_fns f c t = Inr (set_clk_rate c r t)"
    if "mx27_ok t" "recalc (clk_of s c) = Some f" "call_recalc mx27_fns f c s = Inr (set_clk_rate c r s)"
      "clk_id (clk_of t c) = clk_id (clk_of s c)" "recalc (clk_of t c) = recalc (clk_of s c)"
      "parent (clk_of t c) = parent (clk_of s c)" "rate_view (hw t) = rate_view (hw s)"
      "\<And>p. parent (clk_of s c) = Some p \<Longrightarrow> rate (clk_of t p) = rate (clk_of s p)"
  proof (cases "parent (clk_of s c)")
    case None
    then show ?thesis using that(2,3) ok recalc_without_parent [of c s f] by (simp add: mx27_fns_def mx27_ok_def)
  next
    case (Some p)
    have "set_clk_rate c (recalc_value f c (clk_id (clk_of s c)) (rate_view (hw s)) p (rate (clk_of s p))) s
        = set_clk_rate c r s"
      using recalc_refines_value [OF ok that(2) Some] that(3) by (simp add: mx27_fns_def)
    from arg_cong [OF this, of "\<lambda>s. rate (clk_of s c)"]
    have "recalc_value f c (clk_id (clk_of s c)) (rate_view (hw s)) p (rate (clk_of s p)) = r" by simp
    then show ?thesis
      using recalc_refines_value [OF that(1), of c f p] that Some by (simp add: mx27_fns_def)
  qed
  show "\<exists>s'. call_recalc mx27_fns f c s = Inr s'"
    if "recalc (clk_of s c) = Some f" "parent (clk_of s c) \<noteq> None"
    using recalc_refines_value [OF ok that(1)] that(2) by (auto simp: mx27_fns_def)
  show "mx27_ok s' \<and> same_uses s s'" if "call_set_rate mx27_fns f c r s = Inr (ret, s')"
    using mx27_set_rate_frame [OF ok] that by (simp add: mx27_fns_def)
  show "mx27_ok s' \<and> (if ret = 0 then same_uses (reparent c p s) (reparent c p s') else same_uses s s')"
    if "call_set_parent mx27_fns f c p s = Inr (ret, s')"
    using mx27_set_parent_frame [OF ok] that by (simp add: mx27_fns_def)
  show "mx27_ok t" if "same_uses s t" "hw t = hw s"
    using ok that(2) recalc_fits_cong [OF same_usesD(4,5) [OF that(1)]] by (simp add: mx27_ok_def)
  show "mx27_ok (reparent c p s)" using ok by simp
  show "mx27_hwok (hw s)" using ok by (simp add: mx27_ok_def)
  show "mx27_ok t" if "same_shape s t" "mx27_hwok (hw t)"
    using ok that(2) recalc_fits_cong [OF same_shapeD(6,9) [OF that(1)]] by (simp add: mx27_ok_def)
qed

end
