(* ===== verification/Mx27_Clk_Tree.thy ===== *)
theory Mx27_Clk_Tree
  imports Mx27_Clk_Machine
begin

text \<open>
  The tree of the i.MX27 clocks: how a state relates to the static tables (\<open>wired\<close>), a rank that
  orders parent and secondary links, the bound on the fan-in of a clock, and what registration and
  the probing of the hardware do to the tree.
\<close>

section \<open>Rank and wiring\<close>

definition mx27_rank :: "clkid \<Rightarrow> nat" where
  "mx27_rank c =
     (case c of
        ckih_clk \<Rightarrow> 0 | ckil_clk \<Rightarrow> 0 | mpll_clk \<Rightarrow> 1 | spll_clk \<Rightarrow> 1 | mpll_main_clk i \<Rightarrow> 2
      | cpu_clk \<Rightarrow> 3 | ahb_clk \<Rightarrow> 3 | per_clk i \<Rightarrow> 3 | vpu_clk \<Rightarrow> 3
      | usb_clk i \<Rightarrow> if i = 0 then 2 else 4
      | ipg_clk \<Rightarrow> 4 | nfc_clk \<Rightarrow> 4 | dma_clk \<Rightarrow> 4 | rtic_clk \<Rightarrow> 4 | brom_clk \<Rightarrow> 4 | emma_clk \<Rightarrow> 4
      | slcdc_clk \<Rightarrow> 4 | fec_clk \<Rightarrow> 4 | emi_clk \<Rightarrow> 4 | sahara2_clk \<Rightarrow> 4 | ata_clk \<Rightarrow> 4
      | csi_clk i \<Rightarrow> if i = 0 then 5 else 4
      | lcdc_clk i \<Rightarrow> if i = 0 then 6 else if i = 1 then 5 else 4
      | mstick1_clk \<Rightarrow> 5 | wdog_clk \<Rightarrow> 5 | gpio_clk \<Rightarrow> 5 | i2c_clk i \<Rightarrow> 5 | iim_clk \<Rightarrow> 5 | kpp_clk \<Rightarrow> 5
      | owire_clk \<Rightarrow> 5 | rtc_clk \<Rightarrow> 5 | scc_clk \<Rightarrow> 5 | clko_clk \<Rightarrow> 7
      | uart1_clk i \<Rightarrow> if i = 0 then 6 else 5 | uart2_clk i \<Rightarrow> if i = 0 then 6 else 5
      | uart3_clk i \<Rightarrow> if i = 0 then 6 else 5 | uart4_clk i \<Rightarrow> if i = 0 then 6 else 5
      | uart5_clk i \<Rightarrow> if i = 0 then 6 else 5 | uart6_clk i \<Rightarrow> if i = 0 then 6 else 5
      | gpt1_clk i \<Rightarrow> if i = 0 then 6 else 5 | gpt2_clk i \<Rightarrow> if i = 0 then 6 else 5
      | gpt3_clk i \<Rightarrow> if i = 0 then 6 else 5 | gpt4_clk i \<Rightarrow> if i = 0 then 6 else 5
      | gpt5_clk i \<Rightarrow> if i = 0 then 6 else 5 | gpt6_clk i \<Rightarrow> if i = 0 then 6 else 5
      | pwm_clk i \<Rightarrow> if i = 0 then 6 else 5
      | sdhc1_clk i \<Rightarrow> if i = 0 then 6 else 5 | sdhc2_clk i \<Rightarrow> if i = 0 then 6 else 5
      | sdhc3_clk i \<Rightarrow> if i = 0 then 6 else 5
      | cspi1_clk i \<Rightarrow> if i = 0 then 6 else 5 | cspi2_clk i \<Rightarrow> if i = 0 then 6 else 5
      | cspi3_clk i \<Rightarrow> if i = 0 then 6 else 5
      | ssi1_clk i \<Rightarrow> if i = 0 then 6 else 5 | ssi2_clk i \<Rightarrow> if i = 0 then 6 else 5)"

text \<open>The parents a clock can have: the one in its table, or one the code assigns.\<close>

definition may_parent :: "clkid \<Rightarrow> clkid option \<Rightarrow> bool" where
  "may_parent c p \<longleftrightarrow>
     p = parent (mx27_clk_init c) \<or>
     (c = mpll_clk \<or> c = spll_clk) \<and> p = Some ckil_clk \<or>
     c = cpu_clk \<and> p \<in> {Some (mpll_main_clk 0), Some (mpll_main_clk 1), Some mpll_clk} \<or>
     c \<in> {ahb_clk, per_clk 0, per_clk 1, per_clk 2, per_clk 3} \<and> p = Some mpll_clk \<or>
     c \<in> {ssi1_clk 0, ssi2_clk 0, vpu_clk} \<and> p \<in> {Some spll_clk, Some mpll_clk} \<or>
     c = clko_clk \<and> (\<forall>q. p = Some q \<longrightarrow> mx27_rank q < 7)"

text \<open>
  A state is wired as the tables say: up to rates, use counts, parents and the callbacks that are
  switched off on the first chip revision, each clock is the one of its table.
\<close>

definition static_part :: "mx27_clk \<Rightarrow> mx27_clk" where
  "static_part k =
     k\<lparr>rate := 0, usecount := 0, parent := None, set_parent := None, round_rate := None, set_rate := None\<rparr>"

definition wired :: "mx27_sys \<Rightarrow> bool" where
  "wired s \<longleftrightarrow>
     (\<forall>c. static_part (clk_of s c) = static_part (mx27_clk_init c)) \<and>
     (\<forall>c. may_parent c (parent (clk_of s c)))"

section \<open>Facts on the tables\<close>

lemma elem_simps [simp]:
  "elem [] i = null_clk"
  "elem (x # xs) i = (case i of 0 \<Rightarrow> x | Suc j \<Rightarrow> elem xs j)"
  by (simp_all add: elem_def split: nat.split)

lemmas table_simps = mx27_clk_init_def clk_tables null_clk_def

lemma table_parent_rank: "parent (mx27_clk_init c) = Some p \<Longrightarrow> mx27_rank p < mx27_rank c"
  by (cases c) (auto simp: table_simps mx27_rank_def split: nat.splits)

lemma table_secondary_rank: "secondary (mx27_clk_init c) = Some p \<Longrightarrow> mx27_rank p < mx27_rank c"
  by (cases c) (auto simp: table_simps mx27_rank_def split: nat.splits)

lemma table_recalc_fits: "recalc_fits c (mx27_clk_init c)"
  by (cases c) (auto simp: table_simps recalc_fits_def split: nat.splits)

lemma table_unused: "usecount (mx27_clk_init c) = 0"
  by (cases c) (auto simp: table_simps split: nat.splits)

lemma table_outside:
  "c \<notin> set mxc_clks \<Longrightarrow> parent (mx27_clk_init c) = None \<and> secondary (mx27_clk_init c) = None"
  by (cases c) (auto simp: table_simps mxc_clks_def split: nat.splits)

lemma rank_bound: "mx27_rank c \<le> 7"
  by (cases c) (auto simp: mx27_rank_def)

lemma mxc_clks_distinct: "distinct mxc_clks"
  by (simp add: mxc_clks_def)

lemma mxc_clks_length: "length mxc_clks = 84"
  by (simp add: mxc_clks_def)

lemma secondaries_distinct:
  "distinct (filter (\<lambda>q. q \<noteq> None) (map (\<lambda>c. secondary (mx27_clk_init c)) mxc_clks))"
  by code_simp

section \<open>Wired states\<close>

lemma static_partD:
  assumes "static_part k = static_part k'"
  shows "name k = name k'" "clk_id k = clk_id k'" "secondary k = secondary k'" "recalc k = recalc k'"
    "enable k = enable k'" "disable k = disable k'" "enable_reg k = enable_reg k'"
    "enable_shift k = enable_shift k'" "owner k = owner k'"
  using arg_cong [OF assms, of name] arg_cong [OF assms, of clk_id] arg_cong [OF assms, of secondary]
    arg_cong [OF assms, of recalc] arg_cong [OF assms, of enable] arg_cong [OF assms, of disable]
    arg_cong [OF assms, of enable_reg] arg_cong [OF assms, of enable_shift] arg_cong [OF assms, of owner]
  by (simp_all add: static_part_def)

lemma static_part_upd [simp]:
  "static_part (k\<lparr>rate := r\<rparr>) = static_part k"
  "static_part (k\<lparr>usecount := u\<rparr>) = static_part k"
  "static_part (k\<lparr>parent := p\<rparr>) = static_part k"
  "static_part (k\<lparr>set_parent := f, round_rate := g, set_rate := h\<rparr>) = static_part k"
  by (simp_all add: static_part_def)

lemma wiredD:
  assumes "wired s"
  shows "clk_id (clk_of s c) = clk_id (mx27_clk_init c)"
    and "secondary (clk_of s c) = secondary (mx27_clk_init c)"
    and "recalc (clk_of s c) = recalc (mx27_clk_init c)"
    and "enable (clk_of s c) = enable (mx27_clk_init c)"
    and "disable (clk_of s c) = disable (mx27_clk_init c)"
    and "enable_reg (clk_of s c) = enable_reg (mx27_clk_init c)"
    and "enable_shift (clk_of s c) = enable_shift (mx27_clk_init c)"
    and "name (clk_of s c) = name (mx27_clk_init c)"
    and "may_parent c (parent (clk_of s c))"
proof -
  have "static_part (clk_of s c) = static_part (mx27_clk_init c)" using assms by (simp add: wired_def)
  note e = static_partD [OF this]
  show "clk_id (clk_of s c) = clk_id (mx27_clk_init c)"
    "secondary (clk_of s c) = secondary (mx27_clk_init c)" "recalc (clk_of s c) = recalc (mx27_clk_init c)"
    "enable (clk_of s c) = enable (mx27_clk_init c)" "disable (clk_of s c) = disable (mx27_clk_init c)"
    "enable_reg (clk_of s c) = enable_reg (mx27_clk_init c)"
    "enable_shift (clk_of s c) = enable_shift (mx27_clk_init c)" "name (clk_of s c) = name (mx27_clk_init c)"
    using e by simp_all
  show "may_parent c (parent (clk_of s c))" using assms by (simp add: wired_def)
qed

lemma may_parent_rank: "may_parent c (Some p) \<Longrightarrow> mx27_rank p < mx27_rank c"
  using table_parent_rank [of c p]
  by (auto simp: may_parent_def) (simp_all add: mx27_rank_def)

lemma reparented_inside:
  "mpll_clk \<in> set mxc_clks" "spll_clk \<in> set mxc_clks" "cpu_clk \<in> set mxc_clks" "ahb_clk \<in> set mxc_clks"
  "per_clk 0 \<in> set mxc_clks" "per_clk (Suc 0) \<in> set mxc_clks" "per_clk 2 \<in> set mxc_clks"
  "per_clk 3 \<in> set mxc_clks" "ssi1_clk 0 \<in> set mxc_clks" "ssi2_clk 0 \<in> set mxc_clks"
  "vpu_clk \<in> set mxc_clks" "clko_clk \<in> set mxc_clks"
  by (simp_all add: mxc_clks_def)

lemma may_parent_inside: "may_parent c (Some p) \<Longrightarrow> c \<in> set mxc_clks"
  using table_outside [of c] reparented_inside by (cases "c \<in> set mxc_clks") (auto simp: may_parent_def)

lemma wired_tree: "wired s \<Longrightarrow> tree_ok mx27_rank s"
  unfolding tree_ok_iff using wiredD(2,9) table_secondary_rank may_parent_rank by metis

lemma wired_fits: "wired s \<Longrightarrow> recalc_fits c (clk_of s c)"
  using table_recalc_fits [of c] recalc_fits_cong [OF wiredD(3,1)] by simp

lemma wired_ok: "wired s \<Longrightarrow> mx27_hwok (hw s) \<Longrightarrow> mx27_ok s"
  by (simp add: mx27_ok_def wired_fits)

lemma wired_boot: "wired (mx27_boot h)"
  by (simp add: wired_def mx27_boot_def may_parent_def)

lemma wired_frame [simp]:
  "wired (wr v a s) = wired s" "wired (s\<lparr>hw := h\<rparr>) = wired s" "wired (s\<lparr>clocks := xs\<rparr>) = wired s"
  "wired (set_clk_rate c r s) = wired s"
  by (auto simp: wired_def split: if_splits)

lemma wired_reparent: "wired s \<Longrightarrow> may_parent c (Some p) \<Longrightarrow> wired (reparent c p s)"
  by (simp add: wired_def)

lemma wired_shape:
  assumes "same_shape s t" and "wired s" shows "wired t"
proof -
  have "static_part (clk_of t c) = static_part (clk_of s c)" for c
  proof -
    have "(clk_of t c)\<lparr>usecount := 0\<rparr> = (clk_of s c)\<lparr>usecount := 0\<rparr>"
      using assms(1) by (simp add: same_shape_def)
    from arg_cong [OF this, of static_part] show ?thesis by simp
  qed
  then show ?thesis using assms(2) same_shapeD(1) [OF assms(1)] by (simp add: wired_def)
qed

lemma wired_uses:
  assumes "same_uses s t" and "wired s" shows "wired t"
proof -
  have "static_part (clk_of t c) = static_part (clk_of s c)" for c
  proof -
    have "(clk_of t c)\<lparr>rate := 0\<rparr> = (clk_of s c)\<lparr>rate := 0\<rparr>"
      using assms(1) by (simp add: same_uses_def)
    from arg_cong [OF this, of static_part] show ?thesis by simp
  qed
  then show ?thesis using assms(2) same_usesD(1) [OF assms(1)] by (simp add: wired_def)
qed

text \<open>A clock has the \<^verbatim>\<open>set_parent\<close> callback of its table, or none.\<close>

definition steered :: "mx27_sys \<Rightarrow> bool" where
  "steered s \<longleftrightarrow> (\<forall>c. set_parent (clk_of s c) = None \<or> set_parent (clk_of s c) = set_parent (mx27_clk_init c))"

lemma steered_boot: "steered (mx27_boot h)"
  by (simp add: steered_def mx27_boot_def)

lemma steered_frame [simp]:
  "steered (wr v a s) = steered s" "steered (s\<lparr>hw := h\<rparr>) = steered s" "steered (s\<lparr>clocks := xs\<rparr>) = steered s"
  "steered (set_clk_rate c r s) = steered s" "steered (reparent c p s) = steered s"
  by (auto simp: steered_def split: if_splits)

lemma steered_cong: "(\<And>c. set_parent (clk_of t c) = set_parent (clk_of s c)) \<Longrightarrow> steered s \<Longrightarrow> steered t"
  by (simp add: steered_def)

lemma steered_shape:
  assumes "same_shape s t" and "steered s" shows "steered t"
proof (rule steered_cong [OF _ assms(2)])
  fix c
  have "(clk_of t c)\<lparr>usecount := 0\<rparr> = (clk_of s c)\<lparr>usecount := 0\<rparr>" using assms(1) by (simp add: same_shape_def)
  from arg_cong [OF this, of set_parent] show "set_parent (clk_of t c) = set_parent (clk_of s c)" by simp
qed

lemma steered_uses:
  assumes "same_uses s t" and "steered s" shows "steered t"
proof (rule steered_cong [OF _ assms(2)])
  fix c
  have "(clk_of t c)\<lparr>rate := 0\<rparr> = (clk_of s c)\<lparr>rate := 0\<rparr>" using assms(1) by (simp add: same_uses_def)
  from arg_cong [OF this, of set_parent] show "set_parent (clk_of t c) = set_parent (clk_of s c)" by simp
qed

section \<open>The counters have room\<close>

lemma filter_map_inj:
  "distinct (filter P (map f xs)) \<Longrightarrow> distinct xs \<Longrightarrow> P y \<Longrightarrow> a \<in> set xs \<Longrightarrow> b \<in> set xs
    \<Longrightarrow> f a = y \<Longrightarrow> f b = y \<Longrightarrow> a = b"
proof (induction xs)
  case (Cons z zs)
  then show ?case by (cases "P (f z)") (auto simp: image_iff)
qed simp

lemma one_secondary: "card {d \<in> set mxc_clks. secondary (mx27_clk_init d) = Some x} \<le> 1"
proof -
  have "a = b" if "a \<in> {d \<in> set mxc_clks. secondary (mx27_clk_init d) = Some x}"
    "b \<in> {d \<in> set mxc_clks. secondary (mx27_clk_init d) = Some x}" for a b
    using filter_map_inj [OF secondaries_distinct mxc_clks_distinct, of "Some x" a b] that by simp
  then show ?thesis by (simp add: card_le_Suc0_iff_eq)
qed

lemma wired_links_inside:
  assumes "wired s" and "links s d x \<noteq> 0" shows "d \<in> set mxc_clks"
  using assms wiredD(2,9) [OF assms(1), of d] may_parent_inside [of d x] table_outside [of d]
  by (auto simp: links_def split: if_splits)

text \<open>At most 84 clocks have a given clock as parent, at most one as secondary clock.\<close>

lemma wired_room:
  assumes w: "wired s" shows "room (\<lambda>_. 32) s"
proof -
  let ?D = "{d. \<exists>x. links s d x \<noteq> 0}" and ?M = "set mxc_clks"
  have sub: "?D \<subseteq> ?M" using wired_links_inside [OF w] by auto
  have "(\<Sum>d\<in>?D. links s d x) \<le> 95" for x
  proof -
    have "(\<Sum>d\<in>?D. links s d x) \<le> (\<Sum>d\<in>?M. links s d x)" using sub by (intro sum_mono2) auto
    also have "\<dots> = (\<Sum>d\<in>?M. one (parent (clk_of s d)) x) + (\<Sum>d\<in>?M. one (secondary (clk_of s d)) x)"
      by (simp only: links_one sum.distrib)
    also have "(\<Sum>d\<in>?M. one (parent (clk_of s d)) x) \<le> (\<Sum>d\<in>?M. 1)" by (intro sum_mono) simp
    also have "(\<Sum>d\<in>?M. 1 :: int) = 84" using distinct_card [OF mxc_clks_distinct] by (simp add: mxc_clks_length)
    also have "(\<Sum>d\<in>?M. one (secondary (clk_of s d)) x)
        = int (card {d \<in> ?M. secondary (mx27_clk_init d) = Some x})"
      by (simp add: wiredD(2) [OF w] sum.If_cases Int_def)
    also have "\<dots> \<le> 1" using one_secondary [of x] by simp
    finally show ?thesis by simp
  qed
  then show ?thesis using finite_subset [OF sub] by (simp add: room_def)
qed

section \<open>Changes of parent stay in the tree\<close>

lemma table_set_parent:
  "set_parent (mx27_clk_init c) = Some f \<Longrightarrow>
    c = cpu_clk \<and> f = clk_cpu_set_parent_fn \<or> c = clko_clk \<and> f = clk_clko_set_parent_fn"
  by (cases c) (auto simp: table_simps split: nat.splits)

lemma set_parent_stays:
  assumes "wired s" and "steered s" and "clk_set_parent mx27_fns (Clk c) (Clk p) s = Inr (0, s')"
  shows "may_parent c (Some p)"
proof -
  obtain f u where f: "set_parent (clk_of s c) = Some f" "mx27_set_parent f c p s = Inr (0, u)"
    using assms(3) by (auto simp: clk_set_parent_def mx27_fns_def rbind_eq_Inr split: option.splits if_splits)
  then have "set_parent (mx27_clk_init c) = Some f" using assms(2) by (metis option.distinct(1) steered_def)
  from table_set_parent [OF this] show ?thesis
  proof (elim disjE conjE)
    assume "c = cpu_clk" "f = clk_cpu_set_parent_fn"
    then show ?thesis
      using f(2) wiredD(9) [OF assms(1), of cpu_clk]
      by (auto simp: mx27_set_parent_def u_clk_cpu_set_parent_def Let_def may_parent_def split: if_splits)
  next
    assume c: "c = clko_clk" "f = clk_clko_set_parent_fn"
    have "mx27_rank q < 7" if "parent (clk_of s mpll_clk) = Some q \<or> parent (clk_of s spll_clk) = Some q" for q
      using that wiredD(9) [OF assms(1), of mpll_clk] wiredD(9) [OF assms(1), of spll_clk]
      by (auto simp: may_parent_def table_simps mx27_rank_def)
    then show ?thesis
      using f(2) c
      by (auto simp: mx27_set_parent_def u_clk_clko_set_parent_def Let_def may_parent_def mx27_rank_def
          EINVAL_def split: if_splits)
  qed
qed

definition mx27_wf :: "mx27_sys \<Rightarrow> bool" where
  "mx27_wf s \<longleftrightarrow> wired s \<and> steered s \<and> mx27_hwok (hw s)"

interpretation mx27_tree: clk_tree mx27_fns mx27_hwok mx27_ok rate_view mx27_wf mx27_rank 32
proof unfold_locales
  fix s s' :: mx27_sys and c p
  assume wf: "mx27_wf s"
  then have w: "wired s" and st: "steered s" and h: "mx27_hwok (hw s)" by (simp_all add: mx27_wf_def)
  show "mx27_ok s" by (rule wired_ok [OF w h])
  show "tree_ok mx27_rank s" by (rule wired_tree [OF w])
  show "room (\<lambda>_. 32) s" by (rule wired_room [OF w])
  show "mx27_wf s'" if "same_shape s s'" "mx27_hwok (hw s')"
    using that wired_shape [OF that(1) w] steered_shape [OF that(1) st] by (simp add: mx27_wf_def)
  show "mx27_wf s'" if "same_uses s s'" "mx27_ok s'"
    using that wired_uses [OF that(1) w] steered_uses [OF that(1) st] by (simp add: mx27_wf_def mx27_ok_def)
  note stays = set_parent_stays [OF w st]
  show "mx27_rank p < mx27_rank c" if "clk_set_parent mx27_fns (Clk c) (Clk p) s = Inr (0, s')"
    by (rule may_parent_rank [OF stays [OF that]])
  show "mx27_wf (reparent c p s)" if "clk_set_parent mx27_fns (Clk c) (Clk p) s = Inr (0, s')"
    using w st h wired_reparent [OF w stays [OF that]] by (simp add: mx27_wf_def)
qed

end
