(* ===== verification/Mx27_Clk_Init.thy ===== *)
theory Mx27_Clk_Init
  imports Mx27_Clk_Tree
begin

text \<open>
  The initialisation of the clock tree, \<^verbatim>\<open>clk_early_get_timer_rate\<close> followed by
  \<^verbatim>\<open>mxc_clocks_init\<close>: it returns, registers every clock of the chip revision, gives each
  registered clock the rate its registers say, and leaves four clocks in use.
\<close>

section \<open>Enabling on the i.MX27\<close>

lemma mx27_clk_enable_returns:
  assumes "wired s" and "mx27_hwok (hw s)"
  shows "\<exists>s'. clk_enable mx27_fns (Clk c) s = Inr (0, s') \<and> same_shape s s' \<and> mx27_hwok (hw s')"
proof -
  note t = wired_tree [OF assms(1)]
  have "mx27_rank c < CLK_DEPTH" using rank_bound [of c] by (simp add: CLK_DEPTH_def)
  from gates.enable_returns [OF assms(2) t this]
  obtain r s' where run: "clk_enable_rec mx27_fns CLK_DEPTH c s = Inr (r, s')" by blast
  have k: "keeps mx27_hwok mx27_rank (Suc (mx27_rank c)) s s'" by (rule gates.enable_keeps [OF assms(2) t run])
  have "r = 0 \<and> True"
  proof (rule gates.enable_reaches [OF t _ _ _ same_shape_refl assms(2) _ run, where Q = "\<lambda>_. True" and I = "\<lambda>_. True"])
    show "\<forall>c f s' r s''. True \<longrightarrow> same_shape s s' \<longrightarrow> mx27_hwok (hw s') \<longrightarrow> True \<longrightarrow> enable (clk_of s c) = Some f
        \<longrightarrow> call_enable mx27_fns f c s' = Inr (r, s'') \<longrightarrow> r = 0 \<and> True"
    proof (intro allI impI)
      fix c f and u u' :: mx27_sys and r
      assume "mx27_hwok (hw u)" "call_enable mx27_fns f c u = Inr (r, u')"
      then show "r = 0 \<and> True" using mx27_enable_effect [of u f c] by (auto simp: mx27_fns_def)
    qed
  qed simp_all
  then show ?thesis using run keepsD(2,4) [OF k] by (auto simp: clk_enable_def)
qed

lemma mx27_clk_disable_returns:
  assumes "wired s" and "mx27_hwok (hw s)"
  shows "\<exists>s'. clk_disable mx27_fns (Clk c) s = Inr s' \<and> same_shape s s' \<and> mx27_hwok (hw s')"
proof -
  note t = wired_tree [OF assms(1)]
  have "mx27_rank c < CLK_DEPTH" using rank_bound [of c] by (simp add: CLK_DEPTH_def)
  from gates.disable_returns [OF assms(2) t this]
  obtain s' where run: "clk_disable_rec mx27_fns CLK_DEPTH c s = Inr s'" by blast
  have k: "keeps mx27_hwok mx27_rank (Suc (mx27_rank c)) s s'" by (rule gates.disable_keeps [OF assms(2) t run])
  then show ?thesis using run keepsD(2,4) [OF k] by (auto simp: clk_disable_def)
qed

text \<open>The clocks that the initial enables reach: their gates are bits of \<^verbatim>\<open>PCCR0\<close> and \<^verbatim>\<open>PCCR1\<close>.\<close>

definition boot_reach :: "clkid \<Rightarrow> bool" where
  "boot_reach c \<longleftrightarrow> c \<in> {emi_clk, gpio_clk, iim_clk, gpt1_clk 0, gpt1_clk 1, per_clk 0, ipg_clk, ahb_clk,
     mpll_main_clk 0, mpll_main_clk 1, mpll_clk, ckih_clk, ckil_clk}"

lemma boot_reach_closed:
  assumes "wired s" and "boot_reach c" and "links s c p \<noteq> 0" shows "boot_reach p"
proof -
  have "may_parent c (Some p) \<or> secondary (mx27_clk_init c) = Some p"
    using assms(3) wiredD(2,9) [OF assms(1), of c] by (auto simp: links_def split: if_splits)
  then show ?thesis
    using assms(2) by (auto simp: boot_reach_def may_parent_def table_simps)
qed

lemma boot_reach_gate:
  assumes "boot_reach c" and "enable (mx27_clk_init c) = Some f"
  shows "f = clk_enable_fn \<and> enable_reg (mx27_clk_init c) \<in> {CCM_PCCR0, CCM_PCCR1}"
  using assms by (auto simp: boot_reach_def table_simps)

lemma rate_view_wr: "a \<in> {CCM_PCCR0, CCM_PCCR1} \<Longrightarrow> rate_view (hw (wr v a s)) = rate_view (hw s)"
  by (auto simp: rate_view_def wr_def)

lemma boot_enable_view:
  assumes w: "wired s" and h: "mx27_hwok (hw s)" and "boot_reach c"
    and run: "clk_enable mx27_fns (Clk c) s = Inr (r, s')"
  shows "rate_view (hw s') = rate_view (hw s)"
proof -
  have run': "clk_enable_rec mx27_fns CLK_DEPTH c s = Inr (r, s')" using run by (simp add: clk_enable_def)
  have "r = 0 \<and> rate_view (hw s') = rate_view (hw s)"
  proof (rule gates.enable_reaches [OF wired_tree [OF w] _ _ _ same_shape_refl h _ run',
        where Q = boot_reach and I = "\<lambda>k. rate_view k = rate_view (hw s)"])
    show "\<forall>c p. boot_reach c \<longrightarrow> links s c p \<noteq> 0 \<longrightarrow> boot_reach p" using boot_reach_closed [OF w] by blast
    show "\<forall>c f u r u'. boot_reach c \<longrightarrow> same_shape s u \<longrightarrow> mx27_hwok (hw u) \<longrightarrow> rate_view (hw u) = rate_view (hw s)
        \<longrightarrow> enable (clk_of s c) = Some f \<longrightarrow> call_enable mx27_fns f c u = Inr (r, u')
        \<longrightarrow> r = 0 \<and> rate_view (hw u') = rate_view (hw s)"
    proof (intro allI impI)
      fix c f and u u' :: mx27_sys and r
      assume c: "boot_reach c" and sh: "same_shape s u" and v: "rate_view (hw u) = rate_view (hw s)"
        and "enable (clk_of s c) = Some f" and call: "call_enable mx27_fns f c u = Inr (r, u')"
      then have g: "f = clk_enable_fn" "enable_reg (mx27_clk_init c) \<in> {CCM_PCCR0, CCM_PCCR1}"
        using boot_reach_gate [OF c] wiredD(4) [OF w] by auto
      have "enable_reg (clk_of u c) = enable_reg (mx27_clk_init c)" using wiredD(6) [OF wired_shape [OF sh w]] .
      then show "r = 0 \<and> rate_view (hw u') = rate_view (hw s)"
        using call g v rate_view_wr [of "enable_reg (clk_of u c)" _ u]
        by (auto simp: mx27_fns_def mx27_enable_def u_clk_enable_def Let_def)
    qed
  qed (use assms in simp_all)
  then show ?thesis by simp
qed

text \<open>One of the initial enables: it counts one more outside user and keeps all rates settled.\<close>

definition settled_all :: "mx27_sys \<Rightarrow> bool" where
  "settled_all s \<longleftrightarrow> (\<forall>c \<in> set (clocks s). settled mx27_fns s c)"

definition boot_inv :: "(clkid \<Rightarrow> int) \<Rightarrow> mx27_sys \<Rightarrow> bool" where
  "boot_inv ext s \<longleftrightarrow> wired s \<and> steered s \<and> mx27_hwok (hw s) \<and> refs_ok ext s \<and> settled_all s \<and>
     (\<forall>x. 0 \<le> ext x \<and> ext x < 32)"

lemma boot_enable:
  assumes inv: "boot_inv ext s" and c: "boot_reach c" and "ext c < 31"
  shows "\<exists>s'. call_clk_enable c s = Inr s' \<and> boot_inv (ext(c := ext c + 1)) s' \<and> same_shape s s'"
proof -
  have w: "wired s" and stt: "steered s" and h: "mx27_hwok (hw s)" and refs: "refs_ok ext s" and st: "settled_all s"
    and ext: "\<And>x. 0 \<le> ext x" "\<And>x. ext x < 32"
    using inv by (simp_all add: boot_inv_def)
  obtain s' where run: "clk_enable mx27_fns (Clk c) s = Inr (0, s')" and sh: "same_shape s s'"
    and h': "mx27_hwok (hw s')" using mx27_clk_enable_returns [OF w h] by blast
  have "room (\<lambda>x. ext x + one (Some c) x) s"
  proof (rule room_mono [OF wired_room [OF w]])
    fix x show "ext x + one (Some c) x \<le> 32" using ext(2) [of x] assms(3) by auto
  qed
  from gates.clk_enable_refs(1) [OF h wired_tree [OF w] refs ext(1) this run]
  have refs': "refs_ok (ext(c := ext c + 1)) s'" by simp
  have w': "wired s'" using wired_shape [OF sh w] .
  have view: "rate_view (hw s') = rate_view (hw s)" using boot_enable_view [OF w h c run] .
  have "settled mx27_fns s' d" if d: "d \<in> set (clocks s')" for d
  proof (cases "parent (clk_of s d)")
    case None
    then show ?thesis using same_shapeD(1) [OF sh, of d] by (simp add: settled_def)
  next
    case (Some p)
    have "settled mx27_fns s d" using st d same_shapeD(8) [OF sh] by (simp add: settled_all_def)
    then show ?thesis
      using mx27.settled_view [OF wired_ok [OF w h] wired_ok [OF w' h'] _ Some] same_shapeD [OF sh] view
      by simp
  qed
  then have "settled_all s'" by (simp add: settled_all_def)
  moreover have "0 \<le> (ext(c := ext c + 1)) x \<and> (ext(c := ext c + 1)) x < 32" for x
    using ext(1) [of x] ext(2) [of x] assms(3) by auto
  ultimately have "boot_inv (ext(c := ext c + 1)) s'" using w' steered_shape [OF sh stt] h' refs' by (simp add: boot_inv_def)
  then show ?thesis using run sh by (auto simp: call_clk_enable_def)
qed

section \<open>Registration\<close>

text \<open>On the first chip revision the two outputs of the main PLL are not registered.\<close>

definition registers :: "mx27_sys \<Rightarrow> clkid \<Rightarrow> bool" where
  "registers s c \<longleftrightarrow> \<not> ((c = mpll_main_clk 0 \<or> c = mpll_main_clk 1) \<and> cpu_is_mx27_rev CHIP_REV_1_0 s = 1)"

lemma registers_clocks [simp]: "registers (s\<lparr>clocks := xs\<rparr>) = registers s"
  by (simp add: registers_def fun_eq_iff cpu_is_mx27_rev_def)

lemma register_all:
  "distinct xs \<Longrightarrow> set xs \<inter> set (clocks s) = {} \<Longrightarrow>
    rfold register_mxc_clk xs s = Inr (s\<lparr>clocks := rev (filter (registers s) xs) @ clocks s\<rparr>)"
proof (induction xs arbitrary: s)
  case (Cons c xs)
  show ?case
  proof (cases "registers s c")
    case True
    then have "register_mxc_clk c s = Inr (s\<lparr>clocks := c # clocks s\<rparr>)"
      using Cons.prems by (auto simp: register_mxc_clk_def registers_def clk_register_def)
    then show ?thesis using Cons.prems Cons.IH [of "s\<lparr>clocks := c # clocks s\<rparr>"] True by simp
  next
    case False
    then have "register_mxc_clk c s = Inr s" by (simp add: register_mxc_clk_def registers_def)
    then show ?thesis using Cons False by simp
  qed
qed simp

section \<open>Every registered clock hangs off one of the two inputs\<close>

lemma table_has_parent:
  "c \<in> set mxc_clks \<Longrightarrow> c \<notin> {ckih_clk, ckil_clk, clko_clk} \<Longrightarrow> parent (mx27_clk_init c) \<noteq> None"
  by (auto simp: mxc_clks_def table_simps)

lemma table_parent_inside: "parent (mx27_clk_init c) = Some p \<Longrightarrow> p \<in> set mxc_clks"
  by (cases c) (auto simp: table_simps mxc_clks_def split: nat.splits)

lemma inside_parent:
  assumes "wired s" and "c \<in> set mxc_clks" and "c \<notin> {ckih_clk, ckil_clk, clko_clk}"
  shows "\<exists>p. parent (clk_of s c) = Some p \<and> p \<in> set mxc_clks"
proof (cases "parent (clk_of s c)")
  case None
  then show ?thesis using wiredD(9) [OF assms(1), of c] assms(3) table_has_parent [OF assms(2,3)] by (auto simp: may_parent_def)
next
  case (Some p)
  have "ckil_clk \<in> set mxc_clks" "mpll_main_clk 0 \<in> set mxc_clks" "mpll_main_clk (Suc 0) \<in> set mxc_clks"
    by (simp_all add: mxc_clks_def)
  then show ?thesis
    using Some wiredD(9) [OF assms(1), of c] assms(3) table_parent_inside [of c p] reparented_inside
    by (auto simp: may_parent_def)
qed

lemma hangs_off_input:
  assumes w: "wired s" and "set (clocks s) = {c \<in> set mxc_clks. registers s c}"
    and "cpu_is_mx27_rev CHIP_REV_1_0 s = 1 \<Longrightarrow> \<forall>c i. parent (clk_of s c) \<noteq> Some (mpll_main_clk i)"
    and "c \<in> set (clocks s)" and "c \<notin> {ckih_clk, ckil_clk, clko_clk}"
  shows "c \<in> descendants s ckih_clk \<union> descendants s ckil_clk"
  using assms(4,5)
proof (induction "mx27_rank c" arbitrary: c rule: less_induct)
  case less
  obtain p where p: "parent (clk_of s c) = Some p" "p \<in> set mxc_clks"
    using inside_parent [OF w, of c] less.prems assms(2) by auto
  have rank: "mx27_rank p < mx27_rank c" using tree_ok_parent [OF wired_tree [OF w] p(1)] .
  have reg: "p \<in> set (clocks s)" using p assms(2,3) by (auto simp: registers_def)
  have "p \<noteq> clko_clk" using rank rank_bound [of c] by (auto simp: mx27_rank_def)
  show ?case
  proof (cases "p \<in> {ckih_clk, ckil_clk}")
    case True
    then show ?thesis using descendants_child [OF less.prems(1)] p(1) by auto
  next
    case False
    then show ?thesis
      using less.hyps [OF rank reg] \<open>p \<noteq> clko_clk\<close> descendants_trans [OF _ less.prems(1) p(1)] by auto
  qed
qed

section \<open>Propagation from both inputs\<close>

lemma mx27_propagate:
  assumes "wired s" and "mx27_hwok (hw s)"
  shows "\<exists>s'. propagate_rate mx27_fns (Clk t) s = Inr s' \<and> only_rates (descendants s t) s s'
    \<and> (\<forall>x \<in> descendants s t. settled mx27_fns s' x)"
proof -
  note ok = wired_ok [OF assms] and tree = wired_tree [OF assms(1)]
  have "\<forall>x. mx27_rank x \<le> 7" "7 < CLK_DEPTH + mx27_rank t"
    using rank_bound by (simp_all add: CLK_DEPTH_def)
  from mx27.propagate_returns [OF ok tree this]
  obtain s' where run: "propagate_rec mx27_fns CLK_DEPTH t s = Inr s'" by blast
  show ?thesis using run mx27.propagate_settles [OF ok tree run] by (simp add: propagate_rate_def)
qed

lemma settled_by_second:
  assumes "wired s" "mx27_hwok (hw s)" "\<forall>x \<in> descendants s a. settled mx27_fns s x"
    and o: "only_rates (descendants s b) s s'" and "\<forall>x \<in> descendants s b. settled mx27_fns s' x"
    and "a \<notin> descendants s b" and x: "x \<in> descendants s a"
  shows "settled mx27_fns s' x"
proof (cases "x \<in> descendants s b")
  case False
  obtain p where p: "parent (clk_of s x) = Some p" "p = a \<or> p \<in> descendants s a" "x \<in> set (clocks s)"
    using descendants_parent [OF x] by auto
  have "p \<notin> descendants s b" using False descendants_trans [OF _ p(3,1)] by blast
  then show ?thesis
    using mx27.settled_frame [OF wired_ok [OF assms(1,2)] _ o False _ p(1)] assms(3) x by blast
qed (use assms(5) in blast)

lemma propagate_both:
  assumes w: "wired s" and h: "mx27_hwok (hw s)"
    and reg: "set (clocks s) = {c \<in> set mxc_clks. registers s c}"
    and rev1: "cpu_is_mx27_rev CHIP_REV_1_0 s = 1 \<longrightarrow> (\<forall>c i. parent (clk_of s c) \<noteq> Some (mpll_main_clk i))"
    and clko: "parent (clk_of s clko_clk) = None"
  shows "\<exists>s1 s2. propagate_rate mx27_fns (Clk ckih_clk) s = Inr s1 \<and>
     propagate_rate mx27_fns (Clk ckil_clk) s1 = Inr s2 \<and> same_uses s s2 \<and> hw s2 = hw s \<and> settled_all s2"
proof -
  obtain s1 where s1: "propagate_rate mx27_fns (Clk ckih_clk) s = Inr s1"
    and o1: "only_rates (descendants s ckih_clk) s s1" and st1: "\<forall>x \<in> descendants s ckih_clk. settled mx27_fns s1 x"
    using mx27_propagate [OF w h] by blast
  note u1 = only_ratesD(1) [OF o1] and d1 = same_uses_descendants [OF only_ratesD(1) [OF o1]]
  have w1: "wired s1" and h1: "mx27_hwok (hw s1)"
    using wired_uses [OF u1 w] only_ratesD(2) [OF o1] h by simp_all
  obtain s2 where s2: "propagate_rate mx27_fns (Clk ckil_clk) s1 = Inr s2"
    and o2: "only_rates (descendants s1 ckil_clk) s1 s2" and st2: "\<forall>x \<in> descendants s1 ckil_clk. settled mx27_fns s2 x"
    using mx27_propagate [OF w1 h1] by blast
  note u2 = same_uses_trans [OF u1 only_ratesD(1) [OF o2]]
  have "ckih_clk \<notin> descendants s1 ckil_clk"
    using kids_rank [OF _ wired_tree [OF w1], of ckih_clk ckil_clk] by (auto simp: descendants_def mx27_rank_def)
  note both = settled_by_second [OF w1 h1 _ o2 st2 this]
  have "settled mx27_fns s2 c" if c: "c \<in> set (clocks s2)" for c
  proof (cases "c \<in> {ckih_clk, ckil_clk, clko_clk}")
    case True
    have "parent (clk_of s c) = None"
      using True clko wiredD(9) [OF w, of ckih_clk] wiredD(9) [OF w, of ckil_clk]
      by (auto simp: may_parent_def table_simps)
    then show ?thesis by (simp add: settled_def same_usesD(1) [OF u2])
  next
    case False
    have "c \<in> descendants s ckih_clk \<union> descendants s ckil_clk"
      using hangs_off_input [OF w reg _ _ False] rev1 c by (simp add: same_usesD(6) [OF u2])
    then show ?thesis using both [of c] st1 st2 d1 by auto
  qed
  then show ?thesis
    using s1 s2 u2 only_ratesD(2) [OF o1] only_ratesD(2) [OF o2] by (auto simp: settled_all_def)
qed

section \<open>The whole initialisation\<close>

text \<open>The four outside users that \<^verbatim>\<open>mxc_clocks_init\<close> leaves behind.\<close>

definition boot_users :: "clkid \<Rightarrow> int" where
  "boot_users = (\<lambda>_. 0)(emi_clk := 1, gpio_clk := 1, iim_clk := 1, gpt1_clk 0 := 1)"

lemma boot_enables:
  assumes "boot_inv (\<lambda>_. 0) s"
  shows "\<exists>s'. rbind (call_clk_enable emi_clk s) (\<lambda>s. rbind (call_clk_enable gpio_clk s) (\<lambda>s.
     rbind (call_clk_enable iim_clk s) (\<lambda>s. rbind (call_clk_enable (gpt1_clk 0) s) (\<lambda>s.
     Inr (0 :: int, s))))) = Inr (0, s') \<and> boot_inv boot_users s' \<and> same_shape s s'"
proof -
  have r: "boot_reach emi_clk" "boot_reach gpio_clk" "boot_reach iim_clk" "boot_reach (gpt1_clk 0)"
    by (simp_all add: boot_reach_def)
  obtain s1 where s1: "call_clk_enable emi_clk s = Inr s1" "boot_inv ((\<lambda>_. 0)(emi_clk := 1)) s1" "same_shape s s1"
    using boot_enable [OF assms r(1)] by auto
  obtain s2 where s2: "call_clk_enable gpio_clk s1 = Inr s2"
    "boot_inv ((\<lambda>_. 0)(emi_clk := 1, gpio_clk := 1)) s2" "same_shape s1 s2"
    using boot_enable [OF s1(2) r(2)] by auto
  obtain s3 where s3: "call_clk_enable iim_clk s2 = Inr s3"
    "boot_inv ((\<lambda>_. 0)(emi_clk := 1, gpio_clk := 1, iim_clk := 1)) s3" "same_shape s2 s3"
    using boot_enable [OF s2(2) r(3)] by auto
  obtain s4 where s4: "call_clk_enable (gpt1_clk 0) s3 = Inr s4" "boot_inv boot_users s4" "same_shape s3 s4"
    using boot_enable [OF s3(2) r(4)] by (auto simp: boot_users_def)
  have "same_shape s s4" using s1(3) s2(3) s3(3) s4(3) by (meson same_shape_trans)
  then show ?thesis using s1(1) s2(1) s3(1) s4(1,2) by simp
qed

lemma registers_cong: "sysrev (hw t) = sysrev (hw s) \<Longrightarrow> registers t = registers s"
  by (simp add: registers_def cpu_is_mx27_rev_def fun_eq_iff)

definition init_ready :: "mx27_sys \<Rightarrow> bool" where
  "init_ready s \<longleftrightarrow> wired s \<and> steered s \<and> mx27_hwok (hw s) \<and> (\<forall>c. usecount (clk_of s c) = 0) \<and> clocks s = [] \<and>
     parent (clk_of s clko_clk) = None \<and>
     (cpu_is_mx27_rev CHIP_REV_1_0 s = 1 \<longrightarrow> (\<forall>c i. parent (clk_of s c) \<noteq> Some (mpll_main_clk i)))"

lemma mxc_clocks_init_effect:
  assumes "init_ready s"
  shows "\<exists>s'. mxc_clocks_init s = Inr (0, s') \<and> boot_inv boot_users s'
    \<and> set (clocks s') = {c \<in> set mxc_clks. registers s c}"
proof -
  have w: "wired s" and st: "steered s" and h: "mx27_hwok (hw s)" and un: "\<And>c. usecount (clk_of s c) = 0" and cl: "clocks s = []"
    and clko: "parent (clk_of s clko_clk) = None"
    and rev1: "cpu_is_mx27_rev CHIP_REV_1_0 s = 1 \<longrightarrow> (\<forall>c i. parent (clk_of s c) \<noteq> Some (mpll_main_clk i))"
    using assms by (simp_all add: init_ready_def)
  let ?s1 = "s\<lparr>clocks := rev (filter (registers s) mxc_clks)\<rparr>"
  have reg: "rfold register_mxc_clk mxc_clks s = Inr ?s1"
    using register_all [OF mxc_clks_distinct, of s] cl by simp
  define s2 where "s2 = wr (CCM_PCCR1_PERCLK1_MASK OR CCM_PCCR1_HCLK_EMI_MASK) CCM_PCCR1 (wr CCM_PCCR0_GPT1_MASK CCM_PCCR0 ?s1)"
  have w2: "wired s2" using w by (simp add: s2_def)
  define s3 where "s3 = wr (rd CCM_CSCR s2 AND NOT CCM_CSCR_SPEN) CCM_CSCR s2"
  have "disable (clk_of s2 spll_clk) = Some clk_spll_disable_fn"
    using wiredD(5) [OF w2, of spll_clk] by (simp add: table_simps)
  then have dis: "do_disable spll_clk s2 = Inr s3"
    by (simp add: do_disable_def mx27_disable_def u_clk_spll_disable_def s3_def)
  define s4 where "s4 = select_ckih (reparent spll_clk (if CSCR s3 AND CCM_CSCR_SP \<noteq> 0 then ckih_clk else ckil_clk)
      (select_mpll (CSCR s3) s3))"
  have "may_parent mpll_clk (Some ckih_clk)" "may_parent mpll_clk (Some ckil_clk)"
    "may_parent spll_clk (Some ckih_clk)" "may_parent spll_clk (Some ckil_clk)"
    by (simp_all add: may_parent_def table_simps)
  then have w4: "wired s4"
    using w2 by (simp add: s4_def s3_def select_ckih_def select_mpll_def wired_reparent)
  have "steered s4" using st by (simp add: s4_def s3_def s2_def select_ckih_def select_mpll_def)
  have h4: "mx27_hwok (hw s4)"
    using h by (simp add: s4_def s3_def s2_def select_ckih_def select_mpll_def)
  have rev4: "sysrev (hw s4) = sysrev (hw s)"
    by (simp add: s4_def s3_def s2_def select_ckih_def select_mpll_def)
  have reg4: "set (clocks s4) = {c \<in> set mxc_clks. registers s4 c}"
    using registers_cong [OF rev4] by (auto simp: s4_def s3_def s2_def select_ckih_def select_mpll_def)
  have rev14: "cpu_is_mx27_rev CHIP_REV_1_0 s4 = 1 \<longrightarrow> (\<forall>c i. parent (clk_of s4 c) \<noteq> Some (mpll_main_clk i))"
    using rev1 rev4 by (auto simp: cpu_is_mx27_rev_def s4_def s3_def s2_def select_ckih_def select_mpll_def)
  have clko4: "parent (clk_of s4 clko_clk) = None"
    using clko by (simp add: s4_def s3_def s2_def select_ckih_def select_mpll_def)
  obtain s5 s6 where p: "propagate_rate mx27_fns (Clk ckih_clk) s4 = Inr s5"
    "propagate_rate mx27_fns (Clk ckil_clk) s5 = Inr s6"
    and u6: "same_uses s4 s6" and hw6: "hw s6 = hw s4" and st6: "settled_all s6"
    using propagate_both [OF w4 h4 reg4 rev14 clko4] by blast
  have un6: "usecount (clk_of s6 c) = 0" for c
    using un by (simp add: same_usesD(3) [OF u6] s4_def s3_def s2_def select_ckih_def select_mpll_def)
  have inv6: "boot_inv (\<lambda>_. 0) s6"
    using wired_uses [OF u6 w4] steered_uses [OF u6 \<open>steered s4\<close>] h4 hw6 st6 refs_ok_unused [OF un6] by (simp add: boot_inv_def)
  from boot_enables [OF this] obtain s7 where en: "rbind (call_clk_enable emi_clk s6) (\<lambda>s. rbind (call_clk_enable gpio_clk s) (\<lambda>s.
     rbind (call_clk_enable iim_clk s) (\<lambda>s. rbind (call_clk_enable (gpt1_clk 0) s) (\<lambda>s.
     Inr (0 :: int, s))))) = Inr (0, s7)" and inv7: "boot_inv boot_users s7" and sh7: "same_shape s6 s7" by blast
  have run: "mxc_clocks_init s = Inr (0, s7)"
    using reg dis p en unfolding mxc_clocks_init_def Let_def s4_def s2_def by simp
  have "set (clocks s7) = {c \<in> set mxc_clks. registers s c}"
    using reg4 registers_cong [OF rev4] same_shapeD(8) [OF sh7] same_usesD(6) [OF u6] by simp
  then show ?thesis using run inv7 by blast
qed

section \<open>The early timer rate\<close>

definition early_ready :: "mx27_sys \<Rightarrow> bool" where
  "early_ready s \<longleftrightarrow> wired s \<and> steered s \<and> mx27_hwok (hw s) \<and> (\<forall>c. usecount (clk_of s c) = 0) \<and> clocks s = [] \<and>
     parent (clk_of s clko_clk) = None"

lemma early_ready_boot: "mx27_hwok h \<Longrightarrow> early_ready (mx27_boot h)"
  using wired_boot [of h] steered_boot [of h]
  by (simp add: early_ready_def mx27_boot_def table_unused) (simp add: table_simps)

lemma early_ready_frame [simp]:
  "early_ready (wr v a s) = early_ready s" "early_ready (set_clk_rate c r s) = early_ready s"
  by (auto simp: early_ready_def split: if_splits)

lemma early_ready_rev [simp]: "early_ready (s\<lparr>hw := (hw s)\<lparr>sysrev := r\<rparr>\<rparr>) = early_ready s"
  by (simp add: early_ready_def mx27_hwok_def)

lemma early_ready_reparent:
  "early_ready s \<Longrightarrow> may_parent c (Some p) \<Longrightarrow> c \<noteq> clko_clk \<Longrightarrow> early_ready (reparent c p s)"
  by (simp add: early_ready_def wired_reparent)

lemma early_ready_cpu_callbacks:
  "early_ready s \<Longrightarrow>
    early_ready (upd_clk cpu_clk (\<lambda>k. k\<lparr>set_parent := None, round_rate := None, set_rate := None\<rparr>) s)"
  by (simp add: early_ready_def wired_def steered_def)

lemma table_main_children:
  "parent (mx27_clk_init c) = Some (mpll_main_clk i) \<Longrightarrow>
    c \<in> {cpu_clk, ahb_clk, per_clk 0, per_clk 1, per_clk 2, per_clk 3, ssi1_clk 0, ssi2_clk 0, vpu_clk}"
  by (cases c) (auto simp: table_simps split: nat.splits)

lemma parents_moved:
  "may_parent c (Some mpll_clk)" if "c \<in> {cpu_clk, ahb_clk, per_clk 0, per_clk 1, per_clk 2, per_clk 3,
     ssi1_clk 0, ssi2_clk 0, vpu_clk}"
  using that by (auto simp: may_parent_def)

lemma probe_ready:
  assumes "early_ready s"
  shows "early_ready (probe_mxc_clocks s)"
    and "cpu_is_mx27_rev CHIP_REV_1_0 s = 1 \<Longrightarrow> parent (clk_of (probe_mxc_clocks s) c) \<noteq> Some (mpll_main_clk i)"
    and "hw (probe_mxc_clocks s) = hw s"
proof -
  have m: "may_parent cpu_clk (Some (mpll_main_clk 0))" "may_parent (ssi2_clk 0) (Some spll_clk)"
    "may_parent (ssi1_clk 0) (Some spll_clk)" "may_parent vpu_clk (Some spll_clk)"
    by (simp_all add: may_parent_def)
  have four: "[0..<length per_clk_init] = [0, 1, 2, 3]"
    by (simp add: clk_tables upt_rec)
  show "early_ready (probe_mxc_clocks s)"
    using assms m unfolding probe_mxc_clocks_def four
    by (simp add: Let_def early_ready_reparent early_ready_cpu_callbacks parents_moved)
  show "hw (probe_mxc_clocks s) = hw s"
    unfolding probe_mxc_clocks_def four by (simp add: Let_def)
  show "parent (clk_of (probe_mxc_clocks s) c) \<noteq> Some (mpll_main_clk i)"
    if rev1: "cpu_is_mx27_rev CHIP_REV_1_0 s = 1"
  proof
    assume a: "parent (clk_of (probe_mxc_clocks s) c) = Some (mpll_main_clk i)"
    have "\<not> 0 < cpu_is_mx27_rev CHIP_REV_2_0 s"
      using rev1 by (simp add: cpu_is_mx27_rev_def is_rev_def split: if_splits)
    then have kept: "c \<notin> {cpu_clk, ahb_clk, per_clk 0, per_clk 1, per_clk 2, per_clk 3, ssi1_clk 0, ssi2_clk 0, vpu_clk}"
      using a unfolding probe_mxc_clocks_def four by (auto simp: Let_def)
    have "wired (probe_mxc_clocks s)" using \<open>early_ready (probe_mxc_clocks s)\<close> by (simp add: early_ready_def)
    moreover have "parent (clk_of (probe_mxc_clocks s) clko_clk) = None"
      using \<open>early_ready (probe_mxc_clocks s)\<close> by (simp add: early_ready_def)
    ultimately have "parent (mx27_clk_init c) = Some (mpll_main_clk i)"
      using wiredD(9) [of "probe_mxc_clocks s" c] a kept by (auto simp: may_parent_def)
    then show False using table_main_children kept by blast
  qed
qed

lemma do_recalc_effect:
  assumes "early_ready s" and "recalc (mx27_clk_init c) \<noteq> None" and "parent (clk_of s c) \<noteq> None"
  shows "\<exists>r. do_recalc c s = Inr (set_clk_rate c r s)"
proof -
  have w: "wired s" and h: "mx27_hwok (hw s)" using assms(1) by (simp_all add: early_ready_def)
  obtain f p where "recalc (clk_of s c) = Some f" "parent (clk_of s c) = Some p"
    using assms(2,3) wiredD(3) [OF w, of c] by auto
  then show ?thesis using recalc_refines_value [OF wired_ok [OF w h]] by (auto simp: do_recalc_def)
qed

lemma do_enable_effect:
  assumes "early_ready s" and "enable (mx27_clk_init c) = Some clk_enable_fn"
  shows "\<exists>v. do_enable c s = Inr (wr v (enable_reg (mx27_clk_init c)) s)"
proof -
  have w: "wired s" using assms(1) by (simp add: early_ready_def)
  show ?thesis
    using assms(2) wiredD(4,6) [OF w, of c]
    by (auto simp: do_enable_def mx27_enable_def u_clk_enable_def Let_def)
qed

lemma ready_parent:
  assumes "early_ready s" and "c \<in> set mxc_clks" and "c \<notin> {ckih_clk, ckil_clk, clko_clk}"
  shows "parent (clk_of s c) \<noteq> None"
  using inside_parent [OF _ assms(2,3), of s] assms(1) by (auto simp: early_ready_def)

text \<open>
  The states between the recalculations differ from the probed state in rates only, and the
  registers keep the chip revision.
\<close>

definition rev1_ok :: "mx27_sys \<Rightarrow> bool" where
  "rev1_ok s \<longleftrightarrow>
     (cpu_is_mx27_rev CHIP_REV_1_0 s = 1 \<longrightarrow> (\<forall>c i. parent (clk_of s c) \<noteq> Some (mpll_main_clk i)))"

lemma rev1_ok_frame [simp]:
  "rev1_ok (wr v a s) = rev1_ok s" "rev1_ok (set_clk_rate c r s) = rev1_ok s"
  by (auto simp: rev1_ok_def cpu_is_mx27_rev_def split: if_splits)

lemma clk_early_effect:
  assumes "mx27_hwok h" and "\<not> sysrev_updated h"
  shows "\<exists>s'. clk_early_get_timer_rate (mx27_boot h) = Inr (rate (clk_of s' (per_clk 0)), s') \<and> init_ready s'"
proof -
  define s0 where "s0 = (mx27_boot h)\<lparr>hw := h\<lparr>sysrev := read_system_rev (mx27_boot h)\<rparr>\<rparr>"
  have cpu: "mxc_cpu_common_init (mx27_boot h) = Inr s0"
    using assms(2) by (simp add: mxc_cpu_common_init_def system_rev_update_def s0_def mx27_boot_def)
  have r0: "early_ready s0"
    using early_ready_boot [OF assms(1)] early_ready_rev [where s = "mx27_boot h"] by (simp add: s0_def mx27_boot_def)
  define s1 where "s1 = select_ckih (select_mpll (CSCR s0) s0)"
  have "may_parent mpll_clk (Some ckih_clk)" "may_parent mpll_clk (Some ckil_clk)"
    by (simp_all add: may_parent_def table_simps)
  then have r1: "early_ready s1"
    using r0 by (simp add: s1_def select_ckih_def select_mpll_def early_ready_reparent)
  define s2 where "s2 = probe_mxc_clocks s1"
  have r2: "early_ready s2" and v2: "rev1_ok s2"
    using probe_ready [OF r1] by (auto simp: s2_def rev1_ok_def cpu_is_mx27_rev_def)
  have tab: "recalc (mx27_clk_init mpll_clk) \<noteq> None" "recalc (mx27_clk_init (mpll_main_clk 0)) \<noteq> None"
    "recalc (mx27_clk_init (mpll_main_clk 1)) \<noteq> None" "recalc (mx27_clk_init (per_clk 0)) \<noteq> None"
    "enable (mx27_clk_init (per_clk 0)) = Some clk_enable_fn" "enable (mx27_clk_init (gpt1_clk 1)) = Some clk_enable_fn"
    by (simp_all add: table_simps)
  have ins: "mpll_main_clk 0 \<in> set mxc_clks" "mpll_main_clk 1 \<in> set mxc_clks" by (simp_all add: mxc_clks_def)
  obtain a where s3: "do_recalc mpll_clk s2 = Inr (set_clk_rate mpll_clk a s2)"
    using do_recalc_effect [OF r2 tab(1) ready_parent [OF r2 reparented_inside(1)]] by auto
  define s3 where "s3 = set_clk_rate mpll_clk a s2"
  have r3: "early_ready s3" "rev1_ok s3" using r2 v2 by (simp_all add: s3_def)
  obtain b where b: "do_recalc (mpll_main_clk 0) s3 = Inr (set_clk_rate (mpll_main_clk 0) b s3)"
    using do_recalc_effect [OF r3(1) tab(2) ready_parent [OF r3(1) ins(1)]] by auto
  have r4: "early_ready (set_clk_rate (mpll_main_clk 0) b s3)" using r3 by simp
  obtain d where d: "do_recalc (mpll_main_clk 1) (set_clk_rate (mpll_main_clk 0) b s3)
      = Inr (set_clk_rate (mpll_main_clk 1) d (set_clk_rate (mpll_main_clk 0) b s3))"
    using do_recalc_effect [OF r4 tab(3) ready_parent [OF r4 ins(2)]] by auto
  define s5 where "s5 = (if cpu_is_mx27_rev CHIP_REV_2_0 s3 > 0
      then set_clk_rate (mpll_main_clk 1) d (set_clk_rate (mpll_main_clk 0) b s3) else s3)"
  have r5: "early_ready s5" "rev1_ok s5" using r3 by (simp_all add: s5_def)
  obtain e where e: "do_recalc (per_clk 0) s5 = Inr (set_clk_rate (per_clk 0) e s5)"
    using do_recalc_effect [OF r5(1) tab(4) ready_parent [OF r5(1) reparented_inside(5)]] by auto
  define s6 where "s6 = set_clk_rate (per_clk 0) e s5"
  have r6: "early_ready s6" "rev1_ok s6" using r5 by (simp_all add: s6_def)
  obtain v where v: "do_enable (per_clk 0) s6 = Inr (wr v (enable_reg (mx27_clk_init (per_clk 0))) s6)"
    using do_enable_effect [OF r6(1) tab(5)] by blast
  define s7 where "s7 = wr v (enable_reg (mx27_clk_init (per_clk 0))) s6"
  have r7: "early_ready s7" "rev1_ok s7" using r6 by (simp_all add: s7_def)
  obtain x where x: "do_enable (gpt1_clk 1) s7 = Inr (wr x (enable_reg (mx27_clk_init (gpt1_clk 1))) s7)"
    using do_enable_effect [OF r7(1) tab(6)] by blast
  let ?s8 = "wr x (enable_reg (mx27_clk_init (gpt1_clk 1))) s7"
  have mid: "(if 0 < cpu_is_mx27_rev CHIP_REV_2_0 s3
      then rbind (do_recalc (mpll_main_clk 0) s3) (do_recalc (mpll_main_clk 1)) else Inr s3) = Inr s5"
    using b d by (simp add: s5_def)
  have "clk_early_get_timer_rate (mx27_boot h) = Inr (rate (clk_of ?s8 (per_clk 0)), ?s8)"
    unfolding clk_early_get_timer_rate_def cpu Let_def rbind_simps
      s1_def [symmetric] s2_def [symmetric] s3 s3_def [symmetric] mid e s6_def [symmetric] v s7_def [symmetric] x ..
  moreover have "init_ready ?s8" using r7 by (simp add: init_ready_def early_ready_def rev1_ok_def cpu_is_mx27_rev_def)
  ultimately show ?thesis by blast
qed

end
