(* ===== verification/Mx27_Clock.thy ===== *)
theory Mx27_Clock
  imports Mx27_Clk_Init
begin

text \<open>
  Properties of the i.MX27 clock tree under the clock framework: boot, the account of use counts,
  enabling and disabling, rates and their dividers, lookup and module references.
\<close>

section \<open>A concrete machine\<close>

text \<open>
  Registers that hold what is written, all zero at first, and a PLL that locks one poll after it is
  enabled and never while it is not.  It shows that the conditions on the hardware can hold.
\<close>

definition demo_bus :: bus where
  "demo_bus = \<lparr>mem = (\<lambda>a. 0), wsem = (\<lambda>a x v. v),
     tick = (\<lambda>m. if m CCM_CSCR AND CCM_CSCR_SPEN = 0 then m
                   else m(CCM_SPCTL1 := m CCM_SPCTL1 OR CCM_SPCTL1_LF))\<rparr>"

definition demo_hw :: mx27 where
  "demo_hw = \<lparr>io = demo_bus, sysrev = CHIP_REV_2_0, sysrev_updated = False\<rparr>"

lemma demo_hwok: "mx27_hwok demo_hw"
proof -
  have "(tick demo_bus ^^ 1) m CCM_SPCTL1 AND CCM_SPCTL1_LF \<noteq> 0" if "m CCM_CSCR AND CCM_CSCR_SPEN \<noteq> 0" for m
  proof -
    have "bit ((m CCM_SPCTL1 OR CCM_SPCTL1_LF) AND CCM_SPCTL1_LF) 15" by (simp add: bit_simps)
    then show ?thesis using that by (auto simp: demo_bus_def)
  qed
  then have "pll_locks demo_bus" unfolding pll_locks_def by blast
  then show ?thesis by (simp add: mx27_hwok_def demo_hw_def demo_bus_def storage_def)
qed

abbreviation demo :: mx27_sys where "demo \<equiv> mx27_boot demo_hw"

lemma demo_fields [simp]: "clk_of demo = mx27_clk_init" "clocks demo = []" "\<not> sysrev_updated demo_hw" "sysrev demo_hw = 0x20"
  by (simp_all add: mx27_boot_def demo_hw_def)

lemma demo_facts [simp]: "wired demo" "mx27_hwok (hw demo)" "refs_ok (\<lambda>_. 0) demo" "hw demo = demo_hw" "mx27_hwok demo_hw" "mx27_ok demo"
proof -
  show "wired demo" by (rule wired_boot)
  show "hw demo = demo_hw" by (simp add: mx27_boot_def)
  then show "mx27_hwok (hw demo)" by (simp add: demo_hwok)
  show "mx27_hwok demo_hw" by (rule demo_hwok)
  show "refs_ok (\<lambda>_. 0) demo" by (rule refs_ok_unused) (simp add: mx27_boot_def table_unused)
  show "mx27_ok demo" by (rule wired_ok) fact+
qed

lemma demo_read [simp]: "rd a demo = 0"
  by (simp add: rd_def raw_readl_def mx27_boot_def demo_hw_def demo_bus_def)

section \<open>Enabling and disabling\<close>

lemma room_weaken:
  assumes "room (\<lambda>_. B) s" and "\<And>x. e x \<le> B"
  shows "room e s"
  unfolding room_def
proof (intro conjI allI)
  show "finite {d. \<exists>x. links s d x \<noteq> 0}" using assms(1) by (simp add: room_def)
  fix x
  have "B + (\<Sum>d\<in>{d. \<exists>x. links s d x \<noteq> 0}. links s d x) \<le> 127" using assms(1) by (simp add: room_def)
  then show "e x + (\<Sum>d\<in>{d. \<exists>x. links s d x \<noteq> 0}. links s d x) \<le> 127" using assms(2) [of x] by linarith
qed

text \<open>
  C1: on the i.MX27, enabling and disabling a clock always returns: the recursion over parent and
  secondary clocks fits the stack, the wait for the PLL ends, and no callback fails.
\<close>

theorem clk_enable_disable_return:
  assumes "wired s" and "mx27_hwok (hw s)"
  shows "(\<exists>s'. clk_enable mx27_fns (Clk c) s = Inr (0, s')) \<and> (\<exists>s'. clk_disable mx27_fns (Clk c) s = Inr s')"
  using mx27_clk_enable_returns [OF assms, of c] mx27_clk_disable_returns [OF assms, of c] by blast

theorem clk_enable_disable_return_witness:
  "(\<exists>s'. clk_enable mx27_fns (Clk (ssi1_clk 0)) demo = Inr (0, s'))
   \<and> (\<exists>s'. clk_disable mx27_fns (Clk (ssi1_clk 0)) demo = Inr s')"
  by (rule clk_enable_disable_return) simp_all

text \<open>
  C2: disabling a clock undoes enabling it: when the use counts account for the outside users
  \<open>ext\<close> and there is room in the counters, both calls succeed and every clock structure is back
  as it was, however many parents and secondary clocks were switched on and off on the way.
\<close>

theorem clk_enable_disable_roundtrip:
  assumes "wired s" and "mx27_hwok (hw s)" and "refs_ok ext s" and "\<forall>x. 0 \<le> ext x \<and> ext x < 32"
  shows "\<exists>s1 s2. clk_enable mx27_fns (Clk c) s = Inr (0, s1) \<and> clk_disable mx27_fns (Clk c) s1 = Inr s2
    \<and> clk_of s2 = clk_of s \<and> refs_ok (ext(c := ext c + 1)) s1 \<and> refs_ok ext s2"
proof -
  obtain s1 where en: "clk_enable mx27_fns (Clk c) s = Inr (0, s1)" "same_shape s s1" "mx27_hwok (hw s1)"
    using mx27_clk_enable_returns [OF assms(1,2)] by blast
  have w1: "wired s1" using wired_shape [OF en(2) assms(1)] .
  obtain s2 where dis: "clk_disable mx27_fns (Clk c) s1 = Inr s2"
    using mx27_clk_disable_returns [OF w1 en(3)] by blast
  have tree: "tree_ok mx27_rank s" "tree_ok mx27_rank s1" using wired_tree assms(1) w1 by blast+
  have nn: "\<And>x. 0 \<le> ext x" and lt: "\<And>x. ext x < 32" using assms(4) by blast+
  have rm: "room (\<lambda>x. ext x + one (Some c) x) s"
  proof -
    have "room (\<lambda>_. 32) s" by (rule wired_room [OF assms(1)])
    moreover have "ext x + one (Some c) x \<le> 32" for x using lt [of x] by auto
    ultimately show ?thesis by (rule room_weaken)
  qed
  have r1: "refs_ok (ext(c := ext c + 1)) s1"
    using gates.clk_enable_refs(1) [OF assms(2) tree(1) assms(3) nn rm en(1)] by simp
  have "0 \<le> (ext(c := ext c + 1)) x" for x using nn [of x] nn [of c] by simp
  moreover have "0 < (ext(c := ext c + 1)) c" using nn [of c] by simp
  ultimately have "refs_ok ((ext(c := ext c + 1))(c := (ext(c := ext c + 1)) c - 1)) s2"
    using gates.clk_disable_refs(1) [OF en(3) tree(2) r1 _ _ dis] by blast
  then have "refs_ok ext s2" by (rule refs_ok_cong) simp
  moreover have "clk_of s2 = clk_of s"
    by (rule gates.enable_then_disable [OF assms(2) tree(1) assms(3) nn rm en(1) dis])
  ultimately show ?thesis using en(1) dis r1 by blast
qed

theorem clk_enable_disable_roundtrip_witness:
  "\<exists>s1 s2. clk_enable mx27_fns (Clk (csi_clk 0)) demo = Inr (0, s1) \<and> clk_disable mx27_fns (Clk (csi_clk 0)) s1 = Inr s2
    \<and> clk_of s2 = clk_of demo \<and> refs_ok ((\<lambda>_. 0)(csi_clk 0 := 0 + 1)) s1 \<and> refs_ok (\<lambda>_. 0) s2"
  by (rule clk_enable_disable_roundtrip) simp_all

text \<open>
  C3: when a callback fails, \<^verbatim>\<open>clk_enable\<close> rolls back: for any callbacks that change registers only,
  an enable that returns an error leaves every clock structure as it was and the account of use
  counts unchanged.
\<close>

theorem clk_enable_rolls_back:
  assumes "clk_gates F hwok" and "hwok (hw s)" and "tree_ok rank s" and "refs_ok ext s"
    and "\<forall>x. 0 \<le> ext x" and "room (\<lambda>x. ext x + one (Some c) x) s"
    and "clk_enable F (Clk c) s = Inr (r, s')" and "r \<noteq> 0"
  shows "clk_of s' = clk_of s \<and> refs_ok ext s'"
proof -
  have nn: "\<And>x. 0 \<le> ext x" using assms(5) by blast
  note e = clk_gates.clk_enable_refs [OF assms(1) assms(2-4) nn assms(6,7)]
  have r: "refs_ok ext s'" using e(1) assms(8) by simp
  then show ?thesis using same_clocks [OF assms(4) _ keepsD(4) [OF e(2)] assms(3)] by simp
qed

text \<open>Callbacks where the gate of one clock, the bus clock of the first serial port, fails.\<close>

definition broken_fns :: "(clkid, clkfn, mx27) clk_fns" where
  "broken_fns = mx27_fns\<lparr>call_enable := (\<lambda>f c s. if c = uart1_clk 1 then Inr (- EINVAL, s) else mx27_enable f c s)\<rparr>"

lemma broken_gates: "clk_gates broken_fns mx27_hwok"
proof
  fix s :: mx27_sys and f c r s'
  assume h: "mx27_hwok (hw s)"
  show "\<exists>h. mx27_hwok h \<and> s' = s\<lparr>hw := h\<rparr>" if "call_enable broken_fns f c s = Inr (r, s')"
  proof (cases "c = uart1_clk 1")
    case True
    then have "s' = s\<lparr>hw := hw s\<rparr>" using that by (simp add: broken_fns_def)
    then show ?thesis using h by blast
  next
    case False
    then show ?thesis using that gates.enable_hw [OF h, of f c r s'] by (simp add: broken_fns_def mx27_fns_def)
  qed
  show "\<exists>h. mx27_hwok h \<and> s' = s\<lparr>hw := h\<rparr>" if "call_disable broken_fns f c s = Inr s'"
    using that gates.disable_hw [OF h, of f c s'] by (simp add: broken_fns_def)
qed

theorem clk_enable_rolls_back_witness:
  "\<exists>s'. clk_enable broken_fns (Clk (uart1_clk 1)) demo = Inr (- EINVAL, s') \<and> clk_of s' = clk_of demo \<and> refs_ok (\<lambda>_. 0) s'"
proof -
  have "room (\<lambda>x. 0 + one (Some (uart1_clk 1)) x) demo"
    using room_weaken [OF wired_room [of demo], of "\<lambda>x. 0 + one (Some (uart1_clk 1)) x"] by simp
  moreover obtain s' where run: "clk_enable broken_fns (Clk (uart1_clk 1)) demo = Inr (- EINVAL, s')"
    by (simp add: clk_enable_def CLK_DEPTH_def numeral_eq_Suc Let_def broken_fns_def clk_unwind_def mx27_boot_def table_simps)
  ultimately show ?thesis
    using clk_enable_rolls_back [OF broken_gates, of demo mx27_rank "\<lambda>_. 0" "uart1_clk 1" "- EINVAL" s'] wired_tree [of demo]
    by simp
qed

section \<open>Boot\<close>

text \<open>
  C4: on registers that hold what is written and a PLL that locks, the two boot entry points
  return.  \<^verbatim>\<open>clk_early_get_timer_rate\<close> hands out the rate of the first peripheral clock;
  \<^verbatim>\<open>mxc_clocks_init\<close> then registers the clocks of the chip revision and leaves every registered
  clock at the rate its parent and the dividers give, with use counts that account exactly for the
  four clocks it enables.
\<close>

theorem clock_boot:
  assumes "mx27_hwok h" and "\<not> sysrev_updated h"
  shows "\<exists>t s1 s2. clk_early_get_timer_rate (mx27_boot h) = Inr (t, s1) \<and> t = clk_get_rate (Clk (per_clk 0)) s1
    \<and> mxc_clocks_init s1 = Inr (0, s2)
    \<and> set (clocks s2) = {c \<in> set mxc_clks. registers s1 c}
    \<and> (\<forall>c \<in> set (clocks s2). settled mx27_fns s2 c) \<and> refs_ok boot_users s2"
proof -
  obtain s1 where s1: "clk_early_get_timer_rate (mx27_boot h) = Inr (rate (clk_of s1 (per_clk 0)), s1)" "init_ready s1"
    using clk_early_effect [OF assms] by blast
  obtain s2 where "mxc_clocks_init s1 = Inr (0, s2)" "boot_inv boot_users s2"
      "set (clocks s2) = {c \<in> set mxc_clks. registers s1 c}"
    using mxc_clocks_init_effect [OF s1(2)] by blast
  then show ?thesis using s1(1) by (auto simp: clk_get_rate_def boot_inv_def settled_all_def)
qed

theorem clock_boot_witness:
  "\<exists>t s1 s2. clk_early_get_timer_rate demo = Inr (t, s1) \<and> t = clk_get_rate (Clk (per_clk 0)) s1
    \<and> mxc_clocks_init s1 = Inr (0, s2)
    \<and> set (clocks s2) = {c \<in> set mxc_clks. registers s1 c}
    \<and> (\<forall>c \<in> set (clocks s2). settled mx27_fns s2 c) \<and> refs_ok boot_users s2"
  by (rule clock_boot) simp_all

text \<open>
  C5: the account of use counts is an invariant.  After boot, whatever sequence of enable, disable,
  set-rate and set-parent calls drivers make, as long as no clock has more than 32 outside users at
  a time, a driver disables only what it has enabled, and no clock is given another parent while
  it is in use (the code checks none of the three): the use count of a clock is the number of its
  outside users plus the number of clocks in use that hang off it, so it does not wrap in its
  eight bits, is never negative, and a clock in use has its parent and its secondary clock in use.
\<close>

theorem clock_usage_invariant:
  assumes "mx27_hwok h" and "\<not> sysrev_updated h"
    and "clk_early_get_timer_rate (mx27_boot h) = Inr (t, s1)" and "mxc_clocks_init s1 = Inr (r, s2)"
    and "usage mx27_fns 32 boot_users s2 ext s"
  shows "(\<forall>x. ext x + (\<Sum>d\<in>in_use s. links s d x) = clk_get_usecount (Clk x) s) \<and>
    (\<forall>x. 0 \<le> clk_get_usecount (Clk x) s) \<and>
    (\<forall>d x. 0 < clk_get_usecount (Clk d) s \<and> (clk_get_parent (Clk d) s = Clk x \<or> secondary (clk_of s d) = Some x)
       \<longrightarrow> 0 < clk_get_usecount (Clk x) s)"
proof -
  obtain s1' where "clk_early_get_timer_rate (mx27_boot h) = Inr (rate (clk_of s1' (per_clk 0)), s1')" "init_ready s1'"
    using clk_early_effect [OF assms(1,2)] by blast
  then have "init_ready s1" using assms(3) by simp
  then have inv: "boot_inv boot_users s2" using mxc_clocks_init_effect [of s1] assms(4) by auto
  then have "mx27_wf s2" by (simp add: boot_inv_def mx27_wf_def)
  then have ok: "refs_ok ext s" and nn: "\<And>x. 0 \<le> ext x"
    using mx27_tree.usage_invariant [OF assms(5)] inv by (auto simp: boot_inv_def boot_users_def)
  show ?thesis
    using ok in_use_ancestors [OF ok nn]
    by (auto simp: refs_ok_def clk_get_usecount_def clk_get_parent_def split: option.splits)
qed

theorem clock_usage_invariant_witness:
  "\<exists>t s1 s2 s3 s4 s5. clk_early_get_timer_rate demo = Inr (t, s1) \<and> mxc_clocks_init s1 = Inr (0, s2) \<and>
    clk_enable mx27_fns (Clk (csi_clk 0)) s2 = Inr (0, s3) \<and> clk_enable mx27_fns (Clk (uart1_clk 0)) s3 = Inr (0, s4) \<and>
    clk_disable mx27_fns (Clk (csi_clk 0)) s4 = Inr s5 \<and>
    (\<forall>x. (boot_users(csi_clk 0 := 0, uart1_clk 0 := 1)) x + (\<Sum>d\<in>in_use s5. links s5 d x) = clk_get_usecount (Clk x) s5) \<and>
    (\<forall>x. 0 \<le> clk_get_usecount (Clk x) s5) \<and>
    (\<forall>d x. 0 < clk_get_usecount (Clk d) s5 \<and> (clk_get_parent (Clk d) s5 = Clk x \<or> secondary (clk_of s5 d) = Some x)
       \<longrightarrow> 0 < clk_get_usecount (Clk x) s5)"
proof -
  have r: "mx27_hwok demo_hw" "\<not> sysrev_updated demo_hw" by simp_all
  obtain s1 where s1: "clk_early_get_timer_rate demo = Inr (rate (clk_of s1 (per_clk 0)), s1)" "init_ready s1"
    using clk_early_effect [OF r] by blast
  obtain s2 where s2: "mxc_clocks_init s1 = Inr (0, s2)" "wired s2" "mx27_hwok (hw s2)"
    using mxc_clocks_init_effect [OF s1(2)] by (auto simp: boot_inv_def)
  obtain s3 where s3: "clk_enable mx27_fns (Clk (csi_clk 0)) s2 = Inr (0, s3)" "wired s3" "mx27_hwok (hw s3)"
    using mx27_clk_enable_returns [OF s2(2,3)] wired_shape [OF _ s2(2)] by blast
  obtain s4 where s4: "clk_enable mx27_fns (Clk (uart1_clk 0)) s3 = Inr (0, s4)" "wired s4" "mx27_hwok (hw s4)"
    using mx27_clk_enable_returns [OF s3(2,3)] wired_shape [OF _ s3(2)] by blast
  obtain s5 where s5: "clk_disable mx27_fns (Clk (csi_clk 0)) s4 = Inr s5"
    using mx27_clk_disable_returns [OF s4(2,3)] by blast
  have "usage mx27_fns 32 boot_users s2 (boot_users(csi_clk 0 := 1)) s3"
    using usage.usage_enable [OF usage.usage_start [of mx27_fns 32 boot_users s2] _ s3(1)] by (simp add: boot_users_def)
  from usage.usage_enable [OF this _ s4(1)]
  have "usage mx27_fns 32 boot_users s2 (boot_users(csi_clk 0 := 1, uart1_clk 0 := 1)) s4"
    by (simp add: boot_users_def)
  from usage.usage_disable [OF this _ s5]
  have "usage mx27_fns 32 boot_users s2 (boot_users(csi_clk 0 := 0, uart1_clk 0 := 1)) s5"
    by (simp add: fun_upd_twist)
  from clock_usage_invariant [OF r s1(1) s2(1) this] show ?thesis using s1(1) s2(1) s3(1) s4(1) s5 by blast
qed

section \<open>Lookup and registration\<close>

lemma module_put_get:
  "try_module_get m s = (True, s') \<Longrightarrow> module_put m s' = s"
  "try_module_get m s = (False, s') \<Longrightarrow> s' = s"
  by (auto simp: try_module_get_def module_put_def split: option.splits if_splits)

lemma module_get_clks: "try_module_get m s = (b, s') \<Longrightarrow> clk_of s' = clk_of s \<and> clocks s' = clocks s"
  by (auto simp: try_module_get_def split: option.splits if_splits)

lemma clk_find_none: "clk_find P cs s = (None, s') \<Longrightarrow> s' = s"
  by (induction cs) (auto split: if_splits prod.splits bool.splits dest: module_put_get(2))

lemma clk_find_some:
  "clk_find P cs s = (Some c, s') \<Longrightarrow> c \<in> set cs \<and> P (clk_of s c) \<and> clk_of s' = clk_of s \<and>
    module_put (owner (clk_of s c)) s' = s \<and> (\<forall>m. owner (clk_of s c) = Some m \<longrightarrow> mod_live s m)"
proof (induction cs)
  case (Cons d cs)
  show ?case
  proof (cases "P (clk_of s d)")
    case True
    obtain b t where g: "try_module_get (owner (clk_of s d)) s = (b, t)" by fastforce
    show ?thesis
    proof (cases b)
      case True
      then have "c = d" "s' = t" using Cons.prems g \<open>P (clk_of s d)\<close> by simp_all
      moreover have "\<forall>m. owner (clk_of s d) = Some m \<longrightarrow> mod_live s m"
        using g True by (auto simp: try_module_get_def split: if_splits)
      ultimately show ?thesis
        using g True module_put_get(1) [of "owner (clk_of s d)" s t] module_get_clks [OF g] \<open>P (clk_of s d)\<close> by simp
    next
      case False
      then have "t = s" using g module_put_get(2) by simp
      then show ?thesis using Cons g False \<open>P (clk_of s d)\<close> by simp
    qed
  qed (use Cons in auto)
qed simp

text \<open>
  C16: \<^verbatim>\<open>clk_put\<close> undoes \<^verbatim>\<open>clk_get\<close>: whether the lookup succeeds or fails, putting its result back
  restores the whole state, module reference counts included; a clock that is handed out is
  registered, has the name the caller's string holds on return, and its module is alive.
\<close>

theorem clk_get_put_balance:
  assumes "clk_get strtol dev idp s = (h, idp', s')"
  shows "clk_put h s' = s \<and> (\<forall>c. h = Clk c \<longrightarrow> c \<in> set (clocks s) \<and> idp' = Some (name (clk_of s c)) \<and>
    (\<forall>m. owner (clk_of s c) = Some m \<longrightarrow> mod_live s m))"
proof -
  have found: "clk_put (Clk c) u = s \<and> c \<in> set (clocks s) \<and> P (clk_of s c) \<and> (\<forall>m. owner (clk_of s c) = Some m \<longrightarrow> mod_live s m)"
    if "clk_find P (clocks s) s = (Some c, u)" for P c u
    using clk_find_some [OF that] by (simp add: clk_put_def)
  show ?thesis
    using assms
    by (auto simp: clk_get_def Let_def clk_put_def split: option.splits prod.splits
        dest!: clk_find_none dest: found)
qed

theorem clk_get_put_balance_witness:
  "\<exists>s'. clk_get (\<lambda>_. 0) NoDevice (Some ''uart_clk.3'') (demo\<lparr>clocks := [uart4_clk 0]\<rparr>) = (Clk (uart4_clk 0), Some ''uart_clk'', s') \<and>
    clk_put (Clk (uart4_clk 0)) s' = demo\<lparr>clocks := [uart4_clk 0]\<rparr>"
proof -
  let ?s = "demo\<lparr>clocks := [uart4_clk 0]\<rparr>"
  obtain s' where g: "clk_get (\<lambda>_. 0) NoDevice (Some ''uart_clk.3'') ?s = (Clk (uart4_clk 0), Some ''uart_clk'', s')"
    by (simp add: clk_get_def split_last_dot_def dev_idno_def try_module_get_def table_simps)
  show ?thesis using clk_get_put_balance [OF g] g by blast
qed

text \<open>
  C17: a clock that has been registered is found under its name and number, and the sequence
  register, get, put, unregister brings the whole state back.
\<close>

theorem clk_register_roundtrip:
  assumes "c \<notin> set (clocks s)" and "\<forall>m. owner (clk_of s c) = Some m \<longrightarrow> mod_live s m"
    and "clk_id (clk_of s c) = dev_idno dev"
  shows "\<exists>s1 s2. clk_register (Clk c) s = Inr (0, s1) \<and>
    clk_get strtol dev (Some (name (clk_of s c))) s1 = (Clk c, Some (name (clk_of s c)), s2) \<and>
    clk_unregister (Clk c) (clk_put (Clk c) s2) = Inr s"
proof -
  let ?s1 = "s\<lparr>clocks := c # clocks s\<rparr>"
  obtain s2 where m: "try_module_get (owner (clk_of s c)) ?s1 = (True, s2)"
    using assms(2) by (cases "owner (clk_of s c)") (auto simp: try_module_get_def)
  have "module_put (owner (clk_of s c)) s2 = ?s1" "clk_of s2 = clk_of s"
    using module_put_get(1) [OF m] module_get_clks [OF m] by simp_all
  then show ?thesis
    using assms(1,3) m by (simp add: clk_register_def clk_get_def clk_put_def clk_unregister_def)
qed

theorem clk_register_roundtrip_witness:
  "\<exists>s1 s2. clk_register (Clk vpu_clk) demo = Inr (0, s1) \<and>
    clk_get (\<lambda>_. 0) (PlatformDevice 0) (Some (name (clk_of demo vpu_clk))) s1 = (Clk vpu_clk, Some (name (clk_of demo vpu_clk)), s2) \<and>
    clk_unregister (Clk vpu_clk) (clk_put (Clk vpu_clk) s2) = Inr demo"
  by (rule clk_register_roundtrip) (simp_all add: table_simps dev_idno_def)

end
