(* ===== verification/Mx27_Clk_Gates.thy ===== *)
theory Mx27_Clk_Gates
  imports Mx27_Clock
begin

text \<open>
  The gates of the peripheral clocks in \<^verbatim>\<open>PCCR0\<close> and \<^verbatim>\<open>PCCR1\<close>: which bits each clock's callbacks
  switch, and that the clocks of the table do not get in each other's way, with one exception.
\<close>

section \<open>The bits of a clock\<close>

text \<open>
  The gates by the layout of the two registers, as the masks of \<^verbatim>\<open>crm_regs.h\<close> name their bits: for
  each clock the bits of \<^verbatim>\<open>PCCR0\<close> and of \<^verbatim>\<open>PCCR1\<close> that carry the name of its peripheral.  This is
  written down from the register map, not from the clock table; the table is compared with it.
\<close>

definition crm_gates :: "clkid \<Rightarrow> nat list \<times> nat list" where
  "crm_gates c =
     (case c of
        cspi1_clk _ \<Rightarrow> ([31], []) | cspi2_clk _ \<Rightarrow> ([30], []) | cspi3_clk _ \<Rightarrow> ([29], [])
      | dma_clk \<Rightarrow> ([28], [20]) | emma_clk \<Rightarrow> ([27], [18]) | fec_clk \<Rightarrow> ([26], [17]) | gpio_clk \<Rightarrow> ([25], [])
      | gpt1_clk _ \<Rightarrow> ([24], []) | gpt2_clk _ \<Rightarrow> ([23], []) | gpt3_clk _ \<Rightarrow> ([22], [])
      | gpt4_clk _ \<Rightarrow> ([21], []) | gpt5_clk _ \<Rightarrow> ([20], []) | gpt6_clk _ \<Rightarrow> ([19], [])
      | i2c_clk n \<Rightarrow> ([18 - n], []) | iim_clk \<Rightarrow> ([16], []) | kpp_clk \<Rightarrow> ([15], [])
      | lcdc_clk n \<Rightarrow> if n = 1 then ([14], []) else ([], [15])
      | mstick1_clk \<Rightarrow> ([13], [2]) | owire_clk \<Rightarrow> ([12], []) | pwm_clk _ \<Rightarrow> ([11], []) | rtc_clk \<Rightarrow> ([9], [])
      | rtic_clk \<Rightarrow> ([8], [14]) | sahara2_clk \<Rightarrow> ([7], [13]) | scc_clk \<Rightarrow> ([6], [])
      | sdhc1_clk _ \<Rightarrow> ([5], []) | sdhc2_clk _ \<Rightarrow> ([4], []) | sdhc3_clk _ \<Rightarrow> ([3], []) | slcdc_clk \<Rightarrow> ([2], [12])
      | ssi1_clk n \<Rightarrow> if n = 0 then ([], [5]) else ([1], [])
      | ssi2_clk n \<Rightarrow> if n = 0 then ([], [4]) else ([0], [])
      | uart1_clk _ \<Rightarrow> ([], [31]) | uart2_clk _ \<Rightarrow> ([], [30]) | uart3_clk _ \<Rightarrow> ([], [29])
      | uart4_clk _ \<Rightarrow> ([], [28]) | uart5_clk _ \<Rightarrow> ([], [27]) | uart6_clk _ \<Rightarrow> ([], [26])
      | usb_clk n \<Rightarrow> if n = 0 then ([], [25]) else ([], [11])
      | wdog_clk \<Rightarrow> ([], [24]) | ata_clk \<Rightarrow> ([], [23]) | brom_clk \<Rightarrow> ([], [22]) | csi_clk _ \<Rightarrow> ([], [21])
      | emi_clk \<Rightarrow> ([], [19]) | vpu_clk \<Rightarrow> ([], [16, 6]) | per_clk n \<Rightarrow> ([], [10 - n]) | nfc_clk \<Rightarrow> ([], [3])
      | _ \<Rightarrow> ([], []))"

definition bits_mask :: "nat list \<Rightarrow> u32" where
  "bits_mask bs = foldr (\<lambda>b m. push_bit b 1 OR m) bs 0"

definition crm_masks :: "clkid \<Rightarrow> u32 \<times> u32" where
  "crm_masks c = (bits_mask (fst (crm_gates c)), bits_mask (snd (crm_gates c)))"

text \<open>What the entry of a clock in the table and its callbacks select.\<close>

definition gate_masks :: "clkid \<Rightarrow> u32 \<times> u32" where
  "gate_masks c =
     (let k = mx27_clk_init c in
      case enable k of
        Some clk_enable_fn \<Rightarrow>
          (let b = push_bit (unat (enable_shift k)) 1 in
           if enable_reg k = CCM_PCCR0 then (b, 0) else if enable_reg k = CCM_PCCR1 then (0, b) else (0, 0))
      | Some clk_dma_enable_fn \<Rightarrow> (CCM_PCCR0_DMA_MASK, CCM_PCCR1_HCLK_DMA_MASK)
      | Some clk_rtic_enable_fn \<Rightarrow> (CCM_PCCR0_RTIC_MASK, CCM_PCCR1_HCLK_RTIC_MASK)
      | Some clk_emma_enable_fn \<Rightarrow> (CCM_PCCR0_EMMA_MASK, CCM_PCCR1_HCLK_EMMA_MASK)
      | Some clk_slcdc_enable_fn \<Rightarrow> (CCM_PCCR0_SLCDC_MASK, CCM_PCCR1_HCLK_SLCDC_MASK)
      | Some clk_fec_enable_fn \<Rightarrow> (CCM_PCCR0_FEC_MASK, CCM_PCCR1_HCLK_FEC_MASK)
      | Some clk_vpu_enable_fn \<Rightarrow> (0, CCM_PCCR1_VPU_BAUD_MASK OR CCM_PCCR1_HCLK_VPU_MASK)
      | Some clk_sahara2_enable_fn \<Rightarrow> (CCM_PCCR0_SAHARA_MASK, CCM_PCCR1_HCLK_SAHARA_MASK)
      | Some clk_mstick1_enable_fn \<Rightarrow> (CCM_PCCR0_MSHC_MASK, CCM_PCCR1_MSHC_BAUD_MASK)
      | _ \<Rightarrow> (0, 0))"

definition clk_gate_regs :: "mx27_sys \<Rightarrow> u32 \<times> u32" where
  "clk_gate_regs s = (rd CCM_PCCR0 s, rd CCM_PCCR1 s)"

definition set_both :: "u32 \<times> u32 \<Rightarrow> u32 \<times> u32 \<Rightarrow> u32 \<times> u32" where
  "set_both m x = (fst x OR fst m, snd x OR snd m)"

definition clr_both :: "u32 \<times> u32 \<Rightarrow> u32 \<times> u32 \<Rightarrow> u32 \<times> u32" where
  "clr_both m x = (fst x AND NOT (fst m), snd x AND NOT (snd m))"

lemma table_gates:
  "enable (mx27_clk_init c) = Some clk_enable_fn \<Longrightarrow> enable_reg (mx27_clk_init c) \<in> {CCM_PCCR0, CCM_PCCR1}"
  "enable (mx27_clk_init c) = Some clk_spll_enable_fn \<Longrightarrow> c = spll_clk"
  by (cases c; auto simp: table_simps split: nat.splits)+

text \<open>The table agrees with the register map, except for the GPIO clock.\<close>

lemma table_crm:
  "enable (mx27_clk_init c) = Some fe \<Longrightarrow> c \<noteq> gpio_clk \<Longrightarrow> gate_masks c = crm_masks c"
  by (cases c) (auto simp: table_simps gate_masks_def crm_masks_def crm_gates_def bits_mask_def split: nat.splits if_splits)

text \<open>Enable and disable callbacks come in pairs.\<close>

definition paired :: "clkfn \<Rightarrow> clkfn \<Rightarrow> bool" where
  "paired fe fd \<longleftrightarrow> (fe, fd) \<in> {(clk_enable_fn, clk_disable_fn), (clk_spll_enable_fn, clk_spll_disable_fn),
     (clk_dma_enable_fn, clk_dma_disable_fn), (clk_rtic_enable_fn, clk_rtic_disable_fn),
     (clk_emma_enable_fn, clk_emma_disable_fn), (clk_slcdc_enable_fn, clk_slcdc_disable_fn),
     (clk_fec_enable_fn, clk_fec_disable_fn), (clk_vpu_enable_fn, clk_vpu_disable_fn),
     (clk_sahara2_enable_fn, clk_sahara2_disable_fn), (clk_mstick1_enable_fn, clk_mstick1_disable_fn),
     (clk_clko_enable_fn, clk_clko_disable_fn)}"

lemma table_paired:
  "enable (mx27_clk_init c) = Some fe \<Longrightarrow> disable (mx27_clk_init c) = Some fd \<Longrightarrow> paired fe fd"
  by (cases c) (auto simp: table_simps paired_def split: nat.splits)

lemma reads:
  assumes "mx27_hwok (hw s)"
  shows "rd CCM_PCCR0 (wr v CCM_PCCR0 s) = v" "rd CCM_PCCR1 (wr v CCM_PCCR1 s) = v"
  using rd_wr_same hwok_storage [OF assms] by (simp_all add: ccm_regs_def)

lemma gate_regs_wr:
  assumes "mx27_hwok (hw s)"
  shows "clk_gate_regs (wr v CCM_PCCR0 s) = (v, snd (clk_gate_regs s))"
    and "clk_gate_regs (wr v CCM_PCCR1 s) = (fst (clk_gate_regs s), v)"
    and "a \<notin> {CCM_PCCR0, CCM_PCCR1} \<Longrightarrow> clk_gate_regs (wr v a s) = clk_gate_regs s"
  using reads [OF assms] by (simp_all add: clk_gate_regs_def)

lemmas pair_enables =
  u_clk_pccr01_enable_def u_clk_pccr10_enable_def u_clk_pccr01_disable_def u_clk_pccr10_disable_def

lemma rd_gate: "rd CCM_PCCR0 s = fst (clk_gate_regs s)" "rd CCM_PCCR1 s = snd (clk_gate_regs s)"
  by (simp_all add: clk_gate_regs_def)

lemma pair_effects:
  assumes "mx27_hwok (hw s)"
  shows "clk_gate_regs (u_clk_pccr01_enable a b s) = set_both (a, b) (clk_gate_regs s)"
    and "clk_gate_regs (u_clk_pccr10_enable b a s) = set_both (a, b) (clk_gate_regs s)"
    and "clk_gate_regs (u_clk_pccr01_disable a b s) = clr_both (a, b) (clk_gate_regs s)"
    and "clk_gate_regs (u_clk_pccr10_disable b a s) = clr_both (a, b) (clk_gate_regs s)"
  using assms
  by (simp_all add: pair_enables Let_def gate_regs_wr rd_gate set_both_def clr_both_def del: CCM_PCCR0_def CCM_PCCR1_def)

lemma clko_other: "CCM_PCDR0 \<notin> {CCM_PCCR0, CCM_PCCR1}" "CCM_CSCR \<notin> {CCM_PCCR0, CCM_PCCR1}" "CCM_PCCR0 \<noteq> CCM_PCCR1"
  by simp_all

lemmas named_enables =
  u_clk_dma_enable_def u_clk_rtic_enable_def u_clk_emma_enable_def u_clk_slcdc_enable_def u_clk_fec_enable_def
  u_clk_vpu_enable_def u_clk_sahara2_enable_def u_clk_mstick1_enable_def u_clk_clko_enable_def
  u_clk_dma_disable_def u_clk_rtic_disable_def u_clk_emma_disable_def u_clk_slcdc_disable_def u_clk_fec_disable_def
  u_clk_vpu_disable_def u_clk_sahara2_disable_def u_clk_mstick1_disable_def u_clk_clko_disable_def u_clk_spll_disable_def

lemma plain_gate:
  assumes "wired s" and "mx27_hwok (hw s)" and "enable (mx27_clk_init c) = Some clk_enable_fn"
  shows "\<exists>s'. u_clk_enable c s = Inr (0, s') \<and> clk_gate_regs s' = set_both (gate_masks c) (clk_gate_regs s)"
    and "\<exists>s'. u_clk_disable c s = Inr s' \<and> clk_gate_regs s' = clr_both (gate_masks c) (clk_gate_regs s)"
proof -
  have r: "enable_reg (clk_of s c) = enable_reg (mx27_clk_init c)" "enable_shift (clk_of s c) = enable_shift (mx27_clk_init c)"
    using wiredD(6,7) [OF assms(1)] by blast+
  have ab: "enable_reg (mx27_clk_init c) = CCM_PCCR0 \<or> enable_reg (mx27_clk_init c) = CCM_PCCR1"
    using table_gates(1) [OF assms(3)] by simp
  show "\<exists>s'. u_clk_enable c s = Inr (0, s') \<and> clk_gate_regs s' = set_both (gate_masks c) (clk_gate_regs s)"
    using ab assms(3) clko_other(3)
    by (auto simp: u_clk_enable_def Let_def r gate_regs_wr [OF assms(2)] rd_gate set_both_def gate_masks_def
        simp del: CCM_PCCR0_def CCM_PCCR1_def)
  show "\<exists>s'. u_clk_disable c s = Inr s' \<and> clk_gate_regs s' = clr_both (gate_masks c) (clk_gate_regs s)"
    using ab assms(3) clko_other(3)
    by (auto simp: u_clk_disable_def Let_def r gate_regs_wr [OF assms(2)] rd_gate clr_both_def gate_masks_def
        simp del: CCM_PCCR0_def CCM_PCCR1_def)
qed

lemma gate_effect:
  assumes w: "wired s" and h: "mx27_hwok (hw s)" and "enable (clk_of s c) = Some fe" and "c \<noteq> spll_clk"
  shows "\<exists>s'. mx27_enable fe c s = Inr (0, s') \<and> clk_gate_regs s' = set_both (gate_masks c) (clk_gate_regs s)"
proof -
  have e: "enable (mx27_clk_init c) = Some fe" using wiredD(4) [OF w] assms(3) by simp
  then have "fe \<noteq> clk_spll_enable_fn" using table_gates(2) assms(4) by blast
  moreover have "\<exists>fd. paired fe fd" using e by (cases c) (auto simp: table_simps paired_def split: nat.splits)
  ultimately show ?thesis
    using plain_gate(1) [OF w h] e pair_effects [OF h] gate_regs_wr [OF h] clko_other
    by (auto simp: paired_def mx27_enable_def named_enables gate_masks_def rd_gate set_both_def
        simp del: CCM_PCCR0_def CCM_PCCR1_def CCM_PCDR0_def)
qed

lemma ungate_effect:
  assumes w: "wired s" and h: "mx27_hwok (hw s)" and "enable (clk_of s c) = Some fe" and "disable (clk_of s c) = Some fd"
  shows "\<exists>s'. mx27_disable fd c s = Inr s' \<and> clk_gate_regs s' = clr_both (gate_masks c) (clk_gate_regs s)"
proof -
  have e: "enable (mx27_clk_init c) = Some fe" "disable (mx27_clk_init c) = Some fd"
    using wiredD(4,5) [OF w, of c] assms(3,4) by simp_all
  show ?thesis
    using table_paired [OF e] plain_gate(2) [OF w h] e pair_effects [OF h] gate_regs_wr [OF h] clko_other
    by (auto simp: paired_def mx27_disable_def named_enables gate_masks_def rd_gate clr_both_def
        simp del: CCM_PCCR0_def CCM_PCCR1_def CCM_PCDR0_def CCM_CSCR_def)
qed

section \<open>Clocks do not share bits\<close>

text \<open>One pass over a list of masks that finds no bit twice.\<close>

fun no_clash :: "u32 \<Rightarrow> u32 list \<Rightarrow> bool" where
  "no_clash acc [] = True"
| "no_clash acc (m # ms) = (acc AND m = 0 \<and> no_clash (acc OR m) ms)"

lemma no_clash_acc: "no_clash acc ms \<Longrightarrow> m \<in> set ms \<Longrightarrow> acc AND m = 0"
proof (induction ms arbitrary: acc)
  case (Cons a ms)
  then show ?case
  proof (cases "m = a")
    case False
    then have "(acc OR a) AND m = 0" using Cons by simp
    then show ?thesis by (simp add: bit.conj_disj_distrib2 or_eq_0_iff)
  qed simp
qed simp

lemma no_clash_pair:
  "no_clash acc (map f xs) \<Longrightarrow> distinct xs \<Longrightarrow> c \<in> set xs \<Longrightarrow> d \<in> set xs \<Longrightarrow> c \<noteq> d \<Longrightarrow> f c AND f d = 0"
proof (induction xs arbitrary: acc)
  case (Cons x xs)
  have "f x AND f y = 0" if "y \<in> set xs" for y
  proof -
    have "(acc OR f x) AND f y = 0" using no_clash_acc [of "acc OR f x" "map f xs" "f y"] Cons.prems(1) that by simp
    then show ?thesis by (simp add: bit.conj_disj_distrib2 or_eq_0_iff)
  qed
  then show ?case using Cons by (auto simp: and.commute)
qed simp

lemma gates_no_clash:
  "no_clash 0 (map (\<lambda>c. fst (gate_masks c)) mxc_clks)"
  "no_clash 0 (map (\<lambda>c. snd (gate_masks c)) (remove1 gpio_clk mxc_clks))"
  "no_clash 0 (map (\<lambda>c. snd (gate_masks c)) (remove1 (usb_clk 0) mxc_clks))"
  by (simp_all add: mxc_clks_def gate_masks_def table_simps)

lemma gates_apart:
  assumes "c \<in> set mxc_clks" "d \<in> set mxc_clks" "c \<noteq> d" "{c, d} \<noteq> {usb_clk 0, gpio_clk}"
  shows "fst (gate_masks c) AND fst (gate_masks d) = 0" "snd (gate_masks c) AND snd (gate_masks d) = 0"
proof -
  note apart = no_clash_pair [OF gates_no_clash(1) mxc_clks_distinct assms(1-3)]
    no_clash_pair [OF gates_no_clash(2) distinct_remove1 [OF mxc_clks_distinct], of c d]
    no_clash_pair [OF gates_no_clash(3) distinct_remove1 [OF mxc_clks_distinct], of c d]
  show "fst (gate_masks c) AND fst (gate_masks d) = 0" by (rule apart(1))
  have "c \<noteq> gpio_clk \<and> d \<noteq> gpio_clk \<or> c \<noteq> usb_clk 0 \<and> d \<noteq> usb_clk 0" using assms(3,4) by auto
  then show "snd (gate_masks c) AND snd (gate_masks d) = 0"
    using apart(2,3) assms(1-3) by (auto simp: set_remove1_eq [OF mxc_clks_distinct])
qed

lemma after_enable:
  assumes "wired s" and "mx27_hwok (hw s)" and "mx27_enable f c s = Inr (r, s1)"
  shows "wired s1" "mx27_hwok (hw s1)" "clk_of s1 = clk_of s"
proof -
  have "hw_only s s1" using mx27_enable_effect [OF assms(2), of f c] assms(3) by auto
  then obtain h where "s1 = s\<lparr>hw := h\<rparr>" "mx27_hwok h" using hw_only_ex by blast
  then show "wired s1" "mx27_hwok (hw s1)" "clk_of s1 = clk_of s" using assms(1) by simp_all
qed

text \<open>
  C10: enabling a clock switches on exactly the bits of \<^verbatim>\<open>PCCR0\<close> and \<^verbatim>\<open>PCCR1\<close> that the register map of
  \<^verbatim>\<open>crm_regs.h\<close> gives to its peripheral, and disabling it switches off exactly these: for every clock of
  the table with gate callbacks.  Two are apart: the serial PLL, whose callback waits for the
  lock, and the GPIO clock, whose entry in the table names the wrong register.
\<close>

theorem gate_bits_switch:
  assumes "wired s" and "mx27_hwok (hw s)" and "c \<noteq> spll_clk" and "c \<noteq> gpio_clk"
    and "enable (clk_of s c) = Some fe" and "disable (clk_of s c) = Some fd"
  shows "\<exists>s1 s2. call_enable mx27_fns fe c s = Inr (0, s1) \<and> clk_gate_regs s1 = set_both (crm_masks c) (clk_gate_regs s) \<and>
    call_disable mx27_fns fd c s1 = Inr s2 \<and> clk_gate_regs s2 = clr_both (crm_masks c) (clk_gate_regs s)"
proof -
  have m: "gate_masks c = crm_masks c" using table_crm [of c fe] wiredD(4) [OF assms(1)] assms(4,5) by simp
  obtain s1 where s1: "mx27_enable fe c s = Inr (0, s1)" "clk_gate_regs s1 = set_both (crm_masks c) (clk_gate_regs s)"
    using gate_effect [OF assms(1,2,5,3)] m by auto
  note after = after_enable [OF assms(1,2) s1(1)]
  obtain s2 where s2: "mx27_disable fd c s1 = Inr s2" "clk_gate_regs s2 = clr_both (crm_masks c) (clk_gate_regs s1)"
    using ungate_effect [OF after(1,2), of c fe fd] after(3) assms(5,6) m by auto
  have "clr_both m (set_both m x) = clr_both m x" for m x
    by (simp add: clr_both_def set_both_def) (auto intro: bit_word_eqI simp: bit_simps)
  then show ?thesis using s1 s2 by (simp add: mx27_fns_def)
qed

theorem gate_bits_switch_witness:
  "\<exists>s1 s2. call_enable mx27_fns clk_vpu_enable_fn vpu_clk demo = Inr (0, s1) \<and>
    clk_gate_regs s1 = set_both (crm_masks vpu_clk) (clk_gate_regs demo) \<and>
    call_disable mx27_fns clk_vpu_disable_fn vpu_clk s1 = Inr s2 \<and>
    clk_gate_regs s2 = clr_both (crm_masks vpu_clk) (clk_gate_regs demo)"
  by (rule gate_bits_switch) (simp_all add: table_simps)

text \<open>
  C11: switching a clock off does not stop another one: whatever two clocks of the table are
  taken, the bits of one survive the disable callback of the other.  The one exception is the pair
  of the GPIO and the USB clock.
\<close>

theorem gates_independent:
  assumes "wired s" and "mx27_hwok (hw s)" and "c \<in> set mxc_clks" and "d \<in> set mxc_clks" and "c \<noteq> d"
    and "{c, d} \<noteq> {usb_clk 0, gpio_clk}"
    and "enable (clk_of s d) = Some fe" and "disable (clk_of s d) = Some fd"
  shows "\<exists>s'. call_disable mx27_fns fd d s = Inr s' \<and>
    fst (clk_gate_regs s') AND fst (gate_masks c) = fst (clk_gate_regs s) AND fst (gate_masks c) \<and>
    snd (clk_gate_regs s') AND snd (gate_masks c) = snd (clk_gate_regs s) AND snd (gate_masks c)"
proof -
  obtain s' where s': "mx27_disable fd d s = Inr s'" "clk_gate_regs s' = clr_both (gate_masks d) (clk_gate_regs s)"
    using ungate_effect [OF assms(1,2,7,8)] by blast
  have keep: "(x AND NOT m) AND k = x AND k" if "k AND m = 0" for x m k :: u32
  proof (rule bit_word_eqI)
    fix n assume "n < LENGTH(32)"
    have "\<not> (bit k n \<and> bit m n)" using arg_cong [OF that, of "\<lambda>w. bit w n"] by (simp add: bit_simps)
    then show "bit ((x AND NOT m) AND k) n \<longleftrightarrow> bit (x AND k) n" using \<open>n < LENGTH(32)\<close> by (auto simp: bit_simps)
  qed
  show ?thesis
    using s' gates_apart [OF assms(3-6)] by (auto simp: mx27_fns_def clr_both_def intro!: keep)
qed

theorem gates_independent_witness:
  "\<exists>s'. call_disable mx27_fns clk_disable_fn (uart1_clk 1) demo = Inr s' \<and>
    fst (clk_gate_regs s') AND fst (gate_masks emma_clk) = fst (clk_gate_regs demo) AND fst (gate_masks emma_clk) \<and>
    snd (clk_gate_regs s') AND snd (gate_masks emma_clk) = snd (clk_gate_regs demo) AND snd (gate_masks emma_clk)"
  by (rule gates_independent) (auto simp: table_simps mxc_clks_def doubleton_eq_iff)

text \<open>
  C12: the GPIO clock is wired to the wrong register: its entry names \<^verbatim>\<open>PCCR1\<close> with the bit position
  of \<^verbatim>\<open>PCCR0\<close>.  Enabling it leaves the GPIO gate of \<^verbatim>\<open>PCCR0\<close> as it was and switches on a bit that
  belongs to the USB clock; disabling the USB clock clears the bit the GPIO clock had set.
\<close>

theorem gpio_clock_misses_its_gate:
  assumes "wired s" and "mx27_hwok (hw s)"
  shows "\<exists>s1 s2. call_enable mx27_fns clk_enable_fn gpio_clk s = Inr (0, s1) \<and> rd CCM_PCCR0 s1 = rd CCM_PCCR0 s \<and>
    rd CCM_PCCR1 s1 = rd CCM_PCCR1 s OR push_bit CCM_PCCR1_USBOTG_OFFSET 1 \<and>
    call_disable mx27_fns clk_disable_fn (usb_clk 0) s1 = Inr s2 \<and> \<not> bit (rd CCM_PCCR1 s2) CCM_PCCR0_GPIO_OFFSET"
proof -
  have m: "gate_masks gpio_clk = (0, push_bit 25 1)" "gate_masks (usb_clk 0) = (0, push_bit 25 1)"
    by (simp_all add: gate_masks_def table_simps)
  have e: "enable (clk_of s gpio_clk) = Some clk_enable_fn" "enable (clk_of s (usb_clk 0)) = Some clk_enable_fn"
    "disable (clk_of s (usb_clk 0)) = Some clk_disable_fn"
    using wiredD(4,5) [OF assms(1)] by (simp_all add: table_simps)
  obtain s1 where s1: "mx27_enable clk_enable_fn gpio_clk s = Inr (0, s1)" "clk_gate_regs s1 = set_both (0, push_bit 25 1) (clk_gate_regs s)"
    using gate_effect [OF assms e(1)] m(1) by auto
  note after = after_enable [OF assms s1(1)]
  obtain s2 where s2: "mx27_disable clk_disable_fn (usb_clk 0) s1 = Inr s2" "clk_gate_regs s2 = clr_both (0, push_bit 25 1) (clk_gate_regs s1)"
    using ungate_effect [OF after(1,2), of "usb_clk 0" clk_enable_fn clk_disable_fn] after(3) e(2,3) m(2) by auto
  have "rd CCM_PCCR0 s1 = rd CCM_PCCR0 s" "rd CCM_PCCR1 s1 = rd CCM_PCCR1 s OR push_bit CCM_PCCR1_USBOTG_OFFSET 1"
    using s1(2) by (simp_all add: set_both_def clk_gate_regs_def)
  moreover have "\<not> bit (rd CCM_PCCR1 s2) CCM_PCCR0_GPIO_OFFSET"
    using s2(2) by (simp add: clr_both_def clk_gate_regs_def bit_simps)
  ultimately show ?thesis using s1(1) s2(1) by (simp add: mx27_fns_def)
qed

theorem gpio_clock_misses_its_gate_witness:
  "\<exists>s1 s2. call_enable mx27_fns clk_enable_fn gpio_clk demo = Inr (0, s1) \<and> rd CCM_PCCR0 s1 = rd CCM_PCCR0 demo \<and>
    rd CCM_PCCR1 s1 = rd CCM_PCCR1 demo OR push_bit CCM_PCCR1_USBOTG_OFFSET 1 \<and>
    call_disable mx27_fns clk_disable_fn (usb_clk 0) s1 = Inr s2 \<and> \<not> bit (rd CCM_PCCR1 s2) CCM_PCCR0_GPIO_OFFSET"
  by (rule gpio_clock_misses_its_gate) simp_all

end
