(* ===== verification/Mx27_Clk_Rate.thy ===== *)
theory Mx27_Clk_Rate
  imports Mx27_Clock
begin

text \<open>
  Changing rates: the dividers of the peripheral clocks and of the VPU.  Setting a rate the code
  itself rounded succeeds, the divider in the register is the one of that rate, and the whole tree
  is consistent afterwards.
\<close>

section \<open>The rate a clock is due\<close>

definition due :: "mx27_sys \<Rightarrow> clkid \<Rightarrow> clkid \<Rightarrow> u32" where
  "due s c p =
     (case recalc (clk_of s c) of
        None \<Rightarrow> rate (clk_of s p)
      | Some f \<Rightarrow> recalc_value f c (clk_id (clk_of s c)) (rate_view (hw s)) p (rate (clk_of s p)))"

lemma refresh_due:
  assumes "wired s" and "mx27_hwok (hw s)" and "parent (clk_of s c) = Some p"
  shows "refresh_rate mx27_fns p c s = Inr (set_clk_rate c (due s c p) s)"
  using recalc_refines_value [OF wired_ok [OF assms(1,2)] _ assms(3)]
  by (cases "recalc (clk_of s c)") (simp_all add: refresh_rate_def due_def mx27_fns_def)

lemma settled_due:
  assumes "wired s" and "mx27_hwok (hw s)"
  shows "settled mx27_fns s c \<longleftrightarrow> (\<forall>p. parent (clk_of s c) = Some p \<longrightarrow> rate (clk_of s c) = due s c p)"
proof -
  have "set_clk_rate c r s = s \<longleftrightarrow> rate (clk_of s c) = r" for r
  proof
    assume "set_clk_rate c r s = s"
    from arg_cong [OF this, of "\<lambda>s. rate (clk_of s c)"] show "rate (clk_of s c) = r" by simp
  qed auto
  then show ?thesis using refresh_due [OF assms] by (auto simp: settled_def)
qed

text \<open>
  The effect of setting a rate on the tree: if the new divider gives \<open>c\<close> the new rate and no other
  clock reads the changed field, propagation leaves every registered clock at its due rate.
\<close>

lemma set_rate_settles_all:
  assumes w: "wired s" and h: "mx27_hwok (hw s)" and all: "settled_all s"
    and run: "call_set_rate mx27_fns f c r s = Inr (0, set_clk_rate c r (wr v a s))"
    and sr: "set_rate (clk_of s c) = Some f" and "r \<noteq> 0" and p: "parent (clk_of s c) = Some p"
    and own: "due (wr v a s) c p = r" and others: "\<forall>x q. x \<noteq> c \<longrightarrow> parent (clk_of s x) = Some q \<longrightarrow> due (wr v a s) x q = due s x q"
  shows "\<exists>s'. clk_set_rate mx27_fns (Clk c) r s = Inr (0, s') \<and> clk_get_rate (Clk c) s' = r \<and>
    settled_all s' \<and> settled mx27_fns s' c \<and> hw s' = hw (wr v a s) \<and> same_uses s s'"
proof -
  let ?s1 = "set_clk_rate c r (wr v a s)"
  have w1: "wired ?s1" and h1: "mx27_hwok (hw ?s1)" using w h by simp_all
  obtain s' where pr: "propagate_rate mx27_fns (Clk c) ?s1 = Inr s'" and o: "only_rates (descendants ?s1 c) ?s1 s'"
    and d: "\<forall>x \<in> descendants ?s1 c. settled mx27_fns s' x"
    using mx27_propagate [OF w1 h1] by blast
  have set: "clk_set_rate mx27_fns (Clk c) r s = Inr (0, s')"
    using run sr pr assms(6) by (simp add: clk_set_rate_def)
  have pc: "p \<noteq> c" using tree_ok_parent [OF wired_tree [OF w] p] by auto
  have c: "c \<notin> descendants ?s1 c" using kids_rank [of c c ?s1] wired_tree [OF w1] by (auto simp: descendants_def)
  have rk: "p \<notin> descendants ?s1 c"
    using kids_rank [of p c ?s1 mx27_rank] wired_tree [OF w1] tree_ok_parent [OF wired_tree [OF w] p]
    by (auto simp: descendants_def)
  have u: "same_uses s s'" using only_ratesD(1) [OF o] same_uses_trans [of s ?s1 s'] by simp
  have w': "wired s'" using wired_uses [OF u w] .
  have h': "hw s' = hw ?s1" using only_ratesD(2) [OF o] .
  have hk: "mx27_hwok (hw s')" using h1 h' by simp
  have due': "due s' x q = due ?s1 x q" if "q \<notin> descendants ?s1 c" for x q
    unfolding due_def only_ratesD(3) [OF o that] same_usesD(4,5) [OF only_ratesD(1) [OF o], of x] h' ..
  have due1: "due ?s1 x q = due (wr v a s) x q" if "q \<noteq> c" for x q
    using that by (simp add: due_def split: option.splits)
  have cr: "rate (clk_of s' c) = r" using only_ratesD(3) [OF o c] by simp
  have sc: "settled mx27_fns s' c"
    using own cr p pc rk due' [OF rk, of c] due1 [OF pc, of c] same_usesD(1) [OF u, of c]
    by (simp add: settled_due [OF w' hk])
  have "settled mx27_fns s' x" if x: "x \<in> set (clocks s')" for x
  proof (cases "x = c \<or> x \<in> descendants ?s1 c")
    case False
    have x1: "x \<in> set (clocks s)" using x same_usesD(6) [OF u] by simp
    have "rate (clk_of s' x) = due s' x q" if q: "parent (clk_of s' x) = Some q" for q
    proof -
      have q0: "parent (clk_of s x) = Some q" using q same_usesD(1) [OF u, of x] by simp
      have "q \<noteq> c" using False descendants_child [of x ?s1 c] x1 q0 by auto
      moreover have "q \<notin> descendants ?s1 c" using False descendants_trans [of q ?s1 c x] x1 q0 by auto
      moreover have "rate (clk_of s x) = due s x q"
        using all x1 q0 by (auto simp: settled_all_def settled_due [OF w h])
      ultimately show ?thesis
        using False others q0 due' [of q x] due1 [of q x] only_ratesD(3) [OF o, of x] by simp
    qed
    then show ?thesis by (simp add: settled_due [OF w' hk])
  qed (use sc d in blast)
  then show ?thesis using set cr sc h' u by (auto simp: settled_all_def clk_get_rate_def)
qed

section \<open>Dividers\<close>

text \<open>Dividing by the quotient gives the divider back, as long as it is small.\<close>

lemma div_div_same:
  fixes n d :: nat
  assumes "0 < d" and "d * d \<le> n"
  shows "n div (n div d) = d"
proof -
  have q: "d \<le> n div d" using assms by (simp add: less_eq_div_iff_mult_less_eq)
  have n: "n div d * d + n mod d = n" by (rule div_mult_mod_eq)
  have "n mod d < n div d" using q assms(1) mod_less_divisor [of d n] by linarith
  with n have "n div d * d \<le> n" "n < n div d * d + n div d" by linarith+
  then show ?thesis by (intro div_nat_eqI) simp_all
qed

lemma udiv_back:
  fixes x d :: u32
  assumes "d \<noteq> 0" and "unat d * unat d \<le> unat x"
  shows "x div (x div d) = d" "x div d \<noteq> 0"
proof -
  have p: "0 < unat d" using assms(1) by (simp add: unat_gt_0)
  have "unat (x div (x div d)) = unat d" using div_div_same [OF p assms(2)] by (simp add: unat_div)
  then show "x div (x div d) = d" by (simp add: word_unat_eq_iff)
  have "unat d \<le> unat x" using le_trans [OF le_square assms(2)] .
  then have "unat (x div d) \<noteq> 0" using p by (simp add: unat_div div_greater_zero_iff)
  then show "x div d \<noteq> 0" by (auto simp: word_unat_eq_iff)
qed

text \<open>The divider the rounding functions choose: the quotient rounded up, at most \<open>mx\<close>.\<close>

definition round_div :: "u32 \<Rightarrow> u32 \<Rightarrow> u32 \<Rightarrow> u32" where
  "round_div mx x r = (let d = (if x mod r \<noteq> 0 then x div r + 1 else x div r) in if mx < d then mx else d)"

lemma round_div_bounds:
  assumes "r \<noteq> 0" and "x \<noteq> 0" and "mx \<noteq> 0" and "mx < 2 ^ 16" and "x < 2 ^ 31"
  shows "round_div mx x r \<noteq> 0" "round_div mx x r \<le> mx"
    and "x div round_div mx x r \<le> r \<or> round_div mx x r = mx"
proof -
  have nr: "0 < unat r" and nx: "0 < unat x" using assms(1,2) by (simp_all add: unat_gt_0)
  have lt: "unat x < 2 ^ 31" using assms(5) by (simp add: word_less_nat_alt)
  let ?d = "if x mod r \<noteq> 0 then x div r + 1 else x div r"
  have q: "unat (x div r) < 2 ^ 31" using le_less_trans [OF div_le_dividend lt] by (simp add: unat_div)
  then have s: "unat (x div r + 1) = unat (x div r) + 1" by (simp add: unat_word_ariths)
  have m: "(x mod r \<noteq> 0) = (unat x mod unat r \<noteq> 0)" by (simp add: word_unat_eq_iff unat_mod)
  have ud: "unat ?d = (if unat x mod unat r \<noteq> 0 then unat x div unat r + 1 else unat x div unat r)"
    using s m by (simp add: unat_div)
  have d0: "?d \<noteq> 0"
  proof
    assume "?d = 0"
    then have "unat ?d = 0" by simp
    then have "unat x mod unat r = 0" "unat x div unat r = 0" unfolding ud by (simp_all split: if_splits)
    then show False using nx div_mult_mod_eq [of "unat x" "unat r"] by simp
  qed
  then show "round_div mx x r \<noteq> 0" "round_div mx x r \<le> mx" using assms(3) by (auto simp: round_div_def Let_def not_less)
  have "unat x \<le> unat ?d * unat r"
  proof (cases "unat x mod unat r = 0")
    case False
    have "unat x = unat x div unat r * unat r + unat x mod unat r" by simp
    moreover have "unat x mod unat r < unat r" using nr by simp
    ultimately have "unat x \<le> unat x div unat r * unat r + unat r" by linarith
    then show ?thesis unfolding ud using False by (simp add: algebra_simps)
  qed (simp add: ud mod_0_imp_dvd)
  then have "unat x div unat ?d \<le> unat r"
    using d0 div_le_mono [of "unat x" "unat ?d * unat r" "unat ?d"] by (simp only: nonzero_mult_div_cancel_left unat_eq_zero simp_thms if_False)
  then have "x div ?d \<le> r" by (simp add: word_le_nat_alt unat_div)
  then show "x div round_div mx x r \<le> r \<or> round_div mx x r = mx" by (simp add: round_div_def Let_def)
qed

section \<open>Peripheral clocks\<close>

lemma perdiv_field:
  fixes x q :: u32
  assumes "i < 4" and "q - 1 \<le> 63"
  shows "(x AND NOT (push_bit (i * 8) 0x3F)) OR push_bit (i * 8) (q - 1) = fld_set (i * 8) 6 (q - 1) x"
    and "fits 6 (q - 1)"
  using assms by (simp_all add: fld_set_def mask_eq_exp_minus_1 fits_iff_less word_le_nat_alt)

lemma rate_calls:
  "call_round_rate mx27_fns clk_perclkx_round_rate_fn = u_clk_perclkx_round_rate"
  "call_set_rate mx27_fns clk_perclkx_set_rate_fn = u_clk_perclkx_set_rate"
  "call_round_rate mx27_fns clk_vpu_round_rate_fn = u_clk_vpu_round_rate"
  "call_set_rate mx27_fns clk_vpu_set_rate_fn = u_clk_vpu_set_rate"
  "call_set_rate mx27_fns clk_cpu_set_rate_fn = u_clk_cpu_set_rate"
  "call_set_rate mx27_fns clk_clko_set_rate_fn = u_clk_clko_set_rate"
proof -
  obtain n where n: "CLK_DEPTH = Suc n" by (cases CLK_DEPTH) (simp_all add: CLK_DEPTH_def)
  show
    "call_round_rate mx27_fns clk_perclkx_round_rate_fn = u_clk_perclkx_round_rate"
    "call_set_rate mx27_fns clk_perclkx_set_rate_fn = u_clk_perclkx_set_rate"
    "call_round_rate mx27_fns clk_vpu_round_rate_fn = u_clk_vpu_round_rate"
    "call_set_rate mx27_fns clk_vpu_set_rate_fn = u_clk_vpu_set_rate"
    "call_set_rate mx27_fns clk_cpu_set_rate_fn = u_clk_cpu_set_rate"
    "call_set_rate mx27_fns clk_clko_set_rate_fn = u_clk_clko_set_rate"
    by (simp_all add: mx27_fns_def fun_eq_iff n)
qed

lemma due_pcdr1:
  assumes "mx27_hwok (hw s)" and "recalc (clk_of s x) \<noteq> Some clk_perclkx_recalc_fn"
  shows "due (wr v CCM_PCDR1 s) x q = due s x q"
proof -
  have "rate_view (hw (wr v CCM_PCDR1 s)) = (rate_view (hw s))\<lparr>v_pcdr1 := raw_readl CCM_PCDR1 (io (hw (wr v CCM_PCDR1 s)))\<rparr>"
    by (simp add: rate_view_def wr_def)
  then show ?thesis
    using assms(2) by (cases "recalc (clk_of s x)") (auto simp: due_def recalc_value_def to2_def half_div_def split: clkfn.splits)
qed

lemma sint_small: "v < 2 ^ 31 \<Longrightarrow> sint v = uint v" for v :: u32
  by (simp add: sint_uint word_less_def signed_take_bit_int_eq_self_iff)
    (rule order_trans [OF _ uint_ge_0], simp)

lemma rounded_small:
  fixes x d :: u32
  assumes "x < 2 ^ 31" shows "x div d < 2 ^ 31"
  using le_less_trans [OF div_le_dividend [of "unat x" "unat d"], of "2 ^ 31"] assms
  by (simp add: word_less_nat_alt unat_div)

text \<open>
  C7: rounding a rate for a programmable peripheral clock and then setting the rounded rate
  succeeds: the clock runs at it, the divider in \<^verbatim>\<open>PCDR1\<close> is the quotient rounded up (at most 64),
  the rate does not exceed the one asked for unless the largest divider is reached, and if every
  registered clock was at the rate its parent and the dividers give, then so it is afterwards.
\<close>

theorem perclk_round_then_set:
  assumes "wired s" and "mx27_hwok (hw s)" and "settled_all s" and "i = 2 \<or> i = 3" and "c = per_clk i"
    and "set_rate (clk_of s c) = set_rate (mx27_clk_init c)" and "round_rate (clk_of s c) = round_rate (mx27_clk_init c)"
    and "parent (clk_of s c) = Some p" and "4096 \<le> rate (clk_of s p)" and "rate (clk_of s p) < 2 ^ 31" and "r \<noteq> 0"
  shows "\<exists>v s'. clk_round_rate mx27_fns (Clk c) r s = Inr (uint v) \<and> (v \<le> r \<or> v = rate (clk_of s p) div 64) \<and>
    clk_set_rate mx27_fns (Clk c) v s = Inr (0, s') \<and> clk_get_rate (Clk c) s' = v \<and> settled_all s' \<and>
    fld_get (i * 8) 6 (rd CCM_PCDR1 s') = round_div 64 (rate (clk_of s p)) r - 1"
proof -
  define pr where "pr = rate (clk_of s p)"
  define d where "d = round_div 64 pr r"
  have ci: "clk_id (clk_of s c) = int i" and rc: "recalc (clk_of s c) = Some clk_perclkx_recalc_fn" and i4: "i < 4"
    using wiredD(1,3) [OF assms(1), of c] assms(4,5) by (auto simp: table_simps)
  have fs: "set_rate (clk_of s c) = Some clk_perclkx_set_rate_fn" "round_rate (clk_of s c) = Some clk_perclkx_round_rate_fn"
    using assms(4-7) by (auto simp: table_simps)
  have pr: "pr \<noteq> 0" "pr < 2 ^ 31" "parent_rate c s = Inr pr"
    using assms(8-10) by (auto simp: pr_def parent_rate_def)
  have d: "d \<noteq> 0" "d \<le> 64" "pr div d \<le> r \<or> d = 64"
    using round_div_bounds [OF assms(11) pr(1), of 64] pr(2) by (simp_all add: d_def)
  have "unat d * unat d \<le> 64 * 64" using d(2) by (intro mult_le_mono) (simp_all add: word_le_nat_alt)
  also have "\<dots> \<le> unat pr" using assms(9) by (simp add: pr_def word_le_nat_alt)
  finally have bck: "pr div (pr div d) = d" "pr div d \<noteq> 0" using udiv_back d(1) by blast+
  let ?v = "pr div d"
  define reg where "reg = fld_set (i * 8) 6 (d - 1) (rd CCM_PCDR1 s)"
  have d63: "d - 1 \<le> 63"
  proof -
    have "unat (d - 1) = unat d - 1" using d(1) by (simp add: unat_minus_one)
    then show ?thesis using d(2) by (simp add: word_le_nat_alt)
  qed
  note fld = perdiv_field [OF i4 d63]
  have rnd: "clk_round_rate mx27_fns (Clk c) r s = Inr (uint ?v)"
    using fs pr d(1) assms(11) sint_small [OF rounded_small [OF pr(2)], of d]
    by (simp add: clk_round_rate_def rate_calls u_clk_perclkx_round_rate_def udiv_def d_def [unfolded round_div_def] Let_def)
  have run: "call_set_rate mx27_fns clk_perclkx_set_rate_fn c ?v s = Inr (0, set_clk_rate c ?v (wr reg CCM_PCDR1 s))"
    using pr(3) bck d(1,2) ci i4 fld(1)
    by (simp add: rate_calls u_clk_perclkx_set_rate_def udiv_def Let_def reg_def)
  have st: "storage (io (hw s)) CCM_PCDR1" using hwok_storage [OF assms(2)] by (simp add: ccm_regs_def)
  then have rd: "rd CCM_PCDR1 (wr reg CCM_PCDR1 s) = reg" by (rule rd_wr_same)
  have vw: "v_pcdr1 (rate_view (hw (wr reg CCM_PCDR1 s))) = reg" using rd by (simp add: rate_view_def rd_def)
  have f: "fld_get (i * 8) 6 reg = d - 1" using fld(2) i4 by (simp add: reg_def fld_get_set)
  have own: "due (wr reg CCM_PCDR1 s) c p = ?v"
    using rc ci f vw by (simp add: due_def recalc_value_def pr_def)
  have others: "due (wr reg CCM_PCDR1 s) x q = due s x q" if "x \<noteq> c" for x q
  proof (cases "recalc (clk_of s x) = Some clk_perclkx_recalc_fn")
    case True
    then obtain j where j: "x = per_clk j" "j < 4" "clk_id (clk_of s x) = int j"
      using wiredD(1,3) [OF assms(1), of x] by (cases x) (auto simp: table_simps split: nat.splits)
    have "fld_get (j * 8) 6 reg = fld_get (j * 8) 6 (rd CCM_PCDR1 s)"
      unfolding reg_def using j(1,2) i4 that assms(5) fld(2) by (intro fld_get_other) auto
    then show ?thesis using True j(3) vw by (simp add: due_def recalc_value_def) (simp add: rate_view_def rd_def)
  qed (rule due_pcdr1 [OF assms(2)])
  obtain s' where s': "clk_set_rate mx27_fns (Clk c) ?v s = Inr (0, s')" "clk_get_rate (Clk c) s' = ?v"
    "settled_all s'" "hw s' = hw (wr reg CCM_PCDR1 s)"
    using set_rate_settles_all [OF assms(1-3) run fs(1) bck(2) assms(8) own] others by blast
  have "fld_get (i * 8) 6 (rd CCM_PCDR1 s') = d - 1" using f rd s'(4) by (simp add: rd_def)
  moreover have "?v \<le> r \<or> ?v = pr div 64" using d(3) by blast
  ultimately show ?thesis using rnd s'(1-3) unfolding pr_def [symmetric] d_def [symmetric] by blast
qed

lemma demo_rated:
  "wired (set_clk_rate p v demo)" "mx27_hwok (hw (set_clk_rate p v demo))" "settled_all (set_clk_rate p v demo)"
  by (simp_all add: settled_all_def)

theorem perclk_round_then_set_witness:
  "\<exists>v s'. clk_round_rate mx27_fns (Clk (per_clk 2)) 20000000 (set_clk_rate (mpll_main_clk 1) 266000000 demo) = Inr (uint v) \<and>
    (v \<le> 20000000 \<or> v = rate (clk_of (set_clk_rate (mpll_main_clk 1) 266000000 demo) (mpll_main_clk 1)) div 64) \<and>
    clk_set_rate mx27_fns (Clk (per_clk 2)) v (set_clk_rate (mpll_main_clk 1) 266000000 demo) = Inr (0, s') \<and>
    clk_get_rate (Clk (per_clk 2)) s' = v \<and> settled_all s' \<and>
    fld_get (2 * 8) 6 (rd CCM_PCDR1 s') =
      round_div 64 (rate (clk_of (set_clk_rate (mpll_main_clk 1) 266000000 demo) (mpll_main_clk 1))) 20000000 - 1"
  by (rule perclk_round_then_set [OF demo_rated]) (simp_all add: table_simps)

section \<open>The VPU\<close>

lemma due_vpudiv:
  assumes "mx27_hwok (hw s)" and "to2 (rate_view (hw s))" and "fits 6 v" and "recalc (clk_of s x) \<noteq> Some clk_vpu_recalc_fn"
  shows "due (wr (fld_set 10 6 v (rd CCM_PCDR0 s)) CCM_PCDR0 s) x q = due s x q"
proof -
  let ?r = "fld_set 10 6 v (rd CCM_PCDR0 s)"
  have st: "storage (io (hw s)) CCM_PCDR0" using hwok_storage [OF assms(1)] by (simp add: ccm_regs_def)
  have vw: "rate_view (hw (wr ?r CCM_PCDR0 s)) = (rate_view (hw s))\<lparr>v_pcdr0 := ?r\<rparr>"
    using rd_wr_same [OF st, of ?r] by (simp add: rate_view_def) (simp add: wr_def rd_def)
  have old: "rd CCM_PCDR0 s = v_pcdr0 (rate_view (hw s))" by (simp add: rate_view_def rd_def)
  have "fld_get sh w ?r = fld_get sh w (v_pcdr0 (rate_view (hw s)))" if "(sh, w) \<in> {(0, 3), (6, 4), (16, 6), (26, 6)}" for sh w
    unfolding old using that assms(3) by (intro fld_get_other) auto
  then show ?thesis
    using assms(2,4) unfolding due_def vw
    by (cases "recalc (clk_of s x)") (auto simp: recalc_value_def to2_def half_div_def split: clkfn.splits)
qed

text \<open>The field \<^verbatim>\<open>VPUDIV\<close> of \<^verbatim>\<open>PCDR0\<close> on silicon of revision 2.\<close>

interpretation vpudiv: reg_field "fld_get 10 6" "fld_set 10 6" "fits 6"
  by (rule reg_field_fld) simp

text \<open>The divider of the VPU, in half steps: between 4 and 67.\<close>

definition vpu_div :: "u32 \<Rightarrow> u32 \<Rightarrow> u32" where
  "vpu_div x r = (if round_div 67 x r < 4 then 4 else round_div 67 x r)"

lemma vpu_rounds:
  assumes "parent_rate c s = Inr pr" and "r \<noteq> 0"
  shows "u_clk_vpu_round_rate c r s = udiv (pr * 2) (vpu_div (pr * 2) r)"
proof -
  have "(if 67 < (if d < 4 then 4 else d) then 67 else if d < 4 then 4 else d) =
      (if (if 67 < d then 67 else d) < 4 then 4 else if 67 < d then 67 else d)" for d :: u32
    by (simp add: word_less_nat_alt)
  then show ?thesis
    using assms by (simp only: u_clk_vpu_round_rate_def udiv_def [of _ r] rbind_simps if_False Let_def vpu_div_def round_div_def)
qed

text \<open>
  C8: the same for the clock of the video unit on silicon of revision 2 or later, whose divider
  counts half steps from 4 to 67: the rate rounded by the code is accepted, the field of \<^verbatim>\<open>PCDR0\<close>
  holds the divider less 4, and the tree stays consistent although the register also holds the
  dividers of SSI, NAND controller and \<^verbatim>\<open>CLKO\<close>.
\<close>

theorem vpu_round_then_set:
  assumes "wired s" and "mx27_hwok (hw s)" and "settled_all s" and "to2 (rate_view (hw s))"
    and "set_rate (clk_of s vpu_clk) = set_rate (mx27_clk_init vpu_clk)"
    and "round_rate (clk_of s vpu_clk) = round_rate (mx27_clk_init vpu_clk)"
    and "parent (clk_of s vpu_clk) = Some p" and "4096 \<le> rate (clk_of s p)" and "rate (clk_of s p) < 2 ^ 30" and "r \<noteq> 0"
  shows "\<exists>v s'. clk_round_rate mx27_fns (Clk vpu_clk) r s = Inr (uint v) \<and>
    clk_set_rate mx27_fns (Clk vpu_clk) v s = Inr (0, s') \<and> clk_get_rate (Clk vpu_clk) s' = v \<and> settled_all s' \<and>
    fld_get 10 6 (rd CCM_PCDR0 s') = vpu_div (2 * rate (clk_of s p)) r - 4"
proof -
  define pr where "pr = rate (clk_of s p)"
  define x where "x = 2 * pr"
  define d where "d = vpu_div x r"
  have rc: "recalc (clk_of s vpu_clk) = Some clk_vpu_recalc_fn" using wiredD(3) [OF assms(1)] by (simp add: table_simps)
  have fs: "set_rate (clk_of s vpu_clk) = Some clk_vpu_set_rate_fn" "round_rate (clk_of s vpu_clk) = Some clk_vpu_round_rate_fn"
    using assms(5,6) by (simp_all add: table_simps)
  have "unat pr < 2 ^ 30" "4096 \<le> unat pr" using assms(8,9) by (simp_all add: pr_def word_less_nat_alt word_le_nat_alt)
  then have ux: "unat x = 2 * unat pr" "8192 \<le> unat x" "unat x < 2 ^ 31" by (simp_all add: x_def unat_word_ariths)
  then have x: "x \<noteq> 0" "x < 2 ^ 31" "pr * 2 = x" by (auto simp: word_less_nat_alt x_def)
  have pr: "parent_rate vpu_clk s = Inr pr" using assms(7) by (simp add: pr_def parent_rate_def)
  have d: "4 \<le> d" "d \<le> 67"
    using round_div_bounds(2) [OF assms(10) x(1), of 67] x(2) by (auto simp: d_def vpu_div_def not_less)
  have d0: "d \<noteq> 0" using d(1) by auto
  have "unat d * unat d \<le> 67 * 67" using d(2) by (intro mult_le_mono) (simp_all add: word_le_nat_alt)
  also have "\<dots> \<le> unat x" using ux(2) by simp
  finally have bk: "x div (x div d) = d" "x div d \<noteq> 0" using udiv_back d0 by blast+
  have ud: "unat (d - 4) = unat d - 4" using d(1) by (simp add: unat_sub)
  have fit: "fits 6 (d - 4)" using d(2) by (simp add: fits_iff_less ud word_le_nat_alt)
  let ?v = "x div d" and ?reg = "fld_set 10 6 (d - 4) (rd CCM_PCDR0 s)"
  have reg: "(rd CCM_PCDR0 s AND NOT 0x0000FC00) OR push_bit 10 (d - 4) = ?reg"
    by (simp add: fld_set_def mask_eq_exp_minus_1 push_bit_eq_mult)
  have rnd: "clk_round_rate mx27_fns (Clk vpu_clk) r s = Inr (uint ?v)"
    using fs(2) vpu_rounds [OF pr assms(10)] d0 x(3) sint_small [OF rounded_small [OF x(2)], of d]
    by (simp add: clk_round_rate_def rate_calls udiv_def d_def)
  have q: "\<not> 67 < d" "\<not> d < 4" using d by (simp_all add: not_less)
  have run: "call_set_rate mx27_fns clk_vpu_set_rate_fn vpu_clk ?v s = Inr (0, set_clk_rate vpu_clk ?v (wr ?reg CCM_PCDR0 s))"
    using pr bk q d0 reg by (simp only: rate_calls u_clk_vpu_set_rate_def udiv_def Let_def x(3) rbind_simps if_False simp_thms)
  have st: "storage (io (hw s)) CCM_PCDR0" using hwok_storage [OF assms(2)] by (simp add: ccm_regs_def)
  have rd: "rd CCM_PCDR0 (wr ?reg CCM_PCDR0 s) = ?reg" by (rule rd_wr_same [OF st])
  have f: "fld_get 10 6 ?reg = d - 4" using fit by (rule vpudiv.get_set)
  have vw: "v_pcdr0 (rate_view (hw (wr ?reg CCM_PCDR0 s))) = ?reg" "to2 (rate_view (hw (wr ?reg CCM_PCDR0 s)))"
    using rd assms(4) by (simp_all add: rate_view_def rd_def to2_def)
  have own: "due (wr ?reg CCM_PCDR0 s) vpu_clk p = ?v"
    using rc f vw by (simp add: due_def recalc_value_def half_div_def) (simp add: pr_def [symmetric] x_def)
  have others: "due (wr ?reg CCM_PCDR0 s) y q = due s y q" if "y \<noteq> vpu_clk" for y q
  proof (rule due_vpudiv [OF assms(2,4) fit])
    show "recalc (clk_of s y) \<noteq> Some clk_vpu_recalc_fn"
      using that wiredD(3) [OF assms(1), of y] by (cases y) (auto simp: table_simps split: nat.splits)
  qed
  obtain s' where s': "clk_set_rate mx27_fns (Clk vpu_clk) ?v s = Inr (0, s')" "clk_get_rate (Clk vpu_clk) s' = ?v"
    "settled_all s'" "hw s' = hw (wr ?reg CCM_PCDR0 s)"
    using set_rate_settles_all [OF assms(1-3) run fs(1) bk(2) assms(7) own] others by blast
  have "fld_get 10 6 (rd CCM_PCDR0 s') = d - 4" using f rd s'(4) by (simp add: rd_def)
  then show ?thesis
    using rnd s'(1-3) unfolding pr_def [symmetric] x_def [symmetric] d_def [symmetric] by blast
qed

theorem vpu_round_then_set_witness:
  "\<exists>v s'. clk_round_rate mx27_fns (Clk vpu_clk) 60000000 (set_clk_rate (mpll_main_clk 1) 266000000 demo) = Inr (uint v) \<and>
    clk_set_rate mx27_fns (Clk vpu_clk) v (set_clk_rate (mpll_main_clk 1) 266000000 demo) = Inr (0, s') \<and>
    clk_get_rate (Clk vpu_clk) s' = v \<and> settled_all s' \<and>
    fld_get 10 6 (rd CCM_PCDR0 s') =
      vpu_div (2 * rate (clk_of (set_clk_rate (mpll_main_clk 1) 266000000 demo) (mpll_main_clk 1))) 60000000 - 4"
  by (rule vpu_round_then_set [OF demo_rated]) (simp_all add: table_simps to2_def rate_view_def)

section \<open>PLLs\<close>

text \<open>The rate of a PLL in exact arithmetic: \<open>2 f (MFI + MFN / (MFD + 1)) / (PD + 1)\<close>, rounded down twice.\<close>

definition pll_exact :: "u32 \<Rightarrow> nat \<Rightarrow> nat" where
  "pll_exact reg f =
     (2 * f * max 5 (unat (fld_get 10 4 reg)) + 2 * f * unat (fld_get 0 10 reg) div (unat (fld_get 16 10 reg) + 1))
       div (unat (fld_get 26 4 reg) + 1)"

lemma unat_fld_get: "w < 32 \<Longrightarrow> unat (fld_get sh w x) < 2 ^ w"
  using fits_get fits_iff_less by blast

lemma pll_value_exact: "unat (pll_value reg f) = pll_exact reg (unat f) mod 2 ^ 32"
proof -
  define a b c d where "a = fld_get 26 4 reg" and "b = fld_get 16 10 reg" and "c = fld_get 10 4 reg" and "d = fld_get 0 10 reg"
  have lt: "unat a < 16" "unat b < 1024" "unat c < 16" "unat d < 1024"
    using unat_fld_get [of 4 26 reg] unat_fld_get [of 10 16 reg] unat_fld_get [of 4 10 reg] unat_fld_get [of 10 0 reg]
    by (simp_all add: a_def b_def c_def d_def)
  have f: "unat f < 2 ^ 32" using unsigned_less [of f, where 'a = nat] by simp
  define m :: u32 where "m = (if c \<le> 5 then 5 else c)"
  have m: "unat m = max 5 (unat c)" "unat m \<le> 15" using lt(3) by (auto simp: m_def word_le_nat_alt max_def)
  have up: "unat (ucast z :: u64) = unat z" for z :: u32 by (simp add: unsigned_ucast_eq take_bit_nat_eq_self_iff less_trans [OF unsigned_less [of z, where 'a = nat]])
  have one: "unat (a + 1) = unat a + 1" "unat (b + 1) = unat b + 1" using lt by (simp_all add: unat_word_ariths)
  have p1: "2 * unat f * unat m < 2 ^ 37"
  proof -
    have "2 * unat f * unat m \<le> 2 * unat f * 15" using m(2) by simp
    also have "\<dots> < 2 ^ 37" using f by simp
    finally show ?thesis .
  qed
  have p2: "2 * unat f * unat d < 2 ^ 43"
  proof -
    have "2 * unat f * unat d \<le> 2 * unat f * 1023" using lt(4) by (intro mult_le_mono2) simp
    also have "\<dots> < 2 ^ 43" using f by simp
    finally show ?thesis .
  qed
  have u1: "unat (2 * ucast f * ucast m :: u64) = 2 * unat f * unat m"
    using p1 f by (simp add: unat_word_ariths up)
  have u2: "unat (2 * ucast f * ucast d :: u64) = 2 * unat f * unat d"
    using p2 f by (simp add: unat_word_ariths up)
  have q2: "2 * unat f * unat d div (unat b + 1) < 2 ^ 43" using p2 div_le_dividend le_less_trans by blast
  have u3: "unat (2 * ucast f * ucast m + 2 * ucast f * ucast d div ucast (b + 1) :: u64)
      = 2 * unat f * unat m + 2 * unat f * unat d div (unat b + 1)"
    using p1 q2 unfolding unat_plus_if' by (simp add: unat_div u1 u2 up one)
  have "unat (pll_value reg f) = (2 * unat f * unat m + 2 * unat f * unat d div (unat b + 1)) div (unat a + 1) mod 2 ^ 32"
    unfolding pll_value_def Let_def a_def [symmetric] b_def [symmetric] c_def [symmetric] d_def [symmetric] m_def [symmetric]
    using lt(1) by (simp add: unsigned_ucast_eq unsigned_take_bit_eq take_bit_eq_mod unat_div u3 up one)
  then show ?thesis unfolding pll_exact_def m(1) a_def b_def c_def d_def .
qed

text \<open>
  C9: the 64-bit arithmetic of \<^verbatim>\<open>_clk_pll_recalc\<close> never overflows: whatever the register fields and
  the reference frequency, the rate is the exact value of the PLL's formula, cut to 32 bits only
  at the end.
\<close>

theorem pll_recalc_exact:
  assumes "wired s" and "mx27_hwok (hw s)" and "(c, a) \<in> {(mpll_clk, CCM_MPCTL0), (spll_clk, CCM_SPCTL0)}"
    and "parent (clk_of s c) = Some p" and "f = (if p = ckil_clk then rate (clk_of s p) * 1024 else rate (clk_of s p))"
  shows "\<exists>r. u_clk_pll_recalc c s = Inr (set_clk_rate c r s) \<and> unat r = pll_exact (rd a s) (unat f) mod 2 ^ 32"
proof -
  have "recalc (clk_of s c) = Some clk_pll_recalc_fn"
    using wiredD(3) [OF assms(1), of c] assms(3) by (auto simp: table_simps)
  from recalc_refines_value [OF wired_ok [OF assms(1,2)] this assms(4)]
  have "u_clk_pll_recalc c s = Inr (set_clk_rate c (pll_value (rd a s) f) s)"
    using assms(3,5) by (auto simp: mx27_recalc_def recalc_value_def rate_view_def rd_def)
  then show ?thesis using pll_value_exact by blast
qed

text \<open>The main PLL with a reference of 26 MHz and the control word for 399 MHz.\<close>

abbreviation demo_pll :: mx27_sys where
  "demo_pll \<equiv> wr 0x00331C23 CCM_MPCTL0 (set_clk_rate ckih_clk 26000000 demo)"

theorem pll_recalc_exact_witness:
  "\<exists>r. u_clk_pll_recalc mpll_clk demo_pll = Inr (set_clk_rate mpll_clk r demo_pll) \<and>
    unat r = 399000000"
proof -
  have "rd CCM_MPCTL0 demo_pll = 0x00331C23"
    by (simp add: rd_def wr_def raw_writel_def raw_readl_def mx27_boot_def demo_hw_def demo_bus_def)
  moreover have "pll_exact 0x00331C23 26000000 mod 2 ^ 32 = 399000000"
    by (simp add: pll_exact_def fld_get_def mask_eq_exp_minus_1)
  ultimately show ?thesis
    using pll_recalc_exact [of demo_pll mpll_clk CCM_MPCTL0 ckih_clk 26000000]
    by (simp add: table_simps del: CCM_MPCTL0_def)
qed

section \<open>Rates by the register map\<close>

text \<open>Bits \<open>h\<close> to \<open>l\<close> of a register, as a number.\<close>

definition reg_bits :: "nat \<Rightarrow> nat \<Rightarrow> u32 \<Rightarrow> nat" where
  "reg_bits h l x = unat x div 2 ^ l mod 2 ^ (h + 1 - l)"

text \<open>\<open>2 f (MFI + MFN / (MFD + 1)) / (PD + 1)\<close>, rounded down once.\<close>

definition pll_formula :: "u32 \<Rightarrow> nat \<Rightarrow> nat" where
  "pll_formula reg ref_clk =
     (let pd = reg_bits 29 26 reg; mfd = reg_bits 25 16 reg; mfi = max 5 (reg_bits 13 10 reg); mfn = reg_bits 9 0 reg
      in 2 * ref_clk * (mfi * (mfd + 1) + mfn) div ((mfd + 1) * (pd + 1)))"

text \<open>Dividers counted in halves: offset by four on TO2; before, zero and one stand for 62.\<close>

definition half_steps :: "rate_regs \<Rightarrow> nat \<Rightarrow> nat" where
  "half_steps v d = (if to2 v then d + 4 else if d \<le> 1 then 2 * 62 else d)"

text \<open>
  The rate of a clock by its name, from the fields of the registers at the bits \<^verbatim>\<open>crm_regs.h\<close> gives
  them, in exact arithmetic.  \<^verbatim>\<open>CLKO\<close> is specified by its field \<^verbatim>\<open>CLKODIV\<close>, which the code does not read.
\<close>

definition clock_formula :: "rate_regs \<Rightarrow> clkid \<Rightarrow> clkid \<Rightarrow> nat \<Rightarrow> nat" where
  "clock_formula v c p pr =
     (case c of
        mpll_clk \<Rightarrow> pll_formula (v_mpctl0 v) (if p = ckil_clk then 1024 * pr else pr)
      | spll_clk \<Rightarrow> pll_formula (v_spctl0 v) (if p = ckil_clk then 1024 * pr else pr)
      | mpll_main_clk n \<Rightarrow> if n = 0 then pr else 2 * pr div 3
      | cpu_clk \<Rightarrow> pr div (1 + (if to2 v then reg_bits 13 12 (v_cscr v) else reg_bits 15 13 (v_cscr v)))
      | ahb_clk \<Rightarrow> pr div (1 + (if to2 v then reg_bits 9 8 (v_cscr v) else reg_bits 12 9 (v_cscr v)))
      | ipg_clk \<Rightarrow> if to2 v then pr div 2 else pr div (1 + reg_bits 8 8 (v_cscr v))
      | per_clk n \<Rightarrow> pr div (1 + reg_bits (8 * n + 5) (8 * n) (v_pcdr1 v))
      | usb_clk _ \<Rightarrow> pr div (1 + reg_bits 30 28 (v_cscr v))
      | ssi1_clk _ \<Rightarrow> 2 * pr div half_steps v (reg_bits 21 16 (v_pcdr0 v))
      | ssi2_clk _ \<Rightarrow> 2 * pr div half_steps v (reg_bits 31 26 (v_pcdr0 v))
      | nfc_clk \<Rightarrow> pr div (1 + (if to2 v then reg_bits 9 6 (v_pcdr0 v) else reg_bits 15 12 (v_pcdr0 v)))
      | vpu_clk \<Rightarrow> 2 * pr div half_steps v (if to2 v then reg_bits 15 10 (v_pcdr0 v) else reg_bits 11 8 (v_pcdr0 v))
      | clko_clk \<Rightarrow> pr div (1 + reg_bits 24 22 (v_pcdr0 v))
      | _ \<Rightarrow> pr)"

lemma unat_fld: "w < 32 \<Longrightarrow> unat (fld_get n w x) = unat x div 2 ^ n mod 2 ^ w"
proof -
  assume "w < 32"
  have "fld_get n w x = take_bit w (drop_bit n x)" by (simp add: fld_get_def take_bit_eq_mask)
  then have "unat (fld_get n w x) = take_bit w (drop_bit n (unat x))"
    by (simp only: unsigned_take_bit_eq unat_drop_bit_eq)
  then show ?thesis by (simp add: take_bit_eq_mod drop_bit_eq_div)
qed

lemma reg_bits_fld: "l \<le> h \<Longrightarrow> h - l < 31 \<Longrightarrow> reg_bits h l x = unat (fld_get l (h + 1 - l) x)"
  by (simp add: reg_bits_def unat_fld)

lemma of_nat_div: "of_nat (unat a div unat b) = a div b" for a b :: u32
  by (simp flip: unat_div)

lemma unat_succ_fld: "w < 32 \<Longrightarrow> unat (fld_get n w x + 1) = Suc (unat (fld_get n w x))"
  using fld_succ_nonzero [of w n x] by (metis Suc_eq_plus1 add.commute unatSuc)

lemma unat_double: "unat a < 2 ^ 31 \<Longrightarrow> unat (2 * a) = 2 * unat a" for a :: u32
  by (simp add: unat_word_ariths)

lemma pll_exact_formula: "pll_exact reg f = pll_formula reg f"
proof -
  have "2 * f * (m * (d + 1) + n) div ((d + 1) * q) = (2 * f * m + 2 * f * n div (d + 1)) div q" for m n d q :: nat
  proof -
    have "2 * f * (m * (d + 1) + n) = 2 * f * n + (d + 1) * (2 * f * m)" by (simp add: algebra_simps)
    then have "2 * f * (m * (d + 1) + n) div (d + 1) = 2 * f * m + 2 * f * n div (d + 1)"
      by (simp only: div_mult_self2)
    then show ?thesis by (metis div_mult2_eq)
  qed
  moreover have "reg_bits 29 26 reg = unat (fld_get 26 4 reg)" "reg_bits 25 16 reg = unat (fld_get 16 10 reg)"
    "reg_bits 13 10 reg = unat (fld_get 10 4 reg)" "reg_bits 9 0 reg = unat (fld_get 0 10 reg)"
    by (simp_all add: reg_bits_fld)
  ultimately show ?thesis unfolding pll_exact_def pll_formula_def Let_def by presburger
qed

lemma pll_value_formula: "pll_value reg f = of_nat (pll_formula reg (unat f))"
  using pll_value_exact [of reg f] by (simp add: word_unat_eq_iff pll_exact_formula unat_of_nat take_bit_eq_mod)

lemma half_div_steps: "unat d < 64 \<Longrightarrow> unat (half_div v d) = half_steps v (unat d)"
  by (auto simp: half_div_def half_steps_def unat_word_ariths word_less_nat_alt)

lemma half_rate:
  assumes "unat pr < 2 ^ 31" and "w \<le> 6"
  shows "2 * pr div half_div v (fld_get n w x) = of_nat (2 * unat pr div half_steps v (unat (fld_get n w x)))"
proof -
  have "(2 :: nat) ^ w \<le> 2 ^ 6" using assms(2) by (intro power_increasing) simp_all
  then have "unat (fld_get n w x) < 64" using unat_fld_get [of w n x] assms(2) by simp
  then show ?thesis
    using of_nat_div [of "2 * pr" "half_div v (fld_get n w x)"] half_div_steps unat_double [OF assms(1)] by simp
qed

lemma succ_rate: "w < 32 \<Longrightarrow> pr div (fld_get n w x + 1) = of_nat (unat pr div Suc (unat (fld_get n w x)))"
  using of_nat_div [of pr "fld_get n w x + 1"] unat_succ_fld by simp

lemma recalc_value_formula:
  assumes "recalc (mx27_clk_init c) = Some f" and "c \<noteq> clko_clk"
    and "unat pr < 2 ^ 31" and "p = ckil_clk \<Longrightarrow> unat pr < 2 ^ 22"
  shows "recalc_value f c (clk_id (mx27_clk_init c)) v p pr = of_nat (clock_formula v c p (unat pr))"
proof -
  have ck: "p = ckil_clk \<Longrightarrow> unat (pr * 1024) = 1024 * unat pr" using assms(4) by (simp add: unat_word_ariths)
  have third: "2 * pr div 3 = of_nat (2 * unat pr div 3)"
    using of_nat_div [of "2 * pr" 3] unat_double [OF assms(3)] by simp
  have two: "pr div 2 = of_nat (unat pr div 2)" using of_nat_div [of pr 2] by simp
  show ?thesis
    using assms(1,2)
    by (cases c)
      (auto simp: recalc_value_def clock_formula_def table_simps pll_value_formula ck third two succ_rate
        half_rate [OF assms(3)] reg_bits_fld split: nat.splits)
qed

text \<open>
  C6: the \<^verbatim>\<open>recalc\<close> callback of every clock of the table computes the rate that the register map
  gives from the fields of that clock and its parent's rate, in exact arithmetic rounded down
  once, and changes nothing else.  \<^verbatim>\<open>CLKO\<close> is the exception: its callback does not read the field.  The
  parent runs below 2 GHz, and below 4 MHz when it is the low frequency crystal, whose rate a PLL
  multiplies by 1024; beyond that the 32-bit products wrap.
\<close>

theorem recalc_refines:
  assumes "wired s" and "mx27_hwok (hw s)" and "recalc (clk_of s c) = Some f" and "parent (clk_of s c) = Some p"
    and "c \<noteq> clko_clk" and "unat (rate (clk_of s p)) < 2 ^ 31" and "p = ckil_clk \<longrightarrow> unat (rate (clk_of s p)) < 2 ^ 22"
  shows "call_recalc mx27_fns f c s = Inr (set_clk_rate c
    (of_nat (clock_formula (rate_view (hw s)) c p (unat (rate (clk_of s p))))) s)"
proof -
  have "recalc (mx27_clk_init c) = Some f" "clk_id (clk_of s c) = clk_id (mx27_clk_init c)"
    using wiredD [OF assms(1)] assms(3) by simp_all
  then show ?thesis
    using recalc_refines_value [OF wired_ok [OF assms(1,2)] assms(3,4)]
      recalc_value_formula [of c f "rate (clk_of s p)" p "rate_view (hw s)"] assms(5-7) by (simp add: mx27_fns_def)
qed

theorem recalc_refines_witness:
  "call_recalc mx27_fns clk_pll_recalc_fn mpll_clk demo_pll =
     Inr (set_clk_rate mpll_clk 399000000 demo_pll)"
proof -
  let ?s = demo_pll
  have v: "v_mpctl0 (rate_view (hw ?s)) = 0x00331C23"
    by (simp add: rate_view_def wr_def raw_writel_def raw_readl_def mx27_boot_def demo_hw_def demo_bus_def)
  have "wired ?s" by simp
  moreover have "clock_formula (rate_view (hw ?s)) mpll_clk ckih_clk 26000000 = 399000000"
    by (simp add: clock_formula_def v pll_formula_def reg_bits_def Let_def del: CCM_MPCTL0_def)
  ultimately show ?thesis
    using recalc_refines [of ?s mpll_clk clk_pll_recalc_fn ckih_clk] by (simp add: table_simps)
qed

end
