(* ===== verification/Mx27_Clk_Outputs.thy ===== *)
theory Mx27_Clk_Outputs
  imports Mx27_Clk_Rate
begin

text \<open>
  The clock output pin \<^verbatim>\<open>CLKO\<close> and the processor clock: selecting the source of \<^verbatim>\<open>CLKO\<close> works; the
  dividers of both do not, as the theorems show.
\<close>

section \<open>Selecting the source of CLKO\<close>

definition clko_sources :: "(clkid \<times> u32) list" where
  "clko_sources =
     [(ckil_clk, 0), (ckih_clk, 2), (mpll_clk, 5), (spll_clk, 6), (cpu_clk, 7), (ahb_clk, 8), (ipg_clk, 9),
      (per_clk 0, 0xA), (per_clk 1, 0xB), (per_clk 2, 0xC), (per_clk 3, 0xD), (ssi1_clk 0, 0xE), (ssi2_clk 0, 0xF),
      (nfc_clk, 0x10), (mstick1_clk, 0x11), (vpu_clk, 0x12), (usb_clk 0, 0x15)]"

interpretation clkosel: reg_field "fld_get 0 5" "fld_set 0 5" "fits 5"
  by (rule reg_field_fld) simp

interpretation clkodiv: reg_field "fld_get 22 3" "fld_set 22 3" "fits 3"
  by (rule reg_field_fld) simp

lemma pll_parents:
  assumes "wired s"
  shows "parent (clk_of s mpll_clk) \<in> {Some ckih_clk, Some ckil_clk}" "parent (clk_of s spll_clk) \<in> {Some ckih_clk, Some ckil_clk}"
  using wiredD(9) [OF assms, of mpll_clk] wiredD(9) [OF assms, of spll_clk] by (auto simp: may_parent_def table_simps)

lemma clko_set_parent_sel:
  assumes "wired s"
  shows "u_clk_clko_set_parent clko_clk p s =
    (case map_of clko_sources p of
       None \<Rightarrow> Inr (- EINVAL, s)
     | Some v \<Rightarrow> Inr (0, wr (fld_set 0 5 v (rd CCM_CCSR s)) CCM_CCSR s))"
proof -
  have f: "(rd CCM_CCSR s AND NOT CCM_CCSR_CLKOSEL_MASK) OR push_bit CCM_CCSR_CLKOSEL_OFFSET v = fld_set 0 5 v (rd CCM_CCSR s)" for v
    by (simp add: fld_set_def mask_eq_exp_minus_1)
  have dead: "p \<noteq> ckil_clk \<Longrightarrow> p \<noteq> ckih_clk \<Longrightarrow> Some p \<noteq> parent (clk_of s mpll_clk) \<and> Some p \<noteq> parent (clk_of s spll_clk)"
    using pll_parents [OF assms] by auto
  then show ?thesis
    unfolding u_clk_clko_set_parent_def Let_def f by (cases p) (simp_all add: clko_sources_def)
qed

lemma clko_sources_facts:
  assumes "map_of clko_sources p = Some v"
  shows "fits 5 v" "mx27_rank p < mx27_rank clko_clk"
  using map_of_SomeD [OF assms] by (auto simp: clko_sources_def fits_def mask_eq_exp_minus_1 mx27_rank_def)

text \<open>
  C13: giving \<^verbatim>\<open>CLKO\<close> a source succeeds exactly for the clocks the output multiplexer has: the field
  \<^verbatim>\<open>CLKOSEL\<close> holds the code of the source, the source becomes the parent, and \<^verbatim>\<open>CLKO\<close> is at the rate
  its new parent gives it; any other clock is refused and nothing changes.
\<close>

theorem clko_set_parent_selects:
  assumes "wired s" and "mx27_hwok (hw s)" and "set_parent (clk_of s clko_clk) = set_parent (mx27_clk_init clko_clk)"
  shows "case map_of clko_sources p of
      None \<Rightarrow> clk_set_parent mx27_fns (Clk clko_clk) (Clk p) s = Inr (- EINVAL, s)
    | Some v \<Rightarrow> \<exists>s'. clk_set_parent mx27_fns (Clk clko_clk) (Clk p) s = Inr (0, s') \<and>
        clk_get_parent (Clk clko_clk) s' = Clk p \<and> fld_get 0 5 (rd CCM_CCSR s') = v \<and> settled mx27_fns s' clko_clk"
proof (cases "map_of clko_sources p")
  case None
  then show ?thesis
    using assms(3) clko_set_parent_sel [OF assms(1), of p]
    by (simp add: clk_set_parent_def mx27_fns_def mx27_set_parent_def table_simps)
next
  case (Some v)
  note v = clko_sources_facts [OF Some]
  let ?s1 = "wr (fld_set 0 5 v (rd CCM_CCSR s)) CCM_CCSR s" and ?up = "upd_clk clko_clk (parent_update (\<lambda>_. Some p))"
  have call: "call_set_parent mx27_fns clk_clko_set_parent_fn clko_clk p s = Inr (0, ?s1)"
    using Some clko_set_parent_sel [OF assms(1), of p] by (simp add: mx27_fns_def mx27_set_parent_def)
  have sp: "set_parent (clk_of s clko_clk) = Some clk_clko_set_parent_fn" using assms(3) by (simp add: table_simps)
  have may: "may_parent clko_clk (Some p)" using v(2) by (simp add: may_parent_def mx27_rank_def)
  have w2: "wired (?up ?s1)" using wired_reparent [OF _ may, of ?s1] assms(1) by simp
  have h2: "mx27_hwok (hw (?up ?s1))" using assms(2) by simp
  obtain r where ref: "refresh_rate mx27_fns p clko_clk (?up ?s1) = Inr (set_clk_rate clko_clk r (?up ?s1))"
    using refresh_due [OF w2 h2, of clko_clk p] by simp
  obtain s' where pr: "propagate_rate mx27_fns (Clk clko_clk) (set_clk_rate clko_clk r (?up ?s1)) = Inr s'"
    "hw s' = hw ?s1"
    using mx27_propagate [of "set_clk_rate clko_clk r (?up ?s1)" clko_clk] w2 h2
    by (auto dest: only_ratesD(2))
  have run: "clk_set_parent mx27_fns (Clk clko_clk) (Clk p) s = Inr (0, s')"
    using sp call ref pr(1) by (simp add: clk_set_parent_def)
  note eff = mx27.clk_set_parent_effect [OF wired_ok [OF assms(1,2)] wired_tree [OF assms(1)] v(2) run]
  have "parent (clk_of s' clko_clk) = Some p" using same_usesD(1) [OF eff(2), of clko_clk] by simp
  moreover have "storage (io (hw s)) CCM_CCSR" using hwok_storage [OF assms(2)] by (simp add: ccm_regs_def)
  then have "rd CCM_CCSR s' = fld_set 0 5 v (rd CCM_CCSR s)" using rd_wr_same [of s CCM_CCSR] pr(2) by (simp add: rd_def)
  then have "fld_get 0 5 (rd CCM_CCSR s') = v" using clkosel.get_set [OF v(1)] by simp
  ultimately show ?thesis using Some run eff(4) by (simp add: clk_get_parent_def)
qed

theorem clko_set_parent_selects_witness:
  "case map_of clko_sources ipg_clk of
      None \<Rightarrow> clk_set_parent mx27_fns (Clk clko_clk) (Clk ipg_clk) demo = Inr (- EINVAL, demo)
    | Some v \<Rightarrow> \<exists>s'. clk_set_parent mx27_fns (Clk clko_clk) (Clk ipg_clk) demo = Inr (0, s') \<and>
        clk_get_parent (Clk clko_clk) s' = Clk ipg_clk \<and> fld_get 0 5 (rd CCM_CCSR s') = v \<and> settled mx27_fns s' clko_clk"
  by (rule clko_set_parent_selects) simp_all

section \<open>Dividers that miss their field\<close>

lemma rd_same: "mx27_hwok (hw s) \<Longrightarrow> a \<in> set ccm_regs \<Longrightarrow> rd a (wr v a s) = v"
  by (rule rd_wr_same) (rule hwok_storage)

text \<open>
  C14: the divider of \<^verbatim>\<open>CLKO\<close> is written to one field and read from another.  After a successful
  \<^verbatim>\<open>_clk_clko_set_rate\<close> the field \<^verbatim>\<open>CLKODIV\<close> holds the divider less one, but the rate a recalculation
  gives is determined by the lowest three bits of the register; and \<^verbatim>\<open>_clk_clko_enable\<close> leaves bit 25,
  the enable bit, alone and sets bit 0 instead, which is one of those three.
\<close>

theorem clko_divider_misplaced:
  assumes "wired s" and "mx27_hwok (hw s)" and "parent (clk_of s clko_clk) = Some p"
    and "u_clk_clko_set_rate clko_clk r s = Inr (0, s1)" and "u_clk_clko_enable clko_clk s = Inr (0, s2)"
  shows "fld_get 22 3 (rd CCM_PCDR0 s1) = rate (clk_of s p) div r - 1 \<and>
    u_clk_clko_recalc clko_clk s1 =
      Inr (set_clk_rate clko_clk (rate (clk_of s p) div (fld_get 0 3 (rd CCM_PCDR0 s) + 1)) s1) \<and>
    bit (rd CCM_PCDR0 s2) 25 = bit (rd CCM_PCDR0 s) 25 \<and> bit (rd CCM_PCDR0 s2) 0"
proof -
  let ?q = "rate (clk_of s p) div r"
  let ?reg = "fld_set 22 3 (?q - 1) (rd CCM_PCDR0 s)"
  have pr: "parent_rate clko_clk s = Inr (rate (clk_of s p))" using assms(3) by (simp add: parent_rate_def)
  have reg: "(rd CCM_PCDR0 s AND NOT CCM_PCDR0_CLKODIV_MASK) OR push_bit CCM_PCDR0_CLKODIV_OFFSET (?q - 1) = ?reg"
    by (simp add: fld_set_def mask_eq_exp_minus_1)
  have s1: "s1 = set_clk_rate clko_clk r (wr ?reg CCM_PCDR0 s)" and q: "?q \<le> 8" "?q \<noteq> 0"
    using assms(4) unfolding u_clk_clko_set_rate_def pr Let_def
    by (auto simp: rbind_eq_Inr not_less reg split: if_splits
        simp del: CCM_PCDR0_CLKODIV_MASK_def CCM_PCDR0_CLKODIV_OFFSET_def CCM_PCDR0_def)
  have "unat (?q - 1) = unat ?q - 1" using q(2) by (simp add: unat_minus_one)
  then have fit: "fits 3 (?q - 1)" using q(1) by (simp add: fits_iff_less word_le_nat_alt)
  have in_regs: "CCM_PCDR0 \<in> set ccm_regs" by (simp add: ccm_regs_def)
  have rd1: "rd CCM_PCDR0 s1 = ?reg" unfolding s1 using rd_same [OF assms(2) in_regs] by simp
  have low: "fld_get 0 3 ?reg = fld_get 0 3 (rd CCM_PCDR0 s)" using fit by (intro fld_get_other) simp_all
  have "rd CCM_PCDR0 s2 = rd CCM_PCDR0 s OR CCM_PCDR0_CLKO_EN"
    using assms(5) rd_same [OF assms(2) in_regs, of "rd CCM_PCDR0 s OR CCM_PCDR0_CLKO_EN"]
    by (simp add: u_clk_clko_enable_def del: CCM_PCDR0_CLKO_EN_def CCM_PCDR0_def)
  then have b: "bit (rd CCM_PCDR0 s2) 25 = bit (rd CCM_PCDR0 s) 25" "bit (rd CCM_PCDR0 s2) 0" by (simp_all add: bit_simps)
  have p1: "parent_rate clko_clk s1 = Inr (rate (clk_of s p))"
    using assms(3) tree_ok_parent [OF wired_tree [OF assms(1)] assms(3)] by (auto simp: s1 parent_rate_def)
  have m: "rd CCM_PCDR0 s1 AND drop_bit CCM_PCDR0_CLKODIV_OFFSET CCM_PCDR0_CLKODIV_MASK = fld_get 0 3 (rd CCM_PCDR0 s)"
    unfolding low [symmetric] rd1 by (simp add: fld_get_def mask_eq_exp_minus_1)
  have nz: "fld_get 0 3 (rd CCM_PCDR0 s) + 1 \<noteq> 0"
    using unat_fld_get [of 3 0 "rd CCM_PCDR0 s"] by (auto simp: word_unat_eq_iff unat_word_ariths)
  have "u_clk_clko_recalc clko_clk s1 =
      Inr (set_clk_rate clko_clk (rate (clk_of s p) div (fld_get 0 3 (rd CCM_PCDR0 s) + 1)) s1)"
    unfolding u_clk_clko_recalc_def Let_def m p1 using nz by (simp add: udiv_def)
  moreover have "fld_get 22 3 (rd CCM_PCDR0 s1) = ?q - 1" unfolding rd1 using fit by (rule clkodiv.get_set)
  ultimately show ?thesis using b by simp
qed

theorem clko_divider_misplaced_witness:
  "\<exists>s s1 s2. u_clk_clko_set_rate clko_clk 2000 s = Inr (0, s1) \<and> u_clk_clko_enable clko_clk s = Inr (0, s2) \<and>
    fld_get 22 3 (rd CCM_PCDR0 s1) = rate (clk_of s ckil_clk) div 2000 - 1 \<and>
    u_clk_clko_recalc clko_clk s1 =
      Inr (set_clk_rate clko_clk (rate (clk_of s ckil_clk) div (fld_get 0 3 (rd CCM_PCDR0 s) + 1)) s1) \<and>
    bit (rd CCM_PCDR0 s2) 25 = bit (rd CCM_PCDR0 s) 25 \<and> bit (rd CCM_PCDR0 s2) 0"
proof -
  let ?s = "set_clk_rate ckil_clk 8000 (upd_clk clko_clk (parent_update (\<lambda>_. Some ckil_clk)) demo)"
  have w: "wired ?s" using wired_reparent [of demo clko_clk ckil_clk] by (simp add: may_parent_def mx27_rank_def)
  obtain s1 where s1: "u_clk_clko_set_rate clko_clk 2000 ?s = Inr (0, s1)"
    by (simp add: u_clk_clko_set_rate_def parent_rate_def udiv_def Let_def)
  obtain s2 where s2: "u_clk_clko_enable clko_clk ?s = Inr (0, s2)" by (simp add: u_clk_clko_enable_def)
  have h: "mx27_hwok (hw ?s)" and p: "parent (clk_of ?s clko_clk) = Some ckil_clk" by simp_all
  show ?thesis using clko_divider_misplaced [OF w h p s1 s2] s1 s2 by blast
qed

text \<open>
  C15: \<^verbatim>\<open>_clk_cpu_set_rate\<close> hands the arguments of \<^verbatim>\<open>__raw_writel\<close> over in the wrong order: a call that
  reports success records the new rate in the clock structure but leaves the divider in \<^verbatim>\<open>CSCR\<close> as
  it was; the address of \<^verbatim>\<open>CSCR\<close> is stored at whatever address the new register value spells.
\<close>

theorem cpu_set_rate_misses_register:
  assumes "mx27_hwok (hw s)" and "parent (clk_of s cpu_clk) = Some p" and "\<not> bit (rd CCM_CSCR s) 31"
    and "u_clk_cpu_set_rate cpu_clk r s = Inr (0, s')"
  shows "rd CCM_CSCR s' = rd CCM_CSCR s \<and> clk_get_rate (Clk cpu_clk) s' = r \<and>
    s' = set_clk_rate cpu_clk r (wr CCM_CSCR (fld_set 12 2 (rate (clk_of s p) div r - 1) (rd CCM_CSCR s)) s)"
proof -
  let ?q = "rate (clk_of s p) div r"
  let ?reg = "fld_set 12 2 (?q - 1) (rd CCM_CSCR s)"
  have pr: "parent_rate cpu_clk s = Inr (rate (clk_of s p))" using assms(2) by (simp add: parent_rate_def)
  have reg: "(CSCR s AND NOT CCM_CSCR_ARM_MASK) OR push_bit CCM_CSCR_ARM_OFFSET (?q - 1) = ?reg"
    by (simp add: fld_set_def mask_eq_exp_minus_1 CSCR_def)
  have s': "s' = set_clk_rate cpu_clk r (wr CCM_CSCR ?reg s)" and q: "sint ?q \<le> 4" "1 \<le> sint ?q"
    using assms(4) unfolding u_clk_cpu_set_rate_def pr Let_def
    by (auto simp: rbind_eq_Inr not_less reg split: if_splits simp del: CCM_CSCR_ARM_MASK_def CCM_CSCR_ARM_OFFSET_def CCM_CSCR_def)
  have "?q - 1 < 4"
  proof -
    have "sint ?q = 1 \<or> sint ?q = 2 \<or> sint ?q = 3 \<or> sint ?q = 4" using q by linarith
    then have "?q = 1 \<or> ?q = 2 \<or> ?q = 3 \<or> ?q = 4"
      using signed_word_eqI [of ?q 1] signed_word_eqI [of ?q 2] signed_word_eqI [of ?q 3] signed_word_eqI [of ?q 4] by auto
    then show ?thesis by (elim disjE) simp_all
  qed
  then have "fits 2 (?q - 1)" by (simp add: fits_iff_less word_less_nat_alt)
  then have "\<not> bit ?reg 31" using assms(3) by (auto simp: bit_fld_set dest: fits_bit)
  moreover have "bit CCM_CSCR 31" by (simp add: bit_simps)
  ultimately have "?reg \<noteq> CCM_CSCR" by metis
  then have "rd CCM_CSCR s' = rd CCM_CSCR s" unfolding s' by (simp del: CCM_CSCR_def)
  then show ?thesis using s' by (simp add: clk_get_rate_def)
qed

theorem cpu_set_rate_misses_register_witness:
  "\<exists>s s'. u_clk_cpu_set_rate cpu_clk 133000000 s = Inr (0, s') \<and> rd CCM_CSCR s' = rd CCM_CSCR s \<and>
    clk_get_rate (Clk cpu_clk) s' = 133000000 \<and> recalc_value clk_cpu_recalc_fn cpu_clk 0 (rate_view (hw s')) (mpll_main_clk 1) 266000000 = 266000000"
proof -
  let ?s = "set_clk_rate (mpll_main_clk 1) 266000000 demo"
  have h: "mx27_hwok (hw ?s)" and p: "parent (clk_of ?s cpu_clk) = Some (mpll_main_clk 1)" and b: "\<not> bit (rd CCM_CSCR ?s) 31"
    by (simp_all add: table_simps)
  obtain s' where s': "u_clk_cpu_set_rate cpu_clk 133000000 ?s = Inr (0, s')"
    by (simp add: u_clk_cpu_set_rate_def parent_rate_def udiv_def Let_def table_simps)
  note t = cpu_set_rate_misses_register [OF h p b s']
  have "rd CCM_CSCR s' = 0" using conjunct1 [OF t] by simp
  then have "recalc_value clk_cpu_recalc_fn cpu_clk 0 (rate_view (hw s')) (mpll_main_clk 1) 266000000 = 266000000"
    by (simp add: recalc_value_def rate_view_def rd_def fld_get_def)
  then show ?thesis using t s' by blast
qed

end
