(* ===== verification/Irq_Core.thy ===== *)
theory Irq_Core
  imports Mx27_Bus
begin

text \<open>
  The interrupt core the machine's interrupt controllers plug into: descriptors, chips and flow
  handlers (\<^verbatim>\<open>kernel/irq/chip.c\<close>, \<^verbatim>\<open>handle.c\<close>), the driver interface (\<^verbatim>\<open>manage.c\<close>), resending
  (\<^verbatim>\<open>resend.c\<close>), the detection of stuck lines (\<^verbatim>\<open>spurious.c\<close>) and the entry points of
  \<^verbatim>\<open>arch/arm/kernel/irq.c\<close>.

  The core is generic in the machine: \<open>'k\<close> are the machine's \<^verbatim>\<open>struct irq_chip\<close> objects, \<open>'f\<close> its
  function pointers (chip functions, chained flow handlers, device handlers), \<open>'h\<close> its own state;
  what the pointers do when called is the record \<open>irq_fns\<close>.  The configuration is the one of the
  boards: one processor, \<^verbatim>\<open>CONFIG_HARDIRQS_SW_RESEND\<close>, no per-processor interrupts.  The core runs
  under the lock of a descriptor; what other contexts do while a device handler runs with the
  lock released is part of the effect of that handler.
\<close>

section \<open>Status bits and flags\<close>

definition NR_IRQS :: u32 where "NR_IRQS = 288"

definition IRQ_INPROGRESS :: u32 where "IRQ_INPROGRESS = 0x00010000"
definition IRQ_DISABLED :: u32 where "IRQ_DISABLED = 0x00020000"
definition IRQ_PENDING :: u32 where "IRQ_PENDING = 0x00040000"
definition IRQ_REPLAY :: u32 where "IRQ_REPLAY = 0x00080000"
definition IRQ_AUTODETECT :: u32 where "IRQ_AUTODETECT = 0x00100000"
definition IRQ_WAITING :: u32 where "IRQ_WAITING = 0x00200000"
definition IRQ_MASKED :: u32 where "IRQ_MASKED = 0x00800000"
definition IRQ_NOPROBE :: u32 where "IRQ_NOPROBE = 0x02000000"
definition IRQ_NOREQUEST :: u32 where "IRQ_NOREQUEST = 0x04000000"
definition IRQ_NOAUTOEN :: u32 where "IRQ_NOAUTOEN = 0x08000000"
definition IRQ_DELAYED_DISABLE :: u32 where "IRQ_DELAYED_DISABLE = 0x10000000"
definition IRQ_WAKEUP :: u32 where "IRQ_WAKEUP = 0x20000000"

definition IRQF_TRIGGER_MASK :: u32 where "IRQF_TRIGGER_MASK = 0x0000000F"
definition IRQF_SHARED :: u32 where "IRQF_SHARED = 0x00000080"

definition IRQ_NONE :: u32 where "IRQ_NONE = 0"
definition IRQ_HANDLED :: u32 where "IRQ_HANDLED = 1"

definition IRQF_VALID :: u32 where "IRQF_VALID = 1"
definition IRQF_PROBE :: u32 where "IRQF_PROBE = 2"
definition IRQF_NOAUTOEN :: u32 where "IRQF_NOAUTOEN = 4"

section \<open>Data\<close>

text \<open>
  Function pointers of a chip.  \<^verbatim>\<open>enable\<close>, \<^verbatim>\<open>disable\<close> and \<^verbatim>\<open>shutdown\<close> may hold the core's default
  functions, \<^verbatim>\<open>startup\<close> the default one that calls \<^verbatim>\<open>enable\<close>.
\<close>

datatype 'f chip_fn = noop | ack_bad | Mach 'f
datatype 'f gate_fn = default_enable_fn | default_disable_fn | Gate "'f chip_fn"
datatype 'f start_fn = default_startup_fn | Startup "'f chip_fn"

record 'f irq_chip =
  chip_name :: "string option"
  chip_typename :: "string option"
  c_startup :: "'f start_fn option"
  c_shutdown :: "'f gate_fn option"
  c_enable :: "'f gate_fn option"
  c_disable :: "'f gate_fn option"
  c_ack :: "'f chip_fn option"
  c_mask :: "'f chip_fn option"
  c_mask_ack :: "'f chip_fn option"
  c_unmask :: "'f chip_fn option"
  c_eoi :: "'f chip_fn option"
  c_end :: "'f chip_fn option"
  c_retrigger :: "'f option"
  c_set_type :: "'f option"
  c_set_wake :: "'f option"

datatype 'k chip_ptr = no_irq_chip | dummy_irq_chip | Chip 'k

datatype 'f flow =
  handle_bad_irq_fn | handle_simple_irq_fn | handle_level_irq_fn | handle_fasteoi_irq_fn
| handle_edge_irq_fn | Flow 'f

text \<open>An action; \<^verbatim>\<open>void *\<close> cookies are numbers, \<^verbatim>\<open>next\<close> is the order of the list of actions.\<close>

record 'f irqaction =
  a_handler :: 'f
  a_flags :: u32
  a_name :: string
  a_dev_id :: "nat option"
  a_irq :: u32

record ('k, 'f) irq_desc =
  handle_irq :: "'f flow option"
  chip :: "'k chip_ptr"
  handler_data :: "nat option"
  chip_data :: "nat option"
  action :: "'f irqaction list"
  status :: u32
  depth :: u32
  wake_depth :: u32
  irq_count :: u32
  irqs_unhandled :: u32
  desc_name :: "string option"

record ('k, 'f, 'h) irqsys =
  descs :: "u32 \<Rightarrow> ('k, 'f) irq_desc"
  chip_of :: "'k chip_ptr \<Rightarrow> 'f irq_chip"
  irqs_resend :: "u32 \<Rightarrow> bool"
  kstat_irqs :: "u32 \<Rightarrow> u32"
  irq_err_count :: u32
  noirqdebug :: bool
  irqfixup :: nat
  mach :: 'h

text \<open>
  What the machine's pointers do.  \<open>call_action\<close> is a device's handler, called with the interrupt
  number and its cookie; \<open>call_flow\<close> a chained handler.
\<close>

record ('k, 'f, 'h) irq_fns =
  call_chip :: "'f \<Rightarrow> u32 \<Rightarrow> ('k, 'f, 'h) irqsys \<Rightarrow> ('k, 'f, 'h) irqsys result"
  call_set_type :: "'f \<Rightarrow> u32 \<Rightarrow> u32 \<Rightarrow> ('k, 'f, 'h) irqsys \<Rightarrow> (int \<times> ('k, 'f, 'h) irqsys) result"
  call_retrigger :: "'f \<Rightarrow> u32 \<Rightarrow> ('k, 'f, 'h) irqsys \<Rightarrow> (int \<times> ('k, 'f, 'h) irqsys) result"
  call_set_wake :: "'f \<Rightarrow> u32 \<Rightarrow> bool \<Rightarrow> ('k, 'f, 'h) irqsys \<Rightarrow> (int \<times> ('k, 'f, 'h) irqsys) result"
  call_action :: "'f \<Rightarrow> u32 \<Rightarrow> nat option \<Rightarrow> ('k, 'f, 'h) irqsys \<Rightarrow> (u32 \<times> ('k, 'f, 'h) irqsys) result"
  call_flow :: "'f \<Rightarrow> u32 \<Rightarrow> ('k, 'f, 'h) irqsys \<Rightarrow> ('k, 'f, 'h) irqsys result"

definition upd_desc ::
  "u32 \<Rightarrow> (('k, 'f) irq_desc \<Rightarrow> ('k, 'f) irq_desc) \<Rightarrow> ('k, 'f, 'h) irqsys \<Rightarrow> ('k, 'f, 'h) irqsys" where
  "upd_desc irq g s = s\<lparr>descs := (descs s)(irq := g (descs s irq))\<rparr>"

abbreviation set_status :: "u32 \<Rightarrow> u32 \<Rightarrow> ('k, 'f, 'h) irqsys \<Rightarrow> ('k, 'f, 'h) irqsys" where
  "set_status irq m \<equiv> upd_desc irq (status_update (\<lambda>x. x OR m))"

abbreviation clr_status :: "u32 \<Rightarrow> u32 \<Rightarrow> ('k, 'f, 'h) irqsys \<Rightarrow> ('k, 'f, 'h) irqsys" where
  "clr_status irq m \<equiv> upd_desc irq (status_update (\<lambda>x. x AND NOT m))"

text \<open>\<^verbatim>\<open>desc->status & m\<close>, \<^verbatim>\<open>desc->chip->...\<close>.\<close>

definition has_status :: "u32 \<Rightarrow> u32 \<Rightarrow> ('k, 'f, 'h) irqsys \<Rightarrow> bool" where
  "has_status irq m s \<longleftrightarrow> status (descs s irq) AND m \<noteq> 0"

definition the_chip :: "u32 \<Rightarrow> ('k, 'f, 'h) irqsys \<Rightarrow> 'f irq_chip" where
  "the_chip irq s = chip_of s (chip (descs s irq))"

text \<open>\<^verbatim>\<open>kstat_cpu(cpu).irqs[irq]++\<close>: the array has \<^verbatim>\<open>NR_IRQS\<close> elements.\<close>

definition kstat_inc :: "u32 \<Rightarrow> ('k, 'f, 'h) irqsys \<Rightarrow> ('k, 'f, 'h) irqsys result" where
  "kstat_inc irq s =
     (if irq < NR_IRQS then Inr (s\<lparr>kstat_irqs := (kstat_irqs s)(irq := kstat_irqs s irq + 1)\<rparr>)
      else Inl OutOfBounds)"

definition ack_bad_irq :: "u32 \<Rightarrow> ('k, 'f, 'h) irqsys \<Rightarrow> ('k, 'f, 'h) irqsys" where
  "ack_bad_irq irq s = s\<lparr>irq_err_count := irq_err_count s + 1\<rparr>"

section \<open>Calling a chip\<close>

definition run_chip_fn ::
  "('k, 'f, 'h) irq_fns \<Rightarrow> 'f chip_fn option \<Rightarrow> u32 \<Rightarrow> ('k, 'f, 'h) irqsys \<Rightarrow> ('k, 'f, 'h) irqsys result" where
  "run_chip_fn F fp irq s =
     rbind (deref fp) (\<lambda>f. case f of noop \<Rightarrow> Inr s | ack_bad \<Rightarrow> Inr (ack_bad_irq irq s)
                                 | Mach m \<Rightarrow> call_chip F m irq s)"

abbreviation chip_mask where "chip_mask F irq s \<equiv> run_chip_fn F (c_mask (the_chip irq s)) irq s"
abbreviation chip_ack where "chip_ack F irq s \<equiv> run_chip_fn F (c_ack (the_chip irq s)) irq s"
abbreviation chip_unmask where "chip_unmask F irq s \<equiv> run_chip_fn F (c_unmask (the_chip irq s)) irq s"

definition default_enable ::
  "('k, 'f, 'h) irq_fns \<Rightarrow> u32 \<Rightarrow> ('k, 'f, 'h) irqsys \<Rightarrow> ('k, 'f, 'h) irqsys result" where
  "default_enable F irq s = rbind (chip_unmask F irq s) (\<lambda>s. Inr (clr_status irq IRQ_MASKED s))"

definition default_disable ::
  "('k, 'f, 'h) irq_fns \<Rightarrow> u32 \<Rightarrow> ('k, 'f, 'h) irqsys \<Rightarrow> ('k, 'f, 'h) irqsys result" where
  "default_disable F irq s =
     (if \<not> has_status irq IRQ_DELAYED_DISABLE s then chip_mask F irq s else Inr s)"

definition run_gate ::
  "('k, 'f, 'h) irq_fns \<Rightarrow> 'f gate_fn option \<Rightarrow> u32 \<Rightarrow> ('k, 'f, 'h) irqsys \<Rightarrow> ('k, 'f, 'h) irqsys result" where
  "run_gate F gp irq s =
     rbind (deref gp) (\<lambda>g. case g of default_enable_fn \<Rightarrow> default_enable F irq s
                                 | default_disable_fn \<Rightarrow> default_disable F irq s
                                 | Gate f \<Rightarrow> run_chip_fn F (Some f) irq s)"

abbreviation chip_enable where "chip_enable F irq s \<equiv> run_gate F (c_enable (the_chip irq s)) irq s"
abbreviation chip_disable where "chip_disable F irq s \<equiv> run_gate F (c_disable (the_chip irq s)) irq s"

definition default_startup ::
  "('k, 'f, 'h) irq_fns \<Rightarrow> u32 \<Rightarrow> ('k, 'f, 'h) irqsys \<Rightarrow> ('k, 'f, 'h) irqsys result" where
  "default_startup F irq s = chip_enable F irq s"

definition run_startup ::
  "('k, 'f, 'h) irq_fns \<Rightarrow> 'f start_fn \<Rightarrow> u32 \<Rightarrow> ('k, 'f, 'h) irqsys \<Rightarrow> ('k, 'f, 'h) irqsys result" where
  "run_startup F st irq s =
     (case st of default_startup_fn \<Rightarrow> default_startup F irq s | Startup f \<Rightarrow> run_chip_fn F (Some f) irq s)"

definition mask_ack_irq ::
  "('k, 'f, 'h) irq_fns \<Rightarrow> u32 \<Rightarrow> ('k, 'f, 'h) irqsys \<Rightarrow> ('k, 'f, 'h) irqsys result" where
  "mask_ack_irq F irq s =
     (case c_mask_ack (the_chip irq s) of
        Some f \<Rightarrow> run_chip_fn F (Some f) irq s
      | None \<Rightarrow> rbind (chip_mask F irq s) (chip_ack F irq))"

text \<open>\<^verbatim>\<open>irq_chip_set_defaults\<close>; \<^verbatim>\<open>shutdown\<close> defaults to what \<^verbatim>\<open>disable\<close> is by then.\<close>

definition irq_chip_set_defaults :: "'f irq_chip \<Rightarrow> 'f irq_chip" where
  "irq_chip_set_defaults c =
     (let c = (if c_enable c = None then c\<lparr>c_enable := Some default_enable_fn\<rparr> else c);
          c = (if c_disable c = None then c\<lparr>c_disable := Some default_disable_fn\<rparr> else c);
          c = (if c_startup c = None then c\<lparr>c_startup := Some default_startup_fn\<rparr> else c);
          c = (if c_shutdown c = None then c\<lparr>c_shutdown := c_disable c\<rparr> else c);
          c = (if chip_name c = None then c\<lparr>chip_name := chip_typename c\<rparr> else c)
      in if c_end c = None then c\<lparr>c_end := Some noop\<rparr> else c)"

definition chip_defaults :: "'k chip_ptr \<Rightarrow> ('k, 'f, 'h) irqsys \<Rightarrow> ('k, 'f, 'h) irqsys" where
  "chip_defaults k s = s\<lparr>chip_of := (chip_of s)(k := irq_chip_set_defaults (chip_of s k))\<rparr>"

section \<open>Setting descriptors up\<close>

definition dynamic_irq_init :: "u32 \<Rightarrow> ('k, 'f, 'h) irqsys \<Rightarrow> ('k, 'f, 'h) irqsys" where
  "dynamic_irq_init irq s =
     (if irq \<ge> NR_IRQS then s
      else upd_desc irq (\<lambda>d. d\<lparr>status := IRQ_DISABLED, chip := no_irq_chip,
             handle_irq := Some handle_bad_irq_fn, depth := 1, handler_data := None, chip_data := None,
             action := [], irq_count := 0, irqs_unhandled := 0\<rparr>) s)"

definition dynamic_irq_cleanup :: "u32 \<Rightarrow> ('k, 'f, 'h) irqsys \<Rightarrow> ('k, 'f, 'h) irqsys" where
  "dynamic_irq_cleanup irq s =
     (if irq \<ge> NR_IRQS then s
      else if action (descs s irq) \<noteq> [] then s
      else upd_desc irq (\<lambda>d. d\<lparr>handle_irq := Some handle_bad_irq_fn, chip := no_irq_chip\<rparr>) s)"

definition set_irq_chip :: "u32 \<Rightarrow> 'k chip_ptr option \<Rightarrow> ('k, 'f, 'h) irqsys \<Rightarrow> int \<times> ('k, 'f, 'h) irqsys" where
  "set_irq_chip irq kp s =
     (if irq \<ge> NR_IRQS then (- EINVAL, s)
      else let k = (case kp of None \<Rightarrow> no_irq_chip | Some k \<Rightarrow> k)
           in (0, upd_desc irq (chip_update (\<lambda>_. k)) (chip_defaults k s)))"

definition set_irq_type ::
  "('k, 'f, 'h) irq_fns \<Rightarrow> u32 \<Rightarrow> u32 \<Rightarrow> ('k, 'f, 'h) irqsys \<Rightarrow> (int \<times> ('k, 'f, 'h) irqsys) result" where
  "set_irq_type F irq type s =
     (if irq \<ge> NR_IRQS then Inr (- ENODEV, s)
      else case c_set_type (the_chip irq s) of
             None \<Rightarrow> Inr (- ENXIO, s)
           | Some f \<Rightarrow> call_set_type F f irq type s)"

definition set_irq_data :: "u32 \<Rightarrow> nat option \<Rightarrow> ('k, 'f, 'h) irqsys \<Rightarrow> int \<times> ('k, 'f, 'h) irqsys" where
  "set_irq_data irq data s =
     (if irq \<ge> NR_IRQS then (- EINVAL, s)
      else (0, upd_desc irq (handler_data_update (\<lambda>_. data)) s))"

text \<open>The \<^verbatim>\<open>chip\<close> pointer of a descriptor is never \<^verbatim>\<open>NULL\<close>.\<close>

definition set_irq_chip_data :: "u32 \<Rightarrow> nat option \<Rightarrow> ('k, 'f, 'h) irqsys \<Rightarrow> int \<times> ('k, 'f, 'h) irqsys" where
  "set_irq_chip_data irq data s =
     (if irq \<ge> NR_IRQS then (- EINVAL, s)
      else (0, upd_desc irq (chip_data_update (\<lambda>_. data)) s))"

text \<open>\<^verbatim>\<open>__set_irq_handler\<close>.\<close>

definition u_set_irq_handler ::
  "('k, 'f, 'h) irq_fns \<Rightarrow> u32 \<Rightarrow> 'f flow option \<Rightarrow> bool \<Rightarrow> string option \<Rightarrow> ('k, 'f, 'h) irqsys
     \<Rightarrow> ('k, 'f, 'h) irqsys result" where
  "u_set_irq_handler F irq hp is_chained nm s =
     (if irq \<ge> NR_IRQS then Inr s
      else
        let h = (case hp of None \<Rightarrow> handle_bad_irq_fn | Some h \<Rightarrow> h);
            s = (if chip (descs s irq) = no_irq_chip then upd_desc irq (chip_update (\<lambda>_. dummy_irq_chip)) s else s) in
        rbind (if h = handle_bad_irq_fn then
                 rbind (if chip (descs s irq) \<noteq> no_irq_chip
                        then rbind (chip_mask F irq s) (chip_ack F irq) else Inr s) (\<lambda>s.
                 Inr (upd_desc irq (depth_update (\<lambda>_. 1)) (set_status irq IRQ_DISABLED s)))
               else Inr s) (\<lambda>s.
        let s = upd_desc irq (\<lambda>d. d\<lparr>handle_irq := Some h, desc_name := nm\<rparr>) s in
        if h \<noteq> handle_bad_irq_fn \<and> is_chained then
          let s = clr_status irq IRQ_DISABLED s;
              s = set_status irq (IRQ_NOREQUEST OR IRQ_NOPROBE) s;
              s = upd_desc irq (depth_update (\<lambda>_. 0)) s
          in chip_unmask F irq s
        else Inr s))"

abbreviation set_irq_handler where "set_irq_handler F irq h s \<equiv> u_set_irq_handler F irq (Some h) False None s"
abbreviation set_irq_chained_handler where
  "set_irq_chained_handler F irq h s \<equiv> u_set_irq_handler F irq (Some h) True None s"

definition set_irq_chip_and_handler_name ::
  "('k, 'f, 'h) irq_fns \<Rightarrow> u32 \<Rightarrow> 'k chip_ptr option \<Rightarrow> 'f flow option \<Rightarrow> string option
     \<Rightarrow> ('k, 'f, 'h) irqsys \<Rightarrow> ('k, 'f, 'h) irqsys result" where
  "set_irq_chip_and_handler_name F irq k h nm s = u_set_irq_handler F irq h False nm (snd (set_irq_chip irq k s))"

definition set_irq_chip_and_handler ::
  "('k, 'f, 'h) irq_fns \<Rightarrow> u32 \<Rightarrow> 'k chip_ptr option \<Rightarrow> 'f flow option
     \<Rightarrow> ('k, 'f, 'h) irqsys \<Rightarrow> ('k, 'f, 'h) irqsys result" where
  "set_irq_chip_and_handler F irq k h s = u_set_irq_handler F irq h False None (snd (set_irq_chip irq k s))"

definition set_irq_flags :: "u32 \<Rightarrow> u32 \<Rightarrow> ('k, 'f, 'h) irqsys \<Rightarrow> ('k, 'f, 'h) irqsys" where
  "set_irq_flags irq iflags s =
     (if irq \<ge> NR_IRQS then s
      else
        let s = set_status irq (IRQ_NOREQUEST OR IRQ_NOPROBE OR IRQ_NOAUTOEN) s;
            s = (if iflags AND IRQF_VALID \<noteq> 0 then clr_status irq IRQ_NOREQUEST s else s);
            s = (if iflags AND IRQF_PROBE \<noteq> 0 then clr_status irq IRQ_NOPROBE s else s)
        in if iflags AND IRQF_NOAUTOEN = 0 then clr_status irq IRQ_NOAUTOEN s else s)"

end
