(* ===== verification/Irq_Flow.thy ===== *)
theory Irq_Flow
  imports Irq_Core
begin

text \<open>
  The dynamic part of the interrupt core: running actions, noticing stuck lines, the flow
  handlers, resending, and the interface of drivers (\<^verbatim>\<open>request_irq\<close>, \<^verbatim>\<open>free_irq\<close>, nested
  \<^verbatim>\<open>disable_irq\<close> and \<^verbatim>\<open>enable_irq\<close>).
\<close>

section \<open>Running the actions of an interrupt\<close>

fun run_actions ::
  "('k, 'f, 'h) irq_fns \<Rightarrow> u32 \<Rightarrow> 'f irqaction list \<Rightarrow> u32 \<Rightarrow> ('k, 'f, 'h) irqsys \<Rightarrow> (u32 \<times> ('k, 'f, 'h) irqsys) result" where
  "run_actions F irq [] retval s = Inr (retval, s)"
| "run_actions F irq (a # as) retval s =
     rbind (call_action F (a_handler a) irq (a_dev_id a) s) (\<lambda>(ret, s). run_actions F irq as (retval OR ret) s)"

text \<open>The loop runs its body at least once: there is no action to start from otherwise.\<close>

definition handle_IRQ_event ::
  "('k, 'f, 'h) irq_fns \<Rightarrow> u32 \<Rightarrow> 'f irqaction list \<Rightarrow> ('k, 'f, 'h) irqsys \<Rightarrow> (u32 \<times> ('k, 'f, 'h) irqsys) result" where
  "handle_IRQ_event F irq as s = (if as = [] then Inl NullDeref else run_actions F irq as IRQ_NONE s)"

section \<open>Stuck and misrouted interrupts\<close>

text \<open>The inner loop of \<^verbatim>\<open>misrouted_irq\<close>: shared handlers only.\<close>

fun run_shared ::
  "('k, 'f, 'h) irq_fns \<Rightarrow> u32 \<Rightarrow> 'f irqaction list \<Rightarrow> bool \<Rightarrow> ('k, 'f, 'h) irqsys \<Rightarrow> (bool \<times> ('k, 'f, 'h) irqsys) result" where
  "run_shared F i [] ok s = Inr (ok, s)"
| "run_shared F i (a # as) ok s =
     (if a_flags a AND IRQF_SHARED \<noteq> 0
      then rbind (call_action F (a_handler a) i (a_dev_id a) s) (\<lambda>(ret, s).
           run_shared F i as (ok \<or> ret = IRQ_HANDLED) s)
      else run_shared F i as ok s)"

text \<open>
  One line of the walk.  The last loop of the body clears the pending bit it tests under the
  lock, so it runs at most once.
\<close>

definition misrouted_body ::
  "('k, 'f, 'h) irq_fns \<Rightarrow> u32 \<Rightarrow> u32 \<Rightarrow> bool \<times> bool \<times> ('k, 'f, 'h) irqsys \<Rightarrow> (bool \<times> bool \<times> ('k, 'f, 'h) irqsys) result" where
  "misrouted_body F irq i = (\<lambda>(ok, work, s).
     if i = irq then Inr (ok, work, s)
     else if has_status i IRQ_INPROGRESS s then
       Inr (ok, work,
            case action (descs s i) of
              [] \<Rightarrow> s
            | a # _ \<Rightarrow> if a_flags a AND IRQF_SHARED \<noteq> 0 then set_status i IRQ_PENDING s else s)
     else
       let s = set_status i IRQ_INPROGRESS s in
       rbind (run_shared F i (action (descs s i)) ok s) (\<lambda>(ok, s).
       rbind (if has_status i IRQ_PENDING s \<and> action (descs s i) \<noteq> []
              then rbind (handle_IRQ_event F i (action (descs s i)) s) (\<lambda>(ret, s).
                   Inr (True, clr_status i IRQ_PENDING s))
              else Inr (work, s)) (\<lambda>(work, s).
       let s = clr_status i IRQ_INPROGRESS s in
       rbind (if work \<and> c_end (the_chip i s) \<noteq> None then run_chip_fn F (c_end (the_chip i s)) i s
              else Inr s) (\<lambda>s.
       Inr (ok, work, s)))))"

definition misrouted_irq ::
  "('k, 'f, 'h) irq_fns \<Rightarrow> u32 \<Rightarrow> ('k, 'f, 'h) irqsys \<Rightarrow> (bool \<times> ('k, 'f, 'h) irqsys) result" where
  "misrouted_irq F irq s =
     rbind (rfold (\<lambda>i. misrouted_body F irq (of_nat i)) [1..<unat NR_IRQS] (False, False, s)) (\<lambda>(ok, work, s).
     Inr (ok, s))"

definition note_interrupt ::
  "('k, 'f, 'h) irq_fns \<Rightarrow> u32 \<Rightarrow> u32 \<Rightarrow> ('k, 'f, 'h) irqsys \<Rightarrow> ('k, 'f, 'h) irqsys result" where
  "note_interrupt F irq action_ret s =
     (let s = (if action_ret \<noteq> IRQ_HANDLED then upd_desc irq (irqs_unhandled_update (\<lambda>n. n + 1)) s else s) in
      rbind (if irqfixup s \<noteq> 0 \<and> (irqfixup s = 2 \<and> irq = 0 \<or> action_ret = IRQ_NONE)
             then rbind (misrouted_irq F irq s) (\<lambda>(ok, s).
                  Inr (if action_ret = IRQ_NONE
                       then upd_desc irq (irqs_unhandled_update (\<lambda>n. n - (if ok then 1 else 0))) s else s))
             else Inr s) (\<lambda>s.
      let s = upd_desc irq (irq_count_update (\<lambda>n. n + 1)) s in
      if irq_count (descs s irq) < 100000 then Inr s
      else
        let s = upd_desc irq (irq_count_update (\<lambda>_. 0)) s in
        rbind (if irqs_unhandled (descs s irq) > 99900
               then let s = upd_desc irq (depth_update (\<lambda>_. 1)) (set_status irq IRQ_DISABLED s)
                    in chip_disable F irq s
               else Inr s) (\<lambda>s.
        Inr (upd_desc irq (irqs_unhandled_update (\<lambda>_. 0)) s))))"

text \<open>The common part of the flow handlers: the actions, and the bookkeeping unless it is switched off.\<close>

definition run_event ::
  "('k, 'f, 'h) irq_fns \<Rightarrow> u32 \<Rightarrow> 'f irqaction list \<Rightarrow> ('k, 'f, 'h) irqsys \<Rightarrow> ('k, 'f, 'h) irqsys result" where
  "run_event F irq as s =
     rbind (handle_IRQ_event F irq as s) (\<lambda>(ret, s).
     if noirqdebug s then Inr s else note_interrupt F irq ret s)"

section \<open>Flow handlers\<close>

definition handle_bad_irq :: "u32 \<Rightarrow> ('k, 'f, 'h) irqsys \<Rightarrow> ('k, 'f, 'h) irqsys result" where
  "handle_bad_irq irq s = rbind (kstat_inc irq s) (\<lambda>s. Inr (ack_bad_irq irq s))"

definition handle_simple_irq ::
  "('k, 'f, 'h) irq_fns \<Rightarrow> u32 \<Rightarrow> ('k, 'f, 'h) irqsys \<Rightarrow> ('k, 'f, 'h) irqsys result" where
  "handle_simple_irq F irq s =
     (if has_status irq IRQ_INPROGRESS s then Inr s
      else rbind (kstat_inc irq (clr_status irq (IRQ_REPLAY OR IRQ_WAITING) s)) (\<lambda>s.
      let as = action (descs s irq) in
      if as = [] \<or> has_status irq IRQ_DISABLED s then Inr s
      else rbind (run_event F irq as (set_status irq IRQ_INPROGRESS s)) (\<lambda>s.
      Inr (clr_status irq IRQ_INPROGRESS s))))"

definition handle_level_irq ::
  "('k, 'f, 'h) irq_fns \<Rightarrow> u32 \<Rightarrow> ('k, 'f, 'h) irqsys \<Rightarrow> ('k, 'f, 'h) irqsys result" where
  "handle_level_irq F irq s =
     rbind (mask_ack_irq F irq s) (\<lambda>s.
     if has_status irq IRQ_INPROGRESS s then Inr s
     else rbind (kstat_inc irq (clr_status irq (IRQ_REPLAY OR IRQ_WAITING) s)) (\<lambda>s.
     let as = action (descs s irq) in
     if as = [] \<or> has_status irq IRQ_DISABLED s then Inr (set_status irq IRQ_PENDING s)
     else
       let s = clr_status irq IRQ_PENDING (set_status irq IRQ_INPROGRESS s) in
       rbind (run_event F irq as s) (\<lambda>s.
       let s = clr_status irq IRQ_INPROGRESS s in
       if \<not> has_status irq IRQ_DISABLED s \<and> c_unmask (the_chip irq s) \<noteq> None
       then chip_unmask F irq s else Inr s)))"

definition handle_fasteoi_irq ::
  "('k, 'f, 'h) irq_fns \<Rightarrow> u32 \<Rightarrow> ('k, 'f, 'h) irqsys \<Rightarrow> ('k, 'f, 'h) irqsys result" where
  "handle_fasteoi_irq F irq s =
     rbind (if has_status irq IRQ_INPROGRESS s then Inr s
            else rbind (kstat_inc irq (clr_status irq (IRQ_REPLAY OR IRQ_WAITING) s)) (\<lambda>s.
            let as = action (descs s irq) in
            if as = [] \<or> has_status irq IRQ_DISABLED s then Inr (set_status irq IRQ_PENDING s)
            else
              let s = clr_status irq IRQ_PENDING (set_status irq IRQ_INPROGRESS s) in
              rbind (run_event F irq as s) (\<lambda>s. Inr (clr_status irq IRQ_INPROGRESS s)))) (\<lambda>s.
     run_chip_fn F (c_eoi (the_chip irq s)) irq s)"

text \<open>
  One turn of the loop of \<^verbatim>\<open>handle_edge_irq\<close>, after the test for an action; a line that was masked
  because it fired during the handler is opened again.
\<close>

definition edge_turn ::
  "('k, 'f, 'h) irq_fns \<Rightarrow> u32 \<Rightarrow> ('k, 'f, 'h) irqsys \<Rightarrow> ('k, 'f, 'h) irqsys result" where
  "edge_turn F irq s =
     (let as = action (descs s irq) in
      rbind (if status (descs s irq) AND (IRQ_PENDING OR IRQ_MASKED OR IRQ_DISABLED) = IRQ_PENDING OR IRQ_MASKED
             then rbind (chip_unmask F irq s) (\<lambda>s. Inr (clr_status irq IRQ_MASKED s))
             else Inr s) (\<lambda>s.
      run_event F irq as (clr_status irq IRQ_PENDING s)))"

text \<open>
  The loop; leaving it because the action vanished keeps the in-progress bit.  It need not end: a
  device may raise the interrupt in every turn.
\<close>

partial_function (option) edge_loop ::
  "('k, 'f, 'h) irq_fns \<Rightarrow> u32 \<Rightarrow> ('k, 'f, 'h) irqsys \<Rightarrow> ('k, 'f, 'h) irqsys result option" where
  "edge_loop F irq s =
     (if action (descs s irq) = [] then Some (chip_mask F irq s)
      else case edge_turn F irq s of
             Inl e \<Rightarrow> Some (Inl e)
           | Inr s' \<Rightarrow>
               if status (descs s' irq) AND (IRQ_PENDING OR IRQ_DISABLED) = IRQ_PENDING
               then edge_loop F irq s'
               else Some (Inr (clr_status irq IRQ_INPROGRESS s')))"

definition ended :: "'a result option \<Rightarrow> 'a result" where
  "ended r = (case r of None \<Rightarrow> Inl Hang | Some x \<Rightarrow> x)"

definition handle_edge_irq ::
  "('k, 'f, 'h) irq_fns \<Rightarrow> u32 \<Rightarrow> ('k, 'f, 'h) irqsys \<Rightarrow> ('k, 'f, 'h) irqsys result" where
  "handle_edge_irq F irq s =
     (let s = clr_status irq (IRQ_REPLAY OR IRQ_WAITING) s in
      if has_status irq (IRQ_INPROGRESS OR IRQ_DISABLED) s \<or> action (descs s irq) = []
      then mask_ack_irq F irq (set_status irq (IRQ_PENDING OR IRQ_MASKED) s)
      else
        rbind (kstat_inc irq s) (\<lambda>s.
        rbind (chip_ack F irq s) (\<lambda>s.
        ended (edge_loop F irq (set_status irq IRQ_INPROGRESS s)))))"

text \<open>\<^verbatim>\<open>desc->handle_irq(irq, desc)\<close>.\<close>

definition run_flow ::
  "('k, 'f, 'h) irq_fns \<Rightarrow> 'f flow \<Rightarrow> u32 \<Rightarrow> ('k, 'f, 'h) irqsys \<Rightarrow> ('k, 'f, 'h) irqsys result" where
  "run_flow F fl irq s =
     (case fl of
        handle_bad_irq_fn \<Rightarrow> handle_bad_irq irq s
      | handle_simple_irq_fn \<Rightarrow> handle_simple_irq F irq s
      | handle_level_irq_fn \<Rightarrow> handle_level_irq F irq s
      | handle_fasteoi_irq_fn \<Rightarrow> handle_fasteoi_irq F irq s
      | handle_edge_irq_fn \<Rightarrow> handle_edge_irq F irq s
      | Flow f \<Rightarrow> call_flow F f irq s)"

definition desc_handle_irq ::
  "('k, 'f, 'h) irq_fns \<Rightarrow> u32 \<Rightarrow> ('k, 'f, 'h) irqsys \<Rightarrow> ('k, 'f, 'h) irqsys result" where
  "desc_handle_irq F irq s = rbind (deref (handle_irq (descs s irq))) (\<lambda>fl. run_flow F fl irq s)"

text \<open>The entry from the exception vector; numbers outside the table go to a descriptor of their own.\<close>

definition asm_do_IRQ ::
  "('k, 'f, 'h) irq_fns \<Rightarrow> u32 \<Rightarrow> ('k, 'f, 'h) irqsys \<Rightarrow> ('k, 'f, 'h) irqsys result" where
  "asm_do_IRQ F irq s = (if irq \<ge> NR_IRQS then handle_bad_irq irq s else desc_handle_irq F irq s)"

section \<open>The old all-in-one handler\<close>

partial_function (option) do_IRQ_loop ::
  "('k, 'f, 'h) irq_fns \<Rightarrow> u32 \<Rightarrow> 'f irqaction list \<Rightarrow> ('k, 'f, 'h) irqsys \<Rightarrow> ('k, 'f, 'h) irqsys result option" where
  "do_IRQ_loop F irq as s =
     (case run_event F irq as s of
        Inl e \<Rightarrow> Some (Inl e)
      | Inr s' \<Rightarrow>
          if has_status irq IRQ_PENDING s' then do_IRQ_loop F irq as (clr_status irq IRQ_PENDING s')
          else Some (Inr (clr_status irq IRQ_INPROGRESS s')))"

definition u_do_IRQ ::
  "('k, 'f, 'h) irq_fns \<Rightarrow> u32 \<Rightarrow> ('k, 'f, 'h) irqsys \<Rightarrow> ('k, 'f, 'h) irqsys result" where
  "u_do_IRQ F irq s =
     rbind (kstat_inc irq s) (\<lambda>s.
     rbind (if c_ack (the_chip irq s) \<noteq> None then chip_ack F irq s else Inr s) (\<lambda>s.
     let s = set_status irq IRQ_PENDING (clr_status irq (IRQ_REPLAY OR IRQ_WAITING) s);
         live = \<not> has_status irq (IRQ_DISABLED OR IRQ_INPROGRESS) s;
         as = (if live then action (descs s irq) else []);
         s = (if live then set_status irq IRQ_INPROGRESS (clr_status irq IRQ_PENDING s) else s) in
     rbind (if as = [] then Inr s else ended (do_IRQ_loop F irq as s)) (\<lambda>s.
     run_chip_fn F (c_end (the_chip irq s)) irq s)))"

definition generic_handle_irq ::
  "('k, 'f, 'h) irq_fns \<Rightarrow> u32 \<Rightarrow> ('k, 'f, 'h) irqsys \<Rightarrow> ('k, 'f, 'h) irqsys result" where
  "generic_handle_irq F irq s =
     (case handle_irq (descs s irq) of Some fl \<Rightarrow> run_flow F fl irq s | None \<Rightarrow> u_do_IRQ F irq s)"

section \<open>Resending\<close>

text \<open>\<^verbatim>\<open>check_irq_resend\<close>: the status is read before the line is enabled and written back after.\<close>

definition check_irq_resend ::
  "('k, 'f, 'h) irq_fns \<Rightarrow> u32 \<Rightarrow> ('k, 'f, 'h) irqsys \<Rightarrow> ('k, 'f, 'h) irqsys result" where
  "check_irq_resend F irq s =
     (let st = status (descs s irq) in
      rbind (chip_enable F irq s) (\<lambda>s.
      if st AND (IRQ_PENDING OR IRQ_REPLAY) = IRQ_PENDING then
        let s = upd_desc irq (status_update (\<lambda>_. (st AND NOT IRQ_PENDING) OR IRQ_REPLAY)) s in
        rbind (case c_retrigger (the_chip irq s) of
                 None \<Rightarrow> Inr (0, s)
               | Some f \<Rightarrow> call_retrigger F f irq s) (\<lambda>(r, s).
        Inr (if r = 0 then s\<lparr>irqs_resend := (irqs_resend s)(irq := True)\<rparr> else s))
      else Inr s))"

definition first_resend :: "('k, 'f, 'h) irqsys \<Rightarrow> nat option" where
  "first_resend s = find (\<lambda>i. irqs_resend s (of_nat i)) [0..<unat NR_IRQS]"

partial_function (option) resend_irqs ::
  "('k, 'f, 'h) irq_fns \<Rightarrow> ('k, 'f, 'h) irqsys \<Rightarrow> ('k, 'f, 'h) irqsys result option" where
  "resend_irqs F s =
     (case first_resend s of
        None \<Rightarrow> Some (Inr s)
      | Some i \<Rightarrow>
          (case desc_handle_irq F (of_nat i) (s\<lparr>irqs_resend := (irqs_resend s)(of_nat i := False)\<rparr>) of
             Inl e \<Rightarrow> Some (Inl e)
           | Inr s' \<Rightarrow> resend_irqs F s'))"

section \<open>The driver interface\<close>

definition disable_irq_nosync ::
  "('k, 'f, 'h) irq_fns \<Rightarrow> u32 \<Rightarrow> ('k, 'f, 'h) irqsys \<Rightarrow> ('k, 'f, 'h) irqsys result" where
  "disable_irq_nosync F irq s =
     (if irq \<ge> NR_IRQS then Inr s
      else
        let d0 = depth (descs s irq); s = upd_desc irq (depth_update (\<lambda>n. n + 1)) s in
        if d0 = 0 then (let s = set_status irq IRQ_DISABLED s in chip_disable F irq s) else Inr s)"

text \<open>On one processor there is no other handler to wait for.\<close>

definition disable_irq ::
  "('k, 'f, 'h) irq_fns \<Rightarrow> u32 \<Rightarrow> ('k, 'f, 'h) irqsys \<Rightarrow> ('k, 'f, 'h) irqsys result" where
  "disable_irq F irq s = (if irq \<ge> NR_IRQS then Inr s else disable_irq_nosync F irq s)"

definition enable_irq ::
  "('k, 'f, 'h) irq_fns \<Rightarrow> u32 \<Rightarrow> ('k, 'f, 'h) irqsys \<Rightarrow> ('k, 'f, 'h) irqsys result" where
  "enable_irq F irq s =
     (if irq \<ge> NR_IRQS then Inr s
      else if depth (descs s irq) = 0 then Inr s
      else
        rbind (if depth (descs s irq) = 1 then
                 check_irq_resend F irq
                   (upd_desc irq (status_update (\<lambda>x. (x AND NOT IRQ_DISABLED) OR IRQ_NOPROBE)) s)
               else Inr s) (\<lambda>s.
        Inr (upd_desc irq (depth_update (\<lambda>n. n - 1)) s)))"

text \<open>There is no check of the number: beyond the table the descriptor is not there.\<close>

definition set_irq_wake ::
  "('k, 'f, 'h) irq_fns \<Rightarrow> u32 \<Rightarrow> bool \<Rightarrow> ('k, 'f, 'h) irqsys \<Rightarrow> (int \<times> ('k, 'f, 'h) irqsys) result" where
  "set_irq_wake F irq on s =
     (if irq \<ge> NR_IRQS then Inl OutOfBounds
      else
        let w = c_set_wake (the_chip irq s); n = wake_depth (descs s irq);
            (w, s) =
              (if on then
                 let s = upd_desc irq (wake_depth_update (\<lambda>n. n + 1)) s
                 in if n = 0 then (w, set_status irq IRQ_WAKEUP s) else (None, s)
               else if n = 0 then (w, s)
               else
                 let s = upd_desc irq (wake_depth_update (\<lambda>n. n - 1)) s
                 in if n - 1 = 0 then (w, clr_status irq IRQ_WAKEUP s) else (None, s))
        in case w of None \<Rightarrow> Inr (- ENXIO, s) | Some f \<Rightarrow> call_set_wake F f irq on s)"

definition can_request_irq :: "u32 \<Rightarrow> u32 \<Rightarrow> ('k, 'f, 'h) irqsys \<Rightarrow> bool" where
  "can_request_irq irq irqflags s =
     (if irq \<ge> NR_IRQS \<or> has_status irq IRQ_NOREQUEST s then False
      else case action (descs s irq) of
             [] \<Rightarrow> True
           | a # _ \<Rightarrow> irqflags AND a_flags a AND IRQF_SHARED \<noteq> 0)"

definition compat_irq_chip_set_default_handler :: "u32 \<Rightarrow> ('k, 'f, 'h) irqsys \<Rightarrow> ('k, 'f, 'h) irqsys" where
  "compat_irq_chip_set_default_handler irq s =
     (if handle_irq (descs s irq) = Some handle_bad_irq_fn
      then upd_desc irq (handle_irq_update (\<lambda>_. None)) s else s)"

text \<open>The part of \<^verbatim>\<open>setup_irq\<close> for the first action of a line.\<close>

definition setup_first ::
  "('k, 'f, 'h) irq_fns \<Rightarrow> u32 \<Rightarrow> u32 \<Rightarrow> ('k, 'f, 'h) irqsys \<Rightarrow> ('k, 'f, 'h) irqsys result" where
  "setup_first F irq flags s =
     (let s = chip_defaults (chip (descs s irq)) s in
      rbind (if flags AND IRQF_TRIGGER_MASK \<noteq> 0 then
               (case c_set_type (the_chip irq s) of
                  Some f \<Rightarrow> rbind (call_set_type F f irq (flags AND IRQF_TRIGGER_MASK) s) (\<lambda>(r, s). Inr s)
                | None \<Rightarrow> Inr s)
             else Inr (compat_irq_chip_set_default_handler irq s)) (\<lambda>s.
      let s = clr_status irq (IRQ_AUTODETECT OR IRQ_WAITING OR IRQ_INPROGRESS) s in
      if \<not> has_status irq IRQ_NOAUTOEN s then
        let s = clr_status irq IRQ_DISABLED (upd_desc irq (depth_update (\<lambda>_. 0)) s) in
        (case c_startup (the_chip irq s) of
           Some st \<Rightarrow> run_startup F st irq s
         | None \<Rightarrow> chip_enable F irq s)
      else Inr (upd_desc irq (depth_update (\<lambda>_. 1)) s)))"

definition setup_irq ::
  "('k, 'f, 'h) irq_fns \<Rightarrow> u32 \<Rightarrow> 'f irqaction \<Rightarrow> ('k, 'f, 'h) irqsys \<Rightarrow> (int \<times> ('k, 'f, 'h) irqsys) result" where
  "setup_irq F irq nw s =
     (if irq \<ge> NR_IRQS then Inr (- EINVAL, s)
      else if chip (descs s irq) = no_irq_chip then Inr (- ENOSYS, s)
      else
        let nw' = nw\<lparr>a_irq := irq\<rparr> in
        case action (descs s irq) of
          [] \<Rightarrow> rbind (setup_first F irq (a_flags nw) (upd_desc irq (action_update (\<lambda>_. [nw'])) s)) (\<lambda>s. Inr (0, s))
        | old # _ \<Rightarrow>
            if (a_flags old AND a_flags nw) AND IRQF_SHARED = 0 \<or>
               (a_flags old XOR a_flags nw) AND IRQF_TRIGGER_MASK \<noteq> 0
            then Inr (- EBUSY, s)
            else Inr (0, upd_desc irq (action_update (\<lambda>as. as @ [nw'])) s))"

text \<open>The first action with the cookie leaves the list.\<close>

fun remove_action :: "nat option \<Rightarrow> 'f irqaction list \<Rightarrow> 'f irqaction list option" where
  "remove_action dev_id [] = None"
| "remove_action dev_id (a # as) =
     (if a_dev_id a = dev_id then Some as else map_option (Cons a) (remove_action dev_id as))"

definition free_irq ::
  "('k, 'f, 'h) irq_fns \<Rightarrow> u32 \<Rightarrow> nat option \<Rightarrow> ('k, 'f, 'h) irqsys \<Rightarrow> ('k, 'f, 'h) irqsys result" where
  "free_irq F irq dev_id s =
     (if irq \<ge> NR_IRQS then Inr s
      else case remove_action dev_id (action (descs s irq)) of
             None \<Rightarrow> Inr s
           | Some as \<Rightarrow>
               let s = upd_desc irq (action_update (\<lambda>_. as)) s in
               if as = [] then
                 let s = set_status irq IRQ_DISABLED s in
                 (case c_shutdown (the_chip irq s) of
                    Some g \<Rightarrow> run_gate F (Some g) irq s
                  | None \<Rightarrow> chip_disable F irq s)
               else Inr s)"

text \<open>\<open>room\<close> says whether \<^verbatim>\<open>kmalloc\<close> finds memory.\<close>

definition request_irq ::
  "('k, 'f, 'h) irq_fns \<Rightarrow> bool \<Rightarrow> u32 \<Rightarrow> 'f option \<Rightarrow> u32 \<Rightarrow> string \<Rightarrow> nat option
     \<Rightarrow> ('k, 'f, 'h) irqsys \<Rightarrow> (int \<times> ('k, 'f, 'h) irqsys) result" where
  "request_irq F room irq handler irqflags devname dev_id s =
     (if irqflags AND IRQF_SHARED \<noteq> 0 \<and> dev_id = None then Inr (- EINVAL, s)
      else if irq \<ge> NR_IRQS then Inr (- EINVAL, s)
      else if has_status irq IRQ_NOREQUEST s then Inr (- EINVAL, s)
      else case handler of
             None \<Rightarrow> Inr (- EINVAL, s)
           | Some h \<Rightarrow>
               if \<not> room then Inr (- ENOMEM, s)
               else setup_irq F irq \<lparr>a_handler = h, a_flags = irqflags, a_name = devname,
                                     a_dev_id = dev_id, a_irq = 0\<rparr> s)"

section \<open>Initial state\<close>

definition no_irq_chip_init :: "'f irq_chip" where
  "no_irq_chip_init = \<lparr>chip_name = Some ''none'', chip_typename = None, c_startup = Some (Startup noop),
     c_shutdown = Some (Gate noop), c_enable = Some (Gate noop), c_disable = Some (Gate noop),
     c_ack = Some ack_bad, c_mask = None, c_mask_ack = None, c_unmask = None, c_eoi = None,
     c_end = Some noop, c_retrigger = None, c_set_type = None, c_set_wake = None\<rparr>"

definition dummy_irq_chip_init :: "'f irq_chip" where
  "dummy_irq_chip_init = \<lparr>chip_name = Some ''dummy'', chip_typename = None, c_startup = Some (Startup noop),
     c_shutdown = Some (Gate noop), c_enable = Some (Gate noop), c_disable = Some (Gate noop),
     c_ack = Some noop, c_mask = Some noop, c_mask_ack = None, c_unmask = Some noop, c_eoi = None,
     c_end = Some noop, c_retrigger = None, c_set_type = None, c_set_wake = None\<rparr>"

definition irq_desc_init :: "('k, 'f) irq_desc" where
  "irq_desc_init = \<lparr>handle_irq = Some handle_bad_irq_fn, chip = no_irq_chip, handler_data = None,
     chip_data = None, action = [], status = IRQ_DISABLED, depth = 1, wake_depth = 0, irq_count = 0,
     irqs_unhandled = 0, desc_name = None\<rparr>"

text \<open>\<^verbatim>\<open>init_IRQ\<close>; \<open>init_arch_irq\<close> is the machine's.\<close>

definition init_IRQ ::
  "(('k, 'f, 'h) irqsys \<Rightarrow> ('k, 'f, 'h) irqsys result) \<Rightarrow> ('k, 'f, 'h) irqsys \<Rightarrow> ('k, 'f, 'h) irqsys result" where
  "init_IRQ init_arch_irq s =
     init_arch_irq (fold (\<lambda>i. set_status (of_nat i) (IRQ_NOREQUEST OR IRQ_DELAYED_DISABLE OR IRQ_NOPROBE))
       [0..<unat NR_IRQS] s)"

end
