(* ===== verification/Irq_Spec.thy ===== *)
theory Irq_Spec
  imports Irq_Flow
begin

text \<open>
  What the interrupt core promises.  The interface \<open>irq_chips\<close> is what the core relies on of the
  machine's chips; from it: nested disabling is a counter, no handler runs on a disabled line, an
  edge that arrives on a disabled line is delivered after the matching \<^verbatim>\<open>enable_irq\<close>, the sharing
  discipline of the actions of a line, and when a stuck line is switched off.
\<close>

section \<open>Status words\<close>

named_theorems status_simps \<open>bits of the status word\<close>

lemmas status_defs =
  IRQ_INPROGRESS_def IRQ_DISABLED_def IRQ_PENDING_def IRQ_REPLAY_def IRQ_AUTODETECT_def
  IRQ_WAITING_def IRQ_MASKED_def IRQ_NOPROBE_def IRQ_NOREQUEST_def IRQ_NOAUTOEN_def
  IRQ_DELAYED_DISABLE_def IRQ_WAKEUP_def

text \<open>The flags as single bits: 16 in progress, 17 disabled, 18 pending, 19 replay, ...\<close>

lemma bit_single: "bit (push_bit n 1 :: u32) m \<longleftrightarrow> n < 32 \<and> m = n"
  by (auto simp: bit_simps)

lemma status_bits:
  "IRQ_INPROGRESS = push_bit 16 1" "IRQ_DISABLED = push_bit 17 1" "IRQ_PENDING = push_bit 18 1"
  "IRQ_REPLAY = push_bit 19 1" "IRQ_AUTODETECT = push_bit 20 1" "IRQ_WAITING = push_bit 21 1"
  "IRQ_MASKED = push_bit 23 1" "IRQ_NOPROBE = push_bit 25 1" "IRQ_NOREQUEST = push_bit 26 1"
  "IRQ_NOAUTOEN = push_bit 27 1" "IRQ_DELAYED_DISABLE = push_bit 28 1" "IRQ_WAKEUP = push_bit 29 1"
  by (simp_all add: status_defs push_bit_eq_mult)

lemma bit_status [status_simps]:
  "bit IRQ_INPROGRESS n \<longleftrightarrow> n = 16" "bit IRQ_DISABLED n \<longleftrightarrow> n = 17" "bit IRQ_PENDING n \<longleftrightarrow> n = 18"
  "bit IRQ_REPLAY n \<longleftrightarrow> n = 19" "bit IRQ_AUTODETECT n \<longleftrightarrow> n = 20" "bit IRQ_WAITING n \<longleftrightarrow> n = 21"
  "bit IRQ_MASKED n \<longleftrightarrow> n = 23" "bit IRQ_NOPROBE n \<longleftrightarrow> n = 25" "bit IRQ_NOREQUEST n \<longleftrightarrow> n = 26"
  "bit IRQ_NOAUTOEN n \<longleftrightarrow> n = 27" "bit IRQ_DELAYED_DISABLE n \<longleftrightarrow> n = 28" "bit IRQ_WAKEUP n \<longleftrightarrow> n = 29"
  unfolding status_bits bit_single by simp_all

lemma u32_eq_iff: "x = y \<longleftrightarrow> (\<forall>n. bit x n = bit y n)" for x y :: u32
  using bit_eqI by blast

lemma one_bit_test:
  fixes x m :: u32
  assumes "\<forall>n. bit m n \<longleftrightarrow> n = k"
  shows "x AND m \<noteq> 0 \<longleftrightarrow> bit x k"
proof -
  have "x AND m = 0 \<longleftrightarrow> \<not> bit x k"
    using assms unfolding u32_eq_iff by (auto simp: bit_and_iff)
  then show ?thesis by blast
qed

lemma has_status_bit [status_simps]:
  "has_status irq IRQ_INPROGRESS s \<longleftrightarrow> bit (status (descs s irq)) 16"
  "has_status irq IRQ_DISABLED s \<longleftrightarrow> bit (status (descs s irq)) 17"
  "has_status irq IRQ_PENDING s \<longleftrightarrow> bit (status (descs s irq)) 18"
  "has_status irq IRQ_NOREQUEST s \<longleftrightarrow> bit (status (descs s irq)) 26"
  "has_status irq IRQ_NOAUTOEN s \<longleftrightarrow> bit (status (descs s irq)) 27"
  "has_status irq IRQ_DELAYED_DISABLE s \<longleftrightarrow> bit (status (descs s irq)) 28"
  unfolding has_status_def by (rule one_bit_test; simp add: status_simps)+

lemma has_status_either [status_simps]:
  "has_status irq (a OR b) s \<longleftrightarrow> has_status irq a s \<or> has_status irq b s"
  by (simp add: has_status_def bit.conj_disj_distrib or_eq_0_iff)

lemma bit_or_status [status_simps]:
  "bit (x OR y) n \<longleftrightarrow> bit x n \<or> bit y n" "bit (x AND NOT y) n \<longleftrightarrow> bit x n \<and> \<not> bit y n" for x y :: u32
  by (auto simp: bit_or_iff bit_and_iff bit_not_iff dest: bit_imp_le_length)

lemma bit_clear_more [status_simps]:
  "bit (x AND NOT y AND NOT z) n \<longleftrightarrow> bit x n \<and> \<not> bit y n \<and> \<not> bit z n"
  "bit (x AND NOT y AND NOT z AND NOT w) n \<longleftrightarrow> bit x n \<and> \<not> bit y n \<and> \<not> bit z n \<and> \<not> bit w n"
  for x y z w :: u32
  by (auto simp: bit_and_iff bit_not_iff dest: bit_imp_le_length)

lemma pending_tests [status_simps]:
  "x AND (IRQ_PENDING OR IRQ_REPLAY) = IRQ_PENDING \<longleftrightarrow> bit x 18 \<and> \<not> bit x 19"
  "x AND (IRQ_PENDING OR IRQ_DISABLED) = IRQ_PENDING \<longleftrightarrow> bit x 18 \<and> \<not> bit x 17"
  "x AND (IRQ_PENDING OR IRQ_MASKED OR IRQ_DISABLED) = IRQ_PENDING OR IRQ_MASKED
     \<longleftrightarrow> bit x 18 \<and> bit x 23 \<and> \<not> bit x 17"
  for x :: u32
  unfolding u32_eq_iff
  by (auto simp: status_simps bit_and_iff dest: spec [of _ 19] spec [of _ 17])

section \<open>Descriptors\<close>

lemma upd_desc_simps [simp]:
  "descs (upd_desc i g s) = (descs s)(i := g (descs s i))" "chip_of (upd_desc i g s) = chip_of s"
  "irqs_resend (upd_desc i g s) = irqs_resend s" "kstat_irqs (upd_desc i g s) = kstat_irqs s"
  "irq_err_count (upd_desc i g s) = irq_err_count s" "noirqdebug (upd_desc i g s) = noirqdebug s"
  "irqfixup (upd_desc i g s) = irqfixup s" "mach (upd_desc i g s) = mach s"
  by (simp_all add: upd_desc_def)

lemma upd_desc_twice [simp]: "upd_desc i g (upd_desc i h s) = upd_desc i (\<lambda>d. g (h d)) s"
  by (simp add: upd_desc_def)

lemma upd_desc_mach [simp]: "upd_desc i g (s\<lparr>mach := m\<rparr>) = (upd_desc i g s)\<lparr>mach := m\<rparr>"
  by (simp add: upd_desc_def)

lemma the_chip_mach [simp]: "the_chip irq (s\<lparr>mach := m\<rparr>) = the_chip irq s"
  by (simp add: the_chip_def)

lemma the_chip_upd [simp]: "chip (g (descs s i)) = chip (descs s i) \<Longrightarrow> the_chip irq (upd_desc i g s) = the_chip irq s"
  by (simp add: the_chip_def)

lemma has_status_mach [simp]: "has_status irq m (s\<lparr>mach := h\<rparr>) = has_status irq m s"
  by (simp add: has_status_def)

lemma status_update_same [simp]: "status_update (\<lambda>x. x) d = d"
  by (cases d) simp

lemma ended_simps [simp]: "ended None = Inl Hang" "ended (Some x) = x"
  by (simp_all add: ended_def)

text \<open>What holds through the turns of the loop for edges, and what follows when it is left.\<close>

lemma edge_loop_inv:
  assumes "edge_loop F irq t = Some r" and "r = Inr s'" and "P t"
    and turn: "\<forall>u u'. P u \<longrightarrow> edge_turn F irq u = Inr u' \<longrightarrow> P u'"
    and gone: "\<forall>u u'. P u \<longrightarrow> chip_mask F irq u = Inr u' \<longrightarrow> Q u'"
    and left: "\<forall>u. P u \<longrightarrow> Q (clr_status irq IRQ_INPROGRESS u)"
  shows "Q s'"
proof -
  have "F' = F \<longrightarrow> i = irq \<longrightarrow> y = Inr s' \<longrightarrow> P u \<longrightarrow> Q s'" if "edge_loop F' i u = Some y" for F' i u y
    using that
  proof (induction rule: edge_loop.raw_induct [rotated 1, consumes 1, case_names 1])
    case (1 loop F' i u y)
    show ?case
    proof (intro impI)
      assume eq: "F' = F" "i = irq" "y = Inr s'" and "P u"
      show "Q s'"
      proof (cases "action (descs u irq) = []")
        case True
        then show ?thesis using 1(2) eq \<open>P u\<close> gone by auto
      next
        case False
        then obtain u' where u': "edge_turn F irq u = Inr u'" using 1(2) eq by (cases "edge_turn F irq u") auto
        then have "P u'" using turn \<open>P u\<close> by blast
        then show ?thesis using 1 False eq left u' by (auto split: if_splits)
      qed
    qed
  qed
  then show ?thesis using assms(1-3) by blast
qed

section \<open>Lines in order\<close>

text \<open>
  The discipline of a line: actions that share it all agree to share it and on the trigger; a line
  with an action is disabled exactly as long as its depth is not zero.  For the latter, a line
  that drivers may request must be one that is enabled by the request.
\<close>

definition shared_ok :: "'f irqaction list \<Rightarrow> bool" where
  "shared_ok as \<longleftrightarrow>
     2 \<le> length as \<longrightarrow>
       (\<forall>a\<in>set as. a_flags a AND IRQF_SHARED \<noteq> 0 \<and>
          a_flags a AND IRQF_TRIGGER_MASK = a_flags (hd as) AND IRQF_TRIGGER_MASK)"

definition line_ok :: "('k, 'f) irq_desc \<Rightarrow> bool" where
  "line_ok d \<longleftrightarrow>
     (\<not> bit (status d) 26 \<longrightarrow> \<not> bit (status d) 27) \<and>
     (action d \<noteq> [] \<longrightarrow> (bit (status d) 17 \<longleftrightarrow> depth d \<noteq> 0)) \<and> shared_ok (action d)"

definition irq_inv :: "('k, 'f, 'h) irqsys \<Rightarrow> bool" where
  "irq_inv s \<longleftrightarrow> (\<forall>i < NR_IRQS. line_ok (descs s i))"

lemma and_both:
  fixes x y m :: u32
  assumes "(x AND y) AND m \<noteq> 0"
  shows "x AND m \<noteq> 0" "y AND m \<noteq> 0"
proof -
  have "(x AND y) AND m = y AND (x AND m)" "(x AND y) AND m = x AND (y AND m)" by (simp_all add: ac_simps)
  then show "x AND m \<noteq> 0" "y AND m \<noteq> 0" using assms by auto
qed

lemma shared_ok_snoc:
  assumes "shared_ok (old # rest)" and "\<not> ((a_flags old AND a_flags nw) AND IRQF_SHARED = 0 \<or>
    (a_flags old XOR a_flags nw) AND IRQF_TRIGGER_MASK \<noteq> 0)"
  shows "shared_ok ((old # rest) @ [nw])"
proof -
  have sh: "a_flags old AND IRQF_SHARED \<noteq> 0" "a_flags nw AND IRQF_SHARED \<noteq> 0"
    using assms(2) and_both [of "a_flags old" "a_flags nw" IRQF_SHARED] by blast+
  have "(a_flags old AND IRQF_TRIGGER_MASK) XOR (a_flags nw AND IRQF_TRIGGER_MASK) = 0"
    using assms(2) by (simp add: bit.conj_xor_distrib2)
  then have "a_flags nw AND IRQF_TRIGGER_MASK = a_flags old AND IRQF_TRIGGER_MASK"
    unfolding u32_eq_iff by (simp add: bit_xor_iff)
  then show ?thesis
    using assms(1) sh by (cases rest) (auto simp: shared_ok_def)
qed

lemma remove_action_set: "remove_action dev as = Some bs \<Longrightarrow> set bs \<subseteq> set as \<and> length as = Suc (length bs)"
  by (induction as arbitrary: bs) (auto split: if_splits)

lemma shared_ok_remove:
  assumes "remove_action dev as = Some bs" and "shared_ok as"
  shows "shared_ok bs"
  unfolding shared_ok_def
proof
  assume two: "2 \<le> length bs"
  note sub = remove_action_set [OF assms(1)]
  have all: "\<forall>a\<in>set as. a_flags a AND IRQF_SHARED \<noteq> 0 \<and>
      a_flags a AND IRQF_TRIGGER_MASK = a_flags (hd as) AND IRQF_TRIGGER_MASK"
    using assms(2) two sub unfolding shared_ok_def by linarith
  have "hd bs \<in> set as" using two sub by (cases bs) auto
  then show "\<forall>a\<in>set bs. a_flags a AND IRQF_SHARED \<noteq> 0 \<and>
      a_flags a AND IRQF_TRIGGER_MASK = a_flags (hd bs) AND IRQF_TRIGGER_MASK"
    using all sub by auto
qed

text \<open>Steps that keep every line in order and every list of actions as it is.\<close>

definition calm_desc :: "('k, 'f) irq_desc \<Rightarrow> ('k, 'f) irq_desc \<Rightarrow> bool" where
  "calm_desc d d' \<longleftrightarrow>
     action d' = action d \<and> bit (status d') 26 = bit (status d) 26 \<and> bit (status d') 27 = bit (status d) 27 \<and>
     (line_ok d \<longrightarrow> line_ok d')"

definition calm :: "('k, 'f, 'h) irqsys \<Rightarrow> ('k, 'f, 'h) irqsys \<Rightarrow> bool" where
  "calm s s' \<longleftrightarrow> (\<forall>i. calm_desc (descs s i) (descs s' i))"

lemma calm_refl [simp]: "calm s s"
  by (simp add: calm_def calm_desc_def)

lemma calm_trans: "calm s t \<Longrightarrow> calm t u \<Longrightarrow> calm s u"
  by (simp add: calm_def calm_desc_def)

lemma calm_same [simp]:
  "calm s (t\<lparr>mach := h\<rparr>) = calm s t" "calm s (t\<lparr>irq_err_count := e\<rparr>) = calm s t"
  "calm s (t\<lparr>kstat_irqs := k\<rparr>) = calm s t" "calm s (t\<lparr>irqs_resend := x\<rparr>) = calm s t"
  "calm s (t\<lparr>chip_of := c\<rparr>) = calm s t"
  by (simp_all add: calm_def)

lemma line_ok_cong:
  "action d' = action d \<Longrightarrow> bit (status d') 26 = bit (status d) 26 \<Longrightarrow> bit (status d') 27 = bit (status d) 27
    \<Longrightarrow> bit (status d') 17 = bit (status d) 17 \<Longrightarrow> depth d' = depth d \<Longrightarrow> line_ok d' = line_ok d"
  by (simp add: line_ok_def)

lemma calm_upd:
  assumes "calm s t" and "action (g (descs t i)) = action (descs t i)"
    and "bit (status (g (descs t i))) 26 = bit (status (descs t i)) 26"
    and "bit (status (g (descs t i))) 27 = bit (status (descs t i)) 27"
    and "bit (status (g (descs t i))) 17 = bit (status (descs t i)) 17 \<and> depth (g (descs t i)) = depth (descs t i)
         \<or> bit (status (g (descs t i))) 17 \<and> depth (g (descs t i)) \<noteq> 0"
  shows "calm s (upd_desc i g t)"
proof -
  have "line_ok (g (descs t i))" if "line_ok (descs t i)"
    using that assms(2-5) by (auto simp: line_ok_def)
  then show ?thesis using assms by (simp add: calm_def calm_desc_def)
qed

lemma calm_inv: "calm s s' \<Longrightarrow> irq_inv s \<Longrightarrow> irq_inv s'"
  by (simp add: calm_def calm_desc_def irq_inv_def)

lemma calm_action: "calm s s' \<Longrightarrow> action (descs s' i) = action (descs s i)"
  by (simp add: calm_def calm_desc_def)

text \<open>Fallible steps that are calm when they return, composed as the code composes them.\<close>

definition calms :: "('k, 'f, 'h) irqsys \<Rightarrow> ('k, 'f, 'h) irqsys result \<Rightarrow> bool" where
  "calms s m \<longleftrightarrow> (\<forall>s'. m = Inr s' \<longrightarrow> calm s s')"

lemma calmsD: "calms s m \<Longrightarrow> m = Inr s' \<Longrightarrow> calm s s'"
  by (simp add: calms_def)

section \<open>The interface to the machine\<close>

text \<open>
  The chips: a chip function changes the machine only, setting the type of a line also its flow
  handler.  The devices (\<open>irq_lines\<close>): a handler, chained or not, keeps the lines in order, as
  calls of \<^verbatim>\<open>disable_irq_nosync\<close> and \<^verbatim>\<open>enable_irq\<close> do.
\<close>

locale irq_chips =
  fixes F :: "('k, 'f, 'h) irq_fns"
  assumes chip_frame: "call_chip F f irq s = Inr s' \<Longrightarrow> \<exists>h. s' = s\<lparr>mach := h\<rparr>"
    and retrigger_frame: "call_retrigger F f irq s = Inr (r, s') \<Longrightarrow> \<exists>h. s' = s\<lparr>mach := h\<rparr>"
    and set_wake_frame: "call_set_wake F f irq on s = Inr (r, s') \<Longrightarrow> \<exists>h. s' = s\<lparr>mach := h\<rparr>"
    and set_type_frame: "call_set_type F f irq ty s = Inr (r, s') \<Longrightarrow> chip (descs s irq) \<noteq> no_irq_chip \<Longrightarrow>
      \<exists>h fl nm. s' = (upd_desc irq (\<lambda>d. d\<lparr>handle_irq := fl, desc_name := nm\<rparr>) s)\<lparr>mach := h\<rparr>"
begin

lemma run_chip_frame:
  assumes "run_chip_fn F fp irq s = Inr s'"
  shows "\<exists>h e. s' = s\<lparr>irq_err_count := e, mach := h\<rparr>"
proof (cases fp)
  case (Some f)
  show ?thesis
  proof (cases f)
    case (Mach m)
    then obtain h where "s' = s\<lparr>mach := h\<rparr>" using assms Some chip_frame [of m irq s s'] by (auto simp: run_chip_fn_def)
    then have "s' = s\<lparr>irq_err_count := irq_err_count s, mach := h\<rparr>" by simp
    then show ?thesis by blast
  next
    case noop
    then have "s' = s\<lparr>irq_err_count := irq_err_count s, mach := mach s\<rparr>" using assms Some by (simp add: run_chip_fn_def)
    then show ?thesis by blast
  next
    case ack_bad
    then have "s' = s\<lparr>irq_err_count := irq_err_count s + 1, mach := mach s\<rparr>"
      using assms Some by (auto simp: run_chip_fn_def ack_bad_irq_def)
    then show ?thesis by blast
  qed
qed (use assms in \<open>simp add: run_chip_fn_def\<close>)

lemma chip_calm: "calm s t \<Longrightarrow> run_chip_fn F fp irq t = Inr s' \<Longrightarrow> calm s s'"
  using run_chip_frame [of fp irq t s'] by auto

text \<open>Enabling or disabling a line may clear the masked bit as well.\<close>

lemma gate_frame:
  assumes "run_gate F gp irq s = Inr s'"
  shows "\<exists>h e m. s' = (upd_desc irq (status_update (\<lambda>x. x AND NOT m)) s)\<lparr>irq_err_count := e, mach := h\<rparr>
    \<and> m \<in> {0, IRQ_MASKED}"
proof -
  have same: "upd_desc irq (status_update (\<lambda>x. x AND NOT 0)) s = s" by (simp add: upd_desc_def)
  have unchanged: ?thesis if "s' = s\<lparr>irq_err_count := e, mach := h\<rparr>" for h e
    using that by (intro exI [of _ h] exI [of _ e] exI [of _ 0]) (simp add: same)
  have plain: ?thesis if "run_chip_fn F fp irq s = Inr s'" for fp
    using run_chip_frame [OF that] unchanged by blast
  obtain g where g: "gp = Some g" using assms by (cases gp) (simp_all add: run_gate_def)
  show ?thesis
  proof (cases g)
    case default_enable_fn
    then obtain t where t: "chip_unmask F irq s = Inr t" "s' = clr_status irq IRQ_MASKED t"
      using assms g by (auto simp: run_gate_def default_enable_def rbind_eq_Inr)
    obtain h e where "t = s\<lparr>irq_err_count := e, mach := h\<rparr>" using run_chip_frame [OF t(1)] by blast
    then have "s' = (upd_desc irq (status_update (\<lambda>x. x AND NOT IRQ_MASKED)) s)\<lparr>irq_err_count := e, mach := h\<rparr>"
      using t(2) by (simp add: upd_desc_def)
    then show ?thesis by blast
  next
    case default_disable_fn
    then show ?thesis
      using assms g plain [of "c_mask (the_chip irq s)"] unchanged [of "mach s" "irq_err_count s"]
      by (simp add: run_gate_def default_disable_def split: if_splits)
  next
    case (Gate f)
    then show ?thesis using assms g plain [of "Some f"] by (simp add: run_gate_def)
  qed
qed

lemma startup_frame:
  assumes "run_startup F st irq s = Inr s'"
  shows "\<exists>h e m. s' = (upd_desc irq (status_update (\<lambda>x. x AND NOT m)) s)\<lparr>irq_err_count := e, mach := h\<rparr>
    \<and> m \<in> {0, IRQ_MASKED}"
proof (cases st)
  case default_startup_fn
  then show ?thesis using assms gate_frame by (simp add: run_startup_def default_startup_def)
next
  case (Startup f)
  then have "run_gate F (Some (Gate f)) irq s = Inr s'" using assms by (simp add: run_startup_def run_gate_def)
  then show ?thesis by (rule gate_frame)
qed

lemma gate_calm: "calm s t \<Longrightarrow> run_gate F gp irq t = Inr s' \<Longrightarrow> calm s s'"
  using gate_frame [of gp irq t s'] by (auto intro!: calm_upd simp: status_simps)

lemma mask_ack_calm: "calm s t \<Longrightarrow> mask_ack_irq F irq t = Inr s' \<Longrightarrow> calm s s'"
  by (auto simp: mask_ack_irq_def rbind_eq_Inr split: option.splits intro: chip_calm)

lemma resend_frame:
  assumes "check_irq_resend F irq s = Inr s'"
  shows "\<exists>st. descs s' = (descs s)(irq := (descs s irq)\<lparr>status := st\<rparr>)
    \<and> (\<forall>n. n \<notin> {18, 19, 23} \<longrightarrow> bit st n = bit (status (descs s irq)) n)"
proof -
  let ?st = "status (descs s irq)"
  obtain t where t: "chip_enable F irq s = Inr t"
    using assms by (auto simp: check_irq_resend_def Let_def rbind_eq_Inr)
  obtain h e m where m: "t = (clr_status irq m s)\<lparr>irq_err_count := e, mach := h\<rparr>" "m \<in> {0, IRQ_MASKED}"
    using gate_frame [OF t] by blast
  show ?thesis
  proof (cases "?st AND (IRQ_PENDING OR IRQ_REPLAY) = IRQ_PENDING")
    case False
    then have "s' = t" using assms t by (simp add: check_irq_resend_def)
    then have "descs s' = (descs s)(irq := (descs s irq)\<lparr>status := ?st AND NOT m\<rparr>)"
      using m(1) by (cases "descs s irq") simp
    then show ?thesis using m(2) by (intro exI [of _ "?st AND NOT m"]) (auto simp: status_simps)
  next
    case True
    let ?s2 = "upd_desc irq (status_update (\<lambda>_. (?st AND NOT IRQ_PENDING) OR IRQ_REPLAY)) t"
    obtain r u where u: "(case c_retrigger (the_chip irq ?s2) of None \<Rightarrow> Inr (0, ?s2)
        | Some f \<Rightarrow> call_retrigger F f irq ?s2) = Inr (r, u)"
      and s': "s' = (if r = 0 then u\<lparr>irqs_resend := (irqs_resend u)(irq := True)\<rparr> else u)"
      using assms unfolding check_irq_resend_def Let_def t rbind_simps if_P [OF True] rbind_eq_Inr by auto
    have "descs u = descs ?s2" using u retrigger_frame by (auto split: option.splits dest!: retrigger_frame)
    then have "descs s' = (descs s)(irq := (descs s irq)\<lparr>status := (?st AND NOT IRQ_PENDING) OR IRQ_REPLAY\<rparr>)"
      using s' m(1) by simp
    then show ?thesis by (intro exI [of _ "(?st AND NOT IRQ_PENDING) OR IRQ_REPLAY"]) (auto simp: status_simps)
  qed
qed

lemma disable_calm:
  assumes "depth (descs s irq) \<noteq> - 1" and "disable_irq F irq s = Inr s'"
  shows "calm s s'"
proof (cases "irq \<ge> NR_IRQS")
  case False
  have nz: "depth (descs s irq) + 1 \<noteq> 0" using assms(1) by (simp add: eq_neg_iff_add_eq_0)
  show ?thesis
  proof (cases "depth (descs s irq) = 0")
    case True
    let ?t = "upd_desc irq (\<lambda>d. status_update (\<lambda>x. x OR IRQ_DISABLED) (depth_update (\<lambda>n. n + 1) d)) s"
    have "calm s ?t" using True by (intro calm_upd) (simp_all add: status_simps)
    moreover have "chip_disable F irq ?t = Inr s'"
      using assms(2) False True by (simp add: disable_irq_def disable_irq_nosync_def)
    ultimately show ?thesis by (rule gate_calm)
  next
    case dn: False
    have "line_ok (depth_update (\<lambda>n. n + 1) (descs s irq))" if "line_ok (descs s irq)"
      using that dn nz by (simp add: line_ok_def)
    then show ?thesis
      using assms(2) False dn
      by (auto simp: disable_irq_def disable_irq_nosync_def calm_def calm_desc_def split: if_splits)
  qed
qed (use assms in \<open>simp add: disable_irq_def\<close>)

lemma enable_effect:
  assumes "irq < NR_IRQS" and "depth (descs s irq) \<noteq> 0" and "enable_irq F irq s = Inr s'"
  shows "\<exists>st. descs s' = (descs s)(irq := (descs s irq)\<lparr>status := st, depth := depth (descs s irq) - 1\<rparr>)
    \<and> bit st 26 = bit (status (descs s irq)) 26 \<and> bit st 27 = bit (status (descs s irq)) 27
    \<and> (bit st 17 \<longleftrightarrow> bit (status (descs s irq)) 17 \<and> depth (descs s irq) \<noteq> 1)"
proof (cases "depth (descs s irq) = 1")
  case True
  let ?t = "upd_desc irq (status_update (\<lambda>x. (x AND NOT IRQ_DISABLED) OR IRQ_NOPROBE)) s"
  obtain u where u: "check_irq_resend F irq ?t = Inr u" and s': "s' = upd_desc irq (depth_update (\<lambda>n. n - 1)) u"
    using assms True unfolding enable_irq_def by (auto simp: rbind_eq_Inr split: if_splits)
  obtain st where st: "descs u = (descs ?t)(irq := (descs ?t irq)\<lparr>status := st\<rparr>)"
    "\<forall>n. n \<notin> {18, 19, 23} \<longrightarrow> bit st n = bit (status (descs ?t irq)) n"
    using resend_frame [OF u] by blast
  then have "bit st 17 = False" "bit st 26 = bit (status (descs s irq)) 26" "bit st 27 = bit (status (descs s irq)) 27"
    by (simp_all add: status_simps)
  then show ?thesis using st(1) s' True by (intro exI [of _ st]) (cases "descs s irq", simp)
next
  case False
  then have "s' = upd_desc irq (depth_update (\<lambda>n. n - 1)) s"
    using assms by (auto simp: enable_irq_def split: if_splits)
  then show ?thesis using False by (intro exI [of _ "status (descs s irq)"]) (cases "descs s irq", simp)
qed

lemma enable_calm:
  assumes "enable_irq F irq s = Inr s'"
  shows "calm s s'"
proof (cases "irq < NR_IRQS \<and> depth (descs s irq) \<noteq> 0")
  case True
  obtain st where st: "descs s' = (descs s)(irq := (descs s irq)\<lparr>status := st, depth := depth (descs s irq) - 1\<rparr>)"
    "bit st 26 = bit (status (descs s irq)) 26" "bit st 27 = bit (status (descs s irq)) 27"
    "bit st 17 \<longleftrightarrow> bit (status (descs s irq)) 17 \<and> depth (descs s irq) \<noteq> 1"
    using enable_effect [of irq s s'] True assms by blast
  have "line_ok (descs s' irq)" if "line_ok (descs s irq)"
    using that st True by (auto simp: line_ok_def eq_diff_eq)
  then show ?thesis using st by (auto simp: calm_def calm_desc_def split: if_splits)
qed (use assms in \<open>auto simp: enable_irq_def split: if_splits\<close>)

end

section \<open>Interrupts on lines in order\<close>

locale irq_lines = irq_chips F for F :: "('k, 'f, 'h) irq_fns" +
  assumes action_calm: "call_action F f irq dev s = Inr (r, s') \<Longrightarrow> calm s s'"
    and flow_calm: "calms s (call_flow F f irq s)"
begin

lemma run_actions_calm: "calm s t \<Longrightarrow> run_actions F irq as r t = Inr (r', s') \<Longrightarrow> calm s s'"
proof (induction as arbitrary: r t)
  case (Cons a as)
  then obtain r1 t1 where "call_action F (a_handler a) irq (a_dev_id a) t = Inr (r1, t1)"
    and rest: "run_actions F irq as (r OR r1) t1 = Inr (r', s')"
    by (auto simp: rbind_eq_Inr)
  then have "calm s t1" using action_calm Cons.prems(1) calm_trans by blast
  then show ?case using Cons.IH rest by blast
qed simp

lemma run_shared_calm: "calm s t \<Longrightarrow> run_shared F irq as ok t = Inr (ok', s') \<Longrightarrow> calm s s'"
proof (induction as arbitrary: ok t)
  case (Cons a as)
  show ?case
  proof (cases "a_flags a AND IRQF_SHARED = 0")
    case False
    then obtain r1 t1 where "call_action F (a_handler a) irq (a_dev_id a) t = Inr (r1, t1)"
      and rest: "run_shared F irq as (ok \<or> r1 = IRQ_HANDLED) t1 = Inr (ok', s')"
      using Cons.prems by (auto simp: rbind_eq_Inr)
    then have "calm s t1" using action_calm Cons.prems(1) calm_trans by blast
    then show ?thesis using Cons.IH rest by blast
  qed (use Cons in simp)
qed simp

lemma event_calm: "calm s t \<Longrightarrow> handle_IRQ_event F irq as t = Inr (r, s') \<Longrightarrow> calm s s'"
  by (auto simp: handle_IRQ_event_def split: if_splits intro: run_actions_calm)

lemma misrouted_body_calm:
  assumes "calm s t" and "misrouted_body F irq i (ok, work, t) = Inr (ok', work', s')"
  shows "calm s s'"
proof (cases "i = irq \<or> has_status i IRQ_INPROGRESS t")
  case True
  then show ?thesis
    using assms by (auto simp: misrouted_body_def split: if_splits list.splits intro!: calm_upd simp: status_simps)
next
  case False
  let ?t1 = "set_status i IRQ_INPROGRESS t"
  obtain ok2 t2 work3 t3 where t2: "run_shared F i (action (descs ?t1 i)) ok ?t1 = Inr (ok2, t2)"
    and t3: "(if has_status i IRQ_PENDING t2 \<and> action (descs t2 i) \<noteq> []
              then rbind (handle_IRQ_event F i (action (descs t2 i)) t2) (\<lambda>(ret, s).
                   Inr (True, clr_status i IRQ_PENDING s))
              else Inr (work, t2)) = Inr (work3, t3)"
    and t4: "(if work3 \<and> c_end (the_chip i (clr_status i IRQ_INPROGRESS t3)) \<noteq> None
              then run_chip_fn F (c_end (the_chip i (clr_status i IRQ_INPROGRESS t3))) i (clr_status i IRQ_INPROGRESS t3)
              else Inr (clr_status i IRQ_INPROGRESS t3)) = Inr s'"
    using assms(2) False by (auto simp: misrouted_body_def Let_def rbind_eq_Inr simp del: upd_desc_simps the_chip_upd)
  have "calm s ?t1" using assms(1) by (intro calm_upd) (auto simp: status_simps)
  then have c2: "calm s t2" using run_shared_calm t2 by blast
  have c3: "calm s t3"
  proof (cases "has_status i IRQ_PENDING t2 \<and> action (descs t2 i) \<noteq> []")
    case True
    then obtain r t' where "handle_IRQ_event F i (action (descs t2 i)) t2 = Inr (r, t')" "t3 = clr_status i IRQ_PENDING t'"
      using t3 by (auto simp: rbind_eq_Inr)
    moreover from this have "calm s t'" using event_calm c2 by blast
    ultimately show ?thesis by (auto intro!: calm_upd simp: status_simps)
  qed (use t3 c2 in auto)
  have "calm s (clr_status i IRQ_INPROGRESS t3)" using c3 by (intro calm_upd) (auto simp: status_simps)
  then show ?thesis using t4 by (auto split: if_splits intro: chip_calm simp del: the_chip_upd)
qed

lemma misrouted_calm: "calm s t \<Longrightarrow> misrouted_irq F irq t = Inr (ok, s') \<Longrightarrow> calm s s'"
proof -
  have loop: "calm s u \<Longrightarrow> rfold (\<lambda>i. misrouted_body F irq (of_nat i)) is (ok0, w0, u) = Inr (ok1, w1, u') \<Longrightarrow> calm s u'"
    for "is" ok0 w0 u ok1 w1 u'
  proof (induction "is" arbitrary: ok0 w0 u)
    case (Cons i "is")
    then show ?case by (auto simp: rbind_eq_Inr dest: misrouted_body_calm)
  qed simp
  assume "calm s t" and "misrouted_irq F irq t = Inr (ok, s')"
  then show ?thesis by (auto simp: misrouted_irq_def rbind_eq_Inr dest: loop)
qed

lemma note_interrupt_calm:
  assumes "calm s t" and "note_interrupt F irq ret t = Inr s'"
  shows "calm s s'"
proof -
  let ?t1 = "if ret \<noteq> IRQ_HANDLED then upd_desc irq (irqs_unhandled_update (\<lambda>n. n + 1)) t else t"
  have c1: "calm s ?t1" using assms(1) by (auto intro!: calm_upd)
  obtain t2 where t2: "(if irqfixup ?t1 \<noteq> 0 \<and> (irqfixup ?t1 = 2 \<and> irq = 0 \<or> ret = IRQ_NONE)
             then rbind (misrouted_irq F irq ?t1) (\<lambda>(ok, s).
                  Inr (if ret = IRQ_NONE
                       then upd_desc irq (irqs_unhandled_update (\<lambda>n. n - (if ok then 1 else 0))) s else s))
             else Inr ?t1) = Inr t2"
    and rest: "(let s = upd_desc irq (irq_count_update (\<lambda>n. n + 1)) t2 in
      if irq_count (descs s irq) < 100000 then Inr s
      else
        let s = upd_desc irq (irq_count_update (\<lambda>_. 0)) s in
        rbind (if irqs_unhandled (descs s irq) > 99900
               then let s = upd_desc irq (depth_update (\<lambda>_. 1)) (set_status irq IRQ_DISABLED s)
                    in chip_disable F irq s
               else Inr s) (\<lambda>s.
        Inr (upd_desc irq (irqs_unhandled_update (\<lambda>_. 0)) s))) = Inr s'"
    using assms(2) unfolding note_interrupt_def Let_def by (auto simp only: rbind_eq_Inr)
  have c2: "calm s t2"
  proof (cases "irqfixup ?t1 \<noteq> 0 \<and> (irqfixup ?t1 = 2 \<and> irq = 0 \<or> ret = IRQ_NONE)")
    case True
    obtain ok u where "misrouted_irq F irq ?t1 = Inr (ok, u)"
      and u: "t2 = (if ret = IRQ_NONE then upd_desc irq (irqs_unhandled_update (\<lambda>n. n - (if ok then 1 else 0))) u else u)"
      using t2 unfolding if_P [OF True] rbind_eq_Inr by auto
    then have "calm s u" using misrouted_calm c1 by blast
    then show ?thesis using u by (auto intro!: calm_upd)
  next
    case False
    show ?thesis using t2 c1 unfolding if_not_P [OF False] by simp
  qed
  let ?t3 = "upd_desc irq (\<lambda>d. irq_count_update (\<lambda>_. 0) (irq_count_update (\<lambda>n. n + 1) d)) t2"
  let ?t4 = "upd_desc irq (depth_update (\<lambda>_. 1)) (set_status irq IRQ_DISABLED ?t3)"
  have c3: "calm s ?t3" using c2 by (intro calm_upd) simp_all
  have c4: "calm s ?t4" unfolding upd_desc_twice using c2 by (intro calm_upd) (simp_all add: status_simps)
  have "calm s u" if "chip_disable F irq ?t4 = Inr u" for u using gate_calm [OF c4 that] .
  then show ?thesis
    using rest c2 c3 unfolding Let_def
    by (auto split: if_splits simp: rbind_eq_Inr simp del: upd_desc_simps the_chip_upd intro!: calm_upd)
qed

lemma run_event_calm: "calm s t \<Longrightarrow> run_event F irq as t = Inr s' \<Longrightarrow> calm s s'"
  by (auto simp: run_event_def rbind_eq_Inr split: if_splits dest: event_calm intro: note_interrupt_calm)

lemma kstat_calm: "calm s t \<Longrightarrow> kstat_inc irq t = Inr s' \<Longrightarrow> calm s s'"
  by (auto simp: kstat_inc_def split: if_splits)

lemma status_calm [intro]:
  "calm s t \<Longrightarrow> calm s (clr_status i (IRQ_REPLAY OR IRQ_WAITING) t)"
  "calm s t \<Longrightarrow> calm s (set_status i IRQ_INPROGRESS t)"
  "calm s t \<Longrightarrow> calm s (clr_status i IRQ_INPROGRESS t)"
  "calm s t \<Longrightarrow> calm s (set_status i IRQ_PENDING t)"
  "calm s t \<Longrightarrow> calm s (clr_status i IRQ_PENDING t)"
  "calm s t \<Longrightarrow> calm s (set_status i (IRQ_PENDING OR IRQ_MASKED) t)"
  "calm s t \<Longrightarrow> calm s (clr_status i IRQ_MASKED t)"
  by (intro calm_upd; simp add: status_simps)+

lemma edge_turn_calm:
  assumes "calm s t" and "edge_turn F irq t = Inr s'"
  shows "calm s s'"
proof -
  obtain t1 where t1: "(if status (descs t irq) AND (IRQ_PENDING OR IRQ_MASKED OR IRQ_DISABLED) = IRQ_PENDING OR IRQ_MASKED
             then rbind (chip_unmask F irq t) (\<lambda>s. Inr (clr_status irq IRQ_MASKED s)) else Inr t) = Inr t1"
    and run: "run_event F irq (action (descs t irq)) (clr_status irq IRQ_PENDING t1) = Inr s'"
    using assms(2) unfolding edge_turn_def Let_def rbind_eq_Inr by blast
  have "calm s t1"
    using t1 assms(1) by (auto split: if_splits simp: rbind_eq_Inr dest: chip_calm intro!: status_calm)
  then show ?thesis using run_event_calm [OF status_calm(5) run] by blast
qed

lemma edge_loop_calm: "calm s t \<Longrightarrow> edge_loop F irq t = Some (Inr s') \<Longrightarrow> calm s s'"
  by (rule edge_loop_inv [where P = "calm s" and Q = "calm s"])
    (auto intro: edge_turn_calm chip_calm status_calm)

lemma calms_intros:
  "calm s t \<Longrightarrow> calms s (Inr t)"
  "\<lbrakk>calms s m; \<And>t. calm s t \<Longrightarrow> calms s (g t)\<rbrakk> \<Longrightarrow> calms s (rbind m g)"
  "\<lbrakk>P \<Longrightarrow> calms s m; \<not> P \<Longrightarrow> calms s m'\<rbrakk> \<Longrightarrow> calms s (if P then m else m')"
  "calm s t \<Longrightarrow> calms s (run_chip_fn F fp irq t)"
  "calm s t \<Longrightarrow> calms s (mask_ack_irq F irq t)"
  "calm s t \<Longrightarrow> calms s (kstat_inc irq t)"
  "calm s t \<Longrightarrow> calms s (run_event F irq as t)"
  "calm s t \<Longrightarrow> calms s (ended (edge_loop F irq t))"
  by (auto simp: calms_def rbind_eq_Inr ended_def split: option.splits
      dest: chip_calm mask_ack_calm kstat_calm run_event_calm edge_loop_calm)

lemma handlers_calm:
  assumes "calm s t"
  shows "calms s (handle_bad_irq irq t)" "calms s (handle_simple_irq F irq t)" "calms s (handle_level_irq F irq t)"
    "calms s (handle_fasteoi_irq F irq t)" "calms s (handle_edge_irq F irq t)"
  unfolding handle_bad_irq_def handle_simple_irq_def handle_level_irq_def handle_fasteoi_irq_def
    handle_edge_irq_def Let_def ack_bad_irq_def
  by (intro calms_intros status_calm assms calm_same(2) [THEN iffD2]; assumption)+

lemma run_flow_calm:
  assumes "calm s t"
  shows "calms s (run_flow F fl irq t)"
proof (cases fl)
  case (Flow f)
  then show ?thesis using flow_calm [of t f irq] calm_trans [OF assms] by (simp add: run_flow_def calms_def)
qed (simp_all add: run_flow_def handlers_calm assms)

lemma desc_handle_calm: "calm s t \<Longrightarrow> calms s (desc_handle_irq F irq t)"
  using run_flow_calm [of s t] by (auto simp: desc_handle_irq_def calms_def rbind_eq_Inr)

lemma do_IRQ_calm: "calm s t \<Longrightarrow> calms s (asm_do_IRQ F irq t)"
  using desc_handle_calm [of s t] handlers_calm(1) [of s t] by (simp add: asm_do_IRQ_def)

lemma resend_calm: "resend_irqs F t = Some (Inr s') \<Longrightarrow> calm s t \<Longrightarrow> calm s s'"
proof -
  have "F' = F \<longrightarrow> y = Inr s' \<longrightarrow> calm s u \<longrightarrow> calm s s'" if "resend_irqs F' u = Some y" for F' u y
    using that
  proof (induction rule: resend_irqs.raw_induct [rotated 1, consumes 1, case_names 1])
    case (1 resend F' u y)
    show ?case
    proof (intro impI)
      assume eq: "F' = F" "y = Inr s'" and c: "calm s u"
      show "calm s s'"
      proof (cases "first_resend u")
        case (Some i)
        let ?u = "u\<lparr>irqs_resend := (irqs_resend u)(of_nat i := False)\<rparr>"
        obtain u' where u': "desc_handle_irq F (of_nat i) ?u = Inr u'"
          using 1(2) eq Some by (cases "desc_handle_irq F (of_nat i) ?u") auto
        then have "calm s u'" using desc_handle_calm [of s ?u] c by (simp add: calms_def)
        then show ?thesis using 1(1) [of F u' y] 1(2) eq Some u' by simp
      qed (use 1(2) eq c in simp)
    qed
  qed
  then show "resend_irqs F t = Some (Inr s') \<Longrightarrow> calm s t \<Longrightarrow> calm s s'" by blast
qed

lemma typed_effect:
  assumes "chip (descs t irq) \<noteq> no_irq_chip"
    and "(if flags AND IRQF_TRIGGER_MASK \<noteq> 0 then
            (case c_set_type (the_chip irq t) of
               Some f \<Rightarrow> rbind (call_set_type F f irq (flags AND IRQF_TRIGGER_MASK) t) (\<lambda>(r, s). Inr s)
             | None \<Rightarrow> Inr t)
          else Inr (compat_irq_chip_set_default_handler irq t)) = Inr u"
  shows "\<exists>fl nm. descs u = (descs t)(irq := (descs t irq)\<lparr>handle_irq := fl, desc_name := nm\<rparr>)"
proof -
  have same: "descs t = (descs t)(irq := (descs t irq)\<lparr>handle_irq := handle_irq (descs t irq), desc_name := desc_name (descs t irq)\<rparr>)"
    by (cases "descs t irq") (simp add: fun_upd_idem)
  show ?thesis
  proof (cases "flags AND IRQF_TRIGGER_MASK \<noteq> 0")
    case True
    show ?thesis
    proof (cases "c_set_type (the_chip irq t)")
      case (Some f)
      then obtain r where "call_set_type F f irq (flags AND IRQF_TRIGGER_MASK) t = Inr (r, u)"
        using assms(2) True by (auto simp: rbind_eq_Inr)
      from set_type_frame [OF this assms(1)] show ?thesis by force
    next
      case None
      then have "u = t" using assms(2) True by simp
      then show ?thesis using same by blast
    qed
  next
    case False
    then have "u = t \<or> u = upd_desc irq (handle_irq_update (\<lambda>_. None)) t"
      using assms(2) by (auto simp: compat_irq_chip_set_default_handler_def split: if_splits)
    then show ?thesis
    proof
      assume "u = upd_desc irq (handle_irq_update (\<lambda>_. None)) t"
      then show ?thesis
        by (intro exI [of _ None] exI [of _ "desc_name (descs t irq)"]) (cases "descs t irq", simp)
    qed (use same in blast)
  qed
qed

lemma setup_first_effect:
  assumes "chip (descs s irq) \<noteq> no_irq_chip" and "setup_first F irq flags s = Inr s'"
  shows "(\<forall>i. i \<noteq> irq \<longrightarrow> descs s' i = descs s i) \<and> action (descs s' irq) = action (descs s irq) \<and>
    bit (status (descs s' irq)) 26 = bit (status (descs s irq)) 26 \<and> bit (status (descs s' irq)) 27 = bit (status (descs s irq)) 27 \<and>
    (if bit (status (descs s irq)) 27
     then depth (descs s' irq) = 1 \<and> bit (status (descs s' irq)) 17 = bit (status (descs s irq)) 17
     else depth (descs s' irq) = 0 \<and> \<not> bit (status (descs s' irq)) 17)"
proof -
  let ?t = "chip_defaults (chip (descs s irq)) s"
  let ?clr = "clr_status irq (IRQ_AUTODETECT OR IRQ_WAITING OR IRQ_INPROGRESS)"
  have dt: "descs ?t = descs s" by (simp add: chip_defaults_def)
  obtain u where u: "(if flags AND IRQF_TRIGGER_MASK \<noteq> 0 then
            (case c_set_type (the_chip irq ?t) of
               Some f \<Rightarrow> rbind (call_set_type F f irq (flags AND IRQF_TRIGGER_MASK) ?t) (\<lambda>(r, s). Inr s)
             | None \<Rightarrow> Inr ?t)
          else Inr (compat_irq_chip_set_default_handler irq ?t)) = Inr u"
    and rest: "(if \<not> has_status irq IRQ_NOAUTOEN (?clr u) then
        (let s = clr_status irq IRQ_DISABLED (upd_desc irq (depth_update (\<lambda>_. 0)) (?clr u)) in
        (case c_startup (the_chip irq s) of Some st \<Rightarrow> run_startup F st irq s | None \<Rightarrow> chip_enable F irq s))
      else Inr (upd_desc irq (depth_update (\<lambda>_. 1)) (?clr u))) = Inr s'"
    using assms(2) unfolding setup_first_def Let_def rbind_eq_Inr by blast
  obtain fl nm where du: "descs u = (descs s)(irq := (descs s irq)\<lparr>handle_irq := fl, desc_name := nm\<rparr>)"
    using typed_effect [OF _ u] assms(1) dt by auto
  show ?thesis
  proof (cases "bit (status (descs s irq)) 27")
    case True
    then have "s' = upd_desc irq (depth_update (\<lambda>_. 1)) (?clr u)"
      using rest du by (simp add: status_simps)
    then show ?thesis using True du by (simp add: status_simps)
  next
    case False
    let ?w = "clr_status irq IRQ_DISABLED (upd_desc irq (depth_update (\<lambda>_. 0)) (?clr u))"
    have "(case c_startup (the_chip irq ?w) of Some st \<Rightarrow> run_startup F st irq ?w | None \<Rightarrow> chip_enable F irq ?w) = Inr s'"
      using rest du False unfolding Let_def by (simp add: status_simps)
    then obtain h e m where "s' = (clr_status irq m ?w)\<lparr>irq_err_count := e, mach := h\<rparr>" "m = 0 \<or> m = IRQ_MASKED"
      using gate_frame [of _ irq ?w s'] startup_frame [of _ irq ?w s'] by (cases "c_startup (the_chip irq ?w)") (simp_all only: option.case, blast+)
    then show ?thesis using False du by (auto simp: status_simps)
  qed
qed

lemma setup_inv:
  assumes inv: "irq_inv s" and "\<not> has_status irq IRQ_NOREQUEST s" and run: "setup_irq F irq nw s = Inr (r, s')"
  shows "irq_inv s'"
proof (cases "irq \<ge> NR_IRQS \<or> chip (descs s irq) = no_irq_chip")
  case False
  then have irq: "irq < NR_IRQS" "chip (descs s irq) \<noteq> no_irq_chip" by auto
  then have ok: "line_ok (descs s irq)" using inv by (simp add: irq_inv_def)
  let ?nw = "nw\<lparr>a_irq := irq\<rparr>"
  show ?thesis
  proof (cases "action (descs s irq)")
    case Nil
    let ?t = "upd_desc irq (action_update (\<lambda>_. [?nw])) s"
    have "setup_first F irq (a_flags nw) ?t = Inr s'"
      using run False Nil unfolding setup_irq_def by (auto simp: Let_def rbind_eq_Inr)
    from setup_first_effect [OF _ this] irq(2)
    have e: "\<forall>i. i \<noteq> irq \<longrightarrow> descs s' i = descs s i" "action (descs s' irq) = [?nw]"
      "bit (status (descs s' irq)) 26 = bit (status (descs s irq)) 26" "bit (status (descs s' irq)) 27 = bit (status (descs s irq)) 27"
      "if bit (status (descs s irq)) 27
       then depth (descs s' irq) = 1 \<and> bit (status (descs s' irq)) 17 = bit (status (descs s irq)) 17
       else depth (descs s' irq) = 0 \<and> \<not> bit (status (descs s' irq)) 17"
      by simp_all
    have "\<not> bit (status (descs s irq)) 27" using ok assms(2) by (simp add: line_ok_def status_simps)
    then have "line_ok (descs s' irq)" using e by (simp add: line_ok_def shared_ok_def split: if_splits)
    then have "line_ok (descs s' i)" if "i < NR_IRQS" for i
      using that inv e(1) by (cases "i = irq") (simp_all add: irq_inv_def)
    then show ?thesis by (simp add: irq_inv_def)
  next
    case (Cons old rest)
    show ?thesis
    proof (cases "(a_flags old AND a_flags nw) AND IRQF_SHARED = 0 \<or>
               (a_flags old XOR a_flags nw) AND IRQF_TRIGGER_MASK \<noteq> 0")
      case True
      then show ?thesis using run False Cons inv by (auto simp: setup_irq_def Let_def)
    next
      case share: False
      then have s': "s' = upd_desc irq (action_update (\<lambda>as. as @ [?nw])) s"
        using run False Cons by (simp add: setup_irq_def Let_def)
      have "shared_ok (action (descs s irq) @ [?nw])"
        using shared_ok_snoc [of old rest ?nw] ok share Cons by (simp add: line_ok_def)
      then have "line_ok (descs s' irq)" using ok s' Cons by (simp add: line_ok_def)
      then show ?thesis using inv s' by (auto simp: irq_inv_def)
    qed
  qed
next
  case True
  then have "s' = s" using run by (cases "irq \<ge> NR_IRQS") (simp_all add: setup_irq_def)
  then show ?thesis using inv by simp
qed

lemma request_inv:
  assumes "irq_inv s" and "request_irq F room irq h flags nm dev s = Inr (r, s')"
  shows "irq_inv s'"
proof (cases "s' = s")
  case False
  then obtain nw where "setup_irq F irq nw s = Inr (r, s')" and "\<not> has_status irq IRQ_NOREQUEST s"
    using assms(2) by (auto simp: request_irq_def split: if_splits option.splits)
  then show ?thesis using setup_inv [OF assms(1)] by simp
qed (use assms in simp)

lemma free_inv:
  assumes inv: "irq_inv s" and run: "free_irq F irq dev s = Inr s'"
  shows "irq_inv s'"
proof (cases "irq \<ge> NR_IRQS \<or> remove_action dev (action (descs s irq)) = None")
  case False
  then obtain as where as: "remove_action dev (action (descs s irq)) = Some as" and irq: "irq < NR_IRQS" by auto
  have ok: "line_ok (descs s irq)" using inv irq by (simp add: irq_inv_def)
  let ?t = "upd_desc irq (action_update (\<lambda>_. as)) s"
  show ?thesis
  proof (cases "as = []")
    case True
    define w where "w = set_status irq IRQ_DISABLED ?t"
    have "\<not> NR_IRQS \<le> irq" using irq by simp
    then have "(case c_shutdown (the_chip irq w) of Some g \<Rightarrow> run_gate F (Some g) irq w
        | None \<Rightarrow> chip_disable F irq w) = Inr s'"
      using run as unfolding free_irq_def Let_def True w_def by simp
    then obtain gp where "run_gate F gp irq w = Inr s'" by (cases "c_shutdown (the_chip irq w)") auto
    then have "calm w s'" by (rule gate_calm [OF calm_refl])
    moreover have "line_ok (descs w i)" if "i < NR_IRQS" for i
      using that inv True
      by (cases "i = irq") (simp_all add: w_def irq_inv_def line_ok_def shared_ok_def status_simps)
    then have "irq_inv w" by (simp add: irq_inv_def)
    ultimately show ?thesis by (rule calm_inv)
  next
    case more: False
    have "action (descs s irq) \<noteq> []" using as by auto
    then have "line_ok (action_update (\<lambda>_. as) (descs s irq))"
      using ok more shared_ok_remove [OF as] by (simp add: line_ok_def)
    then have "irq_inv ?t" using inv by (auto simp: irq_inv_def)
    then show ?thesis using run False as more by (simp add: free_irq_def)
  qed
next
  case True
  then have "s' = s" using run by (cases "irq \<ge> NR_IRQS") (simp_all add: free_irq_def)
  then show ?thesis using inv by simp
qed

lemma wake_inv: "irq_inv s \<Longrightarrow> set_irq_wake F irq on s = Inr (r, s') \<Longrightarrow> irq_inv s'"
proof -
  assume inv: "irq_inv s" and run: "set_irq_wake F irq on s = Inr (r, s')"
  have "calm s s'"
    using run unfolding set_irq_wake_def Let_def
    by (auto split: if_splits option.splits dest!: set_wake_frame intro!: calm_upd simp: status_simps)
  then show "irq_inv s'" using inv by (rule calm_inv)
qed

end

section \<open>Use of the lines\<close>

text \<open>
  What happens to the lines after boot, one step after the other: drivers disable (fewer than
  \<open>2 ^ 32\<close> times in a row) and enable lines, request and free them, set the type of a line that has a
  controller, switch its wake-up; the hardware, or a driver at work, changes the machine;
  interrupts arrive, and missed ones are replayed.  Handlers run inside the last two steps.  Not
  in the list are the calls that give a line its chip and flow handler, which only the
  initialisation makes.
\<close>

inductive irq_usage :: "('k, 'f, 'h) irq_fns \<Rightarrow> ('k, 'f, 'h) irqsys \<Rightarrow> ('k, 'f, 'h) irqsys \<Rightarrow> bool"
  for F :: "('k, 'f, 'h) irq_fns" and s0 :: "('k, 'f, 'h) irqsys" where
  start: "irq_usage F s0 s0"
| disable: "irq_usage F s0 s \<Longrightarrow> depth (descs s irq) \<noteq> - 1 \<Longrightarrow> disable_irq F irq s = Inr s' \<Longrightarrow> irq_usage F s0 s'"
| enable: "irq_usage F s0 s \<Longrightarrow> enable_irq F irq s = Inr s' \<Longrightarrow> irq_usage F s0 s'"
| request: "irq_usage F s0 s \<Longrightarrow> request_irq F room irq h flags nm dev s = Inr (r, s') \<Longrightarrow> irq_usage F s0 s'"
| free: "irq_usage F s0 s \<Longrightarrow> free_irq F irq dev s = Inr s' \<Longrightarrow> irq_usage F s0 s'"
| set_type: "irq_usage F s0 s \<Longrightarrow> chip (descs s irq) \<noteq> no_irq_chip \<Longrightarrow> set_irq_type F irq ty s = Inr (r, s') \<Longrightarrow> irq_usage F s0 s'"
| wake: "irq_usage F s0 s \<Longrightarrow> set_irq_wake F irq on s = Inr (r, s') \<Longrightarrow> irq_usage F s0 s'"
| machine: "irq_usage F s0 s \<Longrightarrow> irq_usage F s0 (s\<lparr>mach := m\<rparr>)"
| interrupt: "irq_usage F s0 s \<Longrightarrow> asm_do_IRQ F irq s = Inr s' \<Longrightarrow> irq_usage F s0 s'"
| replay: "irq_usage F s0 s \<Longrightarrow> resend_irqs F s = Some (Inr s') \<Longrightarrow> irq_usage F s0 s'"

context irq_lines
begin

lemma set_type_calm:
  assumes "chip (descs s irq) \<noteq> no_irq_chip" and "set_irq_type F irq ty s = Inr (r, s')"
  shows "calm s s'"
  using assms set_type_frame [OF _ assms(1)]
  by (fastforce simp: set_irq_type_def split: if_splits option.splits intro!: calm_upd)

lemma usage_inv: "irq_usage F s0 s \<Longrightarrow> irq_inv s0 \<Longrightarrow> irq_inv s"
proof (induction rule: irq_usage.induct)
  case (disable s irq s')
  then show ?case using calm_inv [OF disable_calm [of s irq s']] by simp
next
  case (enable s irq s')
  then show ?case using calm_inv [OF enable_calm [of irq s s']] by simp
next
  case (set_type s irq ty r s')
  then show ?case using calm_inv [OF set_type_calm [of s irq ty r s']] by simp
next
  case (machine s m)
  then show ?case by (simp add: irq_inv_def)
next
  case (interrupt s irq s')
  then show ?case using calm_inv [OF calmsD [OF do_IRQ_calm [OF calm_refl]]] by simp
next
  case (replay s s')
  then show ?case using calm_inv [OF resend_calm [OF _ calm_refl]] by simp
next
  case (request s room irq h flags nm dev r s')
  then show ?case using request_inv [of s room irq h flags nm dev r s'] by simp
next
  case (free s irq dev s')
  then show ?case using free_inv [of s irq dev s'] by simp
next
  case (wake s irq on r s')
  then show ?case using wake_inv [of s irq on r s'] by simp
qed

end

end
