(* ===== verification/Gpio.thy ===== *)
theory Gpio
  imports Irq_Spec
begin

text \<open>
  The interrupt controllers of the i.MX27 and its GPIO ports: \<^verbatim>\<open>arch/arm/plat-mxc/irq.c\<close> (the AVIC)
  and \<^verbatim>\<open>arch/arm/plat-mxc/gpio.c\<close>.  The machine state the interrupt core carries is the bus and the
  driver's table of ports.
\<close>

section \<open>Pins, ports and registers\<close>

definition GPIO_NUM_PIN :: u32 where "GPIO_NUM_PIN = 32"
definition GPIO_PORT_NUM :: u32 where "GPIO_PORT_NUM = 6"
definition MXC_MAX_GPIO_LINES :: u32 where "MXC_MAX_GPIO_LINES = GPIO_NUM_PIN * GPIO_PORT_NUM"
definition MXC_MAX_INT_LINES :: u32 where "MXC_MAX_INT_LINES = 64"
definition MXC_GPIO_BASE :: u32 where "MXC_GPIO_BASE = MXC_MAX_INT_LINES"
definition INT_GPIO :: u16 where "INT_GPIO = 8"

definition MUX_IO_P :: nat where "MUX_IO_P = 29"
definition MUX_IO_I :: nat where "MUX_IO_I = 24"

definition IOMUX_TO_GPIO :: "u32 \<Rightarrow> u32" where
  "IOMUX_TO_GPIO pin =
     drop_bit MUX_IO_P pin * GPIO_NUM_PIN + (drop_bit MUX_IO_I pin AND (push_bit (MUX_IO_P - MUX_IO_I) 1 - 1))"

definition GPIO_TO_PORT :: "u32 \<Rightarrow> nat" where "GPIO_TO_PORT n = unat (n div GPIO_NUM_PIN)"
definition GPIO_TO_INDEX :: "u32 \<Rightarrow> u32" where "GPIO_TO_INDEX n = n mod GPIO_NUM_PIN"
definition MXC_IRQ_TO_GPIO :: "u32 \<Rightarrow> u32" where "MXC_IRQ_TO_GPIO irq = irq - MXC_GPIO_BASE"
definition MXC_GPIO_TO_IRQ :: "u32 \<Rightarrow> u32" where "MXC_GPIO_TO_IRQ x = MXC_GPIO_BASE + x"
definition IOMUX_TO_IRQ :: "u32 \<Rightarrow> u32" where "IOMUX_TO_IRQ pin = MXC_GPIO_BASE + IOMUX_TO_GPIO pin"

text \<open>Offsets of the registers of a port (\<^verbatim>\<open>enum gpio_reg\<close>).\<close>

definition GPIO_DR :: u32 where "GPIO_DR = 0x1C"
definition GPIO_GDIR :: u32 where "GPIO_GDIR = 0x00"
definition GPIO_PSR :: u32 where "GPIO_PSR = 0x24"
definition GPIO_ICR1 :: u32 where "GPIO_ICR1 = 0x28"
definition GPIO_ICR2 :: u32 where "GPIO_ICR2 = 0x2C"
definition GPIO_IMR :: u32 where "GPIO_IMR = 0x30"
definition GPIO_ISR :: u32 where "GPIO_ISR = 0x34"

text \<open>\<^verbatim>\<open>gpio_edge_t\<close>.\<close>

definition GPIO_INT_LOW_LEV :: u32 where "GPIO_INT_LOW_LEV = 3"
definition GPIO_INT_HIGH_LEV :: u32 where "GPIO_INT_HIGH_LEV = 2"
definition GPIO_INT_RISE_EDGE :: u32 where "GPIO_INT_RISE_EDGE = 0"
definition GPIO_INT_FALL_EDGE :: u32 where "GPIO_INT_FALL_EDGE = 1"

definition IRQT_RISING :: u32 where "IRQT_RISING = 1"
definition IRQT_FALLING :: u32 where "IRQT_FALLING = 2"
definition IRQT_BOTHEDGE :: u32 where "IRQT_BOTHEDGE = 3"
definition IRQT_HIGH :: u32 where "IRQT_HIGH = 4"
definition IRQT_LOW :: u32 where "IRQT_LOW = 8"

section \<open>State\<close>

record gpio_port =
  p_num :: u32
  p_base :: u32
  p_irq :: u16
  p_virtual_irq_start :: u16
  p_reserved_map :: u32
  p_irq_is_level_map :: u32

record mx27_mach =
  mio :: bus
  ports :: "nat \<Rightarrow> gpio_port"
  initialized :: bool

text \<open>\<^verbatim>\<open>mxc_gpio_ports\<close> of \<^verbatim>\<open>mach-mx27/devices.c\<close>: number, base address, interrupt, first virtual interrupt.\<close>

definition mxc_gpio_ports :: "(u32 \<times> u32 \<times> u16 \<times> u16) list" where
  "mxc_gpio_ports =
     [(0, IO_ADDRESS GPIO_BASE_ADDR, INT_GPIO, ucast MXC_GPIO_BASE),
      (1, IO_ADDRESS GPIO_BASE_ADDR + 0x100, INT_GPIO, ucast (MXC_GPIO_BASE + GPIO_NUM_PIN)),
      (2, IO_ADDRESS GPIO_BASE_ADDR + 0x200, INT_GPIO, ucast (MXC_GPIO_BASE + GPIO_NUM_PIN * 2)),
      (3, IO_ADDRESS GPIO_BASE_ADDR + 0x300, INT_GPIO, ucast (MXC_GPIO_BASE + GPIO_NUM_PIN * 3)),
      (4, IO_ADDRESS GPIO_BASE_ADDR + 0x400, INT_GPIO, ucast (MXC_GPIO_BASE + GPIO_NUM_PIN * 4)),
      (5, IO_ADDRESS GPIO_BASE_ADDR + 0x500, INT_GPIO, ucast (MXC_GPIO_BASE + GPIO_NUM_PIN * 5))]"

definition mrd :: "u32 \<Rightarrow> mx27_mach \<Rightarrow> u32" where
  "mrd a m = raw_readl a (mio m)"

definition mwr :: "u32 \<Rightarrow> u32 \<Rightarrow> mx27_mach \<Rightarrow> mx27_mach" where
  "mwr v a m = m\<lparr>mio := raw_writel v a (mio m)\<rparr>"

definition upd_port :: "nat \<Rightarrow> (gpio_port \<Rightarrow> gpio_port) \<Rightarrow> mx27_mach \<Rightarrow> mx27_mach" where
  "upd_port i g m = m\<lparr>ports := (ports m)(i := g (ports m i))\<rparr>"

definition check_gpio :: "u32 \<Rightarrow> int" where
  "check_gpio gpio = (if gpio \<ge> MXC_MAX_GPIO_LINES then - 1 else 0)"

text \<open>A bit of a 32-bit map, as \<^verbatim>\<open>1 << index\<close>.\<close>

abbreviation pin_bit :: "u32 \<Rightarrow> u32" where
  "pin_bit index \<equiv> push_bit (unat index) 1"

section \<open>Operations on a pin\<close>

definition u_set_gpio_direction :: "nat \<Rightarrow> u32 \<Rightarrow> bool \<Rightarrow> mx27_mach \<Rightarrow> mx27_mach" where
  "u_set_gpio_direction p index is_input m =
     (let reg = p_base (ports m p) + GPIO_GDIR; l = mrd reg m in
      mwr (if is_input then l AND NOT (pin_bit index) else l OR pin_bit index) reg m)"

definition mxc_set_gpio_direction :: "u32 \<Rightarrow> bool \<Rightarrow> mx27_mach \<Rightarrow> mx27_mach" where
  "mxc_set_gpio_direction pin is_input m =
     (let gpio = IOMUX_TO_GPIO pin in
      if check_gpio gpio < 0 then m
      else u_set_gpio_direction (GPIO_TO_PORT gpio) (GPIO_TO_INDEX gpio) is_input m)"

definition u_set_gpio_dataout :: "nat \<Rightarrow> u32 \<Rightarrow> u32 \<Rightarrow> mx27_mach \<Rightarrow> mx27_mach" where
  "u_set_gpio_dataout p index data m =
     (let reg = p_base (ports m p) + GPIO_DR in
      mwr ((mrd reg m AND NOT (pin_bit index)) OR push_bit (unat index) data) reg m)"

definition mxc_set_gpio_dataout :: "u32 \<Rightarrow> u32 \<Rightarrow> mx27_mach \<Rightarrow> mx27_mach" where
  "mxc_set_gpio_dataout pin data m =
     (let gpio = IOMUX_TO_GPIO pin in
      if check_gpio gpio < 0 then m
      else u_set_gpio_dataout (GPIO_TO_PORT gpio) (GPIO_TO_INDEX gpio) (if data = 0 then 0 else 1) m)"

definition mxc_get_gpio_datain :: "u32 \<Rightarrow> mx27_mach \<Rightarrow> int" where
  "mxc_get_gpio_datain pin m =
     (let gpio = IOMUX_TO_GPIO pin in
      if check_gpio gpio < 0 then - 1
      else uint (drop_bit (unat (GPIO_TO_INDEX gpio)) (mrd (p_base (ports m (GPIO_TO_PORT gpio)) + GPIO_DR) m) AND 1))"

definition mxc_get_gpio_ssr :: "u32 \<Rightarrow> mx27_mach \<Rightarrow> int" where
  "mxc_get_gpio_ssr pin m =
     (let gpio = IOMUX_TO_GPIO pin in
      if check_gpio gpio < 0 then - 1
      else uint (drop_bit (unat (GPIO_TO_INDEX gpio)) (mrd (p_base (ports m (GPIO_TO_PORT gpio)) + GPIO_PSR) m) AND 1))"

definition u_clear_gpio_irqstatus :: "nat \<Rightarrow> u32 \<Rightarrow> mx27_mach \<Rightarrow> mx27_mach" where
  "u_clear_gpio_irqstatus p index m = mwr (pin_bit index) (p_base (ports m p) + GPIO_ISR) m"

definition u_set_gpio_edge_ctrl :: "nat \<Rightarrow> u32 \<Rightarrow> u32 \<Rightarrow> mx27_mach \<Rightarrow> mx27_mach" where
  "u_set_gpio_edge_ctrl p index edge m =
     (let reg = p_base (ports m p) + (if index \<le> 15 then GPIO_ICR1 else GPIO_ICR2);
          sig = (if index \<le> 15 then index else index - 16);
          l = mrd reg m;
          l = (l AND NOT (push_bit (unat (sig * 2)) 0x3)) OR push_bit (unat (sig * 2)) edge
      in u_clear_gpio_irqstatus p index (mwr l reg m))"

definition u_set_gpio_irqenable :: "nat \<Rightarrow> u32 \<Rightarrow> bool \<Rightarrow> mx27_mach \<Rightarrow> mx27_mach" where
  "u_set_gpio_irqenable p index en m =
     (let reg = p_base (ports m p) + GPIO_IMR in
      mwr ((mrd reg m AND NOT (pin_bit index)) OR push_bit (unat index) (if en then 1 else 0)) reg m)"

definition u_request_gpio :: "nat \<Rightarrow> u32 \<Rightarrow> mx27_mach \<Rightarrow> int \<times> mx27_mach" where
  "u_request_gpio p index m =
     (if p_reserved_map (ports m p) AND pin_bit index \<noteq> 0 then (- 1, m)
      else (0, upd_port p (p_reserved_map_update (\<lambda>x. x OR pin_bit index)) m))"

definition mxc_request_gpio :: "u32 \<Rightarrow> mx27_mach \<Rightarrow> int \<times> mx27_mach" where
  "mxc_request_gpio pin m =
     (let gpio = IOMUX_TO_GPIO pin in
      if check_gpio gpio < 0 then (- EINVAL, m)
      else u_request_gpio (GPIO_TO_PORT gpio) (GPIO_TO_INDEX gpio) m)"

definition mxc_free_gpio :: "u32 \<Rightarrow> mx27_mach \<Rightarrow> mx27_mach" where
  "mxc_free_gpio pin m =
     (let gpio = IOMUX_TO_GPIO pin; p = GPIO_TO_PORT gpio; index = GPIO_TO_INDEX gpio in
      if check_gpio gpio < 0 then m
      else if p_reserved_map (ports m p) AND pin_bit index = 0 then m
      else
        let m = upd_port p (p_reserved_map_update (\<lambda>x. x AND NOT (pin_bit index))) m;
            m = upd_port p (p_irq_is_level_map_update (\<lambda>x. x AND NOT (pin_bit index))) m;
            m = u_set_gpio_direction p index True m;
            m = u_set_gpio_irqenable p index False m
        in u_clear_gpio_irqstatus p index m)"

section \<open>The machine's function pointers\<close>

datatype mx27_fn =
  mxc_mask_irq_fn | mxc_unmask_irq_fn
| gpio_ack_irq_fn | gpio_mask_irq_fn | gpio_unmask_irq_fn | gpio_set_irq_type_fn
| mxc_gpio_irq_handler_fn | mxc_gpio_mux_irq_handler_fn
| Driver nat

datatype mx27_chip = mxc_avic_chip | gpio_irq_chip

type_synonym mx27_irqsys = "(mx27_chip, mx27_fn, mx27_mach) irqsys"

text \<open>
  The handlers of device drivers are a parameter: \<open>drv n irq dev m\<close> is the run of handler \<open>n\<close> for an
  interrupt and its cookie, begun on the machine \<open>m\<close>.  A run works on the machine, and at points of
  its choice something happens to the interrupt core: the handler disables or enables a line, or an
  interrupt comes in (the core runs handlers with its lock released); then it goes on with the
  machine as it finds it.
\<close>

datatype irq_call = Disable u32 | Enable u32 | Interrupt u32

datatype handler = Return u32 mx27_mach | Call irq_call mx27_mach "mx27_mach \<Rightarrow> handler"

type_synonym drivers = "nat \<Rightarrow> u32 \<Rightarrow> nat option \<Rightarrow> mx27_mach \<Rightarrow> handler"

text \<open>Handlers that work on the machine only.\<close>

type_synonym plain_drivers = "nat \<Rightarrow> u32 \<Rightarrow> nat option \<Rightarrow> mx27_mach \<Rightarrow> u32 \<times> mx27_mach"

definition plain :: "plain_drivers \<Rightarrow> drivers" where
  "plain h n irq d m = (let (r, m') = h n irq d m in Return r m')"

abbreviation on_mach :: "(mx27_mach \<Rightarrow> mx27_mach) \<Rightarrow> mx27_irqsys \<Rightarrow> mx27_irqsys" where
  "on_mach g \<equiv> mach_update g"

subsection \<open>AVIC\<close>

definition AVIC_BASE :: u32 where "AVIC_BASE = IO_ADDRESS 0x10040000"
definition AVIC_INTCNTL :: u32 where "AVIC_INTCNTL = AVIC_BASE + 0x00"
definition AVIC_NIMASK :: u32 where "AVIC_NIMASK = AVIC_BASE + 0x04"
definition AVIC_INTENNUM :: u32 where "AVIC_INTENNUM = AVIC_BASE + 0x08"
definition AVIC_INTDISNUM :: u32 where "AVIC_INTDISNUM = AVIC_BASE + 0x0C"
definition AVIC_INTENABLEH :: u32 where "AVIC_INTENABLEH = AVIC_BASE + 0x10"
definition AVIC_INTENABLEL :: u32 where "AVIC_INTENABLEL = AVIC_BASE + 0x14"
definition AVIC_INTTYPEH :: u32 where "AVIC_INTTYPEH = AVIC_BASE + 0x18"
definition AVIC_INTTYPEL :: u32 where "AVIC_INTTYPEL = AVIC_BASE + 0x1C"
definition AVIC_NIPRIORITY6 :: u32 where "AVIC_NIPRIORITY6 = AVIC_BASE + 0x24"

definition mxc_mask_irq :: "u32 \<Rightarrow> mx27_mach \<Rightarrow> mx27_mach" where
  "mxc_mask_irq irq m = mwr irq AVIC_INTDISNUM m"

definition mxc_unmask_irq :: "u32 \<Rightarrow> mx27_mach \<Rightarrow> mx27_mach" where
  "mxc_unmask_irq irq m = mwr irq AVIC_INTENNUM m"

subsection \<open>GPIO lines\<close>

text \<open>\<^verbatim>\<open>get_gpio_port\<close>: the table has \<^verbatim>\<open>GPIO_PORT_NUM\<close> entries, and the number is not checked here.\<close>

definition get_gpio_port :: "u32 \<Rightarrow> nat result" where
  "get_gpio_port gpio = (if GPIO_TO_PORT gpio < unat GPIO_PORT_NUM then Inr (GPIO_TO_PORT gpio) else Inl OutOfBounds)"

definition gpio_mask_irq :: "u32 \<Rightarrow> mx27_mach \<Rightarrow> mx27_mach result" where
  "gpio_mask_irq irq m =
     (let gpio = MXC_IRQ_TO_GPIO irq in
      rbind (get_gpio_port gpio) (\<lambda>p. Inr (u_set_gpio_irqenable p (GPIO_TO_INDEX gpio) False m)))"

definition gpio_ack_irq :: "u32 \<Rightarrow> mx27_mach \<Rightarrow> mx27_mach result" where
  "gpio_ack_irq irq m =
     (let gpio = MXC_IRQ_TO_GPIO irq; index = GPIO_TO_INDEX gpio in
      rbind (get_gpio_port gpio) (\<lambda>p.
      let m = u_clear_gpio_irqstatus p index m in
      if p_irq_is_level_map (ports m p) AND pin_bit index \<noteq> 0 then gpio_mask_irq irq m else Inr m))"

definition gpio_unmask_irq :: "u32 \<Rightarrow> mx27_mach \<Rightarrow> mx27_mach result" where
  "gpio_unmask_irq irq m =
     (let gpio = MXC_IRQ_TO_GPIO irq in
      rbind (get_gpio_port gpio) (\<lambda>p. Inr (u_set_gpio_irqenable p (GPIO_TO_INDEX gpio) True m)))"

text \<open>The edge or level of a type, its flow handler and whether it is a level; the rest is refused.\<close>

definition gpio_type :: "u32 \<Rightarrow> (u32 \<times> mx27_fn flow \<times> bool) option" where
  "gpio_type type =
     (if type = IRQT_RISING then Some (GPIO_INT_RISE_EDGE, handle_edge_irq_fn, False)
      else if type = IRQT_FALLING then Some (GPIO_INT_FALL_EDGE, handle_edge_irq_fn, False)
      else if type = IRQT_LOW then Some (GPIO_INT_LOW_LEV, handle_level_irq_fn, True)
      else if type = IRQT_HIGH then Some (GPIO_INT_HIGH_LEV, handle_level_irq_fn, True)
      else None)"

definition gpio_set_irq_type ::
  "(mx27_chip, mx27_fn, mx27_mach) irq_fns \<Rightarrow> u32 \<Rightarrow> u32 \<Rightarrow> mx27_irqsys \<Rightarrow> (int \<times> mx27_irqsys) result" where
  "gpio_set_irq_type F irq type s =
     (let gpio = MXC_IRQ_TO_GPIO irq; index = GPIO_TO_INDEX gpio in
      rbind (get_gpio_port gpio) (\<lambda>p.
      case gpio_type type of
        None \<Rightarrow> Inr (- EINVAL, s)
      | Some (edge, fl, level) \<Rightarrow>
          rbind (set_irq_handler F irq fl (on_mach (u_set_gpio_edge_ctrl p index edge) s)) (\<lambda>s.
          Inr (0, on_mach (upd_port p (p_irq_is_level_map_update (\<lambda>x.
                    if level then x OR pin_bit index else x AND NOT (pin_bit index)))) s))))"

section \<open>Demultiplexing\<close>

text \<open>
  The loop over the pending pins of a port, lowest first; \<open>disp\<close> is the call of the flow handler
  of a virtual interrupt.
\<close>

function gpio_demux ::
  "(u32 \<Rightarrow> mx27_irqsys \<Rightarrow> mx27_irqsys result) \<Rightarrow> u32 \<Rightarrow> u32 \<Rightarrow> mx27_irqsys \<Rightarrow> mx27_irqsys result" where
  "gpio_demux disp int_valid gpio_irq s =
     (if int_valid = 0 then Inr s
      else if int_valid AND 1 = 0 then gpio_demux disp (drop_bit 1 int_valid) (gpio_irq + 1) s
      else
        rbind (if gpio_irq \<ge> NR_IRQS then Inl OutOfBounds
               else if handle_irq (descs s gpio_irq) = None then Inl BugOn
               else disp gpio_irq s) (\<lambda>s.
        gpio_demux disp (drop_bit 1 int_valid) (gpio_irq + 1) s))"
  by pat_completeness auto
termination
proof (relation "measure (\<lambda>(disp, v, i, s). unat v)")
  have "unat (drop_bit 1 v) < unat v" if "v \<noteq> 0" for v :: u32
    using that by (simp add: drop_bit_eq_div unat_div unat_gt_0)
  then show
    "((disp, drop_bit 1 v, i + 1, s), (disp, v, i, s)) \<in> measure (\<lambda>(disp, v, i, s). unat v)"
    "((disp, drop_bit 1 v, i + 1, s'), (disp, v, i, s)) \<in> measure (\<lambda>(disp, v, i, s). unat v)"
    if "v \<noteq> 0" for disp :: "u32 \<Rightarrow> mx27_irqsys \<Rightarrow> mx27_irqsys result" and v i :: u32 and s s' :: mx27_irqsys
    using that by auto
qed simp_all

declare gpio_demux.simps [simp del]

definition gpio_pending :: "nat \<Rightarrow> mx27_mach \<Rightarrow> u32" where
  "gpio_pending p m = mrd (p_base (ports m p) + GPIO_ISR) m AND mrd (p_base (ports m p) + GPIO_IMR) m"

text \<open>
  The handler of a port reads the pending pins a second time.  No time passes between the two reads
  in the model, so they agree, and the \<^verbatim>\<open>BUG\<close> of a line that drops in between cannot be seen.
\<close>

definition mxc_gpio_irq_handler ::
  "(u32 \<Rightarrow> mx27_irqsys \<Rightarrow> mx27_irqsys result) \<Rightarrow> u32 \<Rightarrow> mx27_irqsys \<Rightarrow> mx27_irqsys result" where
  "mxc_gpio_irq_handler disp irq s =
     rbind (deref (handler_data (descs s irq))) (\<lambda>p.
     let int_valid = gpio_pending p (mach s) in
     if int_valid = 0 then Inl BugOn
     else gpio_demux disp int_valid (ucast (p_virtual_irq_start (ports (mach s) p))) s)"

definition mxc_gpio_mux_irq_handler ::
  "(u32 \<Rightarrow> mx27_irqsys \<Rightarrow> mx27_irqsys result) \<Rightarrow> u32 \<Rightarrow> mx27_irqsys \<Rightarrow> mx27_irqsys result" where
  "mxc_gpio_mux_irq_handler disp irq s =
     rfold (\<lambda>i s. if gpio_pending i (mach s) \<noteq> 0
                  then mxc_gpio_irq_handler disp irq (snd (set_irq_data irq (Some i) s))
                  else Inr s) [0..<unat GPIO_PORT_NUM] s"

section \<open>The machine plugged into the interrupt core\<close>

definition mx27_chip_fn :: "mx27_fn \<Rightarrow> u32 \<Rightarrow> mx27_mach \<Rightarrow> mx27_mach result" where
  "mx27_chip_fn f irq m =
     (case f of
        mxc_mask_irq_fn \<Rightarrow> Inr (mxc_mask_irq irq m)
      | mxc_unmask_irq_fn \<Rightarrow> Inr (mxc_unmask_irq irq m)
      | gpio_ack_irq_fn \<Rightarrow> gpio_ack_irq irq m
      | gpio_mask_irq_fn \<Rightarrow> gpio_mask_irq irq m
      | gpio_unmask_irq_fn \<Rightarrow> gpio_unmask_irq irq m
      | _ \<Rightarrow> Inl NullDeref)"

text \<open>
  The chip functions alone.  Setting a type calls back into the core with them, but only to
  exchange the flow handler of the line, which runs no function of the machine.
\<close>

definition mx27_chip_fns :: "(mx27_chip, mx27_fn, mx27_mach) irq_fns" where
  "mx27_chip_fns =
     \<lparr>call_chip = (\<lambda>f irq s. rbind (mx27_chip_fn f irq (mach s)) (\<lambda>m. Inr (s\<lparr>mach := m\<rparr>))),
      call_set_type = (\<lambda>f irq t s. Inl NullDeref), call_retrigger = (\<lambda>f irq s. Inl NullDeref),
      call_set_wake = (\<lambda>f irq on s. Inl NullDeref), call_action = (\<lambda>f irq d s. Inl NullDeref),
      call_flow = (\<lambda>f irq s. Inl NullDeref)\<rparr>"

definition mx27_set_type :: "mx27_fn \<Rightarrow> u32 \<Rightarrow> u32 \<Rightarrow> mx27_irqsys \<Rightarrow> (int \<times> mx27_irqsys) result" where
  "mx27_set_type f irq t s =
     (case f of gpio_set_irq_type_fn \<Rightarrow> gpio_set_irq_type mx27_chip_fns irq t s | _ \<Rightarrow> Inl NullDeref)"

text \<open>
  A run of a handler; \<open>disp\<close> is the call of the flow handler of an interrupt.  A line can be
  disabled \<open>2 ^ 32 - 1\<close> times before its depth wraps; no run goes further.
\<close>

definition mx27_irq_call ::
  "(u32 \<Rightarrow> mx27_irqsys \<Rightarrow> mx27_irqsys result) \<Rightarrow> irq_call \<Rightarrow> mx27_irqsys \<Rightarrow> mx27_irqsys result" where
  "mx27_irq_call disp c s =
     (case c of
        Disable irq \<Rightarrow> if depth (descs s irq) = - 1 then Inl OutOfBounds else disable_irq mx27_chip_fns irq s
      | Enable irq \<Rightarrow> enable_irq mx27_chip_fns irq s
      | Interrupt irq \<Rightarrow> if irq \<ge> NR_IRQS then handle_bad_irq irq s else disp irq s)"

primrec run_handler ::
  "(u32 \<Rightarrow> mx27_irqsys \<Rightarrow> mx27_irqsys result) \<Rightarrow> handler \<Rightarrow> mx27_irqsys \<Rightarrow> (u32 \<times> mx27_irqsys) result" where
  "run_handler disp (Return r m) s = Inr (r, s\<lparr>mach := m\<rparr>)"
| "run_handler disp (Call c m k) s =
     rbind (mx27_irq_call disp c (s\<lparr>mach := m\<rparr>)) (\<lambda>s. run_handler disp (k (mach s)) s)"

definition mx27_action ::
  "drivers \<Rightarrow> (u32 \<Rightarrow> mx27_irqsys \<Rightarrow> mx27_irqsys result) \<Rightarrow> mx27_fn \<Rightarrow> u32 \<Rightarrow> nat option
     \<Rightarrow> mx27_irqsys \<Rightarrow> (u32 \<times> mx27_irqsys) result" where
  "mx27_action drv disp f irq d s =
     (case f of Driver n \<Rightarrow> run_handler disp (drv n irq d (mach s)) s | _ \<Rightarrow> Inl NullDeref)"

definition mx27_flow ::
  "(u32 \<Rightarrow> mx27_irqsys \<Rightarrow> mx27_irqsys result) \<Rightarrow> mx27_fn \<Rightarrow> u32 \<Rightarrow> mx27_irqsys \<Rightarrow> mx27_irqsys result" where
  "mx27_flow disp f irq s =
     (case f of mxc_gpio_irq_handler_fn \<Rightarrow> mxc_gpio_irq_handler disp irq s
      | mxc_gpio_mux_irq_handler_fn \<Rightarrow> mxc_gpio_mux_irq_handler disp irq s
      | _ \<Rightarrow> Inl NullDeref)"

text \<open>
  The functions of the machine, for given driver handlers and for a given way to run the flow
  handler of an interrupt from within a handler, chained or not.
\<close>

definition mx27_fns_at ::
  "drivers \<Rightarrow> (u32 \<Rightarrow> mx27_irqsys \<Rightarrow> mx27_irqsys result) \<Rightarrow> (mx27_chip, mx27_fn, mx27_mach) irq_fns" where
  "mx27_fns_at drv disp =
     mx27_chip_fns\<lparr>call_set_type := mx27_set_type, call_action := mx27_action drv disp, call_flow := mx27_flow disp\<rparr>"

text \<open>The call of a flow handler, at most \<open>n\<close> handlers deep.\<close>

fun mx27_dispatch :: "drivers \<Rightarrow> nat \<Rightarrow> u32 \<Rightarrow> mx27_irqsys \<Rightarrow> mx27_irqsys result" where
  "mx27_dispatch drv 0 irq s = Inl StackOverflow"
| "mx27_dispatch drv (Suc n) irq s = desc_handle_irq (mx27_fns_at drv (mx27_dispatch drv n)) irq s"

text \<open>
  Chained handlers nest once on this machine: the port interrupt runs the handlers of pins.  Interrupts
  that come in while handlers run nest further.
\<close>

definition IRQ_DEPTH :: nat where "IRQ_DEPTH = 8"

definition mx27_irq_fns :: "drivers \<Rightarrow> (mx27_chip, mx27_fn, mx27_mach) irq_fns" where
  "mx27_irq_fns drv = mx27_fns_at drv (mx27_dispatch drv IRQ_DEPTH)"

section \<open>Initialisation\<close>

definition mxc_avic_chip_init :: "mx27_fn irq_chip" where
  "mxc_avic_chip_init = \<lparr>chip_name = None, chip_typename = None, c_startup = None, c_shutdown = None,
     c_enable = None, c_disable = None, c_ack = Some (Mach mxc_mask_irq_fn),
     c_mask = Some (Mach mxc_mask_irq_fn), c_mask_ack = None, c_unmask = Some (Mach mxc_unmask_irq_fn),
     c_eoi = None, c_end = None, c_retrigger = None, c_set_type = None, c_set_wake = None\<rparr>"

definition gpio_irq_chip_init :: "mx27_fn irq_chip" where
  "gpio_irq_chip_init = \<lparr>chip_name = None, chip_typename = None, c_startup = None, c_shutdown = None,
     c_enable = None, c_disable = None, c_ack = Some (Mach gpio_ack_irq_fn),
     c_mask = Some (Mach gpio_mask_irq_fn), c_mask_ack = None, c_unmask = Some (Mach gpio_unmask_irq_fn),
     c_eoi = None, c_end = None, c_retrigger = None, c_set_type = Some gpio_set_irq_type_fn,
     c_set_wake = None\<rparr>"

text \<open>The static state of the interrupt code, on a given machine.\<close>

definition mx27_irq_boot :: "mx27_mach \<Rightarrow> mx27_irqsys" where
  "mx27_irq_boot m =
     \<lparr>descs = (\<lambda>_. irq_desc_init),
      chip_of = (\<lambda>k. case k of no_irq_chip \<Rightarrow> no_irq_chip_init | dummy_irq_chip \<Rightarrow> dummy_irq_chip_init
                   | Chip mxc_avic_chip \<Rightarrow> mxc_avic_chip_init | Chip gpio_irq_chip \<Rightarrow> gpio_irq_chip_init),
      irqs_resend = (\<lambda>_. False), kstat_irqs = (\<lambda>_. 0), irq_err_count = 0, noirqdebug = False,
      irqfixup = 0, mach = m\<rparr>"

text \<open>The three calls both controllers make for each of their lines.\<close>

definition setup_line ::
  "drivers \<Rightarrow> mx27_chip \<Rightarrow> mx27_fn flow \<Rightarrow> nat \<Rightarrow> mx27_irqsys \<Rightarrow> mx27_irqsys result" where
  "setup_line drv k fl j s =
     rbind (set_irq_handler (mx27_irq_fns drv) (of_nat j) fl (snd (set_irq_chip (of_nat j) (Some (Chip k)) s))) (\<lambda>s.
     Inr (set_irq_flags (of_nat j) IRQF_VALID s))"

definition mxc_init_irq :: "drivers \<Rightarrow> mx27_irqsys \<Rightarrow> mx27_irqsys result" where
  "mxc_init_irq drv s =
     (let s = on_mach (mwr 0 AVIC_INTCNTL) s;
          s = on_mach (mwr 0x1F AVIC_NIMASK) s;
          s = on_mach (mwr 0 AVIC_INTENABLEH) s;
          s = on_mach (mwr 0 AVIC_INTENABLEL) s;
          s = on_mach (mwr 0 AVIC_INTTYPEH) s;
          s = on_mach (mwr 0 AVIC_INTTYPEL) s in
      rbind (rfold (setup_line drv mxc_avic_chip handle_level_irq_fn) [0..<unat MXC_MAX_INT_LINES] s) (\<lambda>s.
      Inr (on_mach (\<lambda>m. mwr (mrd AVIC_NIPRIORITY6 m OR push_bit 28 0xF) AVIC_NIPRIORITY6 m) s)))"

definition gpio_init_port :: "drivers \<Rightarrow> nat \<Rightarrow> mx27_irqsys \<Rightarrow> mx27_irqsys result" where
  "gpio_init_port drv i s =
     (case mxc_gpio_ports ! i of (num, bas, irq, vstart) \<Rightarrow>
        let s = on_mach (upd_port i (\<lambda>p. p\<lparr>p_base := bas, p_num := num, p_irq := irq,
                                          p_virtual_irq_start := vstart, p_reserved_map := 0\<rparr>)) s;
            s = on_mach (mwr 0 (bas + GPIO_IMR)) s;
            s = on_mach (mwr 0xFFFFFFFF (bas + GPIO_ISR)) s
        in rfold (setup_line drv gpio_irq_chip handle_edge_irq_fn) [unat vstart..<unat vstart + unat GPIO_NUM_PIN] s)"

text \<open>After the loop the variable \<^verbatim>\<open>port\<close> still points to the last port.\<close>

definition u_mxc_gpio_init :: "drivers \<Rightarrow> mx27_irqsys \<Rightarrow> (int \<times> mx27_irqsys) result" where
  "u_mxc_gpio_init drv s =
     rbind (rfold (gpio_init_port drv) [0..<unat GPIO_PORT_NUM] (on_mach (initialized_update (\<lambda>_. True)) s)) (\<lambda>s.
     rbind (set_irq_chained_handler (mx27_irq_fns drv)
              (ucast (p_irq (ports (mach s) (unat GPIO_PORT_NUM - 1)))) (Flow mxc_gpio_mux_irq_handler_fn) s) (\<lambda>s.
     Inr (0, snd (set_irq_data (ucast (fst (snd (snd (mxc_gpio_ports ! 0))))) (Some 0) s))))"

definition mxc_gpio_init :: "drivers \<Rightarrow> mx27_irqsys \<Rightarrow> (int \<times> mx27_irqsys) result" where
  "mxc_gpio_init drv s = (if \<not> initialized (mach s) then u_mxc_gpio_init drv s else Inr (0, s))"

end
