(* ===== verification/Gpio_Irq.thy ===== *)
theory Gpio_Irq
  imports Gpio
begin

text \<open>
  The controllers of the i.MX27 satisfy what the interrupt core relies on (\<open>irq_chips\<close>,
  \<open>irq_lines\<close>), and what follows for its lines.
\<close>

section \<open>The chips keep the contract\<close>

lemma on_mach_eq: "on_mach g s = s\<lparr>mach := g (mach s)\<rparr>"
  by (cases s) simp

lemma upd_desc_on_mach [simp]: "upd_desc i f (on_mach g s) = on_mach g (upd_desc i f s)"
  by (cases s) (simp add: upd_desc_def)

lemma gpio_handler_swap:
  assumes "fl \<noteq> handle_bad_irq_fn" and "chip (descs s irq) \<noteq> no_irq_chip"
  shows "set_irq_handler F irq fl s =
    Inr (if irq \<ge> NR_IRQS then s else upd_desc irq (\<lambda>d. d\<lparr>handle_irq := Some fl, desc_name := None\<rparr>) s)"
  using assms by (simp add: u_set_irq_handler_def)

lemma gpio_type_flow: "gpio_type ty = Some (edge, fl, level) \<Longrightarrow> fl \<noteq> handle_bad_irq_fn"
  by (auto simp: gpio_type_def split: if_splits)

lemma gpio_set_type_frame:
  assumes "gpio_set_irq_type F irq ty s = Inr (r, s')" and "chip (descs s irq) \<noteq> no_irq_chip"
  shows "\<exists>h fl nm. s' = (upd_desc irq (\<lambda>d. d\<lparr>handle_irq := fl, desc_name := nm\<rparr>) s)\<lparr>mach := h\<rparr>"
proof -
  let ?eff = "\<lambda>t. \<exists>h fl nm. t = (upd_desc irq (\<lambda>d. d\<lparr>handle_irq := fl, desc_name := nm\<rparr>) s)\<lparr>mach := h\<rparr>"
  have same: "upd_desc irq (\<lambda>d. d\<lparr>handle_irq := handle_irq (descs s irq), desc_name := desc_name (descs s irq)\<rparr>) s = s"
    by (cases "descs s irq") (simp add: upd_desc_def fun_upd_idem)
  have mach_eff: "?eff (s\<lparr>mach := h\<rparr>)" for h
    by (intro exI [of _ h] exI [of _ "handle_irq (descs s irq)"] exI [of _ "desc_name (descs s irq)"]) (simp only: same)
  obtain p where p: "get_gpio_port (MXC_IRQ_TO_GPIO irq) = Inr p"
    using assms(1) by (auto simp: gpio_set_irq_type_def Let_def rbind_eq_Inr)
  show ?thesis
  proof (cases "gpio_type ty")
    case None
    then have "s' = s\<lparr>mach := mach s\<rparr>" using assms(1) p by (simp add: gpio_set_irq_type_def)
    then show ?thesis using mach_eff [of "mach s"] by simp
  next
    case (Some x)
    then obtain edge fl level where x: "gpio_type ty = Some (edge, fl, level)" by (cases x) simp
    define t where "t = (if irq \<ge> NR_IRQS then s else upd_desc irq (\<lambda>d. d\<lparr>handle_irq := Some fl, desc_name := None\<rparr>) s)"
    obtain g where "s' = on_mach g t"
      using assms p x gpio_type_flow [OF x]
      by (auto simp: gpio_set_irq_type_def gpio_handler_swap Let_def t_def split: if_splits)
    then have "s' = t\<lparr>mach := g (mach t)\<rparr>" by (simp only: on_mach_eq [of g])
    then show ?thesis using mach_eff unfolding t_def by (auto split: if_splits)
  qed
qed

lemma fns_at_simps [simp]:
  "call_chip (mx27_fns_at drv disp) f irq s = rbind (mx27_chip_fn f irq (mach s)) (\<lambda>m. Inr (s\<lparr>mach := m\<rparr>))"
  "call_set_type (mx27_fns_at drv disp) = mx27_set_type" "call_action (mx27_fns_at drv disp) = mx27_action drv disp"
  "call_flow (mx27_fns_at drv disp) = mx27_flow disp"
  "call_retrigger (mx27_fns_at drv disp) f irq s = Inl NullDeref"
  "call_set_wake (mx27_fns_at drv disp) f irq on s = Inl NullDeref"
  by (simp_all add: mx27_fns_at_def mx27_chip_fns_def)

lemma chips_at: "irq_chips (mx27_fns_at drv disp)"
proof
  fix f irq s s' r on ty
  show "\<exists>h. s' = s\<lparr>mach := h\<rparr>" if "call_chip (mx27_fns_at drv disp) f irq s = Inr s'"
    using that by (auto simp: rbind_eq_Inr)
  show "\<exists>h. s' = s\<lparr>mach := h\<rparr>" if "call_retrigger (mx27_fns_at drv disp) f irq s = Inr (r, s')"
    using that by simp
  show "\<exists>h. s' = s\<lparr>mach := h\<rparr>" if "call_set_wake (mx27_fns_at drv disp) f irq on s = Inr (r, s')"
    using that by simp
  show "\<exists>h fl nm. s' = (upd_desc irq (\<lambda>d. d\<lparr>handle_irq := fl, desc_name := nm\<rparr>) s)\<lparr>mach := h\<rparr>"
    if "call_set_type (mx27_fns_at drv disp) f irq ty s = Inr (r, s')" "chip (descs s irq) \<noteq> no_irq_chip"
    using that gpio_set_type_frame [of mx27_chip_fns irq ty s r s']
    by (simp add: mx27_set_type_def split: mx27_fn.splits)
qed

interpretation chip_fns: irq_chips mx27_chip_fns
  by unfold_locales (auto simp: mx27_chip_fns_def rbind_eq_Inr)

text \<open>A run of a handler is calm when the interrupts within are.\<close>

lemma irq_call_calm:
  assumes "\<forall>i s t. calm s t \<longrightarrow> calms s (disp i t)" and "mx27_irq_call disp c s = Inr s'"
  shows "calm s s'"
proof (cases c)
  case (Disable i)
  then show ?thesis using assms(2) chip_fns.disable_calm [of s i s'] by (simp add: mx27_irq_call_def split: if_splits)
next
  case (Enable i)
  then show ?thesis using assms(2) chip_fns.enable_calm [of i s s'] by (simp add: mx27_irq_call_def)
next
  case (Interrupt i)
  have "calms s (disp i s)" using assms(1) calm_refl by blast
  then show ?thesis
    using Interrupt assms(2)
    by (auto simp: mx27_irq_call_def calms_def handle_bad_irq_def kstat_inc_def ack_bad_irq_def split: if_splits)
qed

lemma run_handler_calm:
  assumes "\<forall>i s t. calm s t \<longrightarrow> calms s (disp i t)"
  shows "run_handler disp h s = Inr (r, s') \<Longrightarrow> calm s s'"
proof (induction h arbitrary: s)
  case (Return x m)
  then show ?case by auto
next
  case (Call c m k)
  then obtain u where "mx27_irq_call disp c (s\<lparr>mach := m\<rparr>) = Inr u" "run_handler disp (k (mach u)) u = Inr (r, s')"
    by (auto simp: rbind_eq_Inr)
  then have "calm (s\<lparr>mach := m\<rparr>) u" "calm u s'" using irq_call_calm [OF assms] Call.IH by blast+
  moreover have "calm s (s\<lparr>mach := m\<rparr>)" by simp
  ultimately show ?case using calm_trans by blast
qed

lemma plain_action [simp]:
  "mx27_action (plain h) disp (Driver n) irq d s = (let (r, m) = h n irq d (mach s) in Inr (r, s\<lparr>mach := m\<rparr>))"
  by (simp add: mx27_action_def plain_def split: prod.splits)

lemma plain_disp: "mx27_action (plain h) disp = mx27_action (plain h) disp'"
  by (auto simp: fun_eq_iff mx27_action_def plain_def split: mx27_fn.splits prod.splits)

text \<open>A loop of calm steps is calm.\<close>

lemma rfold_calm:
  assumes "\<forall>x\<in>set xs. \<forall>s t. calm s t \<longrightarrow> calms s (g x t)" and "calm s t"
  shows "calms s (rfold g xs t)"
  using assms
proof (induction xs arbitrary: t)
  case (Cons x xs)
  have c: "calms s (g x t)" using Cons.prems by simp
  show ?case
  proof (cases "g x t")
    case (Inr u)
    then have "calm s u" using c by (simp add: calms_def)
    then show ?thesis using Cons.IH [of u] Cons.prems(1) Inr by simp
  qed (simp add: calms_def)
qed (simp add: calms_def)

lemma demux_calm:
  "\<forall>i s t. calm s t \<longrightarrow> calms s (disp i t) \<Longrightarrow> calm s t \<Longrightarrow> calms s (gpio_demux disp v i t)"
proof (induction disp v i t arbitrary: s rule: gpio_demux.induct)
  case (1 disp v i t)
  define step where "step = (if i \<ge> NR_IRQS then Inl OutOfBounds
    else if handle_irq (descs t i) = None then Inl BugOn else disp i t)"
  have st: "calms s step" using 1(3,4) by (auto simp: step_def calms_def)
  show ?case
  proof (cases "v = 0 \<or> v AND 1 = 0")
    case True
    then show ?thesis using 1(1,3,4) by (auto simp: gpio_demux.simps [of disp v] calms_def)
  next
    case False
    then have run: "gpio_demux disp v i t = rbind step (gpio_demux disp (drop_bit 1 v) (i + 1))"
      by (simp add: gpio_demux.simps [of disp v] step_def)
    show ?thesis
    proof (cases step)
      case (Inr u)
      then have "calm s u" using st by (simp add: calms_def)
      then have "calms s (gpio_demux disp (drop_bit 1 v) (i + 1) u)"
        using 1(2) [of u s] 1(3) False Inr by (simp add: step_def)
      then show ?thesis using run Inr by simp
    qed (use run in \<open>simp add: calms_def\<close>)
  qed
qed

lemma set_irq_data_calm: "calm s t \<Longrightarrow> calm s (snd (set_irq_data irq d t))"
  by (auto simp: set_irq_data_def intro!: calm_upd)

lemma gpio_handler_calm:
  assumes "\<forall>i s t. calm s t \<longrightarrow> calms s (disp i t)" and "calm s t"
  shows "calms s (mxc_gpio_irq_handler disp irq t)"
  using demux_calm [OF assms] by (auto simp: mxc_gpio_irq_handler_def calms_def rbind_eq_Inr Let_def split: if_splits)

lemma mux_handler_calm:
  assumes "\<forall>i s t. calm s t \<longrightarrow> calms s (disp i t)" and "calm s t"
  shows "calms s (mxc_gpio_mux_irq_handler disp irq t)"
  unfolding mxc_gpio_mux_irq_handler_def
proof (intro rfold_calm ballI allI impI)
  fix i :: nat and s t :: mx27_irqsys assume "calm s t"
  then show "calms s (if gpio_pending i (mach t) \<noteq> 0
      then mxc_gpio_irq_handler disp irq (snd (set_irq_data irq (Some i) t)) else Inr t)"
    using gpio_handler_calm [OF assms(1) set_irq_data_calm] by (simp add: calms_def)
qed (rule assms(2))

lemma lines_at:
  assumes "\<forall>i s t. calm s t \<longrightarrow> calms s (disp i t)"
  shows "irq_lines (mx27_fns_at drv disp)"
proof (intro irq_lines.intro chips_at irq_lines_axioms.intro)
  fix f irq d s r s'
  show "calm s s'" if "call_action (mx27_fns_at drv disp) f irq d s = Inr (r, s')"
    using that run_handler_calm [OF assms] by (auto simp: mx27_action_def split: mx27_fn.splits)
  show "calms s (call_flow (mx27_fns_at drv disp) f irq s)"
    using gpio_handler_calm [OF assms calm_refl] mux_handler_calm [OF assms calm_refl]
    by (simp add: mx27_flow_def calms_def split: mx27_fn.splits)
qed

lemma dispatch_calm: "calm s t \<Longrightarrow> calms s (mx27_dispatch drv n irq t)"
proof (induction n arbitrary: irq s t)
  case (Suc n)
  then have "irq_lines (mx27_fns_at drv (mx27_dispatch drv n))" by (intro lines_at) blast
  then show ?case using irq_lines.desc_handle_calm Suc.prems by fastforce
qed (simp add: calms_def)

interpretation mx27_irq: irq_lines "mx27_irq_fns drv" for drv
  unfolding mx27_irq_fns_def using lines_at dispatch_calm by blast

section \<open>The lines after initialisation\<close>

text \<open>What setting a line up makes of its descriptor.\<close>

definition lined_up :: "mx27_chip \<Rightarrow> mx27_fn flow \<Rightarrow> (mx27_chip, mx27_fn) irq_desc \<Rightarrow> (mx27_chip, mx27_fn) irq_desc" where
  "lined_up k fl d =
     d\<lparr>chip := Chip k, handle_irq := Some fl, desc_name := None,
       status := ((status d OR (IRQ_NOREQUEST OR IRQ_NOPROBE OR IRQ_NOAUTOEN)) AND NOT IRQ_NOREQUEST) AND NOT IRQ_NOAUTOEN\<rparr>"

lemma setup_line_run:
  assumes "j < 288" and "fl \<noteq> handle_bad_irq_fn"
  shows "setup_line drv k fl j s = Inr (upd_desc (of_nat j) (lined_up k fl) (chip_defaults (Chip k) s))"
proof -
  have "\<not> NR_IRQS \<le> of_nat j"
    using assms(1) by (simp add: NR_IRQS_def word_le_nat_alt unat_of_nat)
  then show ?thesis
    using assms(2)
    by (simp add: setup_line_def set_irq_chip_def gpio_handler_swap set_irq_flags_def IRQF_VALID_def
        IRQF_PROBE_def IRQF_NOAUTOEN_def lined_up_def Let_def)
      (cases "descs (chip_defaults (Chip k) s) (of_nat j)", simp add: upd_desc_def lined_up_def)
qed

lemma lined_up_idem [simp]: "lined_up k fl (lined_up k fl d) = lined_up k fl d"
proof -
  let ?f = "\<lambda>x :: u32. ((x OR (IRQ_NOREQUEST OR IRQ_NOPROBE OR IRQ_NOAUTOEN)) AND NOT IRQ_NOREQUEST) AND NOT IRQ_NOAUTOEN"
  have "?f (?f x) = ?f x" for x unfolding u32_eq_iff by (auto simp: status_simps)
  then show ?thesis by (simp add: lined_up_def)
qed

text \<open>The defaults in closed form.\<close>

definition or_else :: "'a option \<Rightarrow> 'a option \<Rightarrow> 'a option" where
  "or_else x y = (case x of None \<Rightarrow> y | Some z \<Rightarrow> Some z)"

lemma fill_field:
  "(if c_enable c = None then c\<lparr>c_enable := e\<rparr> else c) = c\<lparr>c_enable := or_else (c_enable c) e\<rparr>"
  "(if c_disable c = None then c\<lparr>c_disable := e\<rparr> else c) = c\<lparr>c_disable := or_else (c_disable c) e\<rparr>"
  "(if c_startup c = None then c\<lparr>c_startup := st\<rparr> else c) = c\<lparr>c_startup := or_else (c_startup c) st\<rparr>"
  "(if c_shutdown c = None then c\<lparr>c_shutdown := e\<rparr> else c) = c\<lparr>c_shutdown := or_else (c_shutdown c) e\<rparr>"
  "(if chip_name c = None then c\<lparr>chip_name := n\<rparr> else c) = c\<lparr>chip_name := or_else (chip_name c) n\<rparr>"
  "(if c_end c = None then c\<lparr>c_end := f\<rparr> else c) = c\<lparr>c_end := or_else (c_end c) f\<rparr>"
  by (cases c; auto simp: or_else_def split: option.splits)+

lemma or_else_simps [simp]:
  "or_else (or_else x y) z = or_else x (or_else y z)" "or_else (Some v) z = Some v" "or_else x x = x"
  "or_else None y = y" "or_else x (or_else x y) = or_else x y" "or_else x (or_else y y) = or_else x y"
  by (simp_all add: or_else_def split: option.split)

lemma set_defaults_eq:
  "irq_chip_set_defaults c =
     c\<lparr>c_enable := or_else (c_enable c) (Some default_enable_fn),
       c_disable := or_else (c_disable c) (Some default_disable_fn),
       c_startup := or_else (c_startup c) (Some default_startup_fn),
       c_shutdown := or_else (c_shutdown c) (or_else (c_disable c) (Some default_disable_fn)),
       chip_name := or_else (chip_name c) (chip_typename c), c_end := or_else (c_end c) (Some noop)\<rparr>"
  unfolding irq_chip_set_defaults_def fill_field by (simp add: Let_def)

lemma set_defaults_idem [simp]: "irq_chip_set_defaults (irq_chip_set_defaults c) = irq_chip_set_defaults c"
  by (simp add: set_defaults_eq)

text \<open>The lines of a list are set up, the rest of the state is as it was.\<close>

definition lines_up ::
  "mx27_chip \<Rightarrow> mx27_fn flow \<Rightarrow> nat list \<Rightarrow> mx27_irqsys \<Rightarrow> mx27_irqsys \<Rightarrow> bool" where
  "lines_up k fl js s s' \<longleftrightarrow>
     (\<forall>i. descs s' i = (if i \<in> of_nat ` set js then lined_up k fl (descs s i) else descs s i)) \<and>
     (\<forall>k'. chip_of s' k' = (if k' = Chip k \<and> js \<noteq> [] then irq_chip_set_defaults (chip_of s k') else chip_of s k')) \<and>
     s'\<lparr>descs := descs s, chip_of := chip_of s\<rparr> = s"

lemma setup_lines_run:
  assumes "\<forall>j\<in>set js. j < 288" and "fl \<noteq> handle_bad_irq_fn"
  shows "\<exists>s'. rfold (setup_line drv k fl) js s = Inr s' \<and> lines_up k fl js s s'"
  using assms(1)
proof (induction js arbitrary: s)
  case (Cons j js)
  define t where "t = upd_desc (of_nat j) (lined_up k fl) (chip_defaults (Chip k) s)"
  have step: "setup_line drv k fl j s = Inr t" using setup_line_run [OF _ assms(2)] Cons.prems by (simp add: t_def)
  obtain s' where s': "rfold (setup_line drv k fl) js t = Inr s'" "lines_up k fl js t s'"
    using Cons.IH [of t] Cons.prems by auto
  have dt: "descs t = (descs s)(of_nat j := lined_up k fl (descs s (of_nat j)))"
    and ct: "chip_of t = (chip_of s)(Chip k := irq_chip_set_defaults (chip_of s (Chip k)))"
    and rt: "t\<lparr>descs := d, chip_of := c\<rparr> = s\<lparr>descs := d, chip_of := c\<rparr>" for d c
    by (simp_all add: t_def upd_desc_def chip_defaults_def)
  have "s'\<lparr>descs := descs s, chip_of := chip_of s\<rparr> = s"
  proof -
    have "s'\<lparr>descs := descs t, chip_of := chip_of t\<rparr> = t" using s'(2) by (simp add: lines_up_def)
    from arg_cong [OF this, of "\<lambda>u. u\<lparr>descs := descs s, chip_of := chip_of s\<rparr>"] show ?thesis by (simp add: rt)
  qed
  then have "lines_up k fl (j # js) s s'"
    using s'(2) by (auto simp: lines_up_def dt ct)
  then show ?case using step s'(1) by simp
qed (simp add: lines_up_def)

text \<open>The table of ports, and the lines of a port.\<close>

definition port_base :: "nat \<Rightarrow> u32" where "port_base p = 0xD4015000 + 0x100 * of_nat p"
definition port_start :: "nat \<Rightarrow> nat" where "port_start p = 64 + 32 * p"

lemma gpio_ports_nth:
  "p < 6 \<Longrightarrow> mxc_gpio_ports ! p = (of_nat p, port_base p, 8, of_nat (port_start p))"
proof -
  assume "p < 6"
  then consider "p = 0" | "p = 1" | "p = 2" | "p = 3" | "p = 4" | "p = 5" by linarith
  then show ?thesis
    by cases (simp_all add: mxc_gpio_ports_def port_base_def port_start_def INT_GPIO_def MXC_GPIO_BASE_def
      MXC_MAX_INT_LINES_def GPIO_NUM_PIN_def)
qed

definition port_lines :: "nat \<Rightarrow> nat list" where "port_lines p = [port_start p..<port_start p + 32]"

text \<open>A port is set up, the others are as they were.\<close>

definition port_ok :: "gpio_port \<Rightarrow> nat \<Rightarrow> bool" where
  "port_ok q p \<longleftrightarrow> p_num q = of_nat p \<and> p_base q = port_base p \<and> p_irq q = 8 \<and>
     p_virtual_irq_start q = of_nat (port_start p)"

definition ports_up :: "nat list \<Rightarrow> mx27_irqsys \<Rightarrow> mx27_irqsys \<Rightarrow> bool" where
  "ports_up ps s s' \<longleftrightarrow>
     (\<forall>i. descs s' i = (if i \<in> of_nat ` (\<Union>p\<in>set ps. set (port_lines p))
                        then lined_up gpio_irq_chip handle_edge_irq_fn (descs s i) else descs s i)) \<and>
     (\<forall>k. chip_of s' k = (if k = Chip gpio_irq_chip \<and> ps \<noteq> [] then irq_chip_set_defaults (chip_of s k) else chip_of s k)) \<and>
     s'\<lparr>descs := descs s, chip_of := chip_of s, mach := mach s\<rparr> = s \<and>
     (\<forall>p. if p \<in> set ps then port_ok (ports (mach s') p) p \<and> p_reserved_map (ports (mach s') p) = 0
           else ports (mach s') p = ports (mach s) p) \<and>
     initialized (mach s') = initialized (mach s) \<and>
     wsem (mio (mach s')) = wsem (mio (mach s)) \<and> tick (mio (mach s')) = tick (mio (mach s)) \<and>
     (\<forall>p\<in>set ps. storage (mio (mach s)) (port_base p + GPIO_IMR) \<longrightarrow> mrd (port_base p + GPIO_IMR) (mach s') = 0) \<and>
     (\<forall>a. (\<forall>p\<in>set ps. a \<noteq> port_base p + GPIO_IMR \<and> a \<noteq> port_base p + GPIO_ISR) \<longrightarrow> mrd a (mach s') = mrd a (mach s))"

lemma mwr_simps [simp]:
  "ports (mwr v a m) = ports m" "initialized (mwr v a m) = initialized m"
  "wsem (mio (mwr v a m)) = wsem (mio m)" "tick (mio (mwr v a m)) = tick (mio m)"
  "storage (mio (mwr v a m)) = storage (mio m)" "w1c (mio (mwr v a m)) = w1c (mio m)"
  "a \<noteq> a' \<Longrightarrow> mrd a' (mwr v a m) = mrd a' m" "a' \<noteq> a \<Longrightarrow> mrd a' (mwr v a m) = mrd a' m"
  "storage (mio m) a \<Longrightarrow> mrd a (mwr v a m) = v" "w1c (mio m) a \<Longrightarrow> mrd a (mwr v a m) = mrd a m AND NOT v"
  by (simp_all add: mwr_def mrd_def readl_writel_same readl_writel_w1c)

lemma upd_port_simps [simp]:
  "mio (upd_port p g m) = mio m" "initialized (upd_port p g m) = initialized m" "mrd a (upd_port p g m) = mrd a m"
  "ports (upd_port p g m) = (ports m)(p := g (ports m p))"
  by (simp_all add: upd_port_def mrd_def)

lemma unat_small: "n < 2 ^ LENGTH('w) \<Longrightarrow> unat (of_nat n :: 'w::len word) = n"
  by (simp add: unat_of_nat take_bit_nat_eq_self)

lemma port_reg_unat:
  assumes "p < 6" and "unat a < 256"
  shows "unat (port_base p + a) = 0xD4015000 + 256 * p + unat a"
proof -
  have "port_base p = of_nat (0xD4015000 + 256 * p)" by (simp add: port_base_def)
  then have b: "unat (port_base p) = 0xD4015000 + 256 * p" using assms(1) unat_small [of "0xD4015000 + 256 * p", where 'w = 32] by simp
  show ?thesis using assms b by (simp add: unat_word_ariths(1))
qed

lemma port_reg_eq:
  assumes "p < 6" "q < 6" "unat a < 256" "unat b < 256"
  shows "port_base p + a = port_base q + b \<longleftrightarrow> p = q \<and> a = b"
proof
  assume "port_base p + a = port_base q + b"
  then have "256 * p + unat a = 256 * q + unat b"
    using port_reg_unat [OF assms(1,3)] port_reg_unat [OF assms(2,4)] by simp
  moreover from this have "(256 * p + unat a) div 256 = (256 * q + unat b) div 256" by simp
  then have "p = q" using assms(3,4) by simp
  ultimately have "p = q" "unat a = unat b" by simp_all
  then show "p = q \<and> a = b" by (simp add: word_unat_eq_iff)
qed simp

lemmas gpio_regs = GPIO_DR_def GPIO_GDIR_def GPIO_PSR_def GPIO_ICR1_def GPIO_ICR2_def GPIO_IMR_def GPIO_ISR_def

lemma port_regs_distinct:
  "p < 6 \<Longrightarrow> q < 6 \<Longrightarrow> port_base p + GPIO_IMR = port_base q + GPIO_IMR \<longleftrightarrow> p = q"
  "p < 6 \<Longrightarrow> q < 6 \<Longrightarrow> port_base p + GPIO_IMR \<noteq> port_base q + GPIO_ISR"
  using port_reg_eq [of p q GPIO_IMR GPIO_IMR] port_reg_eq [of p q GPIO_IMR GPIO_ISR] by (simp_all add: gpio_regs)

lemma gpio_init_port_run:
  assumes "p < 6"
  shows "\<exists>s'. gpio_init_port drv p s = Inr s' \<and> ports_up [p] s s'"
proof -
  define m1 where "m1 = upd_port p (\<lambda>q. q\<lparr>p_base := port_base p, p_num := of_nat p, p_irq := 8,
      p_virtual_irq_start := of_nat (port_start p), p_reserved_map := 0\<rparr>) (mach s)"
  define m2 where "m2 = mwr 0xFFFFFFFF (port_base p + GPIO_ISR) (mwr 0 (port_base p + GPIO_IMR) m1)"
  have us: "unat (of_nat (port_start p) :: u16) = port_start p"
    using assms unat_small [of "port_start p", where 'w = 16] by (simp add: port_start_def)
  have small: "\<forall>j\<in>set (port_lines p). j < 288" using assms by (simp add: port_lines_def port_start_def)
  obtain s' where run: "rfold (setup_line drv gpio_irq_chip handle_edge_irq_fn) (port_lines p) (s\<lparr>mach := m2\<rparr>) = Inr s'"
    and up: "lines_up gpio_irq_chip handle_edge_irq_fn (port_lines p) (s\<lparr>mach := m2\<rparr>) s'"
    using setup_lines_run [OF small, of handle_edge_irq_fn drv gpio_irq_chip "s\<lparr>mach := m2\<rparr>"] by auto
  have e: "on_mach (mwr 0xFFFFFFFF (port_base p + GPIO_ISR)) (on_mach (mwr 0 (port_base p + GPIO_IMR))
      (on_mach (upd_port p (\<lambda>q. q\<lparr>p_base := port_base p, p_num := of_nat p, p_irq := 8,
      p_virtual_irq_start := of_nat (port_start p), p_reserved_map := 0\<rparr>)) s)) = s\<lparr>mach := m2\<rparr>"
    by (cases s) (simp add: m1_def m2_def)
  have init: "gpio_init_port drv p s = Inr s'"
    unfolding gpio_init_port_def gpio_ports_nth [OF assms] prod.case Let_def e us
    using run by (simp add: port_lines_def GPIO_NUM_PIN_def)
  have "s'\<lparr>descs := descs s, chip_of := chip_of s\<rparr> = s\<lparr>mach := m2\<rparr>" using up by (simp add: lines_up_def)
  then have m: "mach s' = m2" and rest: "s'\<lparr>descs := descs s, chip_of := chip_of s, mach := mach s\<rparr> = s"
    by (auto dest: arg_cong [of _ _ mach] arg_cong [of _ _ "\<lambda>u. u\<lparr>mach := mach s\<rparr>"])
  have ne: "port_lines p \<noteq> []" and regs: "port_base p + GPIO_ISR \<noteq> port_base p + GPIO_IMR"
    by (simp_all add: port_lines_def gpio_regs)
  have "ports_up [p] s s'"
    unfolding ports_up_def
  proof (intro conjI)
    show "\<forall>i. descs s' i = (if i \<in> of_nat ` (\<Union>p\<in>set [p]. set (port_lines p))
        then lined_up gpio_irq_chip handle_edge_irq_fn (descs s i) else descs s i)"
      using up by (simp add: lines_up_def)
    show "\<forall>k. chip_of s' k = (if k = Chip gpio_irq_chip \<and> [p] \<noteq> [] then irq_chip_set_defaults (chip_of s k) else chip_of s k)"
      using up ne by (simp add: lines_up_def)
  qed (use m rest regs in \<open>simp_all add: m2_def m1_def port_ok_def\<close>)
  then show ?thesis using init by blast
qed

lemma ports_up_cons:
  assumes "ports_up [p] s t" and "ports_up ps t s'" and "\<forall>q\<in>set (p # ps). q < 6" and "p \<notin> set ps"
  shows "ports_up (p # ps) s s'"
proof -
  have r: "s'\<lparr>descs := descs s, chip_of := chip_of s, mach := mach s\<rparr> = s"
  proof -
    have "s'\<lparr>descs := descs t, chip_of := chip_of t, mach := mach t\<rparr> = t" using assms(2) by (simp add: ports_up_def)
    from arg_cong [OF this, of "\<lambda>u. u\<lparr>descs := descs s, chip_of := chip_of s, mach := mach s\<rparr>"]
    show ?thesis using assms(1) by (simp add: ports_up_def)
  qed
  have keep: "mrd (port_base p + GPIO_IMR) (mach s') = mrd (port_base p + GPIO_IMR) (mach t)"
  proof -
    have "\<forall>q\<in>set ps. port_base p + GPIO_IMR \<noteq> port_base q + GPIO_IMR \<and> port_base p + GPIO_IMR \<noteq> port_base q + GPIO_ISR"
      using assms(3,4) port_regs_distinct by fastforce
    then show ?thesis using assms(2) by (simp add: ports_up_def)
  qed
  show ?thesis
    unfolding ports_up_def
  proof (intro conjI)
    show "\<forall>i. descs s' i = (if i \<in> of_nat ` (\<Union>p\<in>set (p # ps). set (port_lines p))
        then lined_up gpio_irq_chip handle_edge_irq_fn (descs s i) else descs s i)"
      using assms(1,2) by (auto simp: ports_up_def image_Un)
    show "\<forall>k. chip_of s' k = (if k = Chip gpio_irq_chip \<and> p # ps \<noteq> [] then irq_chip_set_defaults (chip_of s k) else chip_of s k)"
      using assms(1,2) by (simp add: ports_up_def)
    show "s'\<lparr>descs := descs s, chip_of := chip_of s, mach := mach s\<rparr> = s" by (rule r)
    have a: "\<forall>q. if q \<in> set [p] then port_ok (ports (mach t) q) q \<and> p_reserved_map (ports (mach t) q) = 0
           else ports (mach t) q = ports (mach s) q" using assms(1) unfolding ports_up_def by blast
    have b: "\<forall>q. if q \<in> set ps then port_ok (ports (mach s') q) q \<and> p_reserved_map (ports (mach s') q) = 0
           else ports (mach s') q = ports (mach t) q" using assms(2) unfolding ports_up_def by blast
    show "\<forall>q. if q \<in> set (p # ps) then port_ok (ports (mach s') q) q \<and> p_reserved_map (ports (mach s') q) = 0
           else ports (mach s') q = ports (mach s) q"
    proof
      fix q
      show "if q \<in> set (p # ps) then port_ok (ports (mach s') q) q \<and> p_reserved_map (ports (mach s') q) = 0
           else ports (mach s') q = ports (mach s) q"
        using spec [OF a, of q] spec [OF b, of q] by (simp split: if_splits)
    qed
    show "initialized (mach s') = initialized (mach s)" "wsem (mio (mach s')) = wsem (mio (mach s))"
      "tick (mio (mach s')) = tick (mio (mach s))"
      using assms(1,2) by (simp_all add: ports_up_def)
    show "\<forall>q\<in>set (p # ps). storage (mio (mach s)) (port_base q + GPIO_IMR) \<longrightarrow> mrd (port_base q + GPIO_IMR) (mach s') = 0"
      using assms(1,2) keep by (auto simp: ports_up_def storage_def)
    show "\<forall>a. (\<forall>q\<in>set (p # ps). a \<noteq> port_base q + GPIO_IMR \<and> a \<noteq> port_base q + GPIO_ISR) \<longrightarrow> mrd a (mach s') = mrd a (mach s)"
      using assms(1,2) by (auto simp: ports_up_def)
  qed
qed

lemma gpio_init_ports_run:
  assumes "\<forall>p\<in>set ps. p < 6" and "distinct ps"
  shows "\<exists>s'. rfold (gpio_init_port drv) ps s = Inr s' \<and> ports_up ps s s'"
  using assms
proof (induction ps arbitrary: s)
  case (Cons p ps)
  then obtain t where t: "gpio_init_port drv p s = Inr t" "ports_up [p] s t" using gpio_init_port_run by force
  obtain s' where "rfold (gpio_init_port drv) ps t = Inr s'" "ports_up ps t s'" using Cons by force
  then show ?case using t ports_up_cons [OF t(2)] Cons.prems by auto
qed (simp add: ports_up_def)

text \<open>The descriptors as \<^verbatim>\<open>init_IRQ\<close> leaves them before the machine's part.\<close>

lemma fold_status:
  "descs (fold (\<lambda>i. set_status (of_nat i) m) js s) i =
     (if i \<in> of_nat ` set js then status_update (\<lambda>x. x OR m) (descs s i) else descs s i)"
proof (induction js arbitrary: s)
  case (Cons j js)
  have "status_update (\<lambda>x. x OR m) (status_update (\<lambda>x. x OR m) d) = status_update (\<lambda>x. x OR m) d" for d :: "('k, 'f) irq_desc"
    by (cases d) simp
  then show ?case by (auto simp: Cons)
qed simp

lemma fold_status_rest:
  "(fold (\<lambda>i. set_status (of_nat i) m) js s)\<lparr>descs := d\<rparr> = s\<lparr>descs := d\<rparr>"
  by (induction js arbitrary: s) (simp_all add: upd_desc_def)

text \<open>
  The machine in service: what both initialisations together establish, right after boot.  Of the
  lines, 0 to 255 are those of the AVIC and the ports; no line has an action and no pin an owner yet.
\<close>

definition in_service :: "mx27_irqsys \<Rightarrow> bool" where
  "in_service s \<longleftrightarrow>
     (\<forall>i < 256. chip (descs s i) = Chip (if i < 64 then mxc_avic_chip else gpio_irq_chip)) \<and>
     (\<forall>i. action (descs s i) = []) \<and>
     handle_irq (descs s 8) = Some (Flow mxc_gpio_mux_irq_handler_fn) \<and>
     (\<forall>i < 256. i \<noteq> 8 \<longrightarrow> depth (descs s i) = 1 \<and>
        handle_irq (descs s i) = Some (if i < 64 then handle_level_irq_fn else handle_edge_irq_fn) \<and>
        \<not> bit (status (descs s i)) 26 \<and> \<not> bit (status (descs s i)) 27) \<and>
     (\<forall>i. i \<noteq> 8 \<longrightarrow> bit (status (descs s i)) 17) \<and> \<not> bit (status (descs s 8)) 17 \<and> bit (status (descs s 8)) 26 \<and>
     (\<forall>i < 288. bit (status (descs s i)) 28) \<and>
     chip_of s (Chip mxc_avic_chip) = irq_chip_set_defaults mxc_avic_chip_init \<and>
     chip_of s (Chip gpio_irq_chip) = irq_chip_set_defaults gpio_irq_chip_init \<and>
     (\<forall>p < 6. port_ok (ports (mach s) p) p \<and> p_reserved_map (ports (mach s) p) = 0) \<and> initialized (mach s)"

lemma of_nat_range: "b \<le> 2 ^ 32 \<Longrightarrow> i \<in> of_nat ` {a..<b} \<longleftrightarrow> a \<le> unat i \<and> unat i < b" for i :: u32
proof (intro iffI)
  assume b: "b \<le> 2 ^ 32"
  { assume "i \<in> of_nat ` {a..<b}"
    then obtain n where "i = of_nat n" "a \<le> n" "n < b" by auto
    then show "a \<le> unat i \<and> unat i < b" using b unat_small [of n, where 'w = 32] by simp }
  { assume "a \<le> unat i \<and> unat i < b"
    then show "i \<in> of_nat ` {a..<b}" by (intro image_eqI [of _ _ "unat i"]) simp_all }
qed

lemma all_port_lines: "(\<Union>p\<in>{0..<6}. set (port_lines p)) = {64..<256}"
proof -
  have "x \<in> (\<Union>p\<in>{0..<6}. set (port_lines p)) \<longleftrightarrow> x \<in> {64..<256}" for x
  proof
    assume "x \<in> {64..<256}"
    then have "(x - 64) div 32 < 6" "port_start ((x - 64) div 32) \<le> x" "x < port_start ((x - 64) div 32) + 32"
      unfolding port_start_def by auto
    then show "x \<in> (\<Union>p\<in>{0..<6}. set (port_lines p))"
      by (intro UN_I [of "(x - 64) div 32"]) (simp_all add: port_lines_def)
  qed (auto simp: port_lines_def port_start_def)
  then show ?thesis by blast
qed

lemma u32_less: "i < n \<longleftrightarrow> unat i < unat n" for i n :: u32
  by (simp add: word_less_nat_alt)

lemma chained_mux:
  assumes "chip (descs s 8) = Chip mxc_avic_chip" and "c_unmask (chip_of s (Chip mxc_avic_chip)) = Some (Mach mxc_unmask_irq_fn)"
  shows "set_irq_chained_handler (mx27_irq_fns drv) 8 (Flow f) s =
    Inr ((upd_desc 8 (\<lambda>d. d\<lparr>handle_irq := Some (Flow f), desc_name := None,
           status := (status d AND NOT IRQ_DISABLED) OR (IRQ_NOREQUEST OR IRQ_NOPROBE), depth := 0\<rparr>) s)
         \<lparr>mach := mxc_unmask_irq 8 (mach s)\<rparr>)"
proof -
  have n: "\<not> NR_IRQS \<le> 8" by (simp add: NR_IRQS_def)
  show ?thesis
    using assms n
    by (simp add: u_set_irq_handler_def Let_def run_chip_fn_def the_chip_def mx27_irq_fns_def mx27_chip_fn_def)
      (cases "descs s 8", simp add: upd_desc_def)
qed

text \<open>A descriptor when the machine's part starts, and the state after the part of the AVIC.\<close>

definition primed :: "u32 \<Rightarrow> (mx27_chip, mx27_fn) irq_desc" where
  "primed i = irq_desc_init\<lparr>status := (if i < NR_IRQS then IRQ_DISABLED OR (IRQ_NOREQUEST OR IRQ_DELAYED_DISABLE OR IRQ_NOPROBE)
     else IRQ_DISABLED)\<rparr>"

definition avic_up :: "mx27_mach \<Rightarrow> mx27_irqsys \<Rightarrow> bool" where
  "avic_up m s \<longleftrightarrow>
     ports (mach s) = ports m \<and> initialized (mach s) = initialized m \<and> storage (mio (mach s)) = storage (mio m) \<and>
     (\<forall>i. descs s i = (if i < 64 then lined_up mxc_avic_chip handle_level_irq_fn (primed i) else primed i)) \<and>
     chip_of s (Chip mxc_avic_chip) = irq_chip_set_defaults mxc_avic_chip_init \<and>
     chip_of s (Chip gpio_irq_chip) = gpio_irq_chip_init"

lemma avic_init_run: "\<exists>s. init_IRQ (mxc_init_irq drv) (mx27_irq_boot m) = Inr s \<and> avic_up m s"
proof -
  let ?M = "IRQ_NOREQUEST OR IRQ_DELAYED_DISABLE OR IRQ_NOPROBE"
  define sA where "sA = fold (\<lambda>i. set_status (of_nat i) ?M) [0..<unat NR_IRQS] (mx27_irq_boot m)"
  have dA: "descs sA i = primed i" for i
    unfolding sA_def fold_status set_upt of_nat_range
    by (simp add: NR_IRQS_def mx27_irq_boot_def of_nat_range primed_def irq_desc_init_def u32_less)
  have rA: "sA\<lparr>descs := d\<rparr> = (mx27_irq_boot m)\<lparr>descs := d\<rparr>" for d
    unfolding sA_def by (rule fold_status_rest)
  have cA: "chip_of sA = chip_of (mx27_irq_boot m)" and mA: "mach sA = m"
    using arg_cong [OF rA, of chip_of] arg_cong [OF rA, of mach] by (simp_all add: mx27_irq_boot_def)
  define g where "g = mwr 0 AVIC_INTTYPEL \<circ> mwr 0 AVIC_INTTYPEH \<circ> mwr 0 AVIC_INTENABLEL \<circ> mwr 0 AVIC_INTENABLEH
    \<circ> mwr 0x1F AVIC_NIMASK \<circ> mwr 0 AVIC_INTCNTL"
  let ?avic = "[0..<unat MXC_MAX_INT_LINES]"
  obtain s where run: "rfold (setup_line drv mxc_avic_chip handle_level_irq_fn) ?avic (on_mach g sA) = Inr s"
    and up: "lines_up mxc_avic_chip handle_level_irq_fn ?avic (on_mach g sA) s"
    using setup_lines_run [of ?avic handle_level_irq_fn drv mxc_avic_chip "on_mach g sA"]
    by (force simp: MXC_MAX_INT_LINES_def)
  define h where "h = (\<lambda>m. mwr (mrd AVIC_NIPRIORITY6 m OR push_bit 28 0xF) AVIC_NIPRIORITY6 m)"
  have "init_IRQ (mxc_init_irq drv) (mx27_irq_boot m) = Inr (on_mach h s)"
    using run unfolding init_IRQ_def sA_def [symmetric] mxc_init_irq_def Let_def by (simp add: g_def h_def o_assoc)
  moreover have "avic_up m (on_mach h s)"
    unfolding avic_up_def
  proof (intro conjI allI)
    have "mach s = g m" using up mA unfolding lines_up_def by (auto dest: arg_cong [of _ _ mach])
    then show "ports (mach (on_mach h s)) = ports m" "initialized (mach (on_mach h s)) = initialized m"
      "storage (mio (mach (on_mach h s))) = storage (mio m)" by (simp_all add: g_def h_def)
    show "descs (on_mach h s) i = (if i < 64 then lined_up mxc_avic_chip handle_level_irq_fn (primed i) else primed i)" for i
      using up unfolding lines_up_def set_upt by (simp add: of_nat_range MXC_MAX_INT_LINES_def dA u32_less)
    show "chip_of (on_mach h s) (Chip mxc_avic_chip) = irq_chip_set_defaults mxc_avic_chip_init"
      "chip_of (on_mach h s) (Chip gpio_irq_chip) = gpio_irq_chip_init"
      using up unfolding lines_up_def by (simp_all add: MXC_MAX_INT_LINES_def cA mx27_irq_boot_def)
  qed
  ultimately show ?thesis by blast
qed

lemma primed_bits:
  "bit (status (primed i)) 17" "bit (status (primed i)) 28 \<longleftrightarrow> i < NR_IRQS" "\<not> bit (status (primed i)) 27"
  "depth (primed i) = 1" "action (primed i) = []"
  by (auto simp: primed_def irq_desc_init_def status_simps)

lemma lined_up_bits:
  "bit (status (lined_up k fl d)) 17 = bit (status d) 17" "bit (status (lined_up k fl d)) 28 = bit (status d) 28"
  "\<not> bit (status (lined_up k fl d)) 26" "\<not> bit (status (lined_up k fl d)) 27"
  "depth (lined_up k fl d) = depth d" "action (lined_up k fl d) = action d"
  "chip (lined_up k fl d) = Chip k" "handle_irq (lined_up k fl d) = Some fl"
  by (auto simp: lined_up_def status_simps)

lemma service_after_mux:
  assumes d: "\<forall>i. descs t i = (if i < 64 then lined_up mxc_avic_chip handle_level_irq_fn (primed i)
      else if i < 256 then lined_up gpio_irq_chip handle_edge_irq_fn (primed i) else primed i)"
    and c: "chip_of t (Chip mxc_avic_chip) = irq_chip_set_defaults mxc_avic_chip_init"
      "chip_of t (Chip gpio_irq_chip) = irq_chip_set_defaults gpio_irq_chip_init"
    and p: "\<forall>p < 6. port_ok (ports (mach t) p) p \<and> p_reserved_map (ports (mach t) p) = 0" and "initialized (mach t)"
  shows "in_service (snd (set_irq_data 8 (Some 0) ((upd_desc 8 (\<lambda>d. d\<lparr>handle_irq := Some (Flow mxc_gpio_mux_irq_handler_fn),
      desc_name := None, status := (status d AND NOT IRQ_DISABLED) OR (IRQ_NOREQUEST OR IRQ_NOPROBE), depth := 0\<rparr>) t)
      \<lparr>mach := mxc_unmask_irq 8 (mach t)\<rparr>)))"
proof -
  have "\<not> NR_IRQS \<le> 8" by (simp add: NR_IRQS_def)
  then show ?thesis
    using c p \<open>initialized (mach t)\<close>
    by (simp add: in_service_def set_irq_data_def d primed_bits lined_up_bits status_simps mxc_unmask_irq_def)
      (simp add: NR_IRQS_def)
qed

lemma inv_after_mux:
  assumes "\<forall>i. descs t i = (if i < 64 then lined_up mxc_avic_chip handle_level_irq_fn (primed i)
      else if i < 256 then lined_up gpio_irq_chip handle_edge_irq_fn (primed i) else primed i)"
  shows "irq_inv (snd (set_irq_data 8 (Some 0) ((upd_desc 8 (\<lambda>d. d\<lparr>handle_irq := Some (Flow mxc_gpio_mux_irq_handler_fn),
      desc_name := None, status := (status d AND NOT IRQ_DISABLED) OR (IRQ_NOREQUEST OR IRQ_NOPROBE), depth := 0\<rparr>) t)
      \<lparr>mach := mm\<rparr>)))"
  using assms by (simp add: irq_inv_def set_irq_data_def line_ok_def shared_ok_def primed_bits lined_up_bits status_simps)

lemma gpio_init_run:
  assumes up: "avic_up m s" and "\<not> initialized m"
  shows "\<exists>s'. mxc_gpio_init drv s = Inr (0, s') \<and> in_service s' \<and> irq_inv s' \<and>
    (\<forall>p < 6. storage (mio m) (port_base p + GPIO_IMR) \<longrightarrow> gpio_pending p (mach s') = 0)"
proof -
  define s0 where "s0 = on_mach (initialized_update (\<lambda>_. True)) s"
  have six: "unat GPIO_PORT_NUM = 6" by (simp add: GPIO_PORT_NUM_def)
  obtain t where run: "rfold (gpio_init_port drv) [0..<6] s0 = Inr t" and pu: "ports_up [0..<6] s0 t"
    using gpio_init_ports_run [of "[0..<6]" drv s0] by force
  have "\<forall>p. if p \<in> set [0..<6] then port_ok (ports (mach t) p) p \<and> p_reserved_map (ports (mach t) p) = 0
      else ports (mach t) p = ports (mach s0) p" using pu unfolding ports_up_def by blast
  from spec [OF this] have pk: "port_ok (ports (mach t) p) p \<and> p_reserved_map (ports (mach t) p) = 0" if "p < 6" for p
    using that by (simp split: if_splits)
  have irq5: "p_irq (ports (mach t) 5) = 8" using pk [of 5] by (simp add: port_ok_def)
  have d: "descs t i = (if i < 64 then lined_up mxc_avic_chip handle_level_irq_fn (primed i)
      else if i < 256 then lined_up gpio_irq_chip handle_edge_irq_fn (primed i) else primed i)" for i
    using pu up unfolding ports_up_def set_upt all_port_lines
    by (simp add: s0_def avic_up_def of_nat_range u32_less)
  have c: "chip_of t (Chip mxc_avic_chip) = irq_chip_set_defaults mxc_avic_chip_init"
    "chip_of t (Chip gpio_irq_chip) = irq_chip_set_defaults gpio_irq_chip_init"
    using pu up by (simp_all add: ports_up_def avic_up_def s0_def)
  define u where "u = (upd_desc 8 (\<lambda>d. d\<lparr>handle_irq := Some (Flow mxc_gpio_mux_irq_handler_fn), desc_name := None,
      status := (status d AND NOT IRQ_DISABLED) OR (IRQ_NOREQUEST OR IRQ_NOPROBE), depth := 0\<rparr>) t)
      \<lparr>mach := mxc_unmask_irq 8 (mach t)\<rparr>"
  have "set_irq_chained_handler (mx27_irq_fns drv) 8 (Flow mxc_gpio_mux_irq_handler_fn) t = Inr u"
    unfolding u_def by (rule chained_mux) (simp_all add: d c lined_up_def set_defaults_eq mxc_avic_chip_init_def)
  then have "mxc_gpio_init drv s = Inr (0, snd (set_irq_data 8 (Some 0) u))"
    using run irq5 up assms(2)
    by (simp add: mxc_gpio_init_def u_mxc_gpio_init_def six s0_def avic_up_def mxc_gpio_ports_def INT_GPIO_def)
  moreover have "in_service (snd (set_irq_data 8 (Some 0) u))"
    using service_after_mux [of t] d c pk pu unfolding u_def by (simp add: ports_up_def s0_def)
  moreover have "irq_inv (snd (set_irq_data 8 (Some 0) u))"
    unfolding u_def by (rule inv_after_mux) (use d in blast)
  moreover have "gpio_pending p (mach (snd (set_irq_data 8 (Some 0) u))) = 0"
    if "p < 6" "storage (mio m) (port_base p + GPIO_IMR)" for p
  proof -
    have "mrd (port_base p + GPIO_IMR) (mach t) = 0"
      using that pu up by (auto simp: ports_up_def s0_def avic_up_def)
    moreover have "port_base p + GPIO_IMR \<noteq> AVIC_INTENNUM"
      using port_reg_unat [of p GPIO_IMR] that(1) by (auto simp: gpio_regs AVIC_INTENNUM_def AVIC_BASE_def IO_ADDRESS_def)
    ultimately show ?thesis
      using pk [OF that(1)]
      by (simp add: gpio_pending_def u_def set_irq_data_def NR_IRQS_def port_ok_def mxc_unmask_irq_def)
  qed
  ultimately show ?thesis by blast
qed

section \<open>Calls of the chips\<close>

text \<open>A line of the AVIC or of a port, with its chip as the initialisation leaves it.\<close>

definition line_ready :: "u32 \<Rightarrow> mx27_irqsys \<Rightarrow> bool" where
  "line_ready i s \<longleftrightarrow> i < 256 \<and> chip (descs s i) = Chip (if i < 64 then mxc_avic_chip else gpio_irq_chip) \<and>
     chip_of s (Chip mxc_avic_chip) = irq_chip_set_defaults mxc_avic_chip_init \<and>
     chip_of s (Chip gpio_irq_chip) = irq_chip_set_defaults gpio_irq_chip_init \<and>
     bit (status (descs s i)) 28"

lemma service_ready: "in_service s \<Longrightarrow> i < 256 \<Longrightarrow> line_ready i s"
  by (simp add: in_service_def line_ready_def u32_less)

lemma gpio_line_port:
  assumes "\<not> i < 64" and "i < 256"
  shows "get_gpio_port (MXC_IRQ_TO_GPIO i) = Inr ((unat i - 64) div 32)"
    and "(unat i - 64) div 32 < 6" and "unat (GPIO_TO_INDEX (MXC_IRQ_TO_GPIO i)) = (unat i - 64) mod 32"
proof -
  have u: "unat (i - 64) = unat i - 64" using assms by (simp add: unat_sub word_le_nat_alt u32_less)
  show lt: "(unat i - 64) div 32 < 6" using assms by (simp add: u32_less)
  then show "get_gpio_port (MXC_IRQ_TO_GPIO i) = Inr ((unat i - 64) div 32)"
    by (simp add: get_gpio_port_def MXC_IRQ_TO_GPIO_def GPIO_TO_PORT_def MXC_GPIO_BASE_def MXC_MAX_INT_LINES_def
        GPIO_NUM_PIN_def GPIO_PORT_NUM_def unat_div u)
  show "unat (GPIO_TO_INDEX (MXC_IRQ_TO_GPIO i)) = (unat i - 64) mod 32"
    by (simp add: MXC_IRQ_TO_GPIO_def GPIO_TO_INDEX_def MXC_GPIO_BASE_def MXC_MAX_INT_LINES_def
        GPIO_NUM_PIN_def unat_mod u)
qed

text \<open>What the chip of a line does to the machine.\<close>

definition mask_of :: "u32 \<Rightarrow> mx27_mach \<Rightarrow> mx27_mach" where
  "mask_of i m = (if i < 64 then mxc_mask_irq i m
     else u_set_gpio_irqenable ((unat i - 64) div 32) (GPIO_TO_INDEX (MXC_IRQ_TO_GPIO i)) False m)"

definition unmask_of :: "u32 \<Rightarrow> mx27_mach \<Rightarrow> mx27_mach" where
  "unmask_of i m = (if i < 64 then mxc_unmask_irq i m
     else u_set_gpio_irqenable ((unat i - 64) div 32) (GPIO_TO_INDEX (MXC_IRQ_TO_GPIO i)) True m)"

definition ack_of :: "u32 \<Rightarrow> mx27_mach \<Rightarrow> mx27_mach" where
  "ack_of i m =
     (let p = (unat i - 64) div 32; index = GPIO_TO_INDEX (MXC_IRQ_TO_GPIO i); m' = u_clear_gpio_irqstatus p index m in
      if i < 64 then mxc_mask_irq i m
      else if p_irq_is_level_map (ports m' p) AND pin_bit index \<noteq> 0 then mask_of i m' else m')"

lemma chip_calls:
  assumes "line_ready i s"
  shows "chip_mask (mx27_irq_fns drv) i s = Inr (s\<lparr>mach := mask_of i (mach s)\<rparr>)"
    and "chip_unmask (mx27_irq_fns drv) i s = Inr (s\<lparr>mach := unmask_of i (mach s)\<rparr>)"
    and "chip_ack (mx27_irq_fns drv) i s = Inr (s\<lparr>mach := ack_of i (mach s)\<rparr>)"
    and "mask_ack_irq (mx27_irq_fns drv) i s = Inr (s\<lparr>mach := ack_of i (mask_of i (mach s))\<rparr>)"
    and "chip_enable (mx27_irq_fns drv) i s = Inr (clr_status i IRQ_MASKED (s\<lparr>mach := unmask_of i (mach s)\<rparr>))"
    and "chip_disable (mx27_irq_fns drv) i s = Inr s"
    and "c_set_wake (the_chip i s) = None" and "c_retrigger (the_chip i s) = None" and "c_unmask (the_chip i s) \<noteq> None"
    and "c_shutdown (the_chip i s) = Some default_disable_fn" and "c_startup (the_chip i s) = Some default_startup_fn"
proof -
  have i: "i < 256" using assms by (simp add: line_ready_def)
  note port = gpio_line_port [OF _ i]
  define c where "c = the_chip i s"
  have c: "c = irq_chip_set_defaults (if i < 64 then mxc_avic_chip_init else gpio_irq_chip_init)"
    using assms by (simp add: c_def the_chip_def line_ready_def)
  have f: "c_mask c = Some (Mach (if i < 64 then mxc_mask_irq_fn else gpio_mask_irq_fn))"
    "c_unmask c = Some (Mach (if i < 64 then mxc_unmask_irq_fn else gpio_unmask_irq_fn))"
    "c_ack c = Some (Mach (if i < 64 then mxc_mask_irq_fn else gpio_ack_irq_fn))" "c_mask_ack c = None"
    "c_enable c = Some default_enable_fn" "c_disable c = Some default_disable_fn" "c_set_wake c = None"
    "c_retrigger c = None" "c_shutdown c = Some default_disable_fn" "c_startup c = Some default_startup_fn"
    by (simp_all add: c set_defaults_eq mxc_avic_chip_init_def gpio_irq_chip_init_def)
  have mask: "mx27_chip_fn (if i < 64 then mxc_mask_irq_fn else gpio_mask_irq_fn) i m = Inr (mask_of i m)" for m
    using port(1) by (simp add: mx27_chip_fn_def mask_of_def gpio_mask_irq_def)
  have unmask: "mx27_chip_fn (if i < 64 then mxc_unmask_irq_fn else gpio_unmask_irq_fn) i m = Inr (unmask_of i m)" for m
    using port(1) by (simp add: mx27_chip_fn_def unmask_of_def gpio_unmask_irq_def)
  have ack: "mx27_chip_fn (if i < 64 then mxc_mask_irq_fn else gpio_ack_irq_fn) i m = Inr (ack_of i m)" for m
    using port(1) by (simp add: mx27_chip_fn_def ack_of_def gpio_ack_irq_def mask_of_def gpio_mask_irq_def Let_def)
  show 1: "chip_mask (mx27_irq_fns drv) i s = Inr (s\<lparr>mach := mask_of i (mach s)\<rparr>)"
    and 2: "chip_unmask (mx27_irq_fns drv) i s = Inr (s\<lparr>mach := unmask_of i (mach s)\<rparr>)"
    and "chip_ack (mx27_irq_fns drv) i s = Inr (s\<lparr>mach := ack_of i (mach s)\<rparr>)"
    and "mask_ack_irq (mx27_irq_fns drv) i s = Inr (s\<lparr>mach := ack_of i (mask_of i (mach s))\<rparr>)"
    unfolding mask_ack_irq_def the_chip_mach c_def [symmetric]
    by (simp_all add: f run_chip_fn_def mx27_irq_fns_def mask unmask ack c_def [symmetric])
  show "chip_enable (mx27_irq_fns drv) i s = Inr (clr_status i IRQ_MASKED (s\<lparr>mach := unmask_of i (mach s)\<rparr>))"
    using 2 by (simp add: run_gate_def default_enable_def f c_def [symmetric])
  show "chip_disable (mx27_irq_fns drv) i s = Inr s"
    using assms by (simp add: run_gate_def default_disable_def f c_def [symmetric] line_ready_def status_simps)
  show "c_set_wake (the_chip i s) = None" "c_retrigger (the_chip i s) = None" "c_unmask (the_chip i s) \<noteq> None"
    "c_shutdown (the_chip i s) = Some default_disable_fn" "c_startup (the_chip i s) = Some default_startup_fn"
    by (simp_all add: f c_def [symmetric])
qed

end
