(* ===== verification/Mx27_Irq.thy ===== *)
theory Mx27_Irq
  imports Gpio_Irq
begin

text \<open>
  Interrupts on the i.MX27: how nested disabling, delivery, replay and the watch for stuck lines
  come out on the lines of the AVIC and of the GPIO ports.
\<close>

section \<open>Nested disabling\<close>

lemma ready_upd:
  assumes "line_ready i s" and "chip (g (descs s i)) = chip (descs s i)"
    and "bit (status (g (descs s i))) 28 = bit (status (descs s i)) 28"
  shows "line_ready i (upd_desc i g s)"
  using assms by (simp add: line_ready_def)

lemma ready_mach [simp]: "line_ready i (s\<lparr>mach := m\<rparr>) = line_ready i s"
  by (simp add: line_ready_def)

lemma ready_nr: "line_ready i s \<Longrightarrow> i < NR_IRQS"
  by (simp add: line_ready_def NR_IRQS_def u32_less)

lemma ready_nr' [simp]: "line_ready i s \<Longrightarrow> \<not> NR_IRQS \<le> i"
  using ready_nr by fastforce

text \<open>One level more: the first one marks the line, and the line stays open at the controller.\<close>

definition deeper :: "(mx27_chip, mx27_fn) irq_desc \<Rightarrow> (mx27_chip, mx27_fn) irq_desc" where
  "deeper d = d\<lparr>depth := depth d + 1, status := (if depth d = 0 then status d OR IRQ_DISABLED else status d)\<rparr>"

lemma disable_run:
  assumes "line_ready i s"
  shows "disable_irq (mx27_irq_fns drv) i s = Inr (upd_desc i deeper s)"
proof (cases "depth (descs s i) = 0")
  case True
  let ?t = "upd_desc i (\<lambda>d. status_update (\<lambda>x. x OR IRQ_DISABLED) (depth_update (\<lambda>n. n + 1) d)) s"
  have "line_ready i ?t" using assms by (intro ready_upd) (simp_all add: status_simps)
  moreover have "?t = upd_desc i deeper s"
    using True by (cases "descs s i") (simp add: upd_desc_def deeper_def)
  ultimately have "chip_disable (mx27_irq_fns drv) i (upd_desc i deeper s) = Inr (upd_desc i deeper s)"
    using chip_calls(6) [of i "upd_desc i deeper s" drv] by simp
  with \<open>?t = upd_desc i deeper s\<close> show ?thesis
    using assms True by (simp add: disable_irq_def disable_irq_nosync_def Let_def del: the_chip_upd)
next
  case False
  then show ?thesis
    using assms by (cases "descs s i") (simp add: disable_irq_def disable_irq_nosync_def upd_desc_def deeper_def)
qed

text \<open>One level less: the last one opens the line, and asks for a replay when an interrupt came in between.\<close>

definition reopened :: "(mx27_chip, mx27_fn) irq_desc \<Rightarrow> (mx27_chip, mx27_fn) irq_desc" where
  "reopened d =
     d\<lparr>depth := 0,
       status := (let st = (status d AND NOT IRQ_DISABLED) OR IRQ_NOPROBE in
                  if bit st 18 \<and> \<not> bit st 19 then (st AND NOT IRQ_PENDING) OR IRQ_REPLAY else st AND NOT IRQ_MASKED)\<rparr>"

lemma enable_run_nested:
  assumes "line_ready i s" and "depth (descs s i) \<noteq> 0" and "depth (descs s i) \<noteq> 1"
  shows "enable_irq (mx27_irq_fns drv) i s = Inr (upd_desc i (depth_update (\<lambda>n. n - 1)) s)"
  using assms by (simp add: enable_irq_def)

lemma enable_run_last:
  assumes "line_ready i s" and "depth (descs s i) = 1"
  shows "enable_irq (mx27_irq_fns drv) i s = Inr ((upd_desc i reopened s)
    \<lparr>mach := unmask_of i (mach s),
     irqs_resend := (if bit (status (descs s i)) 18 \<and> \<not> bit (status (descs s i)) 19
       then (irqs_resend s)(i := True) else irqs_resend s)\<rparr>)"
proof -
  let ?st = "(status (descs s i) AND NOT IRQ_DISABLED) OR IRQ_NOPROBE"
  let ?t = "upd_desc i (status_update (\<lambda>x. (x AND NOT IRQ_DISABLED) OR IRQ_NOPROBE)) s"
  have rt: "line_ready i ?t" using assms(1) by (intro ready_upd) (simp_all add: status_simps)
  note calls = chip_calls [OF rt]
  have b: "bit ?st 18 = bit (status (descs s i)) 18" "bit ?st 19 = bit (status (descs s i)) 19" by (simp_all add: status_simps)
  have test: "?st AND (IRQ_PENDING OR IRQ_REPLAY) = IRQ_PENDING \<longleftrightarrow> bit (status (descs s i)) 18 \<and> \<not> bit (status (descs s i)) 19"
    unfolding b [symmetric] by (simp add: status_simps)
  have re: "c_retrigger (the_chip i u) = None" if "chip (descs u i) = chip (descs ?t i)" "chip_of u = chip_of ?t" for u
    using calls(8) that by (simp add: the_chip_def)
  show ?thesis
    using assms calls(5) test
    by (cases "descs s i") (simp add: enable_irq_def check_irq_resend_def Let_def re upd_desc_def reopened_def status_simps)
qed

text \<open>A call repeated.\<close>

fun do_times :: "nat \<Rightarrow> ('s \<Rightarrow> 's result) \<Rightarrow> 's \<Rightarrow> 's result" where
  "do_times 0 f s = Inr s"
| "do_times (Suc n) f s = rbind (f s) (do_times n f)"

lemma do_times_last: "do_times (Suc n) f s = rbind (do_times n f s) f"
proof (induction n arbitrary: s)
  case 0
  show ?case by (cases "f s") simp_all
next
  case (Suc n)
  then show ?case by (cases "f s") simp_all
qed

lemma deeper_ready: "line_ready i s \<Longrightarrow> line_ready i (upd_desc i deeper s)"
  by (rule ready_upd) (simp_all add: deeper_def status_simps)

lemma disable_times:
  "line_ready i s \<Longrightarrow> do_times n (disable_irq (mx27_irq_fns drv) i) s = Inr (upd_desc i (deeper ^^ n) s)"
proof (induction n arbitrary: s)
  case 0
  then show ?case by (simp add: upd_desc_def)
next
  case (Suc n)
  show ?case
    using disable_run [OF Suc.prems] Suc.IH [OF deeper_ready [OF Suc.prems]]
    by (simp add: funpow_swap1 o_def)
qed

lemma deeper_pow:
  assumes "depth d = 0" and "0 < n" and "n < 2 ^ 32"
  shows "(deeper ^^ n) d = d\<lparr>depth := of_nat n, status := status d OR IRQ_DISABLED\<rparr>"
  using assms(2,3)
proof (induction n)
  case (Suc n)
  show ?case
  proof (cases "n = 0")
    case False
    then have "(of_nat n :: u32) \<noteq> 0" using Suc.prems by (simp add: word_of_nat_eq_0_iff nat_dvd_not_less)
    then show ?thesis using Suc False by (simp add: deeper_def)
  qed (use assms(1) in \<open>simp add: deeper_def\<close>)
qed simp

lemma enable_times:
  assumes "line_ready i s" and "depth (descs s i) = of_nat n" and "k < n" and "n < 2 ^ 32"
  shows "do_times k (enable_irq (mx27_irq_fns drv) i) s = Inr (upd_desc i (depth_update (\<lambda>_. of_nat (n - k))) s)"
  using assms
proof (induction k arbitrary: s n)
  case 0
  then have "(descs s i)\<lparr>depth := of_nat n\<rparr> = descs s i" by (cases "descs s i") simp
  then show ?case by (simp add: upd_desc_def)
next
  case (Suc k)
  let ?t = "upd_desc i (depth_update (\<lambda>n. n - 1)) s"
  have n: "1 < n" using Suc.prems(3) by simp
  then have "(of_nat n :: u32) \<noteq> 0" "(of_nat n :: u32) \<noteq> 1"
    using Suc.prems(4) unat_small [of n, where 'w = 32] by auto
  then have "enable_irq (mx27_irq_fns drv) i s = Inr ?t"
    using Suc.prems(1,2) by (intro enable_run_nested) simp_all
  moreover have "line_ready i ?t" using Suc.prems(1) by (intro ready_upd) simp_all
  moreover have "depth (descs ?t i) = of_nat (n - 1)" using Suc.prems(2) n by (simp add: of_nat_diff)
  ultimately show ?case using Suc.IH [of ?t "n - 1"] Suc.prems by simp
qed

text \<open>
  C18: \<^verbatim>\<open>disable_irq\<close> and \<^verbatim>\<open>enable_irq\<close> nest: after \<open>n\<close> calls of the first the line is disabled and stays
  so through fewer than \<open>n\<close> calls of the second; the \<open>n\<close>-th opens it again.  Disabling is lazy, so
  the controller is not touched until the line is unmasked at the end.
\<close>

theorem disable_enable_nest:
  assumes "line_ready i s" and "depth (descs s i) = 0" and "0 < n" and "n < 2 ^ 32"
  shows "\<exists>s1. do_times n (disable_irq (mx27_irq_fns drv) i) s = Inr s1 \<and>
    (\<forall>k<n. \<exists>t. do_times k (enable_irq (mx27_irq_fns drv) i) s1 = Inr t \<and> bit (status (descs t i)) 17 \<and> mach t = mach s) \<and>
    (\<exists>s2. do_times n (enable_irq (mx27_irq_fns drv) i) s1 = Inr s2 \<and> depth (descs s2 i) = 0 \<and>
      \<not> bit (status (descs s2 i)) 17 \<and> mach s2 = unmask_of i (mach s))"
proof -
  let ?s1 = "upd_desc i (deeper ^^ n) s" and ?en = "enable_irq (mx27_irq_fns drv) i"
  have d: "descs ?s1 i = (descs s i)\<lparr>depth := of_nat n, status := status (descs s i) OR IRQ_DISABLED\<rparr>"
    using deeper_pow [OF assms(2-4)] by simp
  have r: "line_ready i ?s1"
    by (rule ready_upd [OF assms(1)]) (use d in \<open>simp_all add: status_simps\<close>)
  have times: "do_times k ?en ?s1 = Inr (upd_desc i (depth_update (\<lambda>_. of_nat (n - k))) ?s1)" if "k < n" for k
    using enable_times [OF r _ that assms(4)] d by simp
  obtain m where m: "n = Suc m" using assms(3) by (cases n) auto
  let ?t = "upd_desc i (depth_update (\<lambda>_. 1)) ?s1"
  have rt: "line_ready i ?t" using r by (rule ready_upd) simp_all
  have "do_times n ?en ?s1 = ?en ?t" unfolding m do_times_last using times [of m] m by simp
  then have last: "\<exists>s2. do_times n ?en ?s1 = Inr s2 \<and> depth (descs s2 i) = 0 \<and>
      \<not> bit (status (descs s2 i)) 17 \<and> mach s2 = unmask_of i (mach s)"
    using enable_run_last [OF rt] by (simp add: reopened_def Let_def status_simps)
  have "\<forall>k<n. \<exists>t. do_times k ?en ?s1 = Inr t \<and> bit (status (descs t i)) 17 \<and> mach t = mach s"
    using times d by (simp add: status_simps)
  then show ?thesis using disable_times [OF assms(1)] last by blast
qed

section \<open>A machine in service\<close>

text \<open>
  C19: booting the interrupt code works: \<^verbatim>\<open>init_IRQ\<close> with the AVIC's part and then \<^verbatim>\<open>mxc_gpio_init\<close> return.
  Every line of the AVIC and of the six ports then has its chip and flow handler and can be
  requested, none is enabled except the chained line of the ports, and where the interrupt mask
  register holds what is written no pin can interrupt yet.
\<close>

theorem irq_boot:
  assumes "\<not> initialized m"
  shows "\<exists>s s'. init_IRQ (mxc_init_irq drv) (mx27_irq_boot m) = Inr s \<and> mxc_gpio_init drv s = Inr (0, s') \<and> in_service s' \<and>
    (\<forall>p < 6. storage (mio m) (port_base p + GPIO_IMR) \<longrightarrow> gpio_pending p (mach s') = 0)"
  using avic_init_run [of drv m] gpio_init_run [OF _ assms] by blast

text \<open>Plain registers, a port table not yet filled.\<close>

definition demo_mach :: mx27_mach where
  "demo_mach = \<lparr>mio = \<lparr>mem = (\<lambda>_. 0), wsem = (\<lambda>_ _ v. v), tick = (\<lambda>m. m)\<rparr>,
     ports = (\<lambda>_. \<lparr>p_num = 0, p_base = 0, p_irq = 0, p_virtual_irq_start = 0, p_reserved_map = 0, p_irq_is_level_map = 0\<rparr>),
     initialized = False\<rparr>"

text \<open>Device handlers that do nothing and claim every interrupt.\<close>

definition demo_handlers :: plain_drivers where
  "demo_handlers = (\<lambda>_ _ _ m. (IRQ_HANDLED, m))"

abbreviation demo_drv :: drivers where
  "demo_drv \<equiv> plain demo_handlers"

theorem irq_boot_witness:
  "\<exists>s s'. init_IRQ (mxc_init_irq demo_drv) (mx27_irq_boot demo_mach) = Inr s \<and> mxc_gpio_init demo_drv s = Inr (0, s') \<and> in_service s' \<and>
    (\<forall>p < 6. storage (mio demo_mach) (port_base p + GPIO_IMR) \<longrightarrow> gpio_pending p (mach s') = 0)"
  by (rule irq_boot) (simp add: demo_mach_def)

text \<open>A line of the machine right after boot.\<close>

lemma demo_served: "\<exists>s. in_service s"
  using avic_init_run [of demo_drv demo_mach] gpio_init_run [of demo_mach _ demo_drv] by (force simp: demo_mach_def)

theorem disable_enable_nest_witness:
  "\<exists>s s1. do_times 3 (disable_irq (mx27_irq_fns demo_drv) 70) s = Inr s1 \<and>
    (\<forall>k<3. \<exists>t. do_times k (enable_irq (mx27_irq_fns demo_drv) 70) s1 = Inr t \<and> bit (status (descs t 70)) 17 \<and> mach t = mach s) \<and>
    (\<exists>s2. do_times 3 (enable_irq (mx27_irq_fns demo_drv) 70) s1 = Inr s2 \<and> depth (descs s2 70) = 0 \<and>
      \<not> bit (status (descs s2 70)) 17 \<and> mach s2 = unmask_of 70 (mach s))"
proof -
  obtain s where s: "in_service s" using demo_served by blast
  let ?s = "upd_desc 70 (depth_update (\<lambda>_. 0)) s"
  have "line_ready 70 ?s" by (rule ready_upd [OF service_ready [OF s]]) simp_all
  from disable_enable_nest [OF this, of 3 demo_drv] show ?thesis by - (rule exI [of _ ?s], simp)
qed

section \<open>Delivery\<close>

lemma fns_chip [simp]:
  "call_chip (mx27_irq_fns drv) = call_chip mx27_chip_fns"
  "call_action (mx27_irq_fns drv) = mx27_action drv (mx27_dispatch drv IRQ_DEPTH)"
  by (simp_all add: mx27_irq_fns_def mx27_fns_at_def)

lemma chip_calls_drv:
  "run_chip_fn (mx27_irq_fns drv) = run_chip_fn (mx27_irq_fns drv')"
  "mask_ack_irq (mx27_irq_fns drv) = mask_ack_irq (mx27_irq_fns drv')"
proof -
  show run: "run_chip_fn (mx27_irq_fns drv) = run_chip_fn (mx27_irq_fns drv')"
    unfolding run_chip_fn_def fns_chip ..
  show "mask_ack_irq (mx27_irq_fns drv) = mask_ack_irq (mx27_irq_fns drv')"
    unfolding mask_ack_irq_def run ..
qed

lemma mask_ack_descs: "mask_ack_irq (mx27_irq_fns drv) i s = Inr s' \<Longrightarrow> descs s' = descs s"
  by (auto simp: mask_ack_irq_def rbind_eq_Inr split: option.splits dest!: mx27_irq.run_chip_frame)

lemma kstat_descs: "kstat_inc i s = Inr s' \<Longrightarrow> descs s' = descs s"
  by (auto simp: kstat_inc_def split: if_splits)

lemma rbind_same: "(\<And>x. m = Inr x \<Longrightarrow> f x = g x) \<Longrightarrow> rbind m f = rbind m g"
  by (cases m) auto

text \<open>What an interrupt on a disabled line of the machine leaves: noted as pending, masked, acknowledged.\<close>

lemma level_while_disabled:
  assumes "line_ready i s" and "bit (status (descs s i)) 17"
  shows "\<exists>s'. handle_level_irq (mx27_irq_fns drv) i s = Inr s' \<and> mach s' = ack_of i (mask_of i (mach s)) \<and>
    (has_status i IRQ_INPROGRESS s \<or> has_status i IRQ_PENDING s')"
  using chip_calls(4) [OF assms(1), of drv] ready_nr [OF assms(1)] assms(2)
  by (simp add: handle_level_irq_def kstat_inc_def Let_def status_simps)

lemma edge_is_noted:
  assumes "line_ready i s" and "bit (status (descs s i)) 17 \<or> bit (status (descs s i)) 16"
  shows "\<exists>s'. handle_edge_irq (mx27_irq_fns drv) i s = Inr s' \<and> mach s' = ack_of i (mask_of i (mach s)) \<and>
    has_status i IRQ_PENDING s' \<and> depth (descs s' i) = depth (descs s i) \<and> action (descs s' i) = action (descs s i)"
proof -
  let ?t = "set_status i (IRQ_PENDING OR IRQ_MASKED) (clr_status i (IRQ_REPLAY OR IRQ_WAITING) s)"
  have "line_ready i ?t" using assms(1) by (simp add: line_ready_def status_simps)
  from chip_calls(4) [OF this, of drv] assms(2) show ?thesis
    unfolding handle_edge_irq_def Let_def by (auto simp: status_simps)
qed

text \<open>
  C21: no device handler runs on a disabled line: whatever the drivers' handlers are, the flow
  handler of a disabled line (a chained line apart) does the same thing.  On every line of the AVIC
  and of the ports, level or edge, that is to mask and acknowledge the interrupt at the controller
  and to note it as pending; only a level interrupt that comes in while its own handlers
  are still running is not noted.
\<close>

theorem disabled_line_runs_no_driver:
  assumes "has_status i IRQ_DISABLED s" and "\<forall>f. handle_irq (descs s i) \<noteq> Some (Flow f)"
  shows "desc_handle_irq (mx27_irq_fns drv) i s = desc_handle_irq (mx27_irq_fns drv') i s \<and>
    (line_ready i s \<and> handle_irq (descs s i) \<in> {Some handle_edge_irq_fn, Some handle_level_irq_fn} \<longrightarrow>
      (\<exists>s'. desc_handle_irq (mx27_irq_fns drv) i s = Inr s' \<and> mach s' = ack_of i (mask_of i (mach s)) \<and>
        (has_status i IRQ_PENDING s' \<or>
          handle_irq (descs s i) = Some handle_level_irq_fn \<and> has_status i IRQ_INPROGRESS s)))"
proof
  have b: "bit (status (descs s i)) 17" using assms(1) by (simp add: status_simps)
  note calls = chip_calls_drv [of drv drv']
  let ?F = "mx27_irq_fns drv" and ?G = "mx27_irq_fns drv'"
  have simple: "handle_simple_irq ?F i s = handle_simple_irq ?G i s"
    unfolding handle_simple_irq_def Let_def
    by (intro if_cong refl rbind_same) (auto dest!: kstat_descs simp: status_simps b)
  have level: "handle_level_irq ?F i s = handle_level_irq ?G i s"
    unfolding handle_level_irq_def Let_def calls
    by (intro if_cong refl rbind_same) (auto dest!: kstat_descs mask_ack_descs simp: status_simps b)
  have eoi: "handle_fasteoi_irq ?F i s = handle_fasteoi_irq ?G i s"
    unfolding handle_fasteoi_irq_def Let_def calls
    by (intro arg_cong2 [where f = rbind] if_cong refl rbind_same) (auto dest!: kstat_descs simp: status_simps b)
  have edge: "handle_edge_irq H i s = mask_ack_irq H i (set_status i (IRQ_PENDING OR IRQ_MASKED) (clr_status i (IRQ_REPLAY OR IRQ_WAITING) s))"
    for H unfolding handle_edge_irq_def Let_def using b by (simp add: status_simps)
  show "desc_handle_irq ?F i s = desc_handle_irq ?G i s"
    using assms(2) simple level eoi edge calls
    by (cases "handle_irq (descs s i)") (auto simp: desc_handle_irq_def run_flow_def split: flow.splits)
  show "line_ready i s \<and> handle_irq (descs s i) \<in> {Some handle_edge_irq_fn, Some handle_level_irq_fn} \<longrightarrow>
      (\<exists>s'. desc_handle_irq ?F i s = Inr s' \<and> mach s' = ack_of i (mask_of i (mach s)) \<and>
        (has_status i IRQ_PENDING s' \<or> handle_irq (descs s i) = Some handle_level_irq_fn \<and> has_status i IRQ_INPROGRESS s))"
  proof (intro impI, elim conjE)
    assume l: "line_ready i s" and h: "handle_irq (descs s i) \<in> {Some handle_edge_irq_fn, Some handle_level_irq_fn}"
    then show "\<exists>s'. desc_handle_irq ?F i s = Inr s' \<and> mach s' = ack_of i (mask_of i (mach s)) \<and>
        (has_status i IRQ_PENDING s' \<or> handle_irq (descs s i) = Some handle_level_irq_fn \<and> has_status i IRQ_INPROGRESS s)"
      using level_while_disabled [OF l b, of drv] edge_is_noted [OF l disjI1 [OF b], of drv]
      by (auto simp: desc_handle_irq_def run_flow_def)
  qed
qed

theorem disabled_line_runs_no_driver_witness:
  "\<exists>s s1 s2. (\<forall>i\<in>{20, 70}. desc_handle_irq (mx27_irq_fns demo_drv) i s = desc_handle_irq (mx27_irq_fns (\<lambda>_ _ _ m. Return IRQ_NONE m)) i s) \<and>
    desc_handle_irq (mx27_irq_fns demo_drv) 20 s = Inr s1 \<and> mach s1 = ack_of 20 (mask_of 20 (mach s)) \<and>
    desc_handle_irq (mx27_irq_fns demo_drv) 70 s = Inr s2 \<and> mach s2 = ack_of 70 (mask_of 70 (mach s)) \<and> has_status 70 IRQ_PENDING s2"
proof -
  obtain s where s: "in_service s" using demo_served by blast
  then have d: "has_status 20 IRQ_DISABLED s" "has_status 70 IRQ_DISABLED s"
    and h: "handle_irq (descs s 20) = Some handle_level_irq_fn" "handle_irq (descs s 70) = Some handle_edge_irq_fn"
    by (simp_all add: in_service_def status_simps)
  have n: "\<forall>f. handle_irq (descs s 20) \<noteq> Some (Flow f)" "\<forall>f. handle_irq (descs s 70) \<noteq> Some (Flow f)" by (simp_all add: h)
  note at20 = disabled_line_runs_no_driver [OF d(1) n(1), of demo_drv "\<lambda>_ _ _ m. Return IRQ_NONE m"]
  note at70 = disabled_line_runs_no_driver [OF d(2) n(2), of demo_drv "\<lambda>_ _ _ m. Return IRQ_NONE m"]
  obtain s1 where s1: "desc_handle_irq (mx27_irq_fns demo_drv) 20 s = Inr s1" "mach s1 = ack_of 20 (mask_of 20 (mach s))"
    using at20 [THEN conjunct2] h(1) service_ready [OF s, of 20] by auto
  obtain s2 where s2: "desc_handle_irq (mx27_irq_fns demo_drv) 70 s = Inr s2" "mach s2 = ack_of 70 (mask_of 70 (mach s))"
    "has_status 70 IRQ_PENDING s2"
    using at70 [THEN conjunct2] h(2) service_ready [OF s, of 70] by auto
  show ?thesis
    using at20 [THEN conjunct1] at70 [THEN conjunct1] s1 s2
    by (intro exI [of _ s] exI [of _ s1] exI [of _ s2] conjI ballI) auto
qed

text \<open>The handlers of the actions of a line, one after the other, with the results or-ed.\<close>

fun run_drivers :: "plain_drivers \<Rightarrow> u32 \<Rightarrow> mx27_fn irqaction list \<Rightarrow> u32 \<Rightarrow> mx27_mach \<Rightarrow> u32 \<times> mx27_mach" where
  "run_drivers drv i [] r m = (r, m)"
| "run_drivers drv i (a # as) r m =
     (case a_handler a of
        Driver n \<Rightarrow> (let (r', m') = drv n i (a_dev_id a) m in run_drivers drv i as (r OR r') m')
      | _ \<Rightarrow> (r, m))"

definition driven :: "mx27_fn irqaction list \<Rightarrow> bool" where
  "driven as \<longleftrightarrow> (\<forall>a\<in>set as. \<exists>n. a_handler a = Driver n)"

lemma run_actions_run:
  "driven as \<Longrightarrow> run_actions (mx27_irq_fns (plain drv)) i as r s =
    Inr (fst (run_drivers drv i as r (mach s)), s\<lparr>mach := snd (run_drivers drv i as r (mach s))\<rparr>)"
proof (induction as arbitrary: r s)
  case (Cons a as)
  then obtain n where "a_handler a = Driver n" "driven as" by (auto simp: driven_def)
  then show ?case using Cons.IH by (simp add: Let_def split: prod.split)
qed simp

text \<open>The watch for stuck lines, on the descriptor.\<close>

definition noted :: "u32 \<Rightarrow> (mx27_chip, mx27_fn) irq_desc \<Rightarrow> (mx27_chip, mx27_fn) irq_desc" where
  "noted ret d =
     (let u = (if ret \<noteq> IRQ_HANDLED then irqs_unhandled d + 1 else irqs_unhandled d) in
      if irq_count d + 1 < 100000 then d\<lparr>irq_count := irq_count d + 1, irqs_unhandled := u\<rparr>
      else if 99900 < u then d\<lparr>status := status d OR IRQ_DISABLED, depth := 1, irq_count := 0, irqs_unhandled := 0\<rparr>
      else d\<lparr>irq_count := 0, irqs_unhandled := 0\<rparr>)"

lemma noted_simps [simp]:
  "chip (noted r d) = chip d" "handle_irq (noted r d) = handle_irq d" "action (noted r d) = action d"
  by (simp_all add: noted_def Let_def)

lemma noted_bit: "n \<noteq> 17 \<Longrightarrow> bit (status (noted r d)) n = bit (status d) n"
  by (simp add: noted_def Let_def status_simps)

text \<open>When the watch switches the line off, after handlers that return \<open>ret\<close>.\<close>

definition watch_fires :: "bool \<Rightarrow> u32 \<Rightarrow> (mx27_chip, mx27_fn) irq_desc \<Rightarrow> bool" where
  "watch_fires nodebug ret d \<longleftrightarrow>
     \<not> nodebug \<and> 100000 \<le> irq_count d + 1 \<and> 99900 < irqs_unhandled d + (if ret \<noteq> IRQ_HANDLED then 1 else 0)"

lemma noted_disables:
  assumes "\<not> bit (status d) 17"
  shows "bit (status (noted ret d)) 17 \<longleftrightarrow> watch_fires False ret d"
    and "depth (noted ret d) = (if watch_fires False ret d then 1 else depth d)"
  using assms by (auto simp: noted_def watch_fires_def Let_def status_simps not_less)

lemma note_run:
  assumes "line_ready i s" and "irqfixup s = 0"
  shows "note_interrupt (mx27_irq_fns drv) i ret s = Inr (upd_desc i (noted ret) s)"
proof -
  let ?u = "if ret \<noteq> IRQ_HANDLED then irqs_unhandled (descs s i) + 1 else irqs_unhandled (descs s i)"
  let ?s1 = "if ret \<noteq> IRQ_HANDLED then upd_desc i (irqs_unhandled_update (\<lambda>n. n + 1)) s else s"
  let ?s2 = "upd_desc i (irq_count_update (\<lambda>n. n + 1)) ?s1"
  let ?s3 = "upd_desc i (irq_count_update (\<lambda>_. 0)) ?s2"
  let ?s4 = "upd_desc i (depth_update (\<lambda>_. 1)) (set_status i IRQ_DISABLED ?s3)"
  have r4: "line_ready i ?s4" using assms(1) by (simp add: line_ready_def status_simps)
  have dis: "chip_disable (mx27_irq_fns drv) i ?s4 = Inr ?s4" by (rule chip_calls(6) [OF r4])
  have f: "irqfixup ?s1 = 0" using assms(2) by simp
  have step: "note_interrupt (mx27_irq_fns drv) i ret s =
    (if irq_count (descs ?s2 i) < 100000 then Inr ?s2
     else if irqs_unhandled (descs ?s3 i) > 99900 then Inr (upd_desc i (irqs_unhandled_update (\<lambda>_. 0)) ?s4)
     else Inr (upd_desc i (irqs_unhandled_update (\<lambda>_. 0)) ?s3))"
    unfolding note_interrupt_def Let_def using f dis by (simp del: the_chip_upd upd_desc_twice)
  show ?thesis unfolding step by (cases "descs s i") (auto simp: upd_desc_def noted_def Let_def)
qed

section \<open>Stuck lines\<close>

definition unhandled :: "u32 list \<Rightarrow> nat" where
  "unhandled rets = length (filter (\<lambda>r. r \<noteq> IRQ_HANDLED) rets)"

lemma note_all:
  "line_ready i s \<Longrightarrow> irqfixup s = 0 \<Longrightarrow>
    rfold (note_interrupt (mx27_irq_fns drv) i) rets s = Inr (upd_desc i (fold noted rets) s)"
proof (induction rets arbitrary: s)
  case (Cons r rets)
  have "line_ready i (upd_desc i (noted r) s)" using Cons.prems(1) by (rule ready_upd) (simp_all add: noted_bit)
  then show ?case using Cons note_run [OF Cons.prems] by (simp add: o_def)
qed (simp add: upd_desc_def)

lemma noted_below:
  assumes "irq_count d = 0" and "irqs_unhandled d = 0" and "length rets < 100000"
  shows "fold noted rets d = d\<lparr>irq_count := of_nat (length rets), irqs_unhandled := of_nat (unhandled rets)\<rparr>"
  using assms(3)
proof (induction rets rule: rev_induct)
  case Nil
  then show ?case using assms(1,2) by (cases d) (simp add: unhandled_def)
next
  case (snoc r rets)
  have "(of_nat (length rets) :: u32) + 1 = of_nat (Suc (length rets))" by simp
  then have "(of_nat (length rets) :: u32) + 1 < 100000"
    using snoc.prems unat_small [of "Suc (length rets)", where 'w = 32] by (simp add: u32_less del: of_nat_Suc)
  then show ?case using snoc by (simp add: noted_def Let_def unhandled_def)
qed

lemma unhandled_le: "unhandled rets \<le> length rets"
  by (simp add: unhandled_def)

text \<open>
  C22: a stuck line is switched off exactly when it should be: over one hundred thousand
  interrupts the line stays on until the last, and then it is disabled if and only if more than
  99,900 of them were not handled (the comment in the source says 99,900, which is not yet enough);
  either way the watch starts over.
\<close>

theorem stuck_line_disabled:
  assumes "line_ready i s" and "irqfixup s = 0" and "irq_count (descs s i) = 0" and "irqs_unhandled (descs s i) = 0"
    and "\<not> has_status i IRQ_DISABLED s" and "length rets = 100000"
  shows "(\<forall>k<100000. \<exists>t. rfold (note_interrupt (mx27_irq_fns drv) i) (take k rets) s = Inr t \<and> \<not> has_status i IRQ_DISABLED t) \<and>
    (\<exists>s'. rfold (note_interrupt (mx27_irq_fns drv) i) rets s = Inr s' \<and>
      (has_status i IRQ_DISABLED s' \<longleftrightarrow> 99900 < unhandled rets) \<and>
      irq_count (descs s' i) = 0 \<and> irqs_unhandled (descs s' i) = 0)"
proof
  have b: "\<not> bit (status (descs s i)) 17" using assms(5) by (simp add: status_simps)
  note all = note_all [OF assms(1,2)]
  show "\<forall>k<100000. \<exists>t. rfold (note_interrupt (mx27_irq_fns drv) i) (take k rets) s = Inr t \<and> \<not> has_status i IRQ_DISABLED t"
  proof (intro allI impI)
    fix k :: nat assume "k < 100000"
    then show "\<exists>t. rfold (note_interrupt (mx27_irq_fns drv) i) (take k rets) s = Inr t \<and> \<not> has_status i IRQ_DISABLED t"
      using all [of drv "take k rets"] noted_below [OF assms(3,4), of "take k rets"] b assms(6) by (simp add: status_simps)
  qed
  obtain pre r where rets: "rets = pre @ [r]" "length pre = 99999"
    using assms(6) by (cases rets rule: rev_cases) auto
  have pre: "fold noted pre (descs s i) = (descs s i)\<lparr>irq_count := 99999, irqs_unhandled := of_nat (unhandled pre)\<rparr>"
    using noted_below [OF assms(3,4), of pre] rets(2) by simp
  define u :: u32 where "u = (if r \<noteq> IRQ_HANDLED then of_nat (unhandled pre) + 1 else of_nat (unhandled pre))"
  have "u = of_nat (unhandled rets)" by (simp add: u_def rets(1) unhandled_def)
  then have u: "99900 < u \<longleftrightarrow> 99900 < unhandled rets"
    using unat_small [of "unhandled rets", where 'w = 32] unhandled_le [of rets] assms(6) by (simp add: u32_less)
  have "fold noted rets (descs s i) = noted r ((descs s i)\<lparr>irq_count := 99999, irqs_unhandled := of_nat (unhandled pre)\<rparr>)"
    by (simp add: rets(1) pre)
  also have "\<dots> = (if 99900 < u
      then (descs s i)\<lparr>status := status (descs s i) OR IRQ_DISABLED, depth := 1, irq_count := 0, irqs_unhandled := 0\<rparr>
      else (descs s i)\<lparr>irq_count := 0, irqs_unhandled := 0\<rparr>)"
    unfolding noted_def Let_def u_def by simp
  finally show "\<exists>s'. rfold (note_interrupt (mx27_irq_fns drv) i) rets s = Inr s' \<and>
      (has_status i IRQ_DISABLED s' \<longleftrightarrow> 99900 < unhandled rets) \<and>
      irq_count (descs s' i) = 0 \<and> irqs_unhandled (descs s' i) = 0"
    using all [of drv rets] b u by (simp add: status_simps)
qed

text \<open>A line in use: enabled, with the counters of the watch at zero.\<close>

definition opened :: "u32 \<Rightarrow> mx27_irqsys \<Rightarrow> mx27_irqsys" where
  "opened i s = upd_desc i (\<lambda>d. d\<lparr>status := IRQ_DELAYED_DISABLE, depth := 0, irq_count := 0, irqs_unhandled := 0\<rparr>) (s\<lparr>irqfixup := 0\<rparr>)"

lemma opened_facts:
  assumes "in_service s" and "i < 256"
  shows "line_ready i (opened i s)" "irqfixup (opened i s) = 0" "irq_count (descs (opened i s) i) = 0"
    "irqs_unhandled (descs (opened i s) i) = 0" "\<not> has_status i IRQ_DISABLED (opened i s)"
  using service_ready [OF assms] by (simp_all add: opened_def line_ready_def status_simps)

theorem stuck_line_disabled_witness:
  "\<exists>s. (\<forall>k<100000. \<exists>t. rfold (note_interrupt (mx27_irq_fns demo_drv) 70) (take k (replicate 100000 IRQ_NONE)) s = Inr t
      \<and> \<not> has_status 70 IRQ_DISABLED t) \<and>
    (\<exists>s'. rfold (note_interrupt (mx27_irq_fns demo_drv) 70) (replicate 100000 IRQ_NONE) s = Inr s' \<and>
      (has_status 70 IRQ_DISABLED s' \<longleftrightarrow> 99900 < unhandled (replicate 100000 IRQ_NONE)) \<and>
      irq_count (descs s' 70) = 0 \<and> irqs_unhandled (descs s' 70) = 0)"
proof -
  obtain s where s: "in_service s" using demo_served by blast
  have "(70::u32) < 256" by simp
  from stuck_line_disabled [OF opened_facts [OF s this], of "replicate 100000 IRQ_NONE" demo_drv]
  show ?thesis by (intro exI) simp
qed

section \<open>One interrupt\<close>

lemma kstat_run: "i < NR_IRQS \<Longrightarrow> kstat_inc i s = Inr (s\<lparr>kstat_irqs := (kstat_irqs s)(i := kstat_irqs s i + 1)\<rparr>)"
  by (simp add: kstat_inc_def)

lemma ready_kstat [simp]: "line_ready i (s\<lparr>kstat_irqs := k\<rparr>) = line_ready i s"
  by (simp add: line_ready_def)

lemma event_run:
  assumes "line_ready i s" and "irqfixup s = 0" and "driven as" and "as \<noteq> []"
  shows "run_event (mx27_irq_fns (plain drv)) i as s =
    Inr ((upd_desc i (if noirqdebug s then id else noted (fst (run_drivers drv i as IRQ_NONE (mach s)))) s)
      \<lparr>mach := snd (run_drivers drv i as IRQ_NONE (mach s))\<rparr>)"
proof -
  let ?r = "fst (run_drivers drv i as IRQ_NONE (mach s))" and ?m = "snd (run_drivers drv i as IRQ_NONE (mach s))"
  have ev: "handle_IRQ_event (mx27_irq_fns (plain drv)) i as s = Inr (?r, s\<lparr>mach := ?m\<rparr>)"
    using assms(3,4) by (simp add: handle_IRQ_event_def run_actions_run)
  have "note_interrupt (mx27_irq_fns (plain drv)) i ?r (s\<lparr>mach := ?m\<rparr>) = Inr (upd_desc i (noted ?r) (s\<lparr>mach := ?m\<rparr>))"
    by (rule note_run) (simp_all add: assms)
  then show ?thesis using ev by (cases "noirqdebug s") (simp_all add: run_event_def upd_desc_def)
qed

text \<open>The descriptor after the handlers, but for the in-progress mark.\<close>

definition watched :: "bool \<Rightarrow> u32 \<Rightarrow> (mx27_chip, mx27_fn) irq_desc \<Rightarrow> (mx27_chip, mx27_fn) irq_desc" where
  "watched nodebug ret d = status_update (\<lambda>x. x AND NOT IRQ_INPROGRESS) (if nodebug then d else noted ret d)"

lemma watched_facts:
  "chip (watched nd r d) = chip d" "handle_irq (watched nd r d) = handle_irq d" "action (watched nd r d) = action d"
  "bit (status (watched nd r d)) 28 = bit (status d) 28" "\<not> bit (status (watched nd r d)) 16"
  "bit (status (watched nd r d)) 18 = bit (status d) 18"
  "\<not> bit (status d) 17 \<Longrightarrow> bit (status (watched nd r d)) 17 \<longleftrightarrow> watch_fires nd r d"
  "\<not> bit (status d) 17 \<Longrightarrow> depth (watched nd r d) = (if watch_fires nd r d then 1 else depth d)"
  using noted_disables [of d r] by (auto simp: watched_def noted_bit status_simps watch_fires_def)

lemma watch_fires_cong:
  "irq_count d' = irq_count d \<Longrightarrow> irqs_unhandled d' = irqs_unhandled d \<Longrightarrow> watch_fires nd r d' = watch_fires nd r d"
  by (simp add: watch_fires_def)

lemma level_run:
  assumes "line_ready i s" and "irqfixup s = 0" and "driven (action (descs s i))" and "action (descs s i) \<noteq> []"
    and "\<not> bit (status (descs s i)) 16" and "\<not> bit (status (descs s i)) 17"
    and "(r, m) = run_drivers drv i (action (descs s i)) IRQ_NONE (ack_of i (mask_of i (mach s)))"
    and "fires = watch_fires (noirqdebug s) r (descs s i)"
  shows "\<exists>d k. handle_level_irq (mx27_irq_fns (plain drv)) i s = Inr ((upd_desc i (\<lambda>_. d) s)\<lparr>kstat_irqs := k,
      mach := (if fires then m else unmask_of i m)\<rparr>) \<and>
    k = (kstat_irqs s)(i := kstat_irqs s i + 1) \<and>
    handle_irq d = handle_irq (descs s i) \<and> chip d = chip (descs s i) \<and> action d = action (descs s i) \<and>
    bit (status d) 28 \<and> \<not> bit (status d) 16 \<and> \<not> bit (status d) 18 \<and> bit (status d) 17 = fires \<and>
    depth d = (if fires then 1 else depth (descs s i))"
proof -
  let ?F = "mx27_irq_fns (plain drv)" and ?as = "action (descs s i)"
  have nr: "i < NR_IRQS" using assms(1) by (rule ready_nr)
  define s1 where "s1 = s\<lparr>mach := ack_of i (mask_of i (mach s))\<rparr>"
  have m1: "mask_ack_irq ?F i s = Inr s1" unfolding s1_def by (rule chip_calls(4) [OF assms(1)])
  define s2 where "s2 = (clr_status i (IRQ_REPLAY OR IRQ_WAITING) s1)\<lparr>kstat_irqs := (kstat_irqs s)(i := kstat_irqs s i + 1)\<rparr>"
  have k2: "kstat_inc i (clr_status i (IRQ_REPLAY OR IRQ_WAITING) s1) = Inr s2"
    unfolding kstat_run [OF nr] by (simp add: s2_def s1_def)
  define s3 where "s3 = clr_status i IRQ_PENDING (set_status i IRQ_INPROGRESS s2)"
  have as: "action (descs s2 i) = ?as" by (simp add: s2_def s1_def)
  have r3: "line_ready i s3" using assms(1) by (simp add: s3_def s2_def s1_def line_ready_def status_simps)
  have f3: "irqfixup s3 = 0" "noirqdebug s3 = noirqdebug s" "mach s3 = ack_of i (mask_of i (mach s))"
    using assms(2) by (simp_all add: s3_def s2_def s1_def)
  have rm: "run_drivers drv i ?as IRQ_NONE (mach s3) = (r, m)" using assms(7) f3(3) by simp
  define d where "d = watched (noirqdebug s) r (descs s3 i)"
  define s4 where "s4 = (upd_desc i (\<lambda>_. d) s3)\<lparr>mach := m\<rparr>"
  have e4: "\<exists>u. run_event ?F i ?as s3 = Inr u \<and> clr_status i IRQ_INPROGRESS u = s4"
    unfolding event_run [OF r3 f3(1) assms(3,4)] rm f3(2)
    by (simp add: s4_def d_def watched_def upd_desc_def)
  have n3: "\<not> bit (status (descs s3 i)) 17" "\<not> bit (status (descs s3 i)) 18"
    using assms(6) by (simp_all add: s3_def s2_def s1_def status_simps)
  have "watch_fires (noirqdebug s) r (descs s3 i) = fires"
    unfolding assms(8) by (rule watch_fires_cong) (simp_all add: s3_def s2_def s1_def)
  then have dd: "chip d = chip (descs s i)" "handle_irq d = handle_irq (descs s i)" "action d = ?as"
    "bit (status d) 28" "\<not> bit (status d) 16" "\<not> bit (status d) 18" "bit (status d) 17 = fires"
    "depth d = (if fires then 1 else depth (descs s i))"
    using r3 n3 by (simp_all add: d_def watched_facts line_ready_def) (simp_all add: s3_def s2_def s1_def)
  have r4: "line_ready i s4" using assms(1) dd by (simp add: s4_def s3_def s2_def s1_def line_ready_def)
  have d4: "descs s4 i = d" "mach s4 = m" by (simp_all add: s4_def)
  have run: "handle_level_irq ?F i s = (if \<not> fires then chip_unmask ?F i s4 else Inr s4)"
  proof -
    have c1: "\<not> has_status i IRQ_INPROGRESS s1" using assms(5) by (simp add: s1_def status_simps)
    have c2: "\<not> (?as = [] \<or> has_status i IRQ_DISABLED s2)" using assms(4,6) by (simp add: s2_def s1_def status_simps)
    obtain u where u: "run_event ?F i ?as s3 = Inr u" "clr_status i IRQ_INPROGRESS u = s4" using e4 by blast
    show ?thesis
      unfolding handle_level_irq_def m1 rbind_simps if_not_P [OF c1] k2 Let_def as if_not_P [OF c2]
        s3_def [symmetric] u
      using chip_calls(9) [OF r4] d4(1) dd(7) by (simp add: status_simps)
  qed
  have "chip_unmask ?F i s4 = Inr (s4\<lparr>mach := unmask_of i m\<rparr>)" using chip_calls(2) [OF r4] d4 by simp
  then have run': "handle_level_irq ?F i s = Inr (s4\<lparr>mach := (if fires then m else unmask_of i m)\<rparr>)"
    unfolding run using d4(2) by (cases fires) simp_all
  show ?thesis
    by (intro exI [of _ d] exI [of _ "(kstat_irqs s)(i := kstat_irqs s i + 1)"] conjI refl dd)
      (simp add: run' s4_def s3_def s2_def s1_def upd_desc_def)
qed

text \<open>An edge: a line that was masked while its interrupt was pending is opened before its handlers run.\<close>

definition reopen_edge :: "u32 \<Rightarrow> u32 \<Rightarrow> mx27_mach \<Rightarrow> mx27_mach" where
  "reopen_edge i st m = (if bit st 18 \<and> bit st 23 \<and> \<not> bit st 17 then unmask_of i m else m)"

text \<open>A turn of the loop up to the handlers.\<close>

lemma edge_turn_opens:
  assumes "line_ready i s"
  shows "\<exists>g. edge_turn (mx27_irq_fns drv) i s = run_event (mx27_irq_fns drv) i (action (descs s i))
      ((upd_desc i (status_update g) s)\<lparr>mach := reopen_edge i (status (descs s i)) (mach s)\<rparr>) \<and>
    (\<forall>x. \<not> bit (g x) 18 \<and> (\<forall>n. n \<notin> {18, 23} \<longrightarrow> bit (g x) n = bit x n))"
proof -
  let ?F = "mx27_irq_fns drv" and ?as = "action (descs s i)" and ?st = "status (descs s i)"
  define g where "g = (\<lambda>x. if bit ?st 18 \<and> bit ?st 23 \<and> \<not> bit ?st 17 then x AND NOT IRQ_MASKED else x :: u32)"
  define t where "t = (upd_desc i (status_update g) s)\<lparr>mach := reopen_edge i ?st (mach s)\<rparr>"
  have open_it: "(if ?st AND (IRQ_PENDING OR IRQ_MASKED OR IRQ_DISABLED) = IRQ_PENDING OR IRQ_MASKED
      then rbind (chip_unmask ?F i s) (\<lambda>s. Inr (clr_status i IRQ_MASKED s)) else Inr s) = Inr t"
    using chip_calls(2) [OF assms, of drv]
    by (auto simp: status_simps t_def g_def reopen_edge_def upd_desc_def)
  have "edge_turn ?F i s = run_event ?F i ?as (clr_status i IRQ_PENDING t)"
    unfolding edge_turn_def Let_def open_it rbind_simps ..
  moreover have "clr_status i IRQ_PENDING t =
      (upd_desc i (status_update (\<lambda>x. g x AND NOT IRQ_PENDING)) s)\<lparr>mach := reopen_edge i ?st (mach s)\<rparr>"
    by (simp add: t_def o_def)
  ultimately show ?thesis
    by (intro exI [of _ "\<lambda>x. g x AND NOT IRQ_PENDING"]) (auto simp: g_def status_simps)
qed

lemma edge_turn_run:
  assumes "line_ready i s" and "irqfixup s = 0" and "driven (action (descs s i))" and "action (descs s i) \<noteq> []"
    and "\<not> bit (status (descs s i)) 17"
    and "(r, m) = run_drivers drv i (action (descs s i)) IRQ_NONE (reopen_edge i (status (descs s i)) (mach s))"
    and "fires = watch_fires (noirqdebug s) r (descs s i)"
  shows "\<exists>d. edge_turn (mx27_irq_fns (plain drv)) i s = Inr ((upd_desc i (\<lambda>_. d) s)\<lparr>mach := m\<rparr>) \<and>
    handle_irq d = handle_irq (descs s i) \<and> chip d = chip (descs s i) \<and> action d = action (descs s i) \<and>
    bit (status d) 28 \<and> \<not> bit (status d) 18 \<and> bit (status d) 17 = fires \<and> depth d = (if fires then 1 else depth (descs s i))"
proof -
  let ?F = "mx27_irq_fns (plain drv)"
  obtain g where g: "edge_turn ?F i s = run_event ?F i (action (descs s i))
      ((upd_desc i (status_update g) s)\<lparr>mach := reopen_edge i (status (descs s i)) (mach s)\<rparr>)"
    "\<And>x. \<not> bit (g x) 18" "\<And>x n. n \<notin> {18, 23} \<Longrightarrow> bit (g x) n = bit x n"
    using edge_turn_opens [OF assms(1), of "plain drv"] by blast
  define u where "u = (upd_desc i (status_update g) s)\<lparr>mach := reopen_edge i (status (descs s i)) (mach s)\<rparr>"
  have ru: "line_ready i u" using assms(1) g(3) by (simp add: u_def line_ready_def)
  have fu: "irqfixup u = 0" "mach u = reopen_edge i (status (descs s i)) (mach s)" "noirqdebug u = noirqdebug s"
    using assms(2) by (simp_all add: u_def)
  have rm: "run_drivers drv i (action (descs s i)) IRQ_NONE (mach u) = (r, m)" using assms(6) fu(2) by simp
  define d where "d = (if noirqdebug s then descs u i else noted r (descs u i))"
  have "run_event ?F i (action (descs s i)) u = Inr ((upd_desc i (\<lambda>_. d) s)\<lparr>mach := m\<rparr>)"
    unfolding event_run [OF ru fu(1) assms(3,4)] rm fu(3) by (simp add: d_def u_def upd_desc_def)
  moreover have n: "\<not> bit (status (descs u i)) 17" using assms(5) g(3) by (simp add: u_def)
  moreover have "watch_fires nd r (descs u i) = watch_fires nd r (descs s i)" for nd
    by (rule watch_fires_cong) (simp_all add: u_def)
  ultimately show ?thesis
    using g ru noted_disables [OF n, of r] assms(7) unfolding u_def [symmetric]
    by (intro exI [of _ d]) (auto simp: d_def noted_bit line_ready_def watch_fires_def u_def)
qed

lemma edge_run:
  assumes "line_ready i s" and "irqfixup s = 0" and "driven (action (descs s i))" and "action (descs s i) \<noteq> []"
    and "\<not> bit (status (descs s i)) 16" and "\<not> bit (status (descs s i)) 17"
    and "(r, m) = run_drivers drv i (action (descs s i)) IRQ_NONE (reopen_edge i (status (descs s i)) (ack_of i (mach s)))"
    and "fires = watch_fires (noirqdebug s) r (descs s i)"
  shows "\<exists>d. handle_edge_irq (mx27_irq_fns (plain drv)) i s =
      Inr ((upd_desc i (\<lambda>_. d) s)\<lparr>kstat_irqs := (kstat_irqs s)(i := kstat_irqs s i + 1), mach := m\<rparr>) \<and>
    handle_irq d = handle_irq (descs s i) \<and> chip d = chip (descs s i) \<and> action d = action (descs s i) \<and>
    bit (status d) 28 \<and> \<not> bit (status d) 16 \<and> \<not> bit (status d) 18 \<and> bit (status d) 17 = fires \<and>
    depth d = (if fires then 1 else depth (descs s i))"
proof -
  let ?F = "mx27_irq_fns (plain drv)" and ?as = "action (descs s i)"
  have nr: "i < NR_IRQS" using assms(1) by (rule ready_nr)
  define s1 where "s1 = clr_status i (IRQ_REPLAY OR IRQ_WAITING) s"
  have c1: "\<not> (has_status i (IRQ_INPROGRESS OR IRQ_DISABLED) s1 \<or> action (descs s1 i) = [])"
    using assms(4-6) by (simp add: s1_def status_simps)
  define s2 where "s2 = s1\<lparr>kstat_irqs := (kstat_irqs s)(i := kstat_irqs s i + 1)\<rparr>"
  have k2: "kstat_inc i s1 = Inr s2" unfolding kstat_run [OF nr] by (simp add: s2_def s1_def)
  have r2: "line_ready i s2" using assms(1) by (simp add: s2_def s1_def line_ready_def status_simps)
  define s3 where "s3 = set_status i IRQ_INPROGRESS (s2\<lparr>mach := ack_of i (mach s2)\<rparr>)"
  have a3: "chip_ack ?F i s2 = Inr (s2\<lparr>mach := ack_of i (mach s2)\<rparr>)" by (rule chip_calls(3) [OF r2])
  have r3: "line_ready i s3" using r2 by (simp add: s3_def line_ready_def status_simps)
  have f3: "irqfixup s3 = 0" "action (descs s3 i) = ?as" "mach s3 = ack_of i (mach s)" "noirqdebug s3 = noirqdebug s"
    "\<not> bit (status (descs s3 i)) 17" "depth (descs s3 i) = depth (descs s i)" "handle_irq (descs s3 i) = handle_irq (descs s i)"
    "chip (descs s3 i) = chip (descs s i)"
    using assms(2,6) by (simp_all add: s3_def s2_def s1_def status_simps)
  have st3: "reopen_edge i (status (descs s3 i)) = reopen_edge i (status (descs s i))"
    by (simp add: s3_def s2_def s1_def reopen_edge_def status_simps fun_eq_iff)
  have w3: "watch_fires (noirqdebug s3) r (descs s3 i) = fires"
    unfolding assms(8) f3(4) by (rule watch_fires_cong) (simp_all add: s3_def s2_def s1_def)
  obtain d where turn: "edge_turn ?F i s3 = Inr ((upd_desc i (\<lambda>_. d) s3)\<lparr>mach := m\<rparr>)"
    and d: "handle_irq d = handle_irq (descs s i)" "chip d = chip (descs s i)" "action d = ?as" "bit (status d) 28"
      "\<not> bit (status d) 18" "bit (status d) 17 = fires" "depth d = (if fires then 1 else depth (descs s i))"
    using edge_turn_run [OF r3 f3(1) _ _ f3(5), of r m drv fires] assms(3,4,7) w3 unfolding f3 st3 by auto
  define d' where "d' = status_update (\<lambda>x. x AND NOT IRQ_INPROGRESS) d"
  have "edge_loop ?F i s3 = Some (Inr ((upd_desc i (\<lambda>_. d') s3)\<lparr>mach := m\<rparr>))"
    using assms(4) d(5) by (subst edge_loop.simps) (simp add: f3(2) turn status_simps d'_def)
  then have "handle_edge_irq ?F i s = Inr ((upd_desc i (\<lambda>_. d') s3)\<lparr>mach := m\<rparr>)"
    unfolding handle_edge_irq_def Let_def s1_def [symmetric] if_not_P [OF c1] k2 rbind_simps a3 s3_def [symmetric] by simp
  also have "\<dots> = Inr ((upd_desc i (\<lambda>_. d') s)\<lparr>kstat_irqs := (kstat_irqs s)(i := kstat_irqs s i + 1), mach := m\<rparr>)"
    by (simp add: s3_def s2_def s1_def upd_desc_def)
  finally show ?thesis
    using d by (intro exI [of _ d']) (simp add: d'_def status_simps)
qed

end
