(* ===== verification/Mx27_Irq_Delivery.thy ===== *)
theory Mx27_Irq_Delivery
  imports Mx27_Irq
begin

text \<open>
  What becomes of an interrupt on the lines of the i.MX27: delivery to the drivers on an open line,
  replay on a line that was disabled when it came, and the return of the interrupt entry.
\<close>

section \<open>Delivery on an open line\<close>

text \<open>A line drivers have asked for, open, and not being handled.\<close>

definition open_line :: "u32 \<Rightarrow> mx27_irqsys \<Rightarrow> bool" where
  "open_line i s \<longleftrightarrow> line_ready i s \<and> irqfixup s = 0 \<and> driven (action (descs s i)) \<and> action (descs s i) \<noteq> [] \<and>
     \<not> has_status i (IRQ_INPROGRESS OR IRQ_DISABLED) s"

lemma open_lineD:
  assumes "open_line i s"
  shows "line_ready i s" "irqfixup s = 0" "driven (action (descs s i))" "action (descs s i) \<noteq> []"
    "\<not> bit (status (descs s i)) 16" "\<not> bit (status (descs s i)) 17"
  using assms by (simp_all add: open_line_def status_simps)

text \<open>
  C23: an interrupt on an open line is delivered: the handlers of all actions run once, in the order
  of the list.  On a level line they run with the line masked and acknowledged, and the line is opened again
  unless the watch for stuck lines switched it off; on an edge line they run with the line open and
  acknowledged.  The line is disabled afterwards exactly when the watch fires: it is not switched
  off by \<^verbatim>\<open>noirqdebug\<close>, this is the hundred thousandth interrupt, and more than 99,900 were not
  handled.  The interrupt is counted, no other line is touched, and the line is idle and has
  nothing pending.  The handlers here work on the machine only.
\<close>

theorem interrupt_delivered:
  assumes "open_line i s" and "h = handle_irq (descs s i)" and "h = Some handle_level_irq_fn \<or> h = Some handle_edge_irq_fn"
    and "\<not> has_status i IRQ_PENDING s" and "as = action (descs s i)"
    and "(r, m) = run_drivers drv i as IRQ_NONE
      (if h = Some handle_level_irq_fn then ack_of i (mask_of i (mach s)) else ack_of i (mach s))"
    and "fires = watch_fires (noirqdebug s) r (descs s i)"
  shows "\<exists>s'. desc_handle_irq (mx27_irq_fns (plain drv)) i s = Inr s' \<and>
    mach s' = (if h = Some handle_level_irq_fn \<and> \<not> fires then unmask_of i m else m) \<and>
    has_status i IRQ_DISABLED s' = fires \<and> depth (descs s' i) = (if fires then 1 else depth (descs s i)) \<and>
    kstat_irqs s' = (kstat_irqs s)(i := kstat_irqs s i + 1) \<and> (\<forall>j. j \<noteq> i \<longrightarrow> descs s' j = descs s j) \<and>
    action (descs s' i) = as \<and> \<not> has_status i (IRQ_INPROGRESS OR IRQ_PENDING) s'"
proof (cases "h = Some handle_level_irq_fn")
  case True
  note o = open_lineD [OF assms(1)]
  obtain d k where "handle_level_irq (mx27_irq_fns (plain drv)) i s = Inr ((upd_desc i (\<lambda>_. d) s)\<lparr>kstat_irqs := k, mach :=
      (if fires then m else unmask_of i m)\<rparr>)"
    "k = (kstat_irqs s)(i := kstat_irqs s i + 1)" "action d = as" "\<not> bit (status d) 16" "\<not> bit (status d) 18"
    "bit (status d) 17 = fires" "depth d = (if fires then 1 else depth (descs s i))"
    using level_run [OF o _ assms(7), of m drv] assms(6) True unfolding assms(5) by auto
  then show ?thesis using True assms(2) by (simp add: desc_handle_irq_def run_flow_def status_simps)
next
  case False
  note o = open_lineD [OF assms(1)]
  have b: "reopen_edge i (status (descs s i)) m = m" for m using assms(4) by (simp add: reopen_edge_def status_simps)
  obtain d where "handle_edge_irq (mx27_irq_fns (plain drv)) i s =
      Inr ((upd_desc i (\<lambda>_. d) s)\<lparr>kstat_irqs := (kstat_irqs s)(i := kstat_irqs s i + 1), mach := m\<rparr>)"
    "action d = as" "\<not> bit (status d) 16" "\<not> bit (status d) 18" "bit (status d) 17 = fires"
    "depth d = (if fires then 1 else depth (descs s i))"
    using edge_run [OF o _ assms(7), of m drv] assms(6) False unfolding assms(5) b by auto
  then show ?thesis using False assms(2,3) by (auto simp: desc_handle_irq_def run_flow_def status_simps)
qed

text \<open>An open line with one driver.\<close>

definition demo_action :: "mx27_fn irqaction" where
  "demo_action = \<lparr>a_handler = Driver 0, a_flags = 0, a_name = ''demo'', a_dev_id = None, a_irq = 70\<rparr>"

definition asked :: "u32 \<Rightarrow> mx27_irqsys \<Rightarrow> mx27_irqsys" where
  "asked i s = (upd_desc i (action_update (\<lambda>_. [demo_action])) (opened i s))\<lparr>irqs_resend := \<lambda>_. False\<rparr>"

lemma asked_facts:
  assumes "in_service s" and "i < 256"
  shows "open_line i (asked i s)" "action (descs (asked i s) i) = [demo_action]" "depth (descs (asked i s) i) = 0"
    "\<not> has_status i IRQ_PENDING (asked i s)" "\<forall>j. \<not> irqs_resend (asked i s) j"
    "handle_irq (descs (asked i s) i) = handle_irq (descs s i)"
  using service_ready [OF assms]
  by (simp_all add: asked_def opened_def open_line_def line_ready_def driven_def demo_action_def status_simps)

theorem interrupt_delivered_witness:
  "\<exists>s s'. desc_handle_irq (mx27_irq_fns demo_drv) 20 s = Inr s' \<and>
    mach s' = unmask_of 20 (ack_of 20 (mask_of 20 (mach s))) \<and> \<not> has_status 20 IRQ_DISABLED s' \<and> depth (descs s' 20) = 0 \<and>
    kstat_irqs s' = (kstat_irqs s)(20 := kstat_irqs s 20 + 1) \<and> (\<forall>j. j \<noteq> 20 \<longrightarrow> descs s' j = descs s j) \<and>
    action (descs s' 20) = [demo_action] \<and> \<not> has_status 20 (IRQ_INPROGRESS OR IRQ_PENDING) s'"
proof -
  obtain s where s: "in_service s" using demo_served by blast
  note a = asked_facts [OF s, of 20]
  have h: "handle_irq (descs (asked 20 s) 20) = Some handle_level_irq_fn"
    using a(6) s by (simp add: in_service_def)
  let ?m = "ack_of 20 (mask_of 20 (mach (asked 20 s)))"
  have r: "(IRQ_HANDLED, ?m) = run_drivers demo_handlers 20 (action (descs (asked 20 s) 20)) IRQ_NONE
      (if handle_irq (descs (asked 20 s) 20) = Some handle_level_irq_fn then ?m else ack_of 20 (mach (asked 20 s)))"
    using a(2) h by (simp add: demo_action_def demo_handlers_def IRQ_NONE_def)
  have "\<not> watch_fires (noirqdebug (asked 20 s)) IRQ_HANDLED (descs (asked 20 s) 20)"
    by (simp add: watch_fires_def asked_def opened_def)
  then show ?thesis
    using interrupt_delivered [OF a(1) refl _ a(4) refl r refl] h a(2,3) by - (rule exI [of _ "asked 20 s"], simp)
qed

section \<open>Replay\<close>

text \<open>What an edge leaves in the status of a disabled line.\<close>

definition missed :: "u32 \<Rightarrow> u32" where
  "missed x = (x AND NOT (IRQ_REPLAY OR IRQ_WAITING)) OR (IRQ_PENDING OR IRQ_MASKED)"

lemma missed_twice [simp]: "missed (missed x) = missed x"
  by (rule bit_word_eqI) (auto simp: missed_def bit_simps)

lemma missed_comp [simp]: "missed \<circ> missed = missed"
  by (simp add: fun_eq_iff)

lemma missed_bits:
  "bit (missed x) 16 = bit x 16" "bit (missed x) 17 = bit x 17" "bit (missed x) 28 = bit x 28"
  "bit (missed x) 18" "\<not> bit (missed x) 19"
  by (simp_all add: missed_def status_simps)

lemma edge_while_disabled:
  assumes "line_ready i s" and "bit (status (descs s i)) 17"
  shows "handle_edge_irq (mx27_irq_fns drv) i s =
    Inr ((upd_desc i (status_update missed) s)\<lparr>mach := ack_of i (mask_of i (mach s))\<rparr>)"
proof -
  let ?t = "set_status i (IRQ_PENDING OR IRQ_MASKED) (clr_status i (IRQ_REPLAY OR IRQ_WAITING) s)"
  have "line_ready i ?t" using assms(1) by (simp add: line_ready_def status_simps)
  moreover have "?t = upd_desc i (status_update missed) s"
    by (cases "descs s i") (simp add: upd_desc_def missed_def)
  moreover have "handle_edge_irq (mx27_irq_fns drv) i s = mask_ack_irq (mx27_irq_fns drv) i ?t"
    unfolding handle_edge_irq_def Let_def using assms(2) by (simp add: status_simps)
  ultimately show ?thesis using chip_calls(4) [of i ?t drv] by simp
qed

lemma edges_while_disabled:
  assumes "line_ready i s" and "bit (status (descs s i)) 17" and "handle_irq (descs s i) = Some handle_edge_irq_fn"
  shows "do_times (Suc n) (desc_handle_irq (mx27_irq_fns drv) i) s =
    Inr ((upd_desc i (status_update missed) s)\<lparr>mach := ((\<lambda>m. ack_of i (mask_of i m)) ^^ Suc n) (mach s)\<rparr>)"
proof (induction n)
  case 0
  then show ?case using edge_while_disabled [OF assms(1,2)] assms(3) by (simp add: desc_handle_irq_def run_flow_def)
next
  case (Suc n)
  let ?t = "(upd_desc i (status_update missed) s)\<lparr>mach := ((\<lambda>m. ack_of i (mask_of i m)) ^^ Suc n) (mach s)\<rparr>"
  have "line_ready i ?t" "bit (status (descs ?t i)) 17"
    using assms(1,2) by (simp_all add: line_ready_def missed_bits)
  from edge_while_disabled [OF this] show ?case
    unfolding do_times_last [of "Suc n"] Suc.IH rbind_simps using assms(3)
    by (simp add: upd_desc_def desc_handle_irq_def run_flow_def)
qed

text \<open>Only one line has been marked for the software resend.\<close>

lemma first_resend_none: "\<forall>j. \<not> irqs_resend s j \<Longrightarrow> first_resend s = None"
  by (simp add: first_resend_def find_None_iff)

lemma first_resend_one:
  assumes "\<forall>j. irqs_resend s j = (j = i)" and "i < NR_IRQS"
  shows "first_resend s = Some (unat i)"
proof -
  have "unat i < unat NR_IRQS" using assms(2) by (simp add: word_less_nat_alt)
  moreover have "\<not> irqs_resend s (of_nat j)" if "j < unat i" for j
  proof -
    have "j < 2 ^ 32" using that assms(2) by (simp add: NR_IRQS_def u32_less)
    then show ?thesis using assms(1) that unat_small [of j, where 'w = 32] by auto
  qed
  ultimately show ?thesis using assms(1)
    by (simp add: first_resend_def find_Some_iff exI [of _ "unat i"])
qed

lemma resend_once:
  assumes "\<forall>j. irqs_resend s j = (j = i)" and "i < NR_IRQS"
    and "desc_handle_irq F i (s\<lparr>irqs_resend := \<lambda>_. False\<rparr>) = Inr s'" and "\<forall>j. \<not> irqs_resend s' j"
  shows "resend_irqs F s = Some (Inr s')"
proof -
  have "(irqs_resend s)(of_nat (unat i) := False) = (\<lambda>_. False)" using assms(1) by (simp add: fun_eq_iff)
  then show ?thesis
    using assms(3) first_resend_one [OF assms(1,2)] first_resend_none [OF assms(4)]
    by (subst resend_irqs.simps) (simp add: resend_irqs.simps [of F s'])
qed

text \<open>
  C24: an edge is not lost on a disabled line: when one or more interrupts come while a driver has
  the line disabled, none runs a handler, each is masked and acknowledged; the \<^verbatim>\<open>enable_irq\<close> opens the
  line and asks for a replay, and the resend then runs the handlers exactly once, however many
  interrupts there were.  The handlers here work on the machine only.
\<close>

theorem missed_edge_replayed:
  assumes "open_line i s" and "handle_irq (descs s i) = Some handle_edge_irq_fn" and "depth (descs s i) = 0"
    and "\<forall>j. \<not> irqs_resend s j"
  shows "\<exists>s1 s2 s3 s4. disable_irq (mx27_irq_fns (plain drv)) i s = Inr s1 \<and>
    do_times (Suc n) (desc_handle_irq (mx27_irq_fns (plain drv)) i) s1 = Inr s2 \<and>
    mach s2 = ((\<lambda>m. ack_of i (mask_of i m)) ^^ Suc n) (mach s) \<and>
    enable_irq (mx27_irq_fns (plain drv)) i s2 = Inr s3 \<and> mach s3 = unmask_of i (mach s2) \<and>
    resend_irqs (mx27_irq_fns (plain drv)) s3 = Some (Inr s4) \<and>
    mach s4 = snd (run_drivers drv i (action (descs s i)) IRQ_NONE (ack_of i (mach s3))) \<and>
    (\<forall>j. \<not> irqs_resend s4 j) \<and> \<not> has_status i (IRQ_INPROGRESS OR IRQ_PENDING) s4"
proof -
  note o = open_lineD [OF assms(1)]
  let ?F = "mx27_irq_fns (plain drv)"
  define s1 where "s1 = upd_desc i deeper s"
  have d1: "disable_irq ?F i s = Inr s1" unfolding s1_def by (rule disable_run [OF o(1)])
  have r1: "line_ready i s1" "bit (status (descs s1 i)) 17"
    using deeper_ready [OF o(1)] assms(3) by (simp_all add: s1_def deeper_def status_simps)
  define s2 where "s2 = (upd_desc i (status_update missed) s1)\<lparr>mach := ((\<lambda>m. ack_of i (mask_of i m)) ^^ Suc n) (mach s)\<rparr>"
  have h1: "handle_irq (descs s1 i) = Some handle_edge_irq_fn" using assms(2) by (simp add: s1_def deeper_def)
  have d2: "do_times (Suc n) (desc_handle_irq ?F i) s1 = Inr s2"
    using edges_while_disabled [OF r1 h1] by (simp add: s2_def s1_def)
  have r2: "line_ready i s2" "depth (descs s2 i) = 1"
    using r1(1) assms(3) by (simp_all add: s2_def s1_def deeper_def line_ready_def missed_bits)
  have b2: "bit (status (descs s2 i)) 18" "\<not> bit (status (descs s2 i)) 19" "\<not> bit (status (descs s2 i)) 16"
    using o(5) by (simp_all add: s2_def s1_def missed_bits deeper_def status_simps)
  define s3 where "s3 = (upd_desc i reopened s2)\<lparr>mach := unmask_of i (mach s2), irqs_resend := (irqs_resend s)(i := True)\<rparr>"
  have d3: "enable_irq ?F i s2 = Inr s3"
    unfolding enable_run_last [OF r2] using b2 by (simp add: s3_def s2_def s1_def)
  let ?t = "s3\<lparr>irqs_resend := \<lambda>_. False\<rparr>"
  have t: "open_line i ?t" "handle_irq (descs ?t i) = Some handle_edge_irq_fn" "\<not> bit (status (descs ?t i)) 18"
    "action (descs ?t i) = action (descs s i)" "mach ?t = mach s3"
    using o r2(1) b2 h1
    by (simp_all add: open_line_def s3_def s2_def s1_def reopened_def deeper_def line_ready_def status_simps Let_def)
  have b: "reopen_edge i (status (descs ?t i)) m = m" for m using t(3) by (simp add: reopen_edge_def)
  define m where "m = snd (run_drivers drv i (action (descs s i)) IRQ_NONE (ack_of i (mach s3)))"
  have rm: "(fst (run_drivers drv i (action (descs s i)) IRQ_NONE (ack_of i (mach s3))), m) =
      run_drivers drv i (action (descs ?t i)) IRQ_NONE (reopen_edge i (status (descs ?t i)) (ack_of i (mach ?t)))"
    unfolding b t(4,5) by (simp add: m_def)
  obtain d where run: "handle_edge_irq ?F i ?t =
      Inr ((upd_desc i (\<lambda>_. d) ?t)\<lparr>kstat_irqs := (kstat_irqs ?t)(i := kstat_irqs ?t i + 1), mach := m\<rparr>)"
    and d: "\<not> bit (status d) 16" "\<not> bit (status d) 18"
    using edge_run [OF open_lineD [OF t(1)] rm refl] by blast
  have "resend_irqs ?F s3 = Some (Inr ((upd_desc i (\<lambda>_. d) ?t)\<lparr>kstat_irqs := (kstat_irqs ?t)(i := kstat_irqs ?t i + 1), mach := m\<rparr>))"
    using assms(4) ready_nr [OF o(1)] t(2) run
    by (intro resend_once [of _ i]) (simp_all add: s3_def desc_handle_irq_def run_flow_def)
  with d1 d2 d3 show ?thesis using d by (simp add: s3_def s2_def m_def status_simps)
qed

theorem missed_edge_replayed_witness:
  "\<exists>s s1 s2 s3 s4. disable_irq (mx27_irq_fns demo_drv) 70 s = Inr s1 \<and>
    do_times 3 (desc_handle_irq (mx27_irq_fns demo_drv) 70) s1 = Inr s2 \<and>
    mach s2 = ((\<lambda>m. ack_of 70 (mask_of 70 m)) ^^ 3) (mach s) \<and>
    enable_irq (mx27_irq_fns demo_drv) 70 s2 = Inr s3 \<and> mach s3 = unmask_of 70 (mach s2) \<and>
    resend_irqs (mx27_irq_fns demo_drv) s3 = Some (Inr s4) \<and>
    mach s4 = snd (run_drivers demo_handlers 70 [demo_action] IRQ_NONE (ack_of 70 (mach s3))) \<and>
    (\<forall>j. \<not> irqs_resend s4 j) \<and> \<not> has_status 70 (IRQ_INPROGRESS OR IRQ_PENDING) s4"
proof -
  obtain s where s: "in_service s" using demo_served by blast
  note a = asked_facts [OF s, of 70]
  have h: "handle_irq (descs (asked 70 s) 70) = Some handle_edge_irq_fn"
    using a(6) s by (simp add: in_service_def)
  have three: "(3 :: nat) = Suc 2" by simp
  show ?thesis
    using missed_edge_replayed [OF a(1) h a(3,5), of demo_handlers 2] a(2) unfolding three
    by - (rule exI [of _ "asked 70 s"], simp)
qed

section \<open>The interrupt entry returns\<close>

text \<open>The flow handlers depend on the chip functions and the device handlers alone.\<close>

lemma edge_loop_some:
  assumes "edge_turn F irq = edge_turn G irq" and "run_chip_fn F = run_chip_fn G" and "edge_loop F irq s = Some r"
  shows "edge_loop G irq s = Some r"
proof -
  have "F' = F \<longrightarrow> i = irq \<longrightarrow> edge_loop G irq u = Some y" if "edge_loop F' i u = Some y" for F' i u y
    using that
  proof (induction rule: edge_loop.raw_induct [rotated 1, consumes 1, case_names 1])
    case (1 loop F' i u y)
    then show ?case
      using assms(1,2) by (subst edge_loop.simps) (auto split: sum.splits if_splits)
  qed
  then show ?thesis using assms(3) by blast
qed

lemma flows_cong:
  assumes "call_chip F = call_chip G" and "call_action F = call_action G"
  shows "handle_level_irq F i s = handle_level_irq G i s" "handle_edge_irq F i s = handle_edge_irq G i s"
proof -
  have chip: "run_chip_fn F = run_chip_fn G" unfolding run_chip_fn_def assms ..
  have gate: "run_gate F = run_gate G" unfolding run_gate_def default_enable_def default_disable_def chip ..
  have mask: "mask_ack_irq F = mask_ack_irq G" unfolding mask_ack_irq_def chip ..
  have acts: "run_actions F i as r s = run_actions G i as r s" for i as r s
    by (induction as arbitrary: r s) (auto simp: assms intro!: rbind_same)
  have event: "handle_IRQ_event F = handle_IRQ_event G" unfolding handle_IRQ_event_def acts ..
  have shared: "run_shared F i as r s = run_shared G i as r s" for i as r s
    by (induction as arbitrary: r s) (auto simp: assms intro!: rbind_same)
  have misrouted: "misrouted_irq F = misrouted_irq G"
    unfolding misrouted_irq_def misrouted_body_def shared event chip ..
  have run: "run_event F = run_event G" unfolding run_event_def note_interrupt_def misrouted gate event ..
  have turn: "edge_turn F = edge_turn G" unfolding edge_turn_def run chip ..
  have loop: "edge_loop F i s = edge_loop G i s" for i s
  proof (cases "edge_loop F i s")
    case None
    then show ?thesis using edge_loop_some [of G i F s] turn chip by (cases "edge_loop G i s") simp_all
  next
    case (Some r)
    then show ?thesis using edge_loop_some [of F i G s r] turn chip by simp
  qed
  show "handle_level_irq F i s = handle_level_irq G i s" unfolding handle_level_irq_def mask run chip ..
  show "handle_edge_irq F i s = handle_edge_irq G i s" unfolding handle_edge_irq_def mask chip loop ..
qed

text \<open>
  The machine in service, with whatever lines requested: chips, flow handlers and ports as the
  initialisation sets them up, device handlers as actions.
\<close>

definition line_serving :: "u32 \<Rightarrow> mx27_irqsys \<Rightarrow> bool" where
  "line_serving i s \<longleftrightarrow> line_ready i s \<and> driven (action (descs s i)) \<and>
     (if i = 8 then handle_irq (descs s i) = Some (Flow mxc_gpio_mux_irq_handler_fn)
      else handle_irq (descs s i) \<in> {Some handle_level_irq_fn, Some handle_edge_irq_fn})"

definition serving :: "mx27_irqsys \<Rightarrow> bool" where
  "serving s \<longleftrightarrow> irqfixup s = 0 \<and> (\<forall>i < 256. line_serving i s) \<and> (\<forall>p < 6. port_ok (ports (mach s) p) p)"

text \<open>Device handlers may request and free pins, but the base and the numbers of a port stay.\<close>

definition keeps_ports :: "plain_drivers \<Rightarrow> bool" where
  "keeps_ports drv \<longleftrightarrow> (\<forall>n i d m p. port_ok (ports m p) p \<longrightarrow> port_ok (ports (snd (drv n i d m)) p) p)"

lemma service_serving: "in_service s \<Longrightarrow> irqfixup s = 0 \<Longrightarrow> serving s"
  using service_ready [of s] by (auto simp: in_service_def serving_def line_serving_def driven_def)

lemma chip_ports [simp]:
  "ports (mask_of i m) = ports m" "ports (unmask_of i m) = ports m" "ports (ack_of i m) = ports m" "ports (reopen_edge i st m) = ports m"
  by (simp_all add: mask_of_def unmask_of_def ack_of_def Let_def mxc_mask_irq_def mxc_unmask_irq_def reopen_edge_def
      u_set_gpio_irqenable_def u_clear_gpio_irqstatus_def)

lemma drivers_ports:
  "keeps_ports drv \<Longrightarrow> port_ok (ports m p) p \<Longrightarrow> port_ok (ports (snd (run_drivers drv i as r m)) p) p"
proof (induction as arbitrary: r m)
  case (Cons a as)
  then show ?case by (cases "a_handler a") (simp_all add: keeps_ports_def Let_def split_beta)
qed simp

text \<open>What the flow handler of a line leaves of the state.\<close>

definition touched :: "u32 \<Rightarrow> mx27_irqsys \<Rightarrow> mx27_irqsys \<Rightarrow> bool" where
  "touched i s s' \<longleftrightarrow> (\<exists>d k m. s' = (upd_desc i (\<lambda>_. d) s)\<lparr>kstat_irqs := k, mach := m\<rparr> \<and>
     handle_irq d = handle_irq (descs s i) \<and> chip d = chip (descs s i) \<and> action d = action (descs s i) \<and> bit (status d) 28 \<and>
     (\<forall>p. port_ok (ports (mach s) p) p \<longrightarrow> port_ok (ports m p) p))"

lemma touchedD:
  assumes "touched i s s'"
  shows "chip (descs s' j) = chip (descs s j)" "handle_irq (descs s' j) = handle_irq (descs s j)"
    "action (descs s' j) = action (descs s j)" "bit (status (descs s j)) 28 \<Longrightarrow> bit (status (descs s' j)) 28"
    "chip_of s' = chip_of s" "irqfixup s' = irqfixup s" "port_ok (ports (mach s) p) p \<Longrightarrow> port_ok (ports (mach s') p) p"
  using assms by (auto simp: touched_def upd_desc_def)

lemma touched_serving: "serving s \<Longrightarrow> touched i s s' \<Longrightarrow> serving s'"
  unfolding serving_def by (auto simp: line_serving_def line_ready_def touchedD)

lemma touchedI:
  assumes "s' = (upd_desc i (status_update g) s)\<lparr>kstat_irqs := k, mach := m\<rparr>" and "ports m = ports (mach s)"
    and "bit (g (status (descs s i))) 28"
  shows "touched i s s'"
  using assms unfolding touched_def
  by (intro exI [of _ "status_update g (descs s i)"] exI [of _ k] exI [of _ m]) (simp add: upd_desc_def)

lemma level_touches:
  assumes "keeps_ports drv" and "line_ready i s" and "irqfixup s = 0" and "driven (action (descs s i))"
  shows "\<exists>s'. handle_level_irq (mx27_irq_fns (plain drv)) i s = Inr s' \<and> touched i s s'"
proof -
  let ?F = "mx27_irq_fns (plain drv)" and ?st = "status (descs s i)"
  have nr: "i < NR_IRQS" using assms(2) by (rule ready_nr)
  have b: "bit ?st 28" using assms(2) by (simp add: line_ready_def)
  define s1 where "s1 = s\<lparr>mach := ack_of i (mask_of i (mach s))\<rparr>"
  have m1: "mask_ack_irq ?F i s = Inr s1" unfolding s1_def by (rule chip_calls(4) [OF assms(2)])
  consider "bit ?st 16" | "\<not> bit ?st 16" "action (descs s i) = [] \<or> bit ?st 17"
    | "action (descs s i) \<noteq> []" "\<not> bit ?st 16" "\<not> bit ?st 17" by blast
  then show ?thesis
  proof cases
    case 1
    have "touched i s s1"
      by (rule touchedI [where g = "\<lambda>x. x" and k = "kstat_irqs s" and m = "mach s1"]) (simp_all add: s1_def upd_desc_def b)
    then show ?thesis using 1 by (simp add: handle_level_irq_def m1 status_simps s1_def)
  next
    case 2
    let ?k = "(kstat_irqs s)(i := kstat_irqs s i + 1)"
    let ?s2 = "(clr_status i (IRQ_REPLAY OR IRQ_WAITING) s1)\<lparr>kstat_irqs := ?k\<rparr>"
    have k2: "kstat_inc i (clr_status i (IRQ_REPLAY OR IRQ_WAITING) s1) = Inr ?s2"
      unfolding kstat_run [OF nr] by (simp add: s1_def)
    have "touched i s (set_status i IRQ_PENDING ?s2)"
      by (rule touchedI [where g = "\<lambda>x. (x AND NOT (IRQ_REPLAY OR IRQ_WAITING)) OR IRQ_PENDING" and k = ?k and m = "mach s1"])
        (cases s, simp_all add: s1_def upd_desc_def b status_simps o_def)
    moreover have "handle_level_irq ?F i s = Inr (set_status i IRQ_PENDING ?s2)"
      unfolding handle_level_irq_def m1 rbind_simps k2 using 2 by (simp add: s1_def status_simps)
    ultimately show ?thesis by blast
  next
    case 3
    from level_run [OF assms(2-4) this surjective_pairing [symmetric] refl, of drv] show ?thesis
      by (fastforce simp: touched_def drivers_ports [OF assms(1)])
  qed
qed

lemma edge_touches:
  assumes "keeps_ports drv" and "line_ready i s" and "irqfixup s = 0" and "driven (action (descs s i))"
  shows "\<exists>s'. handle_edge_irq (mx27_irq_fns (plain drv)) i s = Inr s' \<and> touched i s s'"
proof (cases "action (descs s i) = [] \<or> bit (status (descs s i)) 16 \<or> bit (status (descs s i)) 17")
  case True
  let ?t = "set_status i (IRQ_PENDING OR IRQ_MASKED) (clr_status i (IRQ_REPLAY OR IRQ_WAITING) s)"
  let ?s' = "?t\<lparr>mach := ack_of i (mask_of i (mach ?t))\<rparr>"
  have "line_ready i ?t" using assms(2) by (simp add: line_ready_def status_simps)
  then have "mask_ack_irq (mx27_irq_fns (plain drv)) i ?t = Inr ?s'" by (rule chip_calls(4))
  then have "handle_edge_irq (mx27_irq_fns (plain drv)) i s = Inr ?s'"
    unfolding handle_edge_irq_def Let_def using True by (auto simp: status_simps)
  moreover have "touched i s ?s'"
    using assms(2)
    by (intro touchedI [where g = "\<lambda>x. (x AND NOT (IRQ_REPLAY OR IRQ_WAITING)) OR (IRQ_PENDING OR IRQ_MASKED)"
        and k = "kstat_irqs s" and m = "mach ?s'"])
      (cases s, simp_all add: upd_desc_def o_def line_ready_def status_simps)
  ultimately show ?thesis by blast
next
  case False
  then have "action (descs s i) \<noteq> []" "\<not> bit (status (descs s i)) 16" "\<not> bit (status (descs s i)) 17" by simp_all
  from edge_run [OF assms(2-4) this surjective_pairing [symmetric] refl, of drv] show ?thesis
    by (fastforce simp: touched_def drivers_ports [OF assms(1)])
qed

text \<open>A line other than the one of the ports, dispatched at any depth.\<close>

lemma line_returns:
  assumes "keeps_ports drv" and "serving s" and "i < 256" and "i \<noteq> 8"
  shows "\<exists>s'. desc_handle_irq (mx27_fns_at (plain drv) disp) i s = Inr s' \<and> serving s'"
proof -
  have l: "line_ready i s" "irqfixup s = 0" "driven (action (descs s i))"
    "handle_irq (descs s i) = Some handle_level_irq_fn \<or> handle_irq (descs s i) = Some handle_edge_irq_fn"
    using assms(2-4) by (auto simp: serving_def line_serving_def)
  have same: "call_chip (mx27_fns_at (plain drv) disp) = call_chip (mx27_irq_fns (plain drv))"
    "call_action (mx27_fns_at (plain drv) disp) = call_action (mx27_irq_fns (plain drv))"
    using plain_disp [of drv] by (auto simp: mx27_irq_fns_def mx27_fns_at_def)
  have "\<exists>s'. desc_handle_irq (mx27_fns_at (plain drv) disp) i s = Inr s' \<and> touched i s s'"
    using level_touches [OF assms(1) l(1-3)] edge_touches [OF assms(1) l(1-3)] l(4)
    by (auto simp: desc_handle_irq_def run_flow_def flows_cong [OF same])
  then show ?thesis using touched_serving [OF assms(2)] by blast
qed

section \<open>Demultiplexing\<close>

text \<open>The pins of a word, lowest first, and the call for one of them.\<close>

definition pins :: "u32 \<Rightarrow> nat list" where
  "pins v = filter (bit v) [0..<32]"

definition demux_pin :: "(u32 \<Rightarrow> mx27_irqsys \<Rightarrow> mx27_irqsys result) \<Rightarrow> u32 \<Rightarrow> mx27_irqsys \<Rightarrow> mx27_irqsys result" where
  "demux_pin disp i s = (if i \<ge> NR_IRQS then Inl OutOfBounds else if handle_irq (descs s i) = None then Inl BugOn else disp i s)"

lemma pins_step: "pins v = (if v AND 1 = 0 then map Suc (pins (drop_bit 1 v)) else 0 # map Suc (pins (drop_bit 1 v)))"
proof -
  have "\<not> bit (drop_bit 1 v) 31" using bit_imp_le_length [of v 32] by (auto simp: bit_drop_bit_eq)
  moreover have "[0..<32] = [0..<31] @ [31]" by (simp add: upt_rec)
  ultimately have rest: "pins (drop_bit 1 v) = filter (bit (drop_bit 1 v)) [0..<31]" unfolding pins_def by simp
  have shift: "filter (bit v) (map Suc ns) = map Suc (filter (bit (drop_bit 1 v)) ns)" for ns
    by (induction ns) (simp_all add: bit_drop_bit_eq)
  have "[0..<32] = 0 # map Suc [0..<31]" by (simp add: map_Suc_upt upt_conv_Cons)
  moreover have "bit v 0 \<longleftrightarrow> v AND 1 \<noteq> 0" by (simp add: bit_0 and_one_eq odd_iff_mod_2_eq_one)
  ultimately show ?thesis unfolding rest shift [symmetric] unfolding pins_def by simp
qed

lemma rfold_map: "rfold f (map g xs) s = rfold (\<lambda>x. f (g x)) xs s"
  by (induction xs arbitrary: s) (auto intro: rbind_same)

lemma rfold_returns:
  assumes "\<And>x s. x \<in> set xs \<Longrightarrow> P s \<Longrightarrow> \<exists>s'. f x s = Inr s' \<and> P s'" and "P s"
  shows "\<exists>s'. rfold f xs s = Inr s' \<and> P s'"
  using assms
proof (induction xs arbitrary: s)
  case (Cons x xs)
  obtain s1 where "f x s = Inr s1" "P s1" using Cons.prems by force
  then show ?case using Cons.IH [of s1] Cons.prems(1) by simp
qed simp

lemma demux_rfold: "gpio_demux disp v g s = rfold (\<lambda>n. demux_pin disp (g + of_nat n)) (pins v) s"
proof (induction disp v g s rule: gpio_demux.induct)
  case (1 disp v g s)
  show ?case
  proof (cases "v = 0")
    case True
    then show ?thesis by (simp add: gpio_demux.simps pins_def)
  next
    case False
    have shift: "rfold (\<lambda>n. demux_pin disp (g + of_nat n)) (map Suc ns) = rfold (\<lambda>n. demux_pin disp (g + 1 + of_nat n)) ns" for ns
      by (rule ext) (simp add: rfold_map ac_simps)
    show ?thesis
    proof (cases "v AND 1 = 0")
      case True
      show ?thesis
        unfolding gpio_demux.simps [of disp v g s] pins_step [of v] if_P [OF True] if_not_P [OF False] shift
        by (rule 1(1) [OF False True])
    next
      case odd: False
      have pin: "(if g \<ge> NR_IRQS then Inl OutOfBounds else if handle_irq (descs s g) = None then Inl BugOn else disp g s)
          = demux_pin disp (g + of_nat 0) s" by (simp add: demux_pin_def)
      show ?thesis
        unfolding gpio_demux.simps [of disp v g s] pins_step [of v] if_not_P [OF odd] if_not_P [OF False] rfold.simps shift pin
        by (rule rbind_same, rule 1(2) [OF False odd]) (simp only: pin)
    qed
  qed
qed

text \<open>The interrupt lines of the pins of a port that are pending and enabled, lowest first.\<close>

definition pending_lines :: "nat \<Rightarrow> mx27_mach \<Rightarrow> u32 list" where
  "pending_lines p m = map (\<lambda>n. ucast (p_virtual_irq_start (ports m p)) + of_nat n) (pins (gpio_pending p m))"

text \<open>
  C25: the handler of the ports, whose inner loop shifts the word of pending pins to the right
  until nothing is left, does what it should: for each port in turn it reads which pins are pending
  and enabled, and runs the flow handlers of exactly these, each once and lowest pin first.
\<close>

theorem mux_runs_pending_pins:
  assumes "irq < NR_IRQS"
  shows "mxc_gpio_mux_irq_handler disp irq s =
    rfold (\<lambda>p s. rfold (demux_pin disp) (pending_lines p (mach s))
      (if gpio_pending p (mach s) = 0 then s else upd_desc irq (handler_data_update (\<lambda>_. Some p)) s)) [0..<6] s"
proof -
  have nr: "\<not> NR_IRQS \<le> irq" using assms by simp
  have "(if gpio_pending p (mach s) \<noteq> 0 then mxc_gpio_irq_handler disp irq (snd (set_irq_data irq (Some p) s)) else Inr s) =
    rfold (demux_pin disp) (pending_lines p (mach s))
      (if gpio_pending p (mach s) = 0 then s else upd_desc irq (handler_data_update (\<lambda>_. Some p)) s)" for p s
    using nr by (simp add: mxc_gpio_irq_handler_def set_irq_data_def pending_lines_def demux_rfold rfold_map pins_def Let_def)
  then show ?thesis by (simp add: mxc_gpio_mux_irq_handler_def GPIO_PORT_NUM_def)
qed

theorem mux_runs_pending_pins_witness:
  "mxc_gpio_mux_irq_handler (mx27_dispatch demo_drv 2) 8 (mx27_irq_boot demo_mach) =
    rfold (\<lambda>p s. rfold (demux_pin (mx27_dispatch demo_drv 2)) (pending_lines p (mach s))
      (if gpio_pending p (mach s) = 0 then s else upd_desc 8 (handler_data_update (\<lambda>_. Some p)) s)) [0..<6] (mx27_irq_boot demo_mach)"
  by (rule mux_runs_pending_pins) (simp add: NR_IRQS_def)

lemma serving_data: "serving s \<Longrightarrow> serving (upd_desc i (handler_data_update g) s)"
  unfolding serving_def by (auto simp: line_serving_def line_ready_def)

lemma pin_returns:
  assumes "keeps_ports drv" and "serving s" and "i \<in> set (pending_lines p m)" and "port_ok (ports m p) p" and "p < 6"
  shows "\<exists>s'. demux_pin (mx27_dispatch (plain drv) (Suc k)) i s = Inr s' \<and> serving s'"
proof -
  obtain n where n: "i = ucast (of_nat (port_start p) :: 16 word) + of_nat n" "n < 32"
    using assms(3,4) by (auto simp: pending_lines_def pins_def port_ok_def)
  have "unat i = port_start p + n"
    using n assms(5) by (simp add: unat_word_ariths unsigned_ucast_eq port_start_def unat_small take_bit_nat_def)
  then have i: "i < 256" "i \<noteq> 8" using n(2) assms(5) by (auto simp: u32_less port_start_def)
  then have "line_serving i s" using assms(2) by (simp add: serving_def)
  then have "handle_irq (descs s i) \<noteq> None" "\<not> NR_IRQS \<le> i" using i(2) by (auto simp: line_serving_def)
  then show ?thesis using line_returns [OF assms(1,2) i] by (simp add: demux_pin_def)
qed

lemma mux_returns:
  assumes "keeps_ports drv" and "serving s"
  shows "\<exists>s'. mxc_gpio_mux_irq_handler (mx27_dispatch (plain drv) (Suc k)) 8 s = Inr s' \<and> serving s'"
  unfolding mxc_gpio_mux_irq_handler_def
proof (rule rfold_returns [where P = serving, OF _ assms(2)])
  fix p t assume p: "p \<in> set [0..<unat GPIO_PORT_NUM]" and t: "serving t"
  let ?disp = "mx27_dispatch (plain drv) (Suc k)" and ?u = "upd_desc 8 (handler_data_update (\<lambda>_. Some p)) t"
  have p6: "p < 6" using p by (simp add: GPIO_PORT_NUM_def)
  then have ok: "port_ok (ports (mach t) p) p" using t by (simp add: serving_def)
  show "\<exists>s'. (if gpio_pending p (mach t) \<noteq> 0 then mxc_gpio_irq_handler ?disp 8 (snd (set_irq_data 8 (Some p) t)) else Inr t) = Inr s' \<and> serving s'"
  proof (cases "gpio_pending p (mach t) = 0")
    case False
    have "\<exists>s'. rfold (demux_pin ?disp) (pending_lines p (mach t)) ?u = Inr s' \<and> serving s'"
      by (rule rfold_returns) (use pin_returns [OF assms(1) _ _ ok p6] serving_data [OF t] in auto)
    then show ?thesis using False
      by (simp add: mxc_gpio_irq_handler_def set_irq_data_def pending_lines_def demux_rfold rfold_map NR_IRQS_def Let_def)
  qed (use t in simp)
qed

text \<open>
  The interrupt entry of the machine in service returns, and the machine stays in service, when the
  handlers work on the machine only and leave the table of ports alone: whichever lines fire in
  whichever order, no flow handler fails and no chained handler finds a port without an interrupt.
\<close>

lemma interrupts_return:
  assumes "keeps_ports drv" and "serving s" and "\<forall>i\<in>set irqs. i < 256"
  shows "\<exists>s'. rfold (asm_do_IRQ (mx27_irq_fns (plain drv))) irqs s = Inr s' \<and> serving s'"
proof (rule rfold_returns [where P = serving, OF _ assms(2)])
  fix i t assume "i \<in> set irqs" and t: "serving t"
  then have i: "i < 256" using assms(3) by simp
  then have nr: "\<not> NR_IRQS \<le> i" by (simp add: NR_IRQS_def u32_less not_le)
  have "\<exists>s'. desc_handle_irq (mx27_irq_fns (plain drv)) i t = Inr s' \<and> serving s'"
  proof (cases "i = 8")
    case True
    then have "handle_irq (descs t i) = Some (Flow mxc_gpio_mux_irq_handler_fn)"
      using t by (simp add: serving_def line_serving_def)
    then show ?thesis using mux_returns [OF assms(1) t, of 7] True
      by (simp add: desc_handle_irq_def run_flow_def mx27_irq_fns_def mx27_fns_at_def mx27_flow_def IRQ_DEPTH_def numeral_eq_Suc)
  qed (use line_returns [OF assms(1) t i] in \<open>simp add: mx27_irq_fns_def\<close>)
  then show "\<exists>s'. asm_do_IRQ (mx27_irq_fns (plain drv)) i t = Inr s' \<and> serving s'" using nr by (simp add: asm_do_IRQ_def)
qed

end
