(* ===== verification/Mx27_Irq_Nested.thy ===== *)
theory Mx27_Irq_Nested
  imports Mx27_Irq_Delivery
begin

text \<open>
  Interrupts that come in while their own handlers run: \<^verbatim>\<open>handle_edge_irq\<close> notes them and runs the
  handlers again, until none is left or a handler has disabled the line.
\<close>

section \<open>Handlers with a budget of edges\<close>

text \<open>
  A run of a handler of line \<open>i\<close> that is interrupted by its own line only and may disable it: \<open>left\<close>
  reads off the machine how many more edges its device will send.  Each edge that comes in uses one
  up; once the handler has disabled the line (\<open>off\<close>) the device may send as many as it likes.  Nothing
  else may happen in between, and \<open>b\<close> is what was left before.
\<close>

primrec spends :: "(mx27_mach \<Rightarrow> nat) \<Rightarrow> u32 \<Rightarrow> handler \<Rightarrow> bool \<Rightarrow> nat \<Rightarrow> bool" where
  "spends left i (Return r m) off b = (left m \<le> b)"
| "spends left i (Call c m k) off b =
     (if c = Disable i then \<not> off \<and> left m \<le> b \<and> (\<forall>m'. left m' = left m \<longrightarrow> spends left i (k m') True (left m))
      else c = Interrupt i \<and> (if off then left m \<le> b else left m < b) \<and>
        (\<forall>m'. left m' = left m \<longrightarrow> spends left i (k m') off (left m)))"

text \<open>A line whose handlers are running.\<close>

definition busy :: "u32 \<Rightarrow> mx27_fn irqaction list \<Rightarrow> mx27_irqsys \<Rightarrow> bool" where
  "busy i as s \<longleftrightarrow> line_ready i s \<and> irqfixup s = 0 \<and> handle_irq (descs s i) = Some handle_edge_irq_fn \<and>
     action (descs s i) = as \<and> bit (status (descs s i)) 16 \<and>
     (depth (descs s i) \<noteq> 0 \<longrightarrow> bit (status (descs s i)) 17)"

lemma busy_mach [simp]: "busy i as (s\<lparr>mach := m\<rparr>) = busy i as s"
  by (simp add: busy_def)

text \<open>What a piece of a run does: \<open>k\<close> bounds the calls of \<^verbatim>\<open>disable_irq\<close> in it.\<close>

definition spent :: "(mx27_mach \<Rightarrow> nat) \<Rightarrow> u32 \<Rightarrow> nat \<Rightarrow> nat \<Rightarrow> mx27_irqsys \<Rightarrow> mx27_irqsys \<Rightarrow> bool" where
  "spent left i k b s s' \<longleftrightarrow>
     left (mach s') \<le> b \<and> unat (depth (descs s' i)) \<le> unat (depth (descs s i)) + k \<and>
     (bit (status (descs s i)) 17 \<longrightarrow> bit (status (descs s' i)) 17) \<and>
     (bit (status (descs s' i)) 18 \<and> \<not> bit (status (descs s' i)) 17 \<longrightarrow>
        bit (status (descs s i)) 18 \<or> left (mach s') < b)"

lemma spent_trans:
  assumes "spent left i k b s t" and "spent left i l (left (mach t)) t u"
  shows "spent left i (k + l) b s u"
  using assms by (auto simp: spent_def)

lemma chip_only:
  "disable_irq mx27_chip_fns = disable_irq (mx27_irq_fns drv)"
  "mask_ack_irq (mx27_fns_at drv disp) = mask_ack_irq (mx27_irq_fns drv)"
proof -
  have c: "call_chip mx27_chip_fns = call_chip (mx27_irq_fns drv)" "call_chip (mx27_fns_at drv disp) = call_chip (mx27_irq_fns drv)"
    by (simp_all add: mx27_fns_at_def)
  have run: "run_chip_fn mx27_chip_fns = run_chip_fn (mx27_irq_fns drv)" "run_chip_fn (mx27_fns_at drv disp) = run_chip_fn (mx27_irq_fns drv)"
    unfolding run_chip_fn_def c by (rule refl)+
  have gate: "run_gate mx27_chip_fns = run_gate (mx27_irq_fns drv)"
    unfolding run_gate_def default_enable_def default_disable_def run ..
  show "disable_irq mx27_chip_fns = disable_irq (mx27_irq_fns drv)"
    unfolding disable_irq_def disable_irq_nosync_def gate ..
  show "mask_ack_irq (mx27_fns_at drv disp) = mask_ack_irq (mx27_irq_fns drv)"
    unfolding mask_ack_irq_def run ..
qed

text \<open>An edge of the line itself is noted, and the line masked.\<close>

lemma nested_edge:
  assumes "busy i as s"
  shows "mx27_dispatch drv (Suc n) i s = Inr ((upd_desc i (status_update missed) s)\<lparr>mach := ack_of i (mask_of i (mach s))\<rparr>)"
proof -
  let ?F = "mx27_fns_at drv (mx27_dispatch drv n)"
  let ?t = "set_status i (IRQ_PENDING OR IRQ_MASKED) (clr_status i (IRQ_REPLAY OR IRQ_WAITING) s)"
  have "line_ready i ?t" using assms by (simp add: busy_def line_ready_def status_simps)
  moreover have "?t = upd_desc i (status_update missed) s"
    by (cases "descs s i") (simp add: upd_desc_def missed_def)
  moreover have "handle_edge_irq ?F i s = mask_ack_irq (mx27_irq_fns drv) i ?t"
    unfolding handle_edge_irq_def Let_def chip_only(2) using assms by (simp add: busy_def status_simps)
  ultimately show ?thesis
    using chip_calls(4) [of i ?t drv] assms by (simp add: busy_def desc_handle_irq_def run_flow_def)
qed

lemma busy_edge: "busy i as s \<Longrightarrow> busy i as (upd_desc i (status_update missed) s)"
  by (simp add: busy_def line_ready_def missed_bits)

lemma busy_deeper: "busy i as s \<Longrightarrow> depth (descs s i) \<noteq> - 1 \<Longrightarrow> busy i as (upd_desc i deeper s)"
  by (auto simp: busy_def line_ready_def deeper_def status_simps)

lemma deeper_off: "busy i as s \<Longrightarrow> bit (status (deeper (descs s i))) 17"
  by (auto simp: busy_def deeper_def status_simps)

lemma unat_deeper: "unat (depth (deeper d)) \<le> Suc (unat (depth d))"
  by (simp add: deeper_def unat_word_ariths)

lemma handler_spends:
  assumes keep: "\<And>m. left (mask_of i m) = left m" "\<And>m. left (ack_of i m) = left m"
  shows "busy i as s \<Longrightarrow> spends left i h off b \<Longrightarrow> off \<and> bit (status (descs s i)) 17 \<or> \<not> off \<and> unat (depth (descs s i)) < 2 ^ 32 - 1
    \<Longrightarrow> \<exists>r s'. run_handler (mx27_dispatch drv (Suc n)) h s = Inr (r, s') \<and> busy i as s' \<and>
      spent left i (if off then 0 else 1) b s s'"
proof (induction h arbitrary: s off b)
  case (Return r m)
  then show ?case by (simp add: spent_def)
next
  case (Call c m k)
  let ?disp = "mx27_dispatch drv (Suc n)"
  show ?case
  proof (cases "c = Disable i")
    case True
    let ?t = "(upd_desc i deeper s)\<lparr>mach := m\<rparr>"
    have off: "\<not> off" "left m \<le> b" "spends left i (k m) True (left m)" using Call.prems(2) True by simp_all
    have d: "depth (descs s i) \<noteq> - 1"
      using Call.prems(3) off(1) by (auto simp: unsigned_minus_1_eq_mask mask_eq_exp_minus_1)
    have "disable_irq mx27_chip_fns i (s\<lparr>mach := m\<rparr>) = Inr ?t"
      using disable_run [of i "s\<lparr>mach := m\<rparr>" drv] Call.prems(1) chip_only(1) [of drv] by (simp add: busy_def)
    then have step: "mx27_irq_call ?disp c (s\<lparr>mach := m\<rparr>) = Inr ?t" using True d by (simp add: mx27_irq_call_def)
    have t: "busy i as ?t" "bit (status (descs ?t i)) 17"
      using busy_deeper [OF Call.prems(1) d] deeper_off [OF Call.prems(1)] by simp_all
    obtain r s' where s': "run_handler ?disp (k m) ?t = Inr (r, s')" "busy i as s'" "spent left i 0 (left m) ?t s'"
      using Call.IH [OF _ t(1) off(3)] t(2) by (auto simp del: mx27_dispatch.simps)
    have "spent left i 1 b s s'"
      using s'(3) off(2) t(2) unat_deeper [of "descs s i"] by (auto simp: spent_def)
    then show ?thesis using s'(1,2) step off(1) by (auto simp del: mx27_dispatch.simps)
  next
    case False
    let ?t = "(upd_desc i (status_update missed) s)\<lparr>mach := ack_of i (mask_of i m)\<rparr>"
    have c: "c = Interrupt i" "if off then left m \<le> b else left m < b" "spends left i (k (ack_of i (mask_of i m))) off (left m)"
      using Call.prems(2) False keep by simp_all
    have "\<not> NR_IRQS \<le> i" using Call.prems(1) ready_nr [of i s] by (auto simp: busy_def)
    then have step: "mx27_irq_call ?disp c (s\<lparr>mach := m\<rparr>) = Inr ?t"
      using c(1) nested_edge [of i as "s\<lparr>mach := m\<rparr>" drv n] Call.prems(1) by (simp add: mx27_irq_call_def)
    have t: "busy i as ?t" using busy_edge [OF Call.prems(1)] by simp
    obtain r s' where s': "run_handler ?disp (k (ack_of i (mask_of i m))) ?t = Inr (r, s')" "busy i as s'"
      "spent left i (if off then 0 else 1) (left m) ?t s'"
      using Call.IH [OF _ t c(3)] Call.prems(3) by (auto simp: missed_bits simp del: mx27_dispatch.simps)
    have "spent left i (if off then 0 else 1) b s s'"
      using s'(3) c(2) Call.prems(3) by (cases off) (auto simp: spent_def missed_bits)
    then show ?thesis using s'(1,2) step by (auto simp del: mx27_dispatch.simps)
  qed
qed

text \<open>The handlers of a line, each with its budget.\<close>

definition thrifty :: "(mx27_mach \<Rightarrow> nat) \<Rightarrow> u32 \<Rightarrow> drivers \<Rightarrow> mx27_fn irqaction list \<Rightarrow> bool" where
  "thrifty left i drv as \<longleftrightarrow>
     (\<forall>a\<in>set as. \<exists>n. a_handler a = Driver n \<and> (\<forall>m. spends left i (drv n i (a_dev_id a) m) False (left m)))"

lemma actions_spend:
  assumes "\<And>m. left (mask_of i m) = left m" "\<And>m. left (ack_of i m) = left m"
  shows "busy i as s \<Longrightarrow> thrifty left i drv bs \<Longrightarrow> unat (depth (descs s i)) + length bs < 2 ^ 32
    \<Longrightarrow> \<exists>r s'. run_actions (mx27_irq_fns drv) i bs r0 s = Inr (r, s') \<and> busy i as s' \<and>
      spent left i (length bs) (left (mach s)) s s'"
proof (induction bs arbitrary: s r0)
  case Nil
  then show ?case by (simp add: spent_def)
next
  case (Cons a bs)
  obtain n where n: "a_handler a = Driver n" "spends left i (drv n i (a_dev_id a) (mach s)) False (left (mach s))"
    and th: "thrifty left i drv bs" using Cons.prems(2) by (auto simp: thrifty_def)
  have "IRQ_DEPTH = Suc 7" by (simp add: IRQ_DEPTH_def)
  then obtain r t where t: "mx27_action drv (mx27_dispatch drv IRQ_DEPTH) (Driver n) i (a_dev_id a) s = Inr (r, t)"
    "busy i as t" "spent left i 1 (left (mach s)) s t"
    using handler_spends [OF assms Cons.prems(1) n(2), of drv 7] Cons.prems(3) by (auto simp: mx27_action_def)
  have "unat (depth (descs t i)) + length bs < 2 ^ 32" using t(3) Cons.prems(3) by (simp add: spent_def)
  from Cons.IH [OF t(2) th this, of "r0 OR r"] obtain r' s' where
    "run_actions (mx27_irq_fns drv) i bs (r0 OR r) t = Inr (r', s')" "busy i as s'" "spent left i (length bs) (left (mach t)) t s'"
    by blast
  then show ?case using t n(1) spent_trans [OF t(3)] by simp
qed

lemma noted_depth: "depth (noted r d) \<noteq> 0 \<longrightarrow> depth d \<noteq> 0 \<or> bit (status (noted r d)) 17"
  by (simp add: noted_def Let_def status_simps)

lemma busy_noted: "busy i as s \<Longrightarrow> busy i as (upd_desc i (noted r) s)"
  using noted_depth [of r "descs s i"]
  by (auto simp: busy_def line_ready_def noted_bit) (auto simp: noted_def Let_def status_simps split: if_splits)

text \<open>A turn of the loop that leaves an edge pending on an open line has used one up.\<close>

lemma turn_spends:
  assumes keep: "\<And>m. left (mask_of i m) = left m" "\<And>m. left (ack_of i m) = left m" "\<And>m. left (unmask_of i m) = left m"
    and "busy i as s" and "\<not> bit (status (descs s i)) 17" and "thrifty left i drv as" and "as \<noteq> []" and "length as < 2 ^ 32"
  shows "\<exists>s'. edge_turn (mx27_irq_fns drv) i s = Inr s' \<and> busy i as s' \<and>
    (bit (status (descs s' i)) 18 \<and> \<not> bit (status (descs s' i)) 17 \<longrightarrow> left (mach s') < left (mach s))"
proof -
  let ?F = "mx27_irq_fns drv"
  have act: "action (descs s i) = as" and ready: "line_ready i s" using assms(4) by (simp_all add: busy_def)
  obtain g where g: "edge_turn ?F i s = run_event ?F i as
      ((upd_desc i (status_update g) s)\<lparr>mach := reopen_edge i (status (descs s i)) (mach s)\<rparr>)"
    "\<And>x. \<not> bit (g x) 18" "\<And>x n. n \<notin> {18, 23} \<Longrightarrow> bit (g x) n = bit x n"
    using edge_turn_opens [OF ready, of drv] act by blast
  define u where "u = (upd_desc i (status_update g) s)\<lparr>mach := reopen_edge i (status (descs s i)) (mach s)\<rparr>"
  have u: "busy i as u" "\<not> bit (status (descs u i)) 18" "left (mach u) = left (mach s)" "depth (descs u i) = 0"
    using assms(4,5) g(2,3) keep(3) by (auto simp: u_def busy_def line_ready_def reopen_edge_def)
  obtain r t where t: "run_actions ?F i as IRQ_NONE u = Inr (r, t)" "busy i as t" "spent left i (length as) (left (mach u)) u t"
    using actions_spend [OF keep(1,2) u(1) assms(6), of IRQ_NONE] u(4) assms(8) by auto
  define s' where "s' = (if noirqdebug t then t else upd_desc i (noted r) t)"
  have "note_interrupt ?F i r t = Inr (upd_desc i (noted r) t)" using t(2) by (intro note_run) (simp_all add: busy_def)
  then have "run_event ?F i as u = Inr s'" using t(1) assms(7) by (simp add: run_event_def handle_IRQ_event_def s'_def)
  moreover have "busy i as s'" using t(2) busy_noted by (simp add: s'_def)
  moreover have "bit (status (descs s' i)) 18 \<and> \<not> bit (status (descs s' i)) 17 \<longrightarrow> left (mach s') < left (mach s)"
  proof -
    have "bit (status (descs s' i)) 18 = bit (status (descs t i)) 18" "mach s' = mach t"
      "bit (status (descs t i)) 17 \<longrightarrow> bit (status (descs s' i)) 17"
      by (auto simp: s'_def noted_bit) (simp add: noted_def Let_def status_simps)
    then show ?thesis using t(3) u(2,3) by (auto simp: spent_def)
  qed
  ultimately show ?thesis using g(1) unfolding u_def [symmetric] by auto
qed

lemma loop_returns:
  assumes keep: "\<And>m. left (mask_of i m) = left m" "\<And>m. left (ack_of i m) = left m" "\<And>m. left (unmask_of i m) = left m"
    and "thrifty left i drv as" and "as \<noteq> []" and "length as < 2 ^ 32"
  shows "busy i as s \<Longrightarrow> \<not> bit (status (descs s i)) 17 \<Longrightarrow>
    \<exists>s'. edge_loop (mx27_irq_fns drv) i s = Some (Inr s') \<and> \<not> bit (status (descs s' i)) 16 \<and>
      (bit (status (descs s' i)) 18 \<longrightarrow> bit (status (descs s' i)) 17)"
proof (induction "left (mach s)" arbitrary: s rule: less_induct)
  case less
  let ?F = "mx27_irq_fns drv"
  obtain t where t: "edge_turn ?F i s = Inr t" "busy i as t"
    "bit (status (descs t i)) 18 \<and> \<not> bit (status (descs t i)) 17 \<longrightarrow> left (mach t) < left (mach s)"
    using turn_spends [OF keep less.prems assms(4-6)] by blast
  have act: "action (descs s i) \<noteq> []" using less.prems(1) assms(5) by (simp add: busy_def)
  show ?case
  proof (cases "bit (status (descs t i)) 18 \<and> \<not> bit (status (descs t i)) 17")
    case True
    then have "edge_loop ?F i s = edge_loop ?F i t"
      using act t(1) by (subst edge_loop.simps) (simp add: status_simps)
    then show ?thesis using less.hyps [OF _ t(2)] t(3) True by simp
  next
    case False
    then have "edge_loop ?F i s = Some (Inr (clr_status i IRQ_INPROGRESS t))"
      using act t(1) False by (subst edge_loop.simps) (auto simp: status_simps)
    then show ?thesis using False by (simp add: status_simps)
  qed
qed

text \<open>
  C26: an edge interrupt returns, even when further edges come in while its handlers run: they are
  noted, and the handlers run again until no edge is pending or the line has been disabled, by a
  handler or by the watch for stuck lines.  What is asked of the handlers: they are interrupted by
  their own line only, they disable at most their own line, once in a run, and while the line is
  not disabled their device sends no more edges than the machine says are left.
\<close>

theorem edge_interrupt_returns:
  assumes "line_ready i s" and "irqfixup s = 0" and "handle_irq (descs s i) = Some handle_edge_irq_fn"
    and "\<not> has_status i (IRQ_INPROGRESS OR IRQ_DISABLED) s" and "depth (descs s i) = 0"
    and "action (descs s i) \<noteq> []" and "length (action (descs s i)) < 2 ^ 32"
    and "thrifty left i drv (action (descs s i))"
    and "\<forall>m. left (mask_of i m) = left m \<and> left (ack_of i m) = left m \<and> left (unmask_of i m) = left m"
  shows "\<exists>s'. asm_do_IRQ (mx27_irq_fns drv) i s = Inr s' \<and> \<not> has_status i IRQ_INPROGRESS s' \<and>
    (has_status i IRQ_PENDING s' \<longrightarrow> has_status i IRQ_DISABLED s')"
proof -
  let ?F = "mx27_irq_fns drv" and ?as = "action (descs s i)"
  define s1 where "s1 = (clr_status i (IRQ_REPLAY OR IRQ_WAITING) s)\<lparr>kstat_irqs := (kstat_irqs s)(i := kstat_irqs s i + 1)\<rparr>"
  have r1: "line_ready i s1" using assms(1) by (simp add: s1_def line_ready_def status_simps)
  define s2 where "s2 = set_status i IRQ_INPROGRESS (s1\<lparr>mach := ack_of i (mach s1)\<rparr>)"
  have a: "chip_ack ?F i s1 = Inr (s1\<lparr>mach := ack_of i (mach s1)\<rparr>)" by (rule chip_calls(3) [OF r1])
  have "busy i ?as s2" "\<not> bit (status (descs s2 i)) 17"
    using assms by (simp_all add: busy_def s2_def s1_def line_ready_def status_simps)
  then obtain s' where s': "edge_loop ?F i s2 = Some (Inr s')" "\<not> bit (status (descs s' i)) 16"
    "bit (status (descs s' i)) 18 \<longrightarrow> bit (status (descs s' i)) 17"
    using loop_returns [OF _ _ _ assms(8,6,7)] assms(9) by blast
  have "handle_edge_irq ?F i s = Inr s'"
    using assms(4,6) a s'(1) kstat_run [OF ready_nr [OF assms(1)], of "clr_status i (IRQ_REPLAY OR IRQ_WAITING) s"]
    by (simp add: handle_edge_irq_def Let_def status_simps s1_def s2_def)
  then show ?thesis
    using s'(2,3) assms(1,3) by (intro exI [of _ s']) (simp add: asm_do_IRQ_def desc_handle_irq_def run_flow_def status_simps)
qed

text \<open>
  A device that sends the number of edges found in a cell of the machine no port uses, one in each
  run of its handler; when none is left the handler disables the line, and a last edge comes in.
\<close>

definition edges_left :: "mx27_mach \<Rightarrow> nat" where
  "edges_left m = unat (p_reserved_map (ports m 6))"

definition edge_sent :: "mx27_mach \<Rightarrow> mx27_mach" where
  "edge_sent m = m\<lparr>ports := (ports m)(6 := (ports m 6)\<lparr>p_reserved_map := p_reserved_map (ports m 6) - 1\<rparr>)\<rparr>"

definition edgy :: drivers where
  "edgy n i d m =
     (if edges_left m = 0 then Call (Disable i) m (\<lambda>m. Call (Interrupt i) m (Return IRQ_HANDLED))
      else Call (Interrupt i) (edge_sent m) (Return IRQ_HANDLED))"

lemma edge_sent_left: "edges_left m \<noteq> 0 \<Longrightarrow> edges_left (edge_sent m) = edges_left m - 1"
  by (simp add: edges_left_def edge_sent_def unat_minus_one unat_eq_zero)

lemma edgy_thrifty: "thrifty edges_left i edgy [demo_action]"
  by (auto simp: thrifty_def demo_action_def edgy_def edge_sent_left)

theorem edge_interrupt_returns_witness:
  "\<exists>s s'. edges_left (mach s) = 3 \<and> asm_do_IRQ (mx27_irq_fns edgy) 70 s = Inr s' \<and> \<not> has_status 70 IRQ_INPROGRESS s' \<and>
    (has_status 70 IRQ_PENDING s' \<longrightarrow> has_status 70 IRQ_DISABLED s')"
proof -
  obtain s0 where s0: "in_service s0" using demo_served by blast
  define m where "m = (mach s0)\<lparr>ports := (ports (mach s0))(6 := (ports (mach s0) 6)\<lparr>p_reserved_map := 3\<rparr>)\<rparr>"
  define s where "s = (asked 70 s0)\<lparr>mach := m, irqfixup := 0\<rparr>"
  note a = asked_facts [OF s0, of 70]
  have s: "line_ready 70 s" "irqfixup s = 0" "handle_irq (descs s 70) = Some handle_edge_irq_fn"
    "\<not> has_status 70 (IRQ_INPROGRESS OR IRQ_DISABLED) s" "depth (descs s 70) = 0" "action (descs s 70) = [demo_action]"
    using a s0 by (simp_all add: s_def open_line_def line_ready_def in_service_def status_simps)
  have "edges_left (mach s) = 3" by (simp add: s_def m_def edges_left_def)
  then show ?thesis
    using edge_interrupt_returns [OF s(1-5), of edges_left edgy] s(6) edgy_thrifty [of 70] by (auto simp: edges_left_def)
qed

end
