(* ===== verification/Mx27_Pins.thy ===== *)
theory Mx27_Pins
  imports Gpio
begin

text \<open>
  The pins of the i.MX27 (\<^verbatim>\<open>include/asm-arm/arch-mxc/mx27_pins.h\<close>).  The enumeration \<^verbatim>\<open>iomux_pins\<close> is one
  datatype per port, joined by the constructors \<open>PA\<close> to \<open>PF\<close>; \<open>pin_code\<close> is the number the
  enumeration gives a pin.
\<close>

section \<open>The enumeration\<close>

datatype pins_a =
  MX27_PIN_USBH2_CLK | MX27_PIN_USBH2_DIR | MX27_PIN_USBH2_DATA7 | MX27_PIN_USBH2_NXT | MX27_PIN_USBH2_STP
| MX27_PIN_LSCLK | MX27_PIN_LD0 | MX27_PIN_LD1 | MX27_PIN_LD2 | MX27_PIN_LD3 | MX27_PIN_LD4 | MX27_PIN_LD5
| MX27_PIN_LD6 | MX27_PIN_LD7 | MX27_PIN_LD8 | MX27_PIN_LD9 | MX27_PIN_LD10 | MX27_PIN_LD11 | MX27_PIN_LD12
| MX27_PIN_LD13 | MX27_PIN_LD14 | MX27_PIN_LD15 | MX27_PIN_LD16 | MX27_PIN_LD17 | MX27_PIN_REV | MX27_PIN_CLS
| MX27_PIN_PS | MX27_PIN_SPL_SPR | MX27_PIN_HSYNC | MX27_PIN_VSYNC | MX27_PIN_CONTRAST | MX27_PIN_OE_ACD

datatype pins_b =
  MX27_PIN_SD2_D0 | MX27_PIN_SD2_D1 | MX27_PIN_SD2_D2 | MX27_PIN_SD2_D3 | MX27_PIN_SD2_CMD | MX27_PIN_SD2_CLK
| MX27_PIN_CSI_D0 | MX27_PIN_CSI_D1 | MX27_PIN_CSI_D2 | MX27_PIN_CSI_D3 | MX27_PIN_CSI_D4 | MX27_PIN_CSI_MCLK
| MX27_PIN_CSI_PIXCLK | MX27_PIN_CSI_D5 | MX27_PIN_CSI_D6 | MX27_PIN_CSI_D7 | MX27_PIN_CSI_VSYNC | MX27_PIN_CSI_HSYNC
| MX27_PIN_USBH1_SUSP | MX27_PIN_USB_PWR | MX27_PIN_USB_OC_B | MX27_PIN_USBH1_RCV | MX27_PIN_USBH1_FS
| MX27_PIN_USBH1_OE_B | MX27_PIN_USBH1_TXDM | MX27_PIN_USBH1_TXDP | MX27_PIN_USBH1_RXDM | MX27_PIN_USBH1_RXDP

datatype pins_c =
  MX27_PIN_I2C2_SDA | MX27_PIN_I2C2_SCL | MX27_PIN_USBOTG_DATA5 | MX27_PIN_USBOTG_DATA6 | MX27_PIN_USBOTG_DATA0
| MX27_PIN_USBOTG_DATA2 | MX27_PIN_USBOTG_DATA1 | MX27_PIN_USBOTG_DATA4 | MX27_PIN_USBOTG_DATA3 | MX27_PIN_TOUT
| MX27_PIN_TIN | MX27_PIN_SSI4_FS | MX27_PIN_SSI4_RXDAT | MX27_PIN_SSI4_TXDAT | MX27_PIN_SSI4_CLK | MX27_PIN_SSI1_FS
| MX27_PIN_SSI1_RXDAT | MX27_PIN_SSI1_TXDAT | MX27_PIN_SSI1_CLK | MX27_PIN_SSI2_FS | MX27_PIN_SSI2_RXDAT
| MX27_PIN_SSI2_TXDAT | MX27_PIN_SSI2_CLK | MX27_PIN_SSI3_FS | MX27_PIN_SSI3_RXDAT | MX27_PIN_SSI3_TXDAT
| MX27_PIN_SSI3_CLK

datatype pins_d =
  MX27_PIN_SD3_CMD | MX27_PIN_SD3_CLK | MX27_PIN_ATA_DATA0 | MX27_PIN_ATA_DATA1 | MX27_PIN_ATA_DATA2
| MX27_PIN_ATA_DATA3 | MX27_PIN_ATA_DATA4 | MX27_PIN_ATA_DATA5 | MX27_PIN_ATA_DATA6 | MX27_PIN_ATA_DATA7
| MX27_PIN_ATA_DATA8 | MX27_PIN_ATA_DATA9 | MX27_PIN_ATA_DATA10 | MX27_PIN_ATA_DATA11 | MX27_PIN_ATA_DATA12
| MX27_PIN_ATA_DATA13 | MX27_PIN_ATA_DATA14 | MX27_PIN_I2C_DATA | MX27_PIN_I2C_CLK | MX27_PIN_CSPI2_SS2
| MX27_PIN_CSPI2_SS1 | MX27_PIN_CSPI2_SS0 | MX27_PIN_CSPI2_SCLK | MX27_PIN_CSPI2_MISO | MX27_PIN_CSPI2_MOSI
| MX27_PIN_CSPI1_RDY | MX27_PIN_CSPI1_SS2 | MX27_PIN_CSPI1_SS1 | MX27_PIN_CSPI1_SS0 | MX27_PIN_CSPI1_SCLK
| MX27_PIN_CSPI1_MISO | MX27_PIN_CSPI1_MOSI

datatype pins_e =
  MX27_PIN_USBOTG_NXT | MX27_PIN_USBOTG_STP | MX27_PIN_USBOTG_DIR | MX27_PIN_UART2_CTS | MX27_PIN_UART2_RTS
| MX27_PIN_PWMO | MX27_PIN_UART2_TXD | MX27_PIN_UART2_RXD | MX27_PIN_UART3_TXD | MX27_PIN_UART3_RXD
| MX27_PIN_UART3_CTS | MX27_PIN_UART3_RTS | MX27_PIN_UART1_TXD | MX27_PIN_UART1_RXD | MX27_PIN_UART1_CTS
| MX27_PIN_UART1_RTS | MX27_PIN_RTCK | MX27_PIN_RESET_OUT_B | MX27_PIN_SD1_D0 | MX27_PIN_SD1_D1 | MX27_PIN_SD1_D2
| MX27_PIN_SD1_D3 | MX27_PIN_SD1_CMD | MX27_PIN_SD1_CLK | MX27_PIN_USBOTG_CLK | MX27_PIN_USBOTG_DATA7

datatype pins_f =
  MX27_PIN_NFRB | MX27_PIN_NFCLE | MX27_PIN_NFWP_B | MX27_PIN_NFCE_B | MX27_PIN_NFALE | MX27_PIN_NFRE_B
| MX27_PIN_NFWE_B | MX27_PIN_PC_POE | MX27_PIN_PC_RW_B | MX27_PIN_IOIS16 | MX27_PIN_PC_RST | MX27_PIN_PC_BVD2
| MX27_PIN_PC_BVD1 | MX27_PIN_PC_VS2 | MX27_PIN_PC_VS1 | MX27_PIN_CLKO | MX27_PIN_PC_PWRON | MX27_PIN_PC_READY
| MX27_PIN_PC_WAIT_B | MX27_PIN_PC_CD2_B | MX27_PIN_PC_CD1_B | MX27_PIN_CS4_B | MX27_PIN_CS5_B | MX27_PIN_ATA_DATA15

datatype iomux_pins = PA pins_a | PB pins_b | PC pins_c | PD pins_d | PE pins_e | PF pins_f

text \<open>The offset of each pin within its port, as the enumeration gives it.\<close>

primrec index_a :: "pins_a \<Rightarrow> u32" where
  "index_a MX27_PIN_USBH2_CLK = 0"
| "index_a MX27_PIN_USBH2_DIR = 1"
| "index_a MX27_PIN_USBH2_DATA7 = 2"
| "index_a MX27_PIN_USBH2_NXT = 3"
| "index_a MX27_PIN_USBH2_STP = 4"
| "index_a MX27_PIN_LSCLK = 5"
| "index_a MX27_PIN_LD0 = 6"
| "index_a MX27_PIN_LD1 = 7"
| "index_a MX27_PIN_LD2 = 8"
| "index_a MX27_PIN_LD3 = 9"
| "index_a MX27_PIN_LD4 = 10"
| "index_a MX27_PIN_LD5 = 11"
| "index_a MX27_PIN_LD6 = 12"
| "index_a MX27_PIN_LD7 = 13"
| "index_a MX27_PIN_LD8 = 14"
| "index_a MX27_PIN_LD9 = 15"
| "index_a MX27_PIN_LD10 = 16"
| "index_a MX27_PIN_LD11 = 17"
| "index_a MX27_PIN_LD12 = 18"
| "index_a MX27_PIN_LD13 = 19"
| "index_a MX27_PIN_LD14 = 20"
| "index_a MX27_PIN_LD15 = 21"
| "index_a MX27_PIN_LD16 = 22"
| "index_a MX27_PIN_LD17 = 23"
| "index_a MX27_PIN_REV = 24"
| "index_a MX27_PIN_CLS = 25"
| "index_a MX27_PIN_PS = 26"
| "index_a MX27_PIN_SPL_SPR = 27"
| "index_a MX27_PIN_HSYNC = 28"
| "index_a MX27_PIN_VSYNC = 29"
| "index_a MX27_PIN_CONTRAST = 30"
| "index_a MX27_PIN_OE_ACD = 31"

primrec index_b :: "pins_b \<Rightarrow> u32" where
  "index_b MX27_PIN_SD2_D0 = 4"
| "index_b MX27_PIN_SD2_D1 = 5"
| "index_b MX27_PIN_SD2_D2 = 6"
| "index_b MX27_PIN_SD2_D3 = 7"
| "index_b MX27_PIN_SD2_CMD = 8"
| "index_b MX27_PIN_SD2_CLK = 9"
| "index_b MX27_PIN_CSI_D0 = 10"
| "index_b MX27_PIN_CSI_D1 = 11"
| "index_b MX27_PIN_CSI_D2 = 12"
| "index_b MX27_PIN_CSI_D3 = 13"
| "index_b MX27_PIN_CSI_D4 = 14"
| "index_b MX27_PIN_CSI_MCLK = 15"
| "index_b MX27_PIN_CSI_PIXCLK = 16"
| "index_b MX27_PIN_CSI_D5 = 17"
| "index_b MX27_PIN_CSI_D6 = 18"
| "index_b MX27_PIN_CSI_D7 = 19"
| "index_b MX27_PIN_CSI_VSYNC = 20"
| "index_b MX27_PIN_CSI_HSYNC = 21"
| "index_b MX27_PIN_USBH1_SUSP = 22"
| "index_b MX27_PIN_USB_PWR = 23"
| "index_b MX27_PIN_USB_OC_B = 24"
| "index_b MX27_PIN_USBH1_RCV = 25"
| "index_b MX27_PIN_USBH1_FS = 26"
| "index_b MX27_PIN_USBH1_OE_B = 27"
| "index_b MX27_PIN_USBH1_TXDM = 28"
| "index_b MX27_PIN_USBH1_TXDP = 29"
| "index_b MX27_PIN_USBH1_RXDM = 30"
| "index_b MX27_PIN_USBH1_RXDP = 31"

primrec index_c :: "pins_c \<Rightarrow> u32" where
  "index_c MX27_PIN_I2C2_SDA = 5"
| "index_c MX27_PIN_I2C2_SCL = 6"
| "index_c MX27_PIN_USBOTG_DATA5 = 7"
| "index_c MX27_PIN_USBOTG_DATA6 = 8"
| "index_c MX27_PIN_USBOTG_DATA0 = 9"
| "index_c MX27_PIN_USBOTG_DATA2 = 10"
| "index_c MX27_PIN_USBOTG_DATA1 = 11"
| "index_c MX27_PIN_USBOTG_DATA4 = 12"
| "index_c MX27_PIN_USBOTG_DATA3 = 13"
| "index_c MX27_PIN_TOUT = 14"
| "index_c MX27_PIN_TIN = 15"
| "index_c MX27_PIN_SSI4_FS = 16"
| "index_c MX27_PIN_SSI4_RXDAT = 17"
| "index_c MX27_PIN_SSI4_TXDAT = 18"
| "index_c MX27_PIN_SSI4_CLK = 19"
| "index_c MX27_PIN_SSI1_FS = 20"
| "index_c MX27_PIN_SSI1_RXDAT = 21"
| "index_c MX27_PIN_SSI1_TXDAT = 22"
| "index_c MX27_PIN_SSI1_CLK = 23"
| "index_c MX27_PIN_SSI2_FS = 24"
| "index_c MX27_PIN_SSI2_RXDAT = 25"
| "index_c MX27_PIN_SSI2_TXDAT = 26"
| "index_c MX27_PIN_SSI2_CLK = 27"
| "index_c MX27_PIN_SSI3_FS = 28"
| "index_c MX27_PIN_SSI3_RXDAT = 29"
| "index_c MX27_PIN_SSI3_TXDAT = 30"
| "index_c MX27_PIN_SSI3_CLK = 31"

primrec index_d :: "pins_d \<Rightarrow> u32" where
  "index_d MX27_PIN_SD3_CMD = 0"
| "index_d MX27_PIN_SD3_CLK = 1"
| "index_d MX27_PIN_ATA_DATA0 = 2"
| "index_d MX27_PIN_ATA_DATA1 = 3"
| "index_d MX27_PIN_ATA_DATA2 = 4"
| "index_d MX27_PIN_ATA_DATA3 = 5"
| "index_d MX27_PIN_ATA_DATA4 = 6"
| "index_d MX27_PIN_ATA_DATA5 = 7"
| "index_d MX27_PIN_ATA_DATA6 = 8"
| "index_d MX27_PIN_ATA_DATA7 = 9"
| "index_d MX27_PIN_ATA_DATA8 = 10"
| "index_d MX27_PIN_ATA_DATA9 = 11"
| "index_d MX27_PIN_ATA_DATA10 = 12"
| "index_d MX27_PIN_ATA_DATA11 = 13"
| "index_d MX27_PIN_ATA_DATA12 = 14"
| "index_d MX27_PIN_ATA_DATA13 = 15"
| "index_d MX27_PIN_ATA_DATA14 = 16"
| "index_d MX27_PIN_I2C_DATA = 17"
| "index_d MX27_PIN_I2C_CLK = 18"
| "index_d MX27_PIN_CSPI2_SS2 = 19"
| "index_d MX27_PIN_CSPI2_SS1 = 20"
| "index_d MX27_PIN_CSPI2_SS0 = 21"
| "index_d MX27_PIN_CSPI2_SCLK = 22"
| "index_d MX27_PIN_CSPI2_MISO = 23"
| "index_d MX27_PIN_CSPI2_MOSI = 24"
| "index_d MX27_PIN_CSPI1_RDY = 25"
| "index_d MX27_PIN_CSPI1_SS2 = 26"
| "index_d MX27_PIN_CSPI1_SS1 = 27"
| "index_d MX27_PIN_CSPI1_SS0 = 28"
| "index_d MX27_PIN_CSPI1_SCLK = 29"
| "index_d MX27_PIN_CSPI1_MISO = 30"
| "index_d MX27_PIN_CSPI1_MOSI = 31"

primrec index_e :: "pins_e \<Rightarrow> u32" where
  "index_e MX27_PIN_USBOTG_NXT = 0"
| "index_e MX27_PIN_USBOTG_STP = 1"
| "index_e MX27_PIN_USBOTG_DIR = 2"
| "index_e MX27_PIN_UART2_CTS = 3"
| "index_e MX27_PIN_UART2_RTS = 4"
| "index_e MX27_PIN_PWMO = 5"
| "index_e MX27_PIN_UART2_TXD = 6"
| "index_e MX27_PIN_UART2_RXD = 7"
| "index_e MX27_PIN_UART3_TXD = 8"
| "index_e MX27_PIN_UART3_RXD = 9"
| "index_e MX27_PIN_UART3_CTS = 10"
| "index_e MX27_PIN_UART3_RTS = 11"
| "index_e MX27_PIN_UART1_TXD = 12"
| "index_e MX27_PIN_UART1_RXD = 13"
| "index_e MX27_PIN_UART1_CTS = 14"
| "index_e MX27_PIN_UART1_RTS = 15"
| "index_e MX27_PIN_RTCK = 16"
| "index_e MX27_PIN_RESET_OUT_B = 17"
| "index_e MX27_PIN_SD1_D0 = 18"
| "index_e MX27_PIN_SD1_D1 = 19"
| "index_e MX27_PIN_SD1_D2 = 20"
| "index_e MX27_PIN_SD1_D3 = 21"
| "index_e MX27_PIN_SD1_CMD = 22"
| "index_e MX27_PIN_SD1_CLK = 23"
| "index_e MX27_PIN_USBOTG_CLK = 24"
| "index_e MX27_PIN_USBOTG_DATA7 = 25"

primrec index_f :: "pins_f \<Rightarrow> u32" where
  "index_f MX27_PIN_NFRB = 0"
| "index_f MX27_PIN_NFCLE = 1"
| "index_f MX27_PIN_NFWP_B = 2"
| "index_f MX27_PIN_NFCE_B = 3"
| "index_f MX27_PIN_NFALE = 4"
| "index_f MX27_PIN_NFRE_B = 5"
| "index_f MX27_PIN_NFWE_B = 6"
| "index_f MX27_PIN_PC_POE = 7"
| "index_f MX27_PIN_PC_RW_B = 8"
| "index_f MX27_PIN_IOIS16 = 9"
| "index_f MX27_PIN_PC_RST = 10"
| "index_f MX27_PIN_PC_BVD2 = 11"
| "index_f MX27_PIN_PC_BVD1 = 12"
| "index_f MX27_PIN_PC_VS2 = 13"
| "index_f MX27_PIN_PC_VS1 = 14"
| "index_f MX27_PIN_CLKO = 15"
| "index_f MX27_PIN_PC_PWRON = 16"
| "index_f MX27_PIN_PC_READY = 17"
| "index_f MX27_PIN_PC_WAIT_B = 18"
| "index_f MX27_PIN_PC_CD2_B = 19"
| "index_f MX27_PIN_PC_CD1_B = 20"
| "index_f MX27_PIN_CS4_B = 21"
| "index_f MX27_PIN_CS5_B = 22"
| "index_f MX27_PIN_ATA_DATA15 = 23"

definition MX27_BUILD_PIN :: "u32 \<Rightarrow> u32 \<Rightarrow> u32" where
  "MX27_BUILD_PIN gp gi = push_bit MUX_IO_P gp OR push_bit MUX_IO_I gi"

primrec pin_code :: "iomux_pins \<Rightarrow> u32" where
  "pin_code (PA p) = MX27_BUILD_PIN 0 (index_a p)"
| "pin_code (PB p) = MX27_BUILD_PIN 1 (index_b p)"
| "pin_code (PC p) = MX27_BUILD_PIN 2 (index_c p)"
| "pin_code (PD p) = MX27_BUILD_PIN 3 (index_d p)"
| "pin_code (PE p) = MX27_BUILD_PIN 4 (index_e p)"
| "pin_code (PF p) = MX27_BUILD_PIN 5 (index_f p)"

section \<open>Ports and offsets\<close>

text \<open>Every pin, port by port.\<close>

definition all_a :: "pins_a list" where
  "all_a = [
     MX27_PIN_USBH2_CLK, MX27_PIN_USBH2_DIR, MX27_PIN_USBH2_DATA7, MX27_PIN_USBH2_NXT, MX27_PIN_USBH2_STP,
     MX27_PIN_LSCLK, MX27_PIN_LD0, MX27_PIN_LD1, MX27_PIN_LD2, MX27_PIN_LD3, MX27_PIN_LD4,
     MX27_PIN_LD5, MX27_PIN_LD6, MX27_PIN_LD7, MX27_PIN_LD8, MX27_PIN_LD9, MX27_PIN_LD10,
     MX27_PIN_LD11, MX27_PIN_LD12, MX27_PIN_LD13, MX27_PIN_LD14, MX27_PIN_LD15, MX27_PIN_LD16,
     MX27_PIN_LD17, MX27_PIN_REV, MX27_PIN_CLS, MX27_PIN_PS, MX27_PIN_SPL_SPR, MX27_PIN_HSYNC,
     MX27_PIN_VSYNC, MX27_PIN_CONTRAST, MX27_PIN_OE_ACD]"

definition all_b :: "pins_b list" where
  "all_b = [
     MX27_PIN_SD2_D0, MX27_PIN_SD2_D1, MX27_PIN_SD2_D2, MX27_PIN_SD2_D3, MX27_PIN_SD2_CMD,
     MX27_PIN_SD2_CLK, MX27_PIN_CSI_D0, MX27_PIN_CSI_D1, MX27_PIN_CSI_D2, MX27_PIN_CSI_D3,
     MX27_PIN_CSI_D4, MX27_PIN_CSI_MCLK, MX27_PIN_CSI_PIXCLK, MX27_PIN_CSI_D5, MX27_PIN_CSI_D6,
     MX27_PIN_CSI_D7, MX27_PIN_CSI_VSYNC, MX27_PIN_CSI_HSYNC, MX27_PIN_USBH1_SUSP,
     MX27_PIN_USB_PWR, MX27_PIN_USB_OC_B, MX27_PIN_USBH1_RCV, MX27_PIN_USBH1_FS,
     MX27_PIN_USBH1_OE_B, MX27_PIN_USBH1_TXDM, MX27_PIN_USBH1_TXDP, MX27_PIN_USBH1_RXDM,
     MX27_PIN_USBH1_RXDP]"

definition all_c :: "pins_c list" where
  "all_c = [
     MX27_PIN_I2C2_SDA, MX27_PIN_I2C2_SCL, MX27_PIN_USBOTG_DATA5, MX27_PIN_USBOTG_DATA6,
     MX27_PIN_USBOTG_DATA0, MX27_PIN_USBOTG_DATA2, MX27_PIN_USBOTG_DATA1, MX27_PIN_USBOTG_DATA4,
     MX27_PIN_USBOTG_DATA3, MX27_PIN_TOUT, MX27_PIN_TIN, MX27_PIN_SSI4_FS, MX27_PIN_SSI4_RXDAT,
     MX27_PIN_SSI4_TXDAT, MX27_PIN_SSI4_CLK, MX27_PIN_SSI1_FS, MX27_PIN_SSI1_RXDAT,
     MX27_PIN_SSI1_TXDAT, MX27_PIN_SSI1_CLK, MX27_PIN_SSI2_FS, MX27_PIN_SSI2_RXDAT,
     MX27_PIN_SSI2_TXDAT, MX27_PIN_SSI2_CLK, MX27_PIN_SSI3_FS, MX27_PIN_SSI3_RXDAT,
     MX27_PIN_SSI3_TXDAT, MX27_PIN_SSI3_CLK]"

definition all_d :: "pins_d list" where
  "all_d = [
     MX27_PIN_SD3_CMD, MX27_PIN_SD3_CLK, MX27_PIN_ATA_DATA0, MX27_PIN_ATA_DATA1, MX27_PIN_ATA_DATA2,
     MX27_PIN_ATA_DATA3, MX27_PIN_ATA_DATA4, MX27_PIN_ATA_DATA5, MX27_PIN_ATA_DATA6,
     MX27_PIN_ATA_DATA7, MX27_PIN_ATA_DATA8, MX27_PIN_ATA_DATA9, MX27_PIN_ATA_DATA10,
     MX27_PIN_ATA_DATA11, MX27_PIN_ATA_DATA12, MX27_PIN_ATA_DATA13, MX27_PIN_ATA_DATA14,
     MX27_PIN_I2C_DATA, MX27_PIN_I2C_CLK, MX27_PIN_CSPI2_SS2, MX27_PIN_CSPI2_SS1,
     MX27_PIN_CSPI2_SS0, MX27_PIN_CSPI2_SCLK, MX27_PIN_CSPI2_MISO, MX27_PIN_CSPI2_MOSI,
     MX27_PIN_CSPI1_RDY, MX27_PIN_CSPI1_SS2, MX27_PIN_CSPI1_SS1, MX27_PIN_CSPI1_SS0,
     MX27_PIN_CSPI1_SCLK, MX27_PIN_CSPI1_MISO, MX27_PIN_CSPI1_MOSI]"

definition all_e :: "pins_e list" where
  "all_e = [
     MX27_PIN_USBOTG_NXT, MX27_PIN_USBOTG_STP, MX27_PIN_USBOTG_DIR, MX27_PIN_UART2_CTS,
     MX27_PIN_UART2_RTS, MX27_PIN_PWMO, MX27_PIN_UART2_TXD, MX27_PIN_UART2_RXD, MX27_PIN_UART3_TXD,
     MX27_PIN_UART3_RXD, MX27_PIN_UART3_CTS, MX27_PIN_UART3_RTS, MX27_PIN_UART1_TXD,
     MX27_PIN_UART1_RXD, MX27_PIN_UART1_CTS, MX27_PIN_UART1_RTS, MX27_PIN_RTCK,
     MX27_PIN_RESET_OUT_B, MX27_PIN_SD1_D0, MX27_PIN_SD1_D1, MX27_PIN_SD1_D2, MX27_PIN_SD1_D3,
     MX27_PIN_SD1_CMD, MX27_PIN_SD1_CLK, MX27_PIN_USBOTG_CLK, MX27_PIN_USBOTG_DATA7]"

definition all_f :: "pins_f list" where
  "all_f = [
     MX27_PIN_NFRB, MX27_PIN_NFCLE, MX27_PIN_NFWP_B, MX27_PIN_NFCE_B, MX27_PIN_NFALE, MX27_PIN_NFRE_B,
     MX27_PIN_NFWE_B, MX27_PIN_PC_POE, MX27_PIN_PC_RW_B, MX27_PIN_IOIS16, MX27_PIN_PC_RST,
     MX27_PIN_PC_BVD2, MX27_PIN_PC_BVD1, MX27_PIN_PC_VS2, MX27_PIN_PC_VS1, MX27_PIN_CLKO,
     MX27_PIN_PC_PWRON, MX27_PIN_PC_READY, MX27_PIN_PC_WAIT_B, MX27_PIN_PC_CD2_B,
     MX27_PIN_PC_CD1_B, MX27_PIN_CS4_B, MX27_PIN_CS5_B, MX27_PIN_ATA_DATA15]"

lemma all_pins:
  "p0 \<in> set all_a"
  "p1 \<in> set all_b"
  "p2 \<in> set all_c"
  "p3 \<in> set all_d"
  "p4 \<in> set all_e"
  "p5 \<in> set all_f"
  subgoal by (cases p0, simp_all add: all_a_def)
  subgoal by (cases p1, simp_all add: all_b_def)
  subgoal by (cases p2, simp_all add: all_c_def)
  subgoal by (cases p3, simp_all add: all_d_def)
  subgoal by (cases p4, simp_all add: all_e_def)
  subgoal by (cases p5, simp_all add: all_f_def)
  done

lemma index_less:
  "index_a p0 < 32"
  "index_b p1 < 32"
  "index_c p2 < 32"
  "index_d p3 < 32"
  "index_e p4 < 32"
  "index_f p5 < 32"
  subgoal by (cases p0) simp_all
  subgoal by (cases p1) simp_all
  subgoal by (cases p2) simp_all
  subgoal by (cases p3) simp_all
  subgoal by (cases p4) simp_all
  subgoal by (cases p5) simp_all
  done

lemma index_inj:
  "index_a p0 = index_a q0 \<longleftrightarrow> p0 = q0"
  "index_b p1 = index_b q1 \<longleftrightarrow> p1 = q1"
  "index_c p2 = index_c q2 \<longleftrightarrow> p2 = q2"
  "index_d p3 = index_d q3 \<longleftrightarrow> p3 = q3"
  "index_e p4 = index_e q4 \<longleftrightarrow> p4 = q4"
  "index_f p5 = index_f q5 \<longleftrightarrow> p5 = q5"
proof -
  have a: "distinct (map index_a all_a)" by (simp add: all_a_def)
  have b: "distinct (map index_b all_b)" by (simp add: all_b_def)
  have c: "distinct (map index_c all_c)" by (simp add: all_c_def)
  have d: "distinct (map index_d all_d)" by (simp add: all_d_def)
  have e: "distinct (map index_e all_e)" by (simp add: all_e_def)
  have f: "distinct (map index_f all_f)" by (simp add: all_f_def)
  show "index_a p0 = index_a q0 \<longleftrightarrow> p0 = q0"
    using a all_pins(1) by (auto simp: distinct_map dest: inj_onD)
  show "index_b p1 = index_b q1 \<longleftrightarrow> p1 = q1"
    using b all_pins(2) by (auto simp: distinct_map dest: inj_onD)
  show "index_c p2 = index_c q2 \<longleftrightarrow> p2 = q2"
    using c all_pins(3) by (auto simp: distinct_map dest: inj_onD)
  show "index_d p3 = index_d q3 \<longleftrightarrow> p3 = q3"
    using d all_pins(4) by (auto simp: distinct_map dest: inj_onD)
  show "index_e p4 = index_e q4 \<longleftrightarrow> p4 = q4"
    using e all_pins(5) by (auto simp: distinct_map dest: inj_onD)
  show "index_f p5 = index_f q5 \<longleftrightarrow> p5 = q5"
    using f all_pins(6) by (auto simp: distinct_map dest: inj_onD)
qed

text \<open>The port and the offset of a pin.\<close>

primrec pin_port :: "iomux_pins \<Rightarrow> nat" where
  "pin_port (PA p) = 0"
| "pin_port (PB p) = 1"
| "pin_port (PC p) = 2"
| "pin_port (PD p) = 3"
| "pin_port (PE p) = 4"
| "pin_port (PF p) = 5"

primrec pin_index :: "iomux_pins \<Rightarrow> u32" where
  "pin_index (PA p) = index_a p"
| "pin_index (PB p) = index_b p"
| "pin_index (PC p) = index_c p"
| "pin_index (PD p) = index_d p"
| "pin_index (PE p) = index_e p"
| "pin_index (PF p) = index_f p"

lemma pin_port_less: "pin_port p < 6"
  by (cases p) simp_all

lemma pin_index_less: "pin_index p < 32"
  by (cases p) (simp_all add: index_less)

lemma pin_eq_iff: "p = q \<longleftrightarrow> pin_port p = pin_port q \<and> pin_index p = pin_index q"
  by (cases p; cases q) (simp_all add: index_inj)

lemma pin_code_eq: "pin_code p = MX27_BUILD_PIN (of_nat (pin_port p)) (pin_index p)"
  by (cases p) simp_all

text \<open>The address macros take a pin apart again.\<close>

lemma build_pin_apart:
  assumes "p < 8" and "i < 32"
  shows "drop_bit MUX_IO_P (MX27_BUILD_PIN p i) = p" "drop_bit MUX_IO_I (MX27_BUILD_PIN p i) AND 31 = i"
proof -
  have p: "bit p n \<Longrightarrow> n < 3" for n
    using assms(1) fits_bit [of 3 p n] by (simp add: fits_iff_less word_less_nat_alt)
  have i: "bit i n \<Longrightarrow> n < 5" for n
    using assms(2) fits_bit [of 5 i n] by (simp add: fits_iff_less word_less_nat_alt)
  show "drop_bit MUX_IO_P (MX27_BUILD_PIN p i) = p"
  proof (rule bit_word_eqI)
    fix n assume "n < LENGTH(32)"
    have "\<not> bit i (5 + n)" using i [of "5 + n"] by auto
    then show "bit (drop_bit MUX_IO_P (MX27_BUILD_PIN p i)) n = bit p n"
      using p [of n] by (auto simp: MX27_BUILD_PIN_def MUX_IO_P_def MUX_IO_I_def bit_simps)
  qed
  have m: "(31 :: u32) = mask 5" by (simp add: mask_eq_exp_minus_1)
  show "drop_bit MUX_IO_I (MX27_BUILD_PIN p i) AND 31 = i"
    unfolding m
  proof (rule bit_word_eqI)
    fix n assume "n < LENGTH(32)"
    show "bit (drop_bit MUX_IO_I (MX27_BUILD_PIN p i) AND mask 5) n = bit i n"
      using i [of n] by (auto simp: MX27_BUILD_PIN_def MUX_IO_P_def MUX_IO_I_def bit_simps)
  qed
qed

lemma pin_gpio:
  "IOMUX_TO_GPIO (pin_code p) = of_nat (pin_port p) * 32 + pin_index p"
proof -
  have "(of_nat (pin_port p) :: u32) < 8" by (cases p) simp_all
  from build_pin_apart [OF this pin_index_less [of p]] show ?thesis
    by (simp add: IOMUX_TO_GPIO_def pin_code_eq GPIO_NUM_PIN_def MUX_IO_P_def MUX_IO_I_def)
qed

lemma pin_gpio_unat: "unat (IOMUX_TO_GPIO (pin_code p)) = pin_port p * 32 + unat (pin_index p)"
proof -
  have "unat (pin_index p) < 32" using pin_index_less [of p] by (simp add: word_less_nat_alt)
  moreover have "pin_port p < 6" by (rule pin_port_less)
  ultimately show ?thesis unfolding pin_gpio by (simp add: unat_word_ariths unat_of_nat take_bit_nat_eq_self)
qed

lemma pin_macros [simp]:
  "check_gpio (IOMUX_TO_GPIO (pin_code p)) = 0" "GPIO_TO_PORT (IOMUX_TO_GPIO (pin_code p)) = pin_port p"
  "GPIO_TO_INDEX (IOMUX_TO_GPIO (pin_code p)) = pin_index p"
proof -
  have i: "unat (pin_index p) < 32" using pin_index_less [of p] by (simp add: word_less_nat_alt)
  have "pin_port p < 6" by (rule pin_port_less)
  then have "unat (IOMUX_TO_GPIO (pin_code p)) < 192" using i by (simp add: pin_gpio_unat)
  then show "check_gpio (IOMUX_TO_GPIO (pin_code p)) = 0"
    by (simp add: check_gpio_def MXC_MAX_GPIO_LINES_def GPIO_NUM_PIN_def GPIO_PORT_NUM_def word_le_nat_alt)
  show "GPIO_TO_PORT (IOMUX_TO_GPIO (pin_code p)) = pin_port p"
    using i by (simp add: GPIO_TO_PORT_def GPIO_NUM_PIN_def unat_div pin_gpio_unat)
  show "GPIO_TO_INDEX (IOMUX_TO_GPIO (pin_code p)) = pin_index p"
    using i by (simp add: GPIO_TO_INDEX_def GPIO_NUM_PIN_def word_unat_eq_iff unat_mod pin_gpio_unat)
qed

end
