(* ===== verification/Gpio_Mux.thy ===== *)
theory Gpio_Mux
  imports Mx27_Pins Gpio_Irq
begin

text \<open>
  The multiplexing of pins (\<^verbatim>\<open>arch/arm/mach-mx27/gpio_mux.c\<close>): which function a pin has, its
  pull-up, and the pair of requesting and freeing it.  The registers of a port hold one bit or one
  two-bit field per pin; the lemmas read them pin by pin.
\<close>

section \<open>Registers\<close>

definition GPIO_GIUS :: u32 where "GPIO_GIUS = 0x20"
definition GPIO_GPR :: u32 where "GPIO_GPR = 0x38"
definition GPIO_PUEN :: u32 where "GPIO_PUEN = 0x40"
definition GPIO_OCR1 :: u32 where "GPIO_OCR1 = 0x04"
definition GPIO_OCR2 :: u32 where "GPIO_OCR2 = 0x08"
definition GPIO_ICONFA1 :: u32 where "GPIO_ICONFA1 = 0x0C"
definition GPIO_ICONFA2 :: u32 where "GPIO_ICONFA2 = 0x10"
definition GPIO_ICONFB1 :: u32 where "GPIO_ICONFB1 = 0x14"
definition GPIO_ICONFB2 :: u32 where "GPIO_ICONFB2 = 0x18"

definition GPIO_INPUT_GPIO :: u32 where "GPIO_INPUT_GPIO = 0"
definition GPIO_OUTPUT_A :: u32 where "GPIO_OUTPUT_A = 0"
definition GPIO_OUTPUT_B :: u32 where "GPIO_OUTPUT_B = 1"
definition GPIO_OUTPUT_C :: u32 where "GPIO_OUTPUT_C = 2"
definition GPIO_OUTPUT_DR :: u32 where "GPIO_OUTPUT_DR = 3"

datatype gpio_mux_mode =
  GPIO_MUX_PRIMARY | GPIO_MUX_ALT | GPIO_MUX_GPIO | GPIO_MUX_INPUT1 | GPIO_MUX_INPUT2
| GPIO_MUX_OUTPUT1 | GPIO_MUX_OUTPUT2 | GPIO_MUX_OUTPUT3

section \<open>Operations\<close>

text \<open>The helpers take the base address of the port.\<close>

definition u_gpio_set_puen :: "u32 \<Rightarrow> u32 \<Rightarrow> bool \<Rightarrow> mx27_mach \<Rightarrow> mx27_mach" where
  "u_gpio_set_puen bas index en m =
     (let reg = mrd (bas + GPIO_PUEN) m in
      mwr (if en then reg OR pin_bit index else reg AND NOT (pin_bit index)) (bas + GPIO_PUEN) m)"

definition u_gpio_set_iconfa :: "u32 \<Rightarrow> u32 \<Rightarrow> u32 \<Rightarrow> mx27_mach \<Rightarrow> mx27_mach" where
  "u_gpio_set_iconfa bas index config m =
     (let msk = push_bit (unat (push_bit 1 (index mod 16))) 0x3;
          (reg, val) = (if index \<ge> 16 then (bas + GPIO_ICONFA2, push_bit (unat ((index - 16) * 2)) config)
                        else (bas + GPIO_ICONFA1, push_bit (unat (index * 2)) config))
      in mwr (val OR (mrd reg m AND NOT msk)) reg m)"

definition u_gpio_set_iconfb :: "u32 \<Rightarrow> u32 \<Rightarrow> u32 \<Rightarrow> mx27_mach \<Rightarrow> mx27_mach" where
  "u_gpio_set_iconfb bas index config m =
     (let msk = push_bit (unat (push_bit 1 (index mod 16))) 0x3;
          (reg, val) = (if index \<ge> 16 then (bas + GPIO_ICONFB2, push_bit (unat ((index - 16) * 2)) config)
                        else (bas + GPIO_ICONFB1, push_bit (unat (index * 2)) config))
      in mwr (val OR (mrd reg m AND NOT msk)) reg m)"

definition u_gpio_set_ocr :: "u32 \<Rightarrow> u32 \<Rightarrow> u32 \<Rightarrow> mx27_mach \<Rightarrow> mx27_mach" where
  "u_gpio_set_ocr bas index config m =
     (let msk = push_bit (unat (push_bit 1 (index mod 16))) 0x3;
          (reg, val) = (if index \<ge> 16 then (bas + GPIO_OCR2, push_bit (unat ((index - 16) * 2)) config)
                        else (bas + GPIO_OCR1, push_bit (unat (index * 2)) config))
      in mwr (val OR (mrd reg m AND NOT msk)) reg m)"

text \<open>The base address comes from the platform's table; a pin of the enumeration has a port in it.\<close>

definition mux_base :: "u32 \<Rightarrow> u32" where
  "mux_base gpio = fst (snd (mxc_gpio_ports ! GPIO_TO_PORT gpio))"

definition gpio_config_mux :: "iomux_pins \<Rightarrow> gpio_mux_mode \<Rightarrow> mx27_mach \<Rightarrow> int \<times> mx27_mach" where
  "gpio_config_mux pin mode m =
     (let gpio = IOMUX_TO_GPIO (pin_code pin);
          bas = mux_base gpio;
          index = GPIO_TO_INDEX gpio;
          gius = mrd (bas + GPIO_GIUS) m;
          gpr = mrd (bas + GPIO_GPR) m;
          (gius, gpr, m) =
            (case mode of
               GPIO_MUX_PRIMARY \<Rightarrow> (gius AND NOT (pin_bit index), gpr AND NOT (pin_bit index), m)
             | GPIO_MUX_ALT \<Rightarrow> (gius AND NOT (pin_bit index), gpr OR pin_bit index, m)
             | GPIO_MUX_GPIO \<Rightarrow> (gius OR pin_bit index, gpr, u_gpio_set_ocr bas index GPIO_OUTPUT_DR m)
             | GPIO_MUX_INPUT1 \<Rightarrow> (gius OR pin_bit index, gpr, u_gpio_set_iconfa bas index GPIO_INPUT_GPIO m)
             | GPIO_MUX_INPUT2 \<Rightarrow> (gius OR pin_bit index, gpr, u_gpio_set_iconfb bas index GPIO_INPUT_GPIO m)
             | GPIO_MUX_OUTPUT1 \<Rightarrow> (gius OR pin_bit index, gpr, u_gpio_set_ocr bas index GPIO_OUTPUT_A m)
             | GPIO_MUX_OUTPUT2 \<Rightarrow> (gius OR pin_bit index, gpr, u_gpio_set_ocr bas index GPIO_OUTPUT_B m)
             | GPIO_MUX_OUTPUT3 \<Rightarrow> (gius OR pin_bit index, gpr, u_gpio_set_ocr bas index GPIO_OUTPUT_C m));
          m = mwr gius (bas + GPIO_GIUS) m
      in (0, mwr gpr (bas + GPIO_GPR) m))"

definition gpio_set_puen :: "iomux_pins \<Rightarrow> bool \<Rightarrow> mx27_mach \<Rightarrow> int \<times> mx27_mach" where
  "gpio_set_puen pin en m =
     (let gpio = IOMUX_TO_GPIO (pin_code pin) in
      (0, u_gpio_set_puen (mux_base gpio) (GPIO_TO_INDEX gpio) en m))"

definition gpio_request_mux :: "iomux_pins \<Rightarrow> gpio_mux_mode \<Rightarrow> mx27_mach \<Rightarrow> int \<times> mx27_mach" where
  "gpio_request_mux pin mode m =
     (let (ret, m) = mxc_request_gpio (pin_code pin) m in
      if ret = 0 then
        let (ret, m) = gpio_config_mux pin mode m in
        if ret \<noteq> 0 then (ret, mxc_free_gpio (pin_code pin) m) else (ret, m)
      else (ret, m))"

definition gpio_free_mux :: "iomux_pins \<Rightarrow> mx27_mach \<Rightarrow> mx27_mach" where
  "gpio_free_mux pin m = mxc_free_gpio (pin_code pin) m"

section \<open>Registers pin by pin\<close>

lemma mux_base_pin [simp]: "mux_base (IOMUX_TO_GPIO (pin_code p)) = port_base (pin_port p)"
  by (simp add: mux_base_def gpio_ports_nth pin_port_less)

text \<open>A bit per pin, and a field of two bits per pin in a pair of registers.\<close>

definition pin_flag :: "u32 \<Rightarrow> iomux_pins \<Rightarrow> mx27_mach \<Rightarrow> bool" where
  "pin_flag r p m = bit (mrd (port_base (pin_port p) + r) m) (unat (pin_index p))"

definition field_reg :: "u32 \<times> u32 \<Rightarrow> iomux_pins \<Rightarrow> u32" where
  "field_reg rr p = port_base (pin_port p) + (if pin_index p \<ge> 16 then snd rr else fst rr)"

definition field_pos :: "iomux_pins \<Rightarrow> nat" where
  "field_pos p = 2 * (unat (pin_index p) mod 16)"

definition pin_field :: "u32 \<times> u32 \<Rightarrow> iomux_pins \<Rightarrow> mx27_mach \<Rightarrow> u32" where
  "pin_field rr p m = fld_get (field_pos p) 2 (mrd (field_reg rr p) m)"

definition put_field :: "u32 \<times> u32 \<Rightarrow> iomux_pins \<Rightarrow> u32 \<Rightarrow> mx27_mach \<Rightarrow> mx27_mach" where
  "put_field rr p v m = mwr (fld_set (field_pos p) 2 v (mrd (field_reg rr p) m)) (field_reg rr p) m"

lemma index_unat: "unat (pin_index p) < 32"
  using pin_index_less [of p] by (simp add: word_less_nat_alt)

lemma pin_bits [simp]: "bit (2 ^ unat (pin_index p) :: u32) n \<longleftrightarrow> n = unat (pin_index p)"
  using index_unat [of p] by (auto simp: bit_exp_iff)

lemma same_place:
  assumes "unat r < 256" and "unat r' < 256"
  shows "port_base (pin_port p) + r = port_base (pin_port q) + r' \<longleftrightarrow> pin_port p = pin_port q \<and> r = r'"
  using port_reg_eq [OF pin_port_less pin_port_less assms] by blast

lemma same_base [simp]: "port_base (pin_port p) = port_base (pin_port q) \<longleftrightarrow> pin_port p = pin_port q"
  using same_place [of 0 0 p q] by simp

lemma base_place:
  assumes "unat r < 256"
  shows "port_base (pin_port p) = port_base (pin_port q) + r \<longleftrightarrow> pin_port p = pin_port q \<and> r = 0"
    and "port_base (pin_port q) + r = port_base (pin_port p) \<longleftrightarrow> pin_port p = pin_port q \<and> r = 0"
  using same_place [of 0 r p q] same_place [of r 0 q p] assms by auto

lemma field_shift:
  "unat (push_bit 1 (pin_index p mod 16)) = field_pos p"
  "pin_index p \<ge> 16 \<Longrightarrow> unat ((pin_index p - 16) * 2) = field_pos p"
  "\<not> pin_index p \<ge> 16 \<Longrightarrow> unat (pin_index p * 2) = field_pos p"
proof -
  note i = index_unat [of p]
  show "unat (push_bit 1 (pin_index p mod 16)) = field_pos p"
    by (simp add: field_pos_def push_bit_eq_mult unat_word_ariths unat_mod)
  show "unat (pin_index p * 2) = field_pos p" if "\<not> pin_index p \<ge> 16"
    using that i by (simp add: field_pos_def unat_word_ariths word_le_nat_alt)
  show "unat ((pin_index p - 16) * 2) = field_pos p" if "pin_index p \<ge> 16"
  proof -
    have "16 \<le> unat (pin_index p)" using that by (simp add: word_le_nat_alt)
    then obtain k where k: "unat (pin_index p) = 16 + k" by (metis le_Suc_ex)
    have "unat (pin_index p - 16) = k" using that k by (simp add: unat_sub)
    then have "unat ((pin_index p - 16) * 2) = k * 2" using i k unfolding unat_word_ariths(2) by simp
    then show ?thesis using i k by (simp add: field_pos_def)
  qed
qed

lemma field_pos_less: "field_pos p + 2 \<le> 32"
  by (simp add: field_pos_def)

lemma field_pos_apart:
  assumes "p \<noteq> q" and "field_reg rr p = field_reg rr q" and "unat (fst rr) < 256" "unat (snd rr) < 256" "fst rr \<noteq> snd rr"
  shows "field_pos p + 2 \<le> field_pos q \<or> field_pos q + 2 \<le> field_pos p"
proof -
  have "pin_port p = pin_port q" "pin_index p \<ge> 16 \<longleftrightarrow> pin_index q \<ge> 16"
    using assms(2-5) by (auto simp: field_reg_def same_place split: if_splits)
  moreover from this assms(1) have "unat (pin_index p) \<noteq> unat (pin_index q)" by (simp add: pin_eq_iff word_unat_eq_iff)
  ultimately show ?thesis
    using index_unat [of p] index_unat [of q] by (auto simp: field_pos_def word_le_nat_alt mod_if)
qed

lemma field_get_put:
  assumes "storage (mio m) (field_reg rr p)" and "fits 2 v" and "unat (fst rr) < 256" "unat (snd rr) < 256" "fst rr \<noteq> snd rr"
  shows "pin_field rr q (put_field rr p v m) = (if q = p then v else pin_field rr q m)"
proof (cases "q = p \<or> field_reg rr q \<noteq> field_reg rr p")
  case True
  then show ?thesis using assms(1,2) field_pos_less [of p] by (auto simp: pin_field_def put_field_def fld_get_set)
next
  case False
  then have "field_pos q + 2 \<le> field_pos p \<or> field_pos p + 2 \<le> field_pos q"
    using field_pos_apart [of p q rr] assms(3-5) by auto
  then show ?thesis using False assms(1,2) field_pos_less [of q]
    by (simp add: pin_field_def put_field_def fld_get_other)
qed

lemma put_field_ports [simp]: "ports (put_field rr p v m) = ports m" "storage (mio (put_field rr p v m)) = storage (mio m)"
  by (simp_all add: put_field_def)

lemma put_field_other:
  assumes "unat (fst rr) < 256" "unat (snd rr) < 256"
  shows "unat r < 256 \<Longrightarrow> r \<notin> {fst rr, snd rr} \<Longrightarrow> mrd (port_base (pin_port q) + r) (put_field rr p v m) = mrd (port_base (pin_port q) + r) m"
    and "unat (fst ss) < 256 \<Longrightarrow> unat (snd ss) < 256 \<Longrightarrow> {fst rr, snd rr} \<inter> {fst ss, snd ss} = {} \<Longrightarrow>
      pin_field ss q (put_field rr p v m) = pin_field ss q m"
proof -
  show other: "mrd (port_base (pin_port q) + r) (put_field rr p v m) = mrd (port_base (pin_port q) + r) m"
    if "unat r < 256" "r \<notin> {fst rr, snd rr}" for r
    using that assms by (auto simp: put_field_def field_reg_def same_place)
  show "pin_field ss q (put_field rr p v m) = pin_field ss q m"
    if "unat (fst ss) < 256" "unat (snd ss) < 256" "{fst rr, snd rr} \<inter> {fst ss, snd ss} = {}"
    using that by (auto simp: pin_field_def field_reg_def intro!: arg_cong [of _ _ "fld_get _ _"] other)
qed

lemma same_pin: "pin_port q = pin_port p \<Longrightarrow> unat (pin_index q) = unat (pin_index p) \<longleftrightarrow> q = p"
  by (simp add: pin_eq_iff word_unat_eq_iff)

text \<open>Writing a register of one bit per pin.\<close>

lemma flag_other:
  "unat r < 256 \<Longrightarrow> unat r' < 256 \<Longrightarrow> r \<noteq> r' \<Longrightarrow> pin_flag r q (mwr v (port_base (pin_port p) + r') m) = pin_flag r q m"
  by (simp add: pin_flag_def same_place)

lemma flag_write:
  assumes "storage (mio m) (port_base (pin_port p) + r)"
  shows "pin_flag r q (mwr v (port_base (pin_port p) + r) m) =
    (if pin_port q = pin_port p then bit v (unat (pin_index q)) else pin_flag r q m)"
  using assms by (simp add: pin_flag_def)

lemma flag_change:
  assumes "storage (mio m) (port_base (pin_port p) + r)"
  shows "pin_flag r q (mwr (mrd (port_base (pin_port p) + r) m AND NOT (pin_bit (pin_index p))) (port_base (pin_port p) + r) m) \<longleftrightarrow>
      q \<noteq> p \<and> pin_flag r q m"
    and "pin_flag r q (mwr (mrd (port_base (pin_port p) + r) m OR pin_bit (pin_index p)) (port_base (pin_port p) + r) m) \<longleftrightarrow>
      q = p \<or> pin_flag r q m"
  using index_unat [of q] same_pin [of q p] unfolding flag_write [OF assms] by (auto simp: pin_flag_def bit_simps)

lemma flag_w1c:
  assumes "w1c (mio m) (port_base (pin_port p) + r)"
  shows "pin_flag r q (mwr (pin_bit (pin_index p)) (port_base (pin_port p) + r) m) \<longleftrightarrow> q \<noteq> p \<and> pin_flag r q m"
  using assms index_unat [of q] same_pin [of q p] by (cases "pin_port q = pin_port p") (auto simp: pin_flag_def bit_simps)

text \<open>The three helpers write such fields.\<close>

lemma or_field: "push_bit sh v OR (x AND NOT (push_bit sh 3)) = fld_set sh 2 v x"
proof -
  have "(3 :: u32) = mask 2" by (simp add: mask_eq_exp_minus_1)
  then show ?thesis by (simp only: fld_set_def or.commute)
qed

lemma helpers_put:
  "u_gpio_set_ocr (port_base (pin_port p)) (pin_index p) v m = put_field (GPIO_OCR1, GPIO_OCR2) p v m"
  "u_gpio_set_iconfa (port_base (pin_port p)) (pin_index p) v m = put_field (GPIO_ICONFA1, GPIO_ICONFA2) p v m"
  "u_gpio_set_iconfb (port_base (pin_port p)) (pin_index p) v m = put_field (GPIO_ICONFB1, GPIO_ICONFB2) p v m"
  unfolding u_gpio_set_ocr_def u_gpio_set_iconfa_def u_gpio_set_iconfb_def put_field_def field_reg_def Let_def field_shift(1)
  by (auto simp only: fst_conv snd_conv prod.case or_field field_shift(2,3) if_True if_False split: if_split)

section \<open>The function of a pin\<close>

text \<open>
  What the multiplexer registers say of a pin: whether the pin is under the control of its port
  (\<^verbatim>\<open>GIUS\<close>), which peripheral function it has otherwise (\<^verbatim>\<open>GPR\<close>), where its output comes from and
  where its input goes.
\<close>

record pin_function =
  in_use_by_port :: bool
  alternate :: bool
  output_from :: u32
  input_a :: u32
  input_b :: u32

definition pin_function :: "iomux_pins \<Rightarrow> mx27_mach \<Rightarrow> pin_function" where
  "pin_function p m = \<lparr>in_use_by_port = pin_flag GPIO_GIUS p m, alternate = pin_flag GPIO_GPR p m,
     output_from = pin_field (GPIO_OCR1, GPIO_OCR2) p m, input_a = pin_field (GPIO_ICONFA1, GPIO_ICONFA2) p m,
     input_b = pin_field (GPIO_ICONFB1, GPIO_ICONFB2) p m\<rparr>"

fun with_mode :: "gpio_mux_mode \<Rightarrow> pin_function \<Rightarrow> pin_function" where
  "with_mode GPIO_MUX_PRIMARY f = f\<lparr>in_use_by_port := False, alternate := False\<rparr>"
| "with_mode GPIO_MUX_ALT f = f\<lparr>in_use_by_port := False, alternate := True\<rparr>"
| "with_mode GPIO_MUX_GPIO f = f\<lparr>in_use_by_port := True, output_from := GPIO_OUTPUT_DR\<rparr>"
| "with_mode GPIO_MUX_INPUT1 f = f\<lparr>in_use_by_port := True, input_a := GPIO_INPUT_GPIO\<rparr>"
| "with_mode GPIO_MUX_INPUT2 f = f\<lparr>in_use_by_port := True, input_b := GPIO_INPUT_GPIO\<rparr>"
| "with_mode GPIO_MUX_OUTPUT1 f = f\<lparr>in_use_by_port := True, output_from := GPIO_OUTPUT_A\<rparr>"
| "with_mode GPIO_MUX_OUTPUT2 f = f\<lparr>in_use_by_port := True, output_from := GPIO_OUTPUT_B\<rparr>"
| "with_mode GPIO_MUX_OUTPUT3 f = f\<lparr>in_use_by_port := True, output_from := GPIO_OUTPUT_C\<rparr>"

text \<open>The registers of the multiplexer hold what is written.\<close>

definition mux_storage :: "mx27_mach \<Rightarrow> bool" where
  "mux_storage m \<longleftrightarrow> (\<forall>p < 6. \<forall>r\<in>{GPIO_GIUS, GPIO_GPR, GPIO_PUEN, GPIO_OCR1, GPIO_OCR2, GPIO_ICONFA1, GPIO_ICONFA2, GPIO_ICONFB1, GPIO_ICONFB2}.
     storage (mio m) (port_base p + r))"

lemmas mux_regs = GPIO_GIUS_def GPIO_GPR_def GPIO_PUEN_def GPIO_OCR1_def GPIO_OCR2_def GPIO_ICONFA1_def GPIO_ICONFA2_def
  GPIO_ICONFB1_def GPIO_ICONFB2_def

lemma mux_storageD:
  assumes "mux_storage m"
  shows "storage (mio m) (port_base (pin_port p) + GPIO_GIUS)" "storage (mio m) (port_base (pin_port p) + GPIO_GPR)"
    "storage (mio m) (port_base (pin_port p) + GPIO_PUEN)" "storage (mio m) (field_reg (GPIO_OCR1, GPIO_OCR2) p)"
    "storage (mio m) (field_reg (GPIO_ICONFA1, GPIO_ICONFA2) p)" "storage (mio m) (field_reg (GPIO_ICONFB1, GPIO_ICONFB2) p)"
  using assms pin_port_less [of p] by (auto simp: mux_storage_def field_reg_def)

text \<open>Writing the two bit registers, the fields being written before.\<close>

lemma flags_written:
  assumes "mux_storage m"
  shows "pin_function q (mwr gpr (port_base (pin_port p) + GPIO_GPR) (mwr gius (port_base (pin_port p) + GPIO_GIUS) m)) =
    (pin_function q m)
      \<lparr>in_use_by_port := (if pin_port q = pin_port p then bit gius (unat (pin_index q)) else in_use_by_port (pin_function q m)),
       alternate := (if pin_port q = pin_port p then bit gpr (unat (pin_index q)) else alternate (pin_function q m))\<rparr>"
  using mux_storageD(1,2) [OF assms, of p]
  by (auto simp: pin_function_def pin_flag_def pin_field_def field_reg_def same_place mux_regs)

lemma fields_written:
  assumes "mux_storage m" and "fits 2 v"
  shows "pin_function q (put_field (GPIO_OCR1, GPIO_OCR2) p v m) = (if q = p then (pin_function q m)\<lparr>output_from := v\<rparr> else pin_function q m)"
    "pin_function q (put_field (GPIO_ICONFA1, GPIO_ICONFA2) p v m) = (if q = p then (pin_function q m)\<lparr>input_a := v\<rparr> else pin_function q m)"
    "pin_function q (put_field (GPIO_ICONFB1, GPIO_ICONFB2) p v m) = (if q = p then (pin_function q m)\<lparr>input_b := v\<rparr> else pin_function q m)"
proof -
  note st = mux_storageD [OF assms(1), of p]
  show "pin_function q (put_field (GPIO_OCR1, GPIO_OCR2) p v m) = (if q = p then (pin_function q m)\<lparr>output_from := v\<rparr> else pin_function q m)"
    using st(4) assms(2) by (simp add: pin_function_def pin_flag_def put_field_other field_get_put mux_regs)
  show "pin_function q (put_field (GPIO_ICONFA1, GPIO_ICONFA2) p v m) = (if q = p then (pin_function q m)\<lparr>input_a := v\<rparr> else pin_function q m)"
    using st(5) assms(2) by (simp add: pin_function_def pin_flag_def put_field_other field_get_put mux_regs)
  show "pin_function q (put_field (GPIO_ICONFB1, GPIO_ICONFB2) p v m) = (if q = p then (pin_function q m)\<lparr>input_b := v\<rparr> else pin_function q m)"
    using st(6) assms(2) by (simp add: pin_function_def pin_flag_def put_field_other field_get_put mux_regs)
qed

lemma mux_storage_frame [simp]:
  "mux_storage (mwr v a m) = mux_storage m" "mux_storage (put_field rr p v m) = mux_storage m" "mux_storage (upd_port i g m) = mux_storage m"
  by (simp_all add: mux_storage_def)

lemma small_codes [simp]:
  "fits 2 GPIO_OUTPUT_DR" "fits 2 GPIO_OUTPUT_A" "fits 2 GPIO_OUTPUT_B" "fits 2 GPIO_OUTPUT_C" "fits 2 GPIO_INPUT_GPIO"
  by (simp_all add: fits_iff_less GPIO_OUTPUT_DR_def GPIO_OUTPUT_A_def GPIO_OUTPUT_B_def GPIO_OUTPUT_C_def GPIO_INPUT_GPIO_def)

lemma flags_set:
  assumes "mux_storage m" and "gius = (let g = mrd (port_base (pin_port p) + GPIO_GIUS) m in
      if u then g OR pin_bit (pin_index p) else g AND NOT (pin_bit (pin_index p)))"
    and "gpr = (let g = mrd (port_base (pin_port p) + GPIO_GPR) m in
      case a of None \<Rightarrow> g | Some True \<Rightarrow> g OR pin_bit (pin_index p) | Some False \<Rightarrow> g AND NOT (pin_bit (pin_index p)))"
  shows "pin_function q (mwr gpr (port_base (pin_port p) + GPIO_GPR) (mwr gius (port_base (pin_port p) + GPIO_GIUS) m)) =
    (if q = p then (pin_function p m)\<lparr>in_use_by_port := u, alternate := (case a of None \<Rightarrow> alternate (pin_function p m) | Some x \<Rightarrow> x)\<rparr>
     else pin_function q m)"
proof -
  have other: "unat (pin_index q) \<noteq> unat (pin_index p)" if "pin_port q = pin_port p" "q \<noteq> p"
    using that by (simp add: pin_eq_iff word_unat_eq_iff)
  have bits: "bit gius (unat (pin_index q)) = (if q = p then u else pin_flag GPIO_GIUS q m)"
    "bit gpr (unat (pin_index q)) = (if q = p then (case a of None \<Rightarrow> pin_flag GPIO_GPR p m | Some x \<Rightarrow> x) else pin_flag GPIO_GPR q m)"
    if "pin_port q = pin_port p"
    using that other index_unat [of q] unfolding assms(2,3)
    by (auto simp: pin_flag_def Let_def bit_simps split: option.split bool.split)
  show ?thesis unfolding flags_written [OF assms(1)] using bits by (cases a) (auto simp: pin_function_def)
qed

text \<open>\<^verbatim>\<open>gpio_config_mux\<close> gives a pin the function the mode stands for, and no other pin another one.\<close>

lemma config_mux_run:
  assumes "mux_storage m"
  shows "\<exists>m'. gpio_config_mux p mode m = (0, m') \<and> ports m' = ports m \<and> mux_storage m' \<and>
    (\<forall>q. pin_function q m' = (if q = p then with_mode mode (pin_function p m) else pin_function q m))"
proof -
  let ?b = "port_base (pin_port p)"
  let ?gius = "mrd (?b + GPIO_GIUS) m" and ?gpr = "mrd (?b + GPIO_GPR) m"
  have reads: "mrd (?b + GPIO_GIUS) (put_field rr p v m) = ?gius" "mrd (?b + GPIO_GPR) (put_field rr p v m) = ?gpr"
    if "rr \<in> {(GPIO_OCR1, GPIO_OCR2), (GPIO_ICONFA1, GPIO_ICONFA2), (GPIO_ICONFB1, GPIO_ICONFB2)}" for rr v
    using that by (auto simp: put_field_other mux_regs)
  note run = gpio_config_mux_def Let_def prod.case pin_macros mux_base_pin helpers_put
  show ?thesis
  proof (cases mode)
    case GPIO_MUX_PRIMARY
    show ?thesis unfolding run GPIO_MUX_PRIMARY gpio_mux_mode.case
      using flags_set [OF assms, of _ p False _ "Some False"] assms by simp
  next
    case GPIO_MUX_ALT
    show ?thesis unfolding run GPIO_MUX_ALT gpio_mux_mode.case
      using flags_set [OF assms, of _ p False _ "Some True"] assms by simp
  next
    case GPIO_MUX_GPIO
    show ?thesis unfolding run GPIO_MUX_GPIO gpio_mux_mode.case
      using flags_set [of "put_field (GPIO_OCR1, GPIO_OCR2) p GPIO_OUTPUT_DR m" _ p True _ None] assms
      by (simp add: reads fields_written)
  next
    case GPIO_MUX_INPUT1
    show ?thesis unfolding run GPIO_MUX_INPUT1 gpio_mux_mode.case
      using flags_set [of "put_field (GPIO_ICONFA1, GPIO_ICONFA2) p GPIO_INPUT_GPIO m" _ p True _ None] assms
      by (simp add: reads fields_written)
  next
    case GPIO_MUX_INPUT2
    show ?thesis unfolding run GPIO_MUX_INPUT2 gpio_mux_mode.case
      using flags_set [of "put_field (GPIO_ICONFB1, GPIO_ICONFB2) p GPIO_INPUT_GPIO m" _ p True _ None] assms
      by (simp add: reads fields_written)
  next
    case GPIO_MUX_OUTPUT1
    show ?thesis unfolding run GPIO_MUX_OUTPUT1 gpio_mux_mode.case
      using flags_set [of "put_field (GPIO_OCR1, GPIO_OCR2) p GPIO_OUTPUT_A m" _ p True _ None] assms
      by (simp add: reads fields_written)
  next
    case GPIO_MUX_OUTPUT2
    show ?thesis unfolding run GPIO_MUX_OUTPUT2 gpio_mux_mode.case
      using flags_set [of "put_field (GPIO_OCR1, GPIO_OCR2) p GPIO_OUTPUT_B m" _ p True _ None] assms
      by (simp add: reads fields_written)
  next
    case GPIO_MUX_OUTPUT3
    show ?thesis unfolding run GPIO_MUX_OUTPUT3 gpio_mux_mode.case
      using flags_set [of "put_field (GPIO_OCR1, GPIO_OCR2) p GPIO_OUTPUT_C m" _ p True _ None] assms
      by (simp add: reads fields_written)
  qed
qed

section \<open>Ownership of pins as an interface\<close>

text \<open>
  What drivers expect of a pool of pins: a pin has at most one owner, a request for a pin that is
  taken is refused and changes nothing, releasing a pin gives it back, and nothing happens to other pins.
\<close>

locale pin_pool =
  fixes owned :: "'p \<Rightarrow> 's \<Rightarrow> bool"
    and request :: "'p \<Rightarrow> 's \<Rightarrow> int \<times> 's"
    and release :: "'p \<Rightarrow> 's \<Rightarrow> 's"
  assumes request_taken: "owned p s \<Longrightarrow> request p s = (- 1, s)"
    and request_fresh: "\<not> owned p s \<Longrightarrow> fst (request p s) = 0"
    and owned_request: "owned q (snd (request p s)) \<longleftrightarrow> q = p \<or> owned q s"
    and owned_release: "owned q (release p s) \<longleftrightarrow> q \<noteq> p \<and> owned q s"
    and release_fresh: "\<not> owned p s \<Longrightarrow> release p s = s"
begin

text \<open>Requesting and releasing one after the other, whatever the results.\<close>

definition request_all :: "'p list \<Rightarrow> 's \<Rightarrow> 's" where
  "request_all ps s = fold (\<lambda>p s. snd (request p s)) ps s"

definition release_all :: "'p list \<Rightarrow> 's \<Rightarrow> 's" where
  "release_all ps s = fold release ps s"

lemma owned_request_all: "owned q (request_all ps s) \<longleftrightarrow> q \<in> set ps \<or> owned q s"
  by (induction ps arbitrary: s) (auto simp: request_all_def owned_request)

lemma owned_release_all: "owned q (release_all ps s) \<longleftrightarrow> q \<notin> set ps \<and> owned q s"
  by (induction ps arbitrary: s) (auto simp: release_all_def owned_release)

lemma request_release_all:
  assumes "\<forall>p\<in>set ps. \<not> owned p s" and "set qs = set ps"
  shows "owned q (release_all qs (request_all ps s)) \<longleftrightarrow> owned q s"
  using assms by (auto simp: owned_request_all owned_release_all)

text \<open>Of two requests for a pin in a row the second loses, and what lies in between on other pins does not help.\<close>

lemma second_loses:
  assumes "p \<notin> set qs"
  shows "request p (release_all qs (snd (request p s))) = (- 1, release_all qs (snd (request p s)))"
  by (rule request_taken) (simp add: owned_release_all owned_request assms)

end

definition owned :: "iomux_pins \<Rightarrow> mx27_mach \<Rightarrow> bool" where
  "owned p m \<longleftrightarrow> bit (p_reserved_map (ports m (pin_port p))) (unat (pin_index p))"

lemma reserved_test: "x AND 2 ^ unat (pin_index p) = 0 \<longleftrightarrow> \<not> bit x (unat (pin_index p))" for x :: u32
  using index_unat [of p] by (auto simp: u32_eq_iff bit_simps)

lemma config_mux_zero [simp]: "fst (gpio_config_mux p mode m) = 0" "ports (snd (gpio_config_mux p mode m)) = ports m"
proof -
  show "fst (gpio_config_mux p mode m) = 0" by (simp add: gpio_config_mux_def Let_def split: gpio_mux_mode.split)
  show "ports (snd (gpio_config_mux p mode m)) = ports m"
    unfolding gpio_config_mux_def Let_def pin_macros mux_base_pin helpers_put by (simp split: gpio_mux_mode.split)
qed

lemma request_gpio_run:
  "mxc_request_gpio (pin_code p) m =
    (if owned p m then (- 1, m)
     else (0, upd_port (pin_port p) (p_reserved_map_update (\<lambda>x. x OR pin_bit (pin_index p))) m))"
  by (simp add: mxc_request_gpio_def u_request_gpio_def owned_def reserved_test)

lemma request_mux_run:
  "gpio_request_mux p mode m =
    (if owned p m then (- 1, m)
     else (0, snd (gpio_config_mux p mode
       (upd_port (pin_port p) (p_reserved_map_update (\<lambda>x. x OR pin_bit (pin_index p))) m))))"
  using config_mux_zero(1) by (simp add: gpio_request_mux_def request_gpio_run split_beta Let_def)

lemma owned_set:
  "owned q (upd_port (pin_port p) (p_reserved_map_update (\<lambda>x. x OR pin_bit (pin_index p))) m) \<longleftrightarrow> q = p \<or> owned q m"
  using index_unat [of q] same_pin [of q p] by (auto simp: owned_def bit_simps)

lemma free_mux_ports:
  "ports (gpio_free_mux p m) = (if owned p m then (ports m)(pin_port p :=
     p_irq_is_level_map_update (\<lambda>x. x AND NOT (pin_bit (pin_index p)))
       (p_reserved_map_update (\<lambda>x. x AND NOT (pin_bit (pin_index p))) (ports m (pin_port p)))) else ports m)"
  by (simp add: gpio_free_mux_def mxc_free_gpio_def Let_def owned_def reserved_test u_set_gpio_direction_def
      u_set_gpio_irqenable_def u_clear_gpio_irqstatus_def)

interpretation mux: pin_pool owned "\<lambda>p. gpio_request_mux p mode" gpio_free_mux for mode
proof
  fix p q m
  show "owned p m \<Longrightarrow> gpio_request_mux p mode m = (- 1, m)" by (simp add: request_mux_run)
  show "\<not> owned p m \<Longrightarrow> fst (gpio_request_mux p mode m) = 0" by (simp add: request_mux_run)
  have "owned q (snd (gpio_config_mux p mode m')) = owned q m'" for m' by (simp add: owned_def)
  then show "owned q (snd (gpio_request_mux p mode m)) \<longleftrightarrow> q = p \<or> owned q m"
    using owned_set [of q p m] by (auto simp: request_mux_run)
  show "owned q (gpio_free_mux p m) \<longleftrightarrow> q \<noteq> p \<and> owned q m"
    using same_pin [of q p] index_unat [of q] by (auto simp: owned_def free_mux_ports bit_simps)
  show "\<not> owned p m \<Longrightarrow> gpio_free_mux p m = m"
    by (simp add: gpio_free_mux_def mxc_free_gpio_def Let_def owned_def reserved_test)
qed

lemma pin_function_ports [simp]: "pin_function q (upd_port i g m) = pin_function q m"
  by (simp add: pin_function_def pin_flag_def pin_field_def)

text \<open>
  C27: \<^verbatim>\<open>gpio_request_mux\<close> on a pin that is taken is refused and changes nothing at all; on a free pin
  it succeeds, the pin is owned and has the function the mode stands for, and no other pin
  changes its owner or its function, although the pins of a port share their registers.
\<close>

theorem request_mux_gives_pin:
  assumes "mux_storage m"
  shows "if owned p m then gpio_request_mux p mode m = (- 1, m)
    else \<exists>m'. gpio_request_mux p mode m = (0, m') \<and> (\<forall>q. owned q m' \<longleftrightarrow> q = p \<or> owned q m) \<and>
      (\<forall>q. pin_function q m' = (if q = p then with_mode mode (pin_function p m) else pin_function q m))"
proof (cases "owned p m")
  case False
  let ?m = "upd_port (pin_port p) (p_reserved_map_update (\<lambda>x. x OR pin_bit (pin_index p))) m"
  have "mux_storage ?m" using assms by simp
  then obtain m' where m': "gpio_config_mux p mode ?m = (0, m')"
    "\<forall>q. pin_function q m' = (if q = p then with_mode mode (pin_function p ?m) else pin_function q ?m)"
    using config_mux_run [of ?m p mode] by blast
  have "gpio_request_mux p mode m = (0, m')" using False m'(1) by (simp add: request_mux_run)
  moreover from this have "owned q m' \<longleftrightarrow> q = p \<or> owned q m" for q using mux.owned_request [of q p mode m] by simp
  ultimately show ?thesis using False m'(2) by simp
qed (simp add: mux.request_taken)

text \<open>Registers that hold what is written, on ports set up by the initialisation; nothing is reserved.\<close>

definition demo_pins :: mx27_mach where
  "demo_pins = \<lparr>mio = \<lparr>mem = (\<lambda>_. 0), wsem = (\<lambda>a x v. if a AND 0xFF = 0x34 then x AND NOT v else v), tick = (\<lambda>m. m)\<rparr>,
     ports = (\<lambda>p. \<lparr>p_num = of_nat p, p_base = port_base p, p_irq = 8, p_virtual_irq_start = of_nat (port_start p),
                   p_reserved_map = 0, p_irq_is_level_map = 0\<rparr>),
     initialized = True\<rparr>"

lemma port_low:
  assumes "p < 6" and "unat r < 256"
  shows "(port_base p + r) AND 0xFF = r"
proof -
  have "(0xFF :: u32) = mask 8" by (simp add: mask_eq_exp_minus_1)
  then have "(port_base p + r) AND 0xFF = take_bit 8 (port_base p + r)" by (simp only: take_bit_eq_mask)
  then have "unat ((port_base p + r) AND 0xFF) = (0xD4015000 + 256 * p + unat r) mod 2 ^ 8"
    by (simp add: unsigned_take_bit_eq take_bit_nat_def port_reg_unat [OF assms])
  also have "0xD4015000 + 256 * p + unat r = unat r + (0xD40150 + p) * 2 ^ 8" by simp
  also have "\<dots> mod 2 ^ 8 = unat r" using assms(2) unfolding mod_mult_self1 by simp
  finally show ?thesis by (simp add: word_unat_eq_iff)
qed

lemma demo_pins_facts:
  "mux_storage demo_pins" "\<not> owned p demo_pins" "port_ok (ports demo_pins i) i"
  by (auto simp: mux_storage_def storage_def demo_pins_def owned_def port_ok_def port_low mux_regs)

theorem request_mux_gives_pin_witness:
  "\<exists>m'. gpio_request_mux (PE MX27_PIN_UART1_TXD) GPIO_MUX_PRIMARY demo_pins = (0, m') \<and>
    (\<forall>q. owned q m' \<longleftrightarrow> q = PE MX27_PIN_UART1_TXD \<or> owned q demo_pins) \<and>
    (\<forall>q. pin_function q m' = (if q = PE MX27_PIN_UART1_TXD
      then with_mode GPIO_MUX_PRIMARY (pin_function (PE MX27_PIN_UART1_TXD) demo_pins) else pin_function q demo_pins))"
  using request_mux_gives_pin [OF demo_pins_facts(1), of "PE MX27_PIN_UART1_TXD" GPIO_MUX_PRIMARY] demo_pins_facts(2) by simp

section \<open>Freeing a pin\<close>

text \<open>Direction, interrupt mask and interrupt status of a pin, with the registers behaving as such.\<close>

definition pin_storage :: "mx27_mach \<Rightarrow> bool" where
  "pin_storage m \<longleftrightarrow> (\<forall>p < 6. port_ok (ports m p) p \<and> storage (mio m) (port_base p + GPIO_GDIR) \<and> storage (mio m) (port_base p + GPIO_DR) \<and>
     storage (mio m) (port_base p + GPIO_IMR) \<and> w1c (mio m) (port_base p + GPIO_ISR) \<and>
     storage (mio m) (port_base p + GPIO_ICR1) \<and> storage (mio m) (port_base p + GPIO_ICR2))"

lemma pin_storageD:
  assumes "pin_storage m"
  shows "p_base (ports m (pin_port p)) = port_base (pin_port p)" "storage (mio m) (port_base (pin_port p) + GPIO_GDIR)"
    "storage (mio m) (port_base (pin_port p) + GPIO_DR)" "storage (mio m) (port_base (pin_port p) + GPIO_IMR)"
    "w1c (mio m) (port_base (pin_port p) + GPIO_ISR)"
  using assms pin_port_less [of p] by (auto simp: pin_storage_def port_ok_def)

text \<open>Whether the interrupt of a pin counts as level triggered.\<close>

definition level_pin :: "iomux_pins \<Rightarrow> mx27_mach \<Rightarrow> bool" where
  "level_pin p m = bit (p_irq_is_level_map (ports m (pin_port p))) (unat (pin_index p))"

text \<open>
  C28: freeing a pin that has an owner leaves it harmless: nobody owns it, it is an input, its
  interrupt is masked and a pending one is forgotten, and it does not count as level triggered.
  Owner, direction, mask, status and level flag of every other pin stay; the function of every pin
  stays.
\<close>

theorem free_mux_resets_pin:
  assumes "pin_storage m" and "owned p m"
  shows "owned q (gpio_free_mux p m) = (if q = p then False else owned q m) \<and>
    level_pin q (gpio_free_mux p m) = (if q = p then False else level_pin q m) \<and>
    pin_flag GPIO_GDIR q (gpio_free_mux p m) = (if q = p then False else pin_flag GPIO_GDIR q m) \<and>
    pin_flag GPIO_IMR q (gpio_free_mux p m) = (if q = p then False else pin_flag GPIO_IMR q m) \<and>
    pin_flag GPIO_ISR q (gpio_free_mux p m) = (if q = p then False else pin_flag GPIO_ISR q m) \<and>
    pin_function q (gpio_free_mux p m) = pin_function q m"
proof -
  note st = pin_storageD [OF assms(1), of p]
  let ?b = "port_base (pin_port p)" and ?x = "pin_bit (pin_index p)"
  define m0 where "m0 = upd_port (pin_port p) (p_irq_is_level_map_update (\<lambda>x. x AND NOT ?x))
    (upd_port (pin_port p) (p_reserved_map_update (\<lambda>x. x AND NOT ?x)) m)"
  define m1 where "m1 = mwr (mrd (?b + GPIO_GDIR) m0 AND NOT ?x) (?b + GPIO_GDIR) m0"
  define m2 where "m2 = mwr (mrd (?b + GPIO_IMR) m1 AND NOT ?x) (?b + GPIO_IMR) m1"
  have run: "gpio_free_mux p m = mwr ?x (?b + GPIO_ISR) m2"
    using assms(2) st(1) by (simp add: gpio_free_mux_def mxc_free_gpio_def Let_def owned_def reserved_test
      u_set_gpio_direction_def u_set_gpio_irqenable_def u_clear_gpio_irqstatus_def m0_def m1_def m2_def)
  have s0: "mio m0 = mio m" "pin_flag r q m0 = pin_flag r q m" "pin_function q m0 = pin_function q m" for r q
    by (simp_all add: m0_def pin_flag_def)
  have s1: "storage (mio m1) = storage (mio m)" "w1c (mio m2) = w1c (mio m)" by (simp_all add: m1_def m2_def s0)
  have d1: "pin_flag r q m1 = (if r = GPIO_GDIR then q \<noteq> p \<and> pin_flag r q m else pin_flag r q m)"
    if "r \<in> {GPIO_GDIR, GPIO_IMR, GPIO_ISR}" for r q
    using that st(2) flag_change(1) [of m0 p GPIO_GDIR q] flag_other [of r GPIO_GDIR] by (auto simp: m1_def s0 gpio_regs)
  have d2: "pin_flag r q m2 = (if r = GPIO_IMR then q \<noteq> p \<and> pin_flag r q m1 else pin_flag r q m1)"
    if "r \<in> {GPIO_GDIR, GPIO_IMR, GPIO_ISR}" for r q
    using that st(4) flag_change(1) [of m1 p GPIO_IMR q] flag_other [of r GPIO_IMR] by (auto simp: m2_def s1 gpio_regs)
  have d3: "pin_flag r q (gpio_free_mux p m) = (if r = GPIO_ISR then q \<noteq> p \<and> pin_flag r q m2 else pin_flag r q m2)"
    if "r \<in> {GPIO_GDIR, GPIO_IMR, GPIO_ISR}" for r q
    using that st(5) flag_w1c [of m2 p GPIO_ISR q] flag_other [of r GPIO_ISR] unfolding run by (auto simp: s1 gpio_regs)
  have "pin_function q (gpio_free_mux p m) = pin_function q m0" for q
    unfolding run m2_def m1_def by (simp add: pin_function_def pin_flag_def pin_field_def field_reg_def same_place base_place mux_regs gpio_regs)
  moreover have "owned q (gpio_free_mux p m) = (if q = p then False else owned q m)" by (simp add: mux.owned_release)
  moreover have "level_pin q (gpio_free_mux p m) = (if q = p then False else level_pin q m)"
    using same_pin [of q p] index_unat [of q] by (auto simp: run m0_def m1_def m2_def level_pin_def bit_simps)
  ultimately show ?thesis by (simp add: s0 d1 d2 d3)
qed

lemma demo_pin_storage: "pin_storage (upd_port i (p_reserved_map_update g) demo_pins)"
  by (auto simp: pin_storage_def storage_def w1c_def demo_pins_def port_ok_def port_low port_low [of _ 0, simplified] gpio_regs)

theorem free_mux_resets_pin_witness:
  "\<exists>m. owned (PE MX27_PIN_UART1_TXD) m \<and> owned (PE MX27_PIN_UART1_RXD) m \<and>
    \<not> owned (PE MX27_PIN_UART1_TXD) (gpio_free_mux (PE MX27_PIN_UART1_TXD) m) \<and>
    owned (PE MX27_PIN_UART1_RXD) (gpio_free_mux (PE MX27_PIN_UART1_TXD) m)"
proof -
  let ?p = "PE MX27_PIN_UART1_TXD" and ?q = "PE MX27_PIN_UART1_RXD"
  let ?m = "upd_port 4 (p_reserved_map_update (\<lambda>x. NOT 0)) demo_pins"
  have o: "owned ?p ?m" "owned ?q ?m" by (code_simp, code_simp)
  then show ?thesis
    using free_mux_resets_pin [OF demo_pin_storage o(1), of ?p] free_mux_resets_pin [OF demo_pin_storage o(1), of ?q]
    by - (rule exI [of _ ?m], simp)
qed

end
