(* ===== verification/Board_Calls.thy ===== *)
theory Board_Calls
  imports Gpio_Mux
begin

text \<open>
  The GPIO set-up functions of a board are straight-line code: calls of the functions of
  \<^verbatim>\<open>gpio.c\<close> and \<^verbatim>\<open>gpio_mux.c\<close> one after the other, whose results are ignored except that some
  functions return when a request fails.  Such a body is the list of its calls; \<open>run_calls\<close> runs it.
  The pins owned afterwards are computed on the list alone, and the lemmas show that computation right.
\<close>

section \<open>Calls\<close>

text \<open>
  \<open>Require\<close> is \<^verbatim>\<open>if (gpio_request_mux(...)) return;\<close>.  \<open>Readl_Writel\<close> and \<open>Readw_Writew\<close> read a
  register, change the value and write it back.  \<open>Pmic\<close> is the request to the power management
  chip for a voltage.
\<close>

datatype gpio_call =
  Request iomux_pins gpio_mux_mode
| Require iomux_pins gpio_mux_mode
| Free iomux_pins
| Config iomux_pins gpio_mux_mode
| Puen iomux_pins bool
| Direction iomux_pins bool
| Dataout iomux_pins u32
| Readl_Writel u32 "u32 \<Rightarrow> u32"
| Readw_Writew u32 "u16 \<Rightarrow> u16"
| Delay
| Pmic

text \<open>
  \<open>pmic\<close> is what the driver of the power management chip does to the machine.  During a delay the
  peripherals go on, which is the parameter \<open>tick\<close> of the bus.
\<close>

fun run_calls :: "(mx27_mach \<Rightarrow> mx27_mach) \<Rightarrow> gpio_call list \<Rightarrow> mx27_mach \<Rightarrow> mx27_mach" where
  "run_calls pmic [] m = m"
| "run_calls pmic (Request p mode # cs) m = run_calls pmic cs (snd (gpio_request_mux p mode m))"
| "run_calls pmic (Require p mode # cs) m =
     (let (ret, m) = gpio_request_mux p mode m in if ret \<noteq> 0 then m else run_calls pmic cs m)"
| "run_calls pmic (Free p # cs) m = run_calls pmic cs (gpio_free_mux p m)"
| "run_calls pmic (Config p mode # cs) m = run_calls pmic cs (snd (gpio_config_mux p mode m))"
| "run_calls pmic (Puen p en # cs) m = run_calls pmic cs (snd (gpio_set_puen p en m))"
| "run_calls pmic (Direction p inp # cs) m = run_calls pmic cs (mxc_set_gpio_direction (pin_code p) inp m)"
| "run_calls pmic (Dataout p v # cs) m = run_calls pmic cs (mxc_set_gpio_dataout (pin_code p) v m)"
| "run_calls pmic (Readl_Writel a f # cs) m = run_calls pmic cs (mwr (f (mrd a m)) a m)"
| "run_calls pmic (Readw_Writew a f # cs) m =
     run_calls pmic cs (m\<lparr>mio := raw_writew (f (raw_readw a (mio m))) a (mio m)\<rparr>)"
| "run_calls pmic (Delay # cs) m = run_calls pmic cs (m\<lparr>mio := bus_tick (mio m)\<rparr>)"
| "run_calls pmic (Pmic # cs) m = run_calls pmic cs (pmic m)"

section \<open>Ownership after the calls\<close>

text \<open>The specification: what the calls do to the set of pins that are owned.\<close>

fun owned_after :: "gpio_call list \<Rightarrow> iomux_pins set \<Rightarrow> iomux_pins set" where
  "owned_after [] S = S"
| "owned_after (Request p mode # cs) S = owned_after cs (insert p S)"
| "owned_after (Require p mode # cs) S = (if p \<in> S then S else owned_after cs (insert p S))"
| "owned_after (Free p # cs) S = owned_after cs (S - {p})"
| "owned_after (_ # cs) S = owned_after cs S"

definition owned_pins :: "mx27_mach \<Rightarrow> iomux_pins set" where
  "owned_pins m = {p. owned p m}"

text \<open>The driver of the power management chip has nothing to do with the table of ports.\<close>

definition keeps_table :: "(mx27_mach \<Rightarrow> mx27_mach) \<Rightarrow> bool" where
  "keeps_table pmic \<longleftrightarrow> (\<forall>m. ports (pmic m) = ports m)"

lemma owned_pins_cong: "ports m' = ports m \<Longrightarrow> owned_pins m' = owned_pins m"
  by (simp add: owned_pins_def owned_def)

lemma pool_pins:
  "owned_pins (snd (gpio_request_mux p mode m)) = insert p (owned_pins m)" "owned_pins (gpio_free_mux p m) = owned_pins m - {p}"
  by (auto simp: owned_pins_def mux.owned_request mux.owned_release)

lemma ports_kept [simp]:
  "ports (snd (gpio_set_puen p en m)) = ports m" "ports (mxc_set_gpio_direction x inp m) = ports m"
  "ports (mxc_set_gpio_dataout x v m) = ports m"
  by (simp_all add: gpio_set_puen_def u_gpio_set_puen_def mxc_set_gpio_direction_def u_set_gpio_direction_def
      mxc_set_gpio_dataout_def u_set_gpio_dataout_def Let_def)

lemma owned_pins_frame [simp]:
  "owned_pins (snd (gpio_config_mux p mode m)) = owned_pins m" "owned_pins (snd (gpio_set_puen p en m)) = owned_pins m"
  "owned_pins (mxc_set_gpio_direction x inp m) = owned_pins m" "owned_pins (mxc_set_gpio_dataout x v m) = owned_pins m"
  "owned_pins (mwr v a m) = owned_pins m" "owned_pins (m\<lparr>mio := b\<rparr>) = owned_pins m"
  by (rule owned_pins_cong, simp)+

lemma run_calls_owned:
  assumes "keeps_table pmic"
  shows "owned_pins (run_calls pmic cs m) = owned_after cs (owned_pins m)"
proof (induction cs arbitrary: m)
  case (Cons c cs)
  show ?case
  proof (cases c)
    case (Require p mode)
    show ?thesis
    proof (cases "owned p m")
      case True
      then show ?thesis unfolding Require by (simp add: mux.request_taken owned_pins_def)
    next
      case False
      then have "fst (gpio_request_mux p mode m) = 0" by (rule mux.request_fresh)
      then show ?thesis using False Cons.IH unfolding Require by (simp add: split_beta pool_pins owned_pins_def [of m])
    qed
  next
    case Pmic
    have "owned_pins (pmic m) = owned_pins m" using assms by (intro owned_pins_cong) (simp add: keeps_table_def)
    then show ?thesis using Cons.IH by (simp add: Pmic)
  qed (use Cons.IH in \<open>simp_all add: pool_pins\<close>)
qed simp

text \<open>The pins a list of calls asks for and those it gives back.\<close>

fun taken :: "gpio_call list \<Rightarrow> iomux_pins list" where
  "taken [] = []"
| "taken (Request p mode # cs) = p # taken cs"
| "taken (Require p mode # cs) = p # taken cs"
| "taken (_ # cs) = taken cs"

fun given_back :: "gpio_call list \<Rightarrow> iomux_pins list" where
  "given_back [] = []"
| "given_back (Free p # cs) = p # given_back cs"
| "given_back (_ # cs) = given_back cs"

fun no_require :: "gpio_call list \<Rightarrow> bool" where
  "no_require [] = True"
| "no_require (Require p mode # cs) = False"
| "no_require (_ # cs) = no_require cs"

lemma calls_append [simp]:
  "taken (xs @ ys) = taken xs @ taken ys" "given_back (xs @ ys) = given_back xs @ given_back ys"
  "no_require (xs @ ys) \<longleftrightarrow> no_require xs \<and> no_require ys"
proof (induction xs)
  case (Cons c cs)
  { case 1 show ?case using Cons by (cases c) simp_all next case 2 show ?case using Cons by (cases c) simp_all
  next case 3 show ?case using Cons by (cases c) simp_all }
qed simp_all

lemma after_taking:
  "given_back cs = [] \<Longrightarrow> distinct (taken cs) \<Longrightarrow> set (taken cs) \<inter> S = {} \<Longrightarrow> owned_after cs S = S \<union> set (taken cs)"
proof (induction cs arbitrary: S)
  case (Cons c cs)
  then show ?case by (cases c) auto
qed simp

text \<open>Calls without an early return, where no pin is both asked for and given back.\<close>

lemma after_mixed:
  "no_require cs \<Longrightarrow> set (taken cs) \<inter> set (given_back cs) = {} \<Longrightarrow>
   owned_after cs S = S \<union> set (taken cs) - set (given_back cs)"
proof (induction cs arbitrary: S)
  case (Cons c cs)
  then show ?case by (cases c) auto
qed simp

text \<open>Calls that never give back a pin leave it owned, whatever is refused on the way.\<close>

lemma after_keeps: "p \<in> S \<Longrightarrow> p \<notin> set (given_back cs) \<Longrightarrow> p \<in> owned_after cs S"
proof (induction cs arbitrary: S)
  case (Cons c cs)
  then show ?case by (cases c) auto
qed simp

section \<open>The function of an owned pin\<close>

text \<open>
  Whether calls leave the function of a pin alone that somebody else owns: a request of the pin is
  refused, so only configuring it or freeing it does harm.
\<close>

definition outside_ports :: "u32 \<Rightarrow> bool" where
  "outside_ports a \<longleftrightarrow> a < 0xD4015000 \<or> a \<ge> 0xD4015600"

fun leaves_alone :: "iomux_pins \<Rightarrow> gpio_call list \<Rightarrow> bool" where
  "leaves_alone p [] = True"
| "leaves_alone p (Require q mode # cs) = (p = q \<or> leaves_alone p cs)"
| "leaves_alone p (Free q # cs) = (p \<noteq> q \<and> leaves_alone p cs)"
| "leaves_alone p (Config q mode # cs) = (p \<noteq> q \<and> leaves_alone p cs)"
| "leaves_alone p (_ # cs) = leaves_alone p cs"

text \<open>
  A machine whose port registers behave as such and whose multiplexer registers do not change by
  themselves, with the ports set up; the driver of the power management chip keeps it so and changes
  the function of no pin.
\<close>

definition mux_offsets :: "u32 set" where
  "mux_offsets = {GPIO_GIUS, GPIO_GPR, GPIO_OCR1, GPIO_OCR2, GPIO_ICONFA1, GPIO_ICONFA2, GPIO_ICONFB1, GPIO_ICONFB2}"

definition steady :: "mx27_mach \<Rightarrow> bool" where
  "steady m \<longleftrightarrow> mux_storage m \<and> pin_storage m \<and>
     (\<forall>f. \<forall>p < 6. \<forall>r\<in>mux_offsets. tick (mio m) f (port_base p + r) = f (port_base p + r))"

definition pmic_apart :: "(mx27_mach \<Rightarrow> mx27_mach) \<Rightarrow> bool" where
  "pmic_apart pmic \<longleftrightarrow> keeps_table pmic \<and> (\<forall>m. steady m \<longrightarrow> steady (pmic m) \<and> (\<forall>p. pin_function p (pmic m) = pin_function p m))"

lemma mux_offset_low: "r \<in> mux_offsets \<Longrightarrow> unat r < 256"
  by (auto simp: mux_offsets_def mux_regs)

lemma outside_port_reg: "outside_ports a \<Longrightarrow> unat r < 256 \<Longrightarrow> a \<noteq> port_base (pin_port p) + r"
  using port_reg_unat [OF pin_port_less [of p], of r] pin_port_less [of p]
  by (auto simp: outside_ports_def word_less_nat_alt word_le_nat_alt)

lemma pin_function_reads:
  assumes "\<And>r. r \<in> mux_offsets \<Longrightarrow> mrd (port_base (pin_port p) + r) m' = mrd (port_base (pin_port p) + r) m"
  shows "pin_function p m' = pin_function p m"
  using assms by (simp add: pin_function_def pin_flag_def pin_field_def field_reg_def mux_offsets_def)

lemma steadyI:
  assumes "steady m" and "wsem (mio m') = wsem (mio m)" and "tick (mio m') = tick (mio m)"
    and "\<And>p. port_ok (ports m p) p \<Longrightarrow> port_ok (ports m' p) p"
  shows "steady m'"
  using assms unfolding steady_def mux_storage_def pin_storage_def storage_def w1c_def by simp

lemma steadyD:
  assumes "steady m"
  shows "mux_storage m" "p_base (ports m (pin_port p)) = port_base (pin_port p)"
    "r \<in> mux_offsets \<Longrightarrow> tick (mio m) f (port_base (pin_port p) + r) = f (port_base (pin_port p) + r)"
  using assms pin_port_less [of p] by (auto simp: steady_def pin_storage_def port_ok_def)

lemma config_bus:
  "wsem (mio (snd (gpio_config_mux q mode m))) = wsem (mio m)" "tick (mio (snd (gpio_config_mux q mode m))) = tick (mio m)"
  unfolding gpio_config_mux_def Let_def pin_macros mux_base_pin helpers_put put_field_def
  by (simp_all split: gpio_mux_mode.split)

lemma config_step:
  assumes "steady m"
  shows "steady (snd (gpio_config_mux q mode m))" and "q \<noteq> p \<Longrightarrow> pin_function p (snd (gpio_config_mux q mode m)) = pin_function p m"
proof -
  obtain m' where r: "gpio_config_mux q mode m = (0, m')" "ports m' = ports m"
    "\<forall>p. pin_function p m' = (if p = q then with_mode mode (pin_function q m) else pin_function p m)"
    using config_mux_run [OF steadyD(1) [OF assms], of q mode] by auto
  then show "steady (snd (gpio_config_mux q mode m))"
    using config_bus [of q mode m] by (intro steadyI [OF assms]) simp_all
  show "q \<noteq> p \<Longrightarrow> pin_function p (snd (gpio_config_mux q mode m)) = pin_function p m" using r by simp
qed

lemma request_step:
  assumes "steady m"
  shows "steady (snd (gpio_request_mux q mode m))"
    and "owned p m \<Longrightarrow> pin_function p (snd (gpio_request_mux q mode m)) = pin_function p m"
proof -
  let ?m = "upd_port (pin_port q) (p_reserved_map_update (\<lambda>x. x OR pin_bit (pin_index q))) m"
  have s: "steady ?m" by (rule steadyI [OF assms]) (auto simp: port_ok_def)
  show "steady (snd (gpio_request_mux q mode m))" using assms config_step(1) [OF s] by (simp add: request_mux_run)
  show "pin_function p (snd (gpio_request_mux q mode m)) = pin_function p m" if "owned p m"
    using that config_step(2) [OF s, of q p mode] by (cases "q = p") (simp_all add: request_mux_run)
qed

lemma free_step:
  assumes "steady m"
  shows "steady (gpio_free_mux q m)" and "pin_function p (gpio_free_mux q m) = pin_function p m"
proof -
  note b = steadyD(2) [OF assms, of q]
  note run = gpio_free_mux_def mxc_free_gpio_def Let_def u_set_gpio_direction_def u_set_gpio_irqenable_def u_clear_gpio_irqstatus_def
  show "steady (gpio_free_mux q m)" by (rule steadyI [OF assms]) (auto simp: run port_ok_def)
  show "pin_function p (gpio_free_mux q m) = pin_function p m"
    using b by (simp add: run pin_function_def pin_flag_def pin_field_def field_reg_def same_place base_place mux_regs gpio_regs)
qed

lemma pin_steps:
  assumes "steady m"
  shows "steady (snd (gpio_set_puen q en m))" "pin_function p (snd (gpio_set_puen q en m)) = pin_function p m"
    "steady (mxc_set_gpio_direction (pin_code q) inp m)" "pin_function p (mxc_set_gpio_direction (pin_code q) inp m) = pin_function p m"
    "steady (mxc_set_gpio_dataout (pin_code q) v m)" "pin_function p (mxc_set_gpio_dataout (pin_code q) v m) = pin_function p m"
proof -
  note b = steadyD(2) [OF assms, of q]
  note run = gpio_set_puen_def u_gpio_set_puen_def mxc_set_gpio_direction_def u_set_gpio_direction_def
    mxc_set_gpio_dataout_def u_set_gpio_dataout_def Let_def
  show "steady (snd (gpio_set_puen q en m))" "steady (mxc_set_gpio_direction (pin_code q) inp m)"
    "steady (mxc_set_gpio_dataout (pin_code q) v m)"
    by (rule steadyI [OF assms]; simp add: run)+
  show "pin_function p (snd (gpio_set_puen q en m)) = pin_function p m"
    "pin_function p (mxc_set_gpio_direction (pin_code q) inp m) = pin_function p m"
    "pin_function p (mxc_set_gpio_dataout (pin_code q) v m) = pin_function p m"
    using b by (simp_all add: run pin_function_def pin_flag_def pin_field_def field_reg_def same_place base_place mux_regs gpio_regs)
qed

lemma bus_steps:
  assumes "steady m"
  shows "steady (mwr v a m)" "outside_ports a \<Longrightarrow> pin_function p (mwr v a m) = pin_function p m"
    "steady (m\<lparr>mio := raw_writew w a (mio m)\<rparr>)" "outside_ports a \<Longrightarrow> pin_function p (m\<lparr>mio := raw_writew w a (mio m)\<rparr>) = pin_function p m"
    "steady (m\<lparr>mio := bus_tick (mio m)\<rparr>)" "pin_function p (m\<lparr>mio := bus_tick (mio m)\<rparr>) = pin_function p m"
proof -
  show "steady (mwr v a m)" "steady (m\<lparr>mio := raw_writew w a (mio m)\<rparr>)" "steady (m\<lparr>mio := bus_tick (mio m)\<rparr>)"
    by (rule steadyI [OF assms]; simp add: bus_tick_def)+
  show "pin_function p (mwr v a m) = pin_function p m" "pin_function p (m\<lparr>mio := raw_writew w a (mio m)\<rparr>) = pin_function p m"
    if "outside_ports a"
    by (rule pin_function_reads, use outside_port_reg [OF that mux_offset_low] in \<open>simp add: mrd_def mwr_def\<close>)+
  show "pin_function p (m\<lparr>mio := bus_tick (mio m)\<rparr>) = pin_function p m"
    by (rule pin_function_reads) (simp add: mrd_def raw_readl_def bus_tick_def steadyD(3) [OF assms])
qed

section \<open>Ownership and function of all pins\<close>

text \<open>
  The specification of the calls on the two things the pins are for: who owns a pin, and its function.
  A request of an owned pin changes nothing; configuring a pin asks nobody.
\<close>

type_synonym pins_view = "iomux_pins set \<times> (iomux_pins \<Rightarrow> pin_function)"

definition pins_view :: "mx27_mach \<Rightarrow> pins_view" where
  "pins_view m = (owned_pins m, \<lambda>p. pin_function p m)"

definition take_pin :: "iomux_pins \<Rightarrow> gpio_mux_mode \<Rightarrow> pins_view \<Rightarrow> pins_view" where
  "take_pin p mode = (\<lambda>(S, f). if p \<in> S then (S, f) else (insert p S, f(p := with_mode mode (f p))))"

fun view_after :: "gpio_call list \<Rightarrow> pins_view \<Rightarrow> pins_view" where
  "view_after [] v = v"
| "view_after (Request p mode # cs) v = view_after cs (take_pin p mode v)"
| "view_after (Require p mode # cs) v = (if p \<in> fst v then v else view_after cs (take_pin p mode v))"
| "view_after (Free p # cs) v = view_after cs (fst v - {p}, snd v)"
| "view_after (Config p mode # cs) v = view_after cs (fst v, (snd v)(p := with_mode mode (snd v p)))"
| "view_after (_ # cs) v = view_after cs v"

text \<open>Registers the calls change by address are none of the ports.\<close>

fun keeps_off :: "gpio_call list \<Rightarrow> bool" where
  "keeps_off [] = True"
| "keeps_off (Readl_Writel a f # cs) = (outside_ports a \<and> keeps_off cs)"
| "keeps_off (Readw_Writew a f # cs) = (outside_ports a \<and> keeps_off cs)"
| "keeps_off (_ # cs) = keeps_off cs"

lemma keeps_off_append [simp]: "keeps_off (xs @ ys) \<longleftrightarrow> keeps_off xs \<and> keeps_off ys"
proof (induction xs)
  case (Cons c cs)
  then show ?case by (cases c) simp_all
qed simp

lemma view_steps:
  assumes "steady m"
  shows "pins_view (snd (gpio_request_mux p mode m)) = take_pin p mode (pins_view m)"
    "pins_view (gpio_free_mux p m) = (owned_pins m - {p}, \<lambda>q. pin_function q m)"
    "pins_view (snd (gpio_config_mux p mode m)) = (owned_pins m, (\<lambda>q. pin_function q m)(p := with_mode mode (pin_function p m)))"
proof -
  have conf: "pin_function q (snd (gpio_config_mux p mode m')) = (if q = p then with_mode mode (pin_function p m') else pin_function q m')"
    if "steady m'" for q m' using config_mux_run [OF steadyD(1) [OF that], of p mode] by auto
  let ?m = "upd_port (pin_port p) (p_reserved_map_update (\<lambda>x. x OR pin_bit (pin_index p))) m"
  have "steady ?m" by (rule steadyI [OF assms]) (auto simp: port_ok_def)
  then have "pin_function q (snd (gpio_request_mux p mode m)) =
      (if q = p \<and> \<not> owned p m then with_mode mode (pin_function p m) else pin_function q m)" for q
    using conf [of ?m q] by (cases "q = p") (simp_all add: request_mux_run)
  then show "pins_view (snd (gpio_request_mux p mode m)) = take_pin p mode (pins_view m)"
    unfolding pins_view_def pool_pins take_pin_def by (auto simp: owned_pins_def)
  show "pins_view (gpio_free_mux p m) = (owned_pins m - {p}, \<lambda>q. pin_function q m)"
    by (simp add: pins_view_def pool_pins free_step [OF assms])
  show "pins_view (snd (gpio_config_mux p mode m)) = (owned_pins m, (\<lambda>q. pin_function q m)(p := with_mode mode (pin_function p m)))"
    by (simp add: pins_view_def conf [OF assms] fun_eq_iff)
qed

lemma view_kept:
  "(\<And>p. pin_function p m' = pin_function p m) \<Longrightarrow> ports m' = ports m \<Longrightarrow> pins_view m' = pins_view m"
  by (simp add: pins_view_def owned_pins_def owned_def)

lemma view_rest:
  assumes "steady m"
  shows "pins_view (snd (gpio_set_puen q en m)) = pins_view m"
    "pins_view (mxc_set_gpio_direction (pin_code q) inp m) = pins_view m"
    "pins_view (mxc_set_gpio_dataout (pin_code q) v m) = pins_view m"
    "outside_ports a \<Longrightarrow> pins_view (mwr x a m) = pins_view m"
    "outside_ports a \<Longrightarrow> pins_view (m\<lparr>mio := raw_writew w a (mio m)\<rparr>) = pins_view m"
    "pins_view (m\<lparr>mio := bus_tick (mio m)\<rparr>) = pins_view m"
  by (rule view_kept; simp add: pin_steps [OF assms] bus_steps [OF assms])+

lemma run_calls_view:
  assumes "pmic_apart pmic" and "steady m" and "keeps_off cs"
  shows "steady (run_calls pmic cs m) \<and> pins_view (run_calls pmic cs m) = view_after cs (pins_view m)"
  using assms(2-)
proof (induction cs arbitrary: m)
  case (Cons c cs)
  note steps = view_steps [OF Cons.prems(1)] and st = Cons.prems(1)
  show ?case
  proof (cases c)
    case (Require p mode)
    show ?thesis
    proof (cases "owned p m")
      case True
      then show ?thesis using st unfolding Require by (simp add: mux.request_taken pins_view_def owned_pins_def)
    next
      case False
      then have "fst (gpio_request_mux p mode m) = 0" by (rule mux.request_fresh)
      then show ?thesis using False Cons.IH [OF request_step(1) [OF st]] Cons.prems(2) unfolding Require
        by (simp add: split_beta steps pins_view_def [of m] owned_pins_def [of m])
    qed
  next
    case Pmic
    have "steady (pmic m)" "pins_view (pmic m) = pins_view m"
      using assms(1) st by (auto intro: view_kept simp: pmic_apart_def keeps_table_def)
    then show ?thesis using Cons by (simp add: Pmic)
  next
    case (Free p)
    then show ?thesis using Cons.IH [OF free_step(1) [OF st]] Cons.prems(2) by (simp add: steps pins_view_def [of m])
  next
    case (Request p mode)
    then show ?thesis using Cons.IH [OF request_step(1) [OF st]] Cons.prems(2) by (simp add: steps)
  next
    case (Config p mode)
    then show ?thesis using Cons.IH [OF config_step(1) [OF st]] Cons.prems(2) by (simp add: steps pins_view_def [of m])
  qed (use Cons pin_steps [OF st] bus_steps [OF st] view_rest [OF st] in simp_all)
qed simp

lemma view_sel [simp]: "p \<in> fst (pins_view m) \<longleftrightarrow> owned p m" "snd (pins_view m) p = pin_function p m"
  by (simp_all add: pins_view_def owned_pins_def)

text \<open>An owned pin keeps its function through calls that leave it alone.\<close>

lemma view_leaves_alone:
  assumes "leaves_alone p cs" and "p \<in> fst v"
  shows "p \<in> fst (view_after cs v) \<and> snd (view_after cs v) p = snd v p"
  using assms
proof (induction cs arbitrary: v)
  case (Cons c cs)
  then show ?case by (cases c) (auto simp: take_pin_def split_beta)
qed simp

end
