(* ===== verification/Board_Gpio.thy ===== *)
theory Board_Gpio
  imports Board_Calls
begin

text \<open>
  The GPIO set-up of the boards (\<^verbatim>\<open>arch/arm/mach-mx27/mx27mdk27v0_gpio.c\<close>), for every configuration of
  the kernel the file distinguishes.  A function that takes no decision at run time is the list of
  its calls; an argument selects among lists as the \<^verbatim>\<open>switch\<close> does.
\<close>

section \<open>Configuration\<close>

text \<open>The options of the kernel configuration the file tests, and their values in \<^verbatim>\<open>include/linux/autoconf.h\<close>.\<close>

record board_config =
  MDK27V0 :: bool
  MDK27V1 :: bool
  TUOSI :: bool
  SYP :: bool
  MPK271 :: bool
  MC13783_POWER :: bool

definition autoconf :: board_config where
  "autoconf = \<lparr>MDK27V0 = True, MDK27V1 = True, TUOSI = False, SYP = False, MPK271 = True, MC13783_POWER = False\<rparr>"

definition SYS_FMCR :: u32 where "SYS_FMCR = 0x14"

section \<open>UARTs\<close>

text \<open>The pins of a port, and the two functions with the flag that says whether the port is active.\<close>

definition uart_active_calls :: "int \<Rightarrow> gpio_call list" where
  "uart_active_calls port =
     (if port = 0 then
       [Request (PE MX27_PIN_UART1_TXD) GPIO_MUX_PRIMARY,
        Request (PE MX27_PIN_UART1_RXD) GPIO_MUX_PRIMARY,
        Request (PE MX27_PIN_UART1_CTS) GPIO_MUX_PRIMARY,
        Request (PE MX27_PIN_UART1_RTS) GPIO_MUX_PRIMARY]
      else if port = 1 then
       [Request (PE MX27_PIN_UART2_TXD) GPIO_MUX_PRIMARY,
        Request (PE MX27_PIN_UART2_RXD) GPIO_MUX_PRIMARY,
        Request (PE MX27_PIN_UART2_CTS) GPIO_MUX_PRIMARY,
        Request (PE MX27_PIN_UART2_RTS) GPIO_MUX_PRIMARY]
      else if port = 2 then
       [Request (PE MX27_PIN_UART3_TXD) GPIO_MUX_PRIMARY,
        Request (PE MX27_PIN_UART3_RXD) GPIO_MUX_PRIMARY,
        Request (PE MX27_PIN_UART3_CTS) GPIO_MUX_PRIMARY,
        Request (PE MX27_PIN_UART3_RTS) GPIO_MUX_PRIMARY]
      else if port = 3 then
       [Request (PB MX27_PIN_USBH1_TXDM) GPIO_MUX_ALT,
        Request (PB MX27_PIN_USBH1_RXDP) GPIO_MUX_ALT,
        Request (PB MX27_PIN_USBH1_TXDP) GPIO_MUX_ALT,
        Request (PB MX27_PIN_USBH1_FS) GPIO_MUX_ALT]
      else if port = 4 then
       [Request (PB MX27_PIN_CSI_D6) GPIO_MUX_ALT,
        Request (PB MX27_PIN_CSI_D7) GPIO_MUX_ALT,
        Request (PB MX27_PIN_CSI_VSYNC) GPIO_MUX_ALT,
        Request (PB MX27_PIN_CSI_HSYNC) GPIO_MUX_ALT]
      else if port = 5 then
       [Request (PB MX27_PIN_CSI_D0) GPIO_MUX_ALT,
        Request (PB MX27_PIN_CSI_D1) GPIO_MUX_ALT,
        Request (PB MX27_PIN_CSI_D2) GPIO_MUX_ALT,
        Request (PB MX27_PIN_CSI_D3) GPIO_MUX_ALT]
      else [])"

definition uart_inactive_calls :: "int \<Rightarrow> gpio_call list" where
  "uart_inactive_calls port =
     (if port = 0 then
       [Free (PE MX27_PIN_UART1_TXD),
        Free (PE MX27_PIN_UART1_RXD),
        Free (PE MX27_PIN_UART1_CTS),
        Free (PE MX27_PIN_UART1_RTS)]
      else if port = 1 then
       [Free (PE MX27_PIN_UART2_TXD),
        Free (PE MX27_PIN_UART2_RXD),
        Free (PE MX27_PIN_UART2_CTS),
        Free (PE MX27_PIN_UART2_RTS)]
      else if port = 2 then
       [Free (PE MX27_PIN_UART3_TXD),
        Free (PE MX27_PIN_UART3_RXD),
        Free (PE MX27_PIN_UART3_CTS),
        Free (PE MX27_PIN_UART3_RTS)]
      else if port = 3 then
       [Free (PB MX27_PIN_USBH1_TXDM),
        Free (PB MX27_PIN_USBH1_RXDP),
        Free (PB MX27_PIN_USBH1_TXDP),
        Free (PB MX27_PIN_USBH1_FS)]
      else if port = 4 then
       [Free (PB MX27_PIN_CSI_D6),
        Free (PB MX27_PIN_CSI_D7),
        Free (PB MX27_PIN_CSI_VSYNC),
        Free (PB MX27_PIN_CSI_HSYNC)]
      else if port = 5 then
       [Free (PB MX27_PIN_CSI_D0),
        Free (PB MX27_PIN_CSI_D1),
        Free (PB MX27_PIN_CSI_D2),
        Free (PB MX27_PIN_CSI_D3)]
      else [])"

definition MXC_UART_NR :: int where "MXC_UART_NR = 6"

record board =
  bmach :: mx27_mach
  g_uart_activated :: "int \<Rightarrow> bool"

definition gpio_uart_active :: "(mx27_mach \<Rightarrow> mx27_mach) \<Rightarrow> int \<Rightarrow> int \<Rightarrow> board \<Rightarrow> board result" where
  "gpio_uart_active pmic port ir_mode b =
     (if port < 0 \<or> port \<ge> MXC_UART_NR then Inl BugOn
      else if g_uart_activated b port then Inr b
      else
        let b = b\<lparr>g_uart_activated := (g_uart_activated b)(port := True)\<rparr>
        in Inr (b\<lparr>bmach := run_calls pmic (uart_active_calls port) (bmach b)\<rparr>))"

definition gpio_uart_inactive :: "(mx27_mach \<Rightarrow> mx27_mach) \<Rightarrow> int \<Rightarrow> int \<Rightarrow> board \<Rightarrow> board result" where
  "gpio_uart_inactive pmic port ir_mode b =
     (if port < 0 \<or> port \<ge> MXC_UART_NR then Inl BugOn
      else if \<not> g_uart_activated b port then Inr b
      else
        let b = b\<lparr>g_uart_activated := (g_uart_activated b)(port := False)\<rparr>
        in Inr (b\<lparr>bmach := run_calls pmic (uart_inactive_calls port) (bmach b)\<rparr>))"

definition gpio_irda_active :: "(mx27_mach \<Rightarrow> mx27_mach) \<Rightarrow> board \<Rightarrow> board result" where
  "gpio_irda_active pmic b = gpio_uart_active pmic 2 0 b"

definition gpio_irda_inactive :: "(mx27_mach \<Rightarrow> mx27_mach) \<Rightarrow> board \<Rightarrow> board result" where
  "gpio_irda_inactive pmic b = gpio_uart_inactive pmic 2 0 b"

section \<open>USB\<close>

definition gpio_usbh1_active :: "gpio_call list" where
  "gpio_usbh1_active =
     [Request (PB MX27_PIN_USBH1_FS) GPIO_MUX_PRIMARY,
      Request (PB MX27_PIN_USBH1_OE_B) GPIO_MUX_PRIMARY,
      Request (PB MX27_PIN_USBH1_TXDM) GPIO_MUX_PRIMARY,
      Request (PB MX27_PIN_USBH1_RXDM) GPIO_MUX_PRIMARY,
      Request (PB MX27_PIN_USBH1_RXDP) GPIO_MUX_PRIMARY]"

definition gpio_usbh1_inactive :: "gpio_call list" where
  "gpio_usbh1_inactive =
     [Free (PB MX27_PIN_USBH1_FS),
      Free (PB MX27_PIN_USBH1_OE_B),
      Free (PB MX27_PIN_USBH1_TXDM),
      Free (PB MX27_PIN_USBH1_TXDP),
      Free (PB MX27_PIN_USBH1_RXDM),
      Free (PB MX27_PIN_USBH1_RXDP)]"

definition gpio_usbh2_active :: "gpio_call list" where
  "gpio_usbh2_active =
     [Puen (PA MX27_PIN_USBH2_CLK) False,
      Puen (PA MX27_PIN_USBH2_DIR) False,
      Puen (PA MX27_PIN_USBH2_DATA7) False,
      Puen (PA MX27_PIN_USBH2_NXT) False,
      Puen (PA MX27_PIN_USBH2_STP) False,
      Puen (PD MX27_PIN_CSPI2_SS2) False,
      Puen (PD MX27_PIN_CSPI2_SS1) False,
      Puen (PD MX27_PIN_CSPI2_SS0) False,
      Puen (PD MX27_PIN_CSPI2_SCLK) False,
      Puen (PD MX27_PIN_CSPI2_MISO) False,
      Puen (PD MX27_PIN_CSPI2_MOSI) False,
      Puen (PD MX27_PIN_CSPI1_SS2) False,
      Request (PA MX27_PIN_USBH2_CLK) GPIO_MUX_PRIMARY,
      Request (PA MX27_PIN_USBH2_DIR) GPIO_MUX_PRIMARY,
      Request (PA MX27_PIN_USBH2_DATA7) GPIO_MUX_PRIMARY,
      Request (PA MX27_PIN_USBH2_NXT) GPIO_MUX_PRIMARY,
      Request (PA MX27_PIN_USBH2_STP) GPIO_MUX_PRIMARY,
      Request (PD MX27_PIN_CSPI2_SS2) GPIO_MUX_ALT,
      Request (PD MX27_PIN_CSPI2_SS1) GPIO_MUX_ALT,
      Request (PD MX27_PIN_CSPI2_SS0) GPIO_MUX_ALT,
      Request (PD MX27_PIN_CSPI2_SCLK) GPIO_MUX_ALT,
      Request (PD MX27_PIN_CSPI2_MISO) GPIO_MUX_ALT,
      Request (PD MX27_PIN_CSPI2_MOSI) GPIO_MUX_ALT,
      Request (PD MX27_PIN_CSPI1_SS2) GPIO_MUX_ALT]"

definition gpio_usbh2_inactive :: "gpio_call list" where
  "gpio_usbh2_inactive =
     [Free (PA MX27_PIN_USBH2_CLK),
      Free (PA MX27_PIN_USBH2_DIR),
      Free (PA MX27_PIN_USBH2_DATA7),
      Free (PA MX27_PIN_USBH2_NXT),
      Free (PA MX27_PIN_USBH2_STP),
      Free (PD MX27_PIN_CSPI2_SS0),
      Free (PD MX27_PIN_CSPI2_SCLK),
      Free (PD MX27_PIN_CSPI2_MISO),
      Free (PD MX27_PIN_CSPI2_MOSI),
      Free (PD MX27_PIN_CSPI1_SS2),
      Puen (PA MX27_PIN_USBH2_CLK) True,
      Puen (PA MX27_PIN_USBH2_DIR) True,
      Puen (PA MX27_PIN_USBH2_DATA7) True,
      Puen (PA MX27_PIN_USBH2_NXT) True,
      Puen (PA MX27_PIN_USBH2_STP) True,
      Puen (PD MX27_PIN_CSPI2_SS0) True,
      Puen (PD MX27_PIN_CSPI2_SCLK) True,
      Puen (PD MX27_PIN_CSPI2_MISO) True,
      Puen (PD MX27_PIN_CSPI2_MOSI) True,
      Puen (PD MX27_PIN_CSPI1_SS2) True]"

definition gpio_usbotg_hs_active :: "board_config \<Rightarrow> gpio_call list" where
  "gpio_usbotg_hs_active cfg =
     [Request (PC MX27_PIN_USBOTG_DATA5) GPIO_MUX_PRIMARY,
      Request (PC MX27_PIN_USBOTG_DATA6) GPIO_MUX_PRIMARY,
      Request (PC MX27_PIN_USBOTG_DATA0) GPIO_MUX_PRIMARY,
      Request (PC MX27_PIN_USBOTG_DATA2) GPIO_MUX_PRIMARY,
      Request (PC MX27_PIN_USBOTG_DATA1) GPIO_MUX_PRIMARY,
      Request (PC MX27_PIN_USBOTG_DATA3) GPIO_MUX_PRIMARY,
      Request (PC MX27_PIN_USBOTG_DATA4) GPIO_MUX_PRIMARY,
      Request (PE MX27_PIN_USBOTG_DIR) GPIO_MUX_PRIMARY,
      Request (PE MX27_PIN_USBOTG_STP) GPIO_MUX_PRIMARY,
      Request (PE MX27_PIN_USBOTG_NXT) GPIO_MUX_PRIMARY,
      Request (PE MX27_PIN_USBOTG_CLK) GPIO_MUX_PRIMARY,
      Request (PE MX27_PIN_USBOTG_DATA7) GPIO_MUX_PRIMARY,
      Request (PB MX27_PIN_USB_OC_B) GPIO_MUX_PRIMARY,
      Request (PB MX27_PIN_USB_PWR) GPIO_MUX_PRIMARY] @
     (if MC13783_POWER cfg then
        [Pmic]
      else []) @
     [Request (PC MX27_PIN_SSI3_CLK) GPIO_MUX_GPIO,
      Config (PC MX27_PIN_SSI3_CLK) GPIO_MUX_GPIO,
      Direction (PC MX27_PIN_SSI3_CLK) False,
      Dataout (PC MX27_PIN_SSI3_CLK) 0,
      Delay,
      Dataout (PC MX27_PIN_SSI3_CLK) 1]"

definition gpio_usbotg_hs_inactive :: "gpio_call list" where
  "gpio_usbotg_hs_inactive =
     [Free (PC MX27_PIN_USBOTG_DATA5),
      Free (PC MX27_PIN_USBOTG_DATA6),
      Free (PC MX27_PIN_USBOTG_DATA0),
      Free (PC MX27_PIN_USBOTG_DATA2),
      Free (PC MX27_PIN_USBOTG_DATA1),
      Free (PC MX27_PIN_USBOTG_DATA3),
      Free (PC MX27_PIN_USBOTG_DATA4),
      Free (PE MX27_PIN_USBOTG_DIR),
      Free (PE MX27_PIN_USBOTG_STP),
      Free (PE MX27_PIN_USBOTG_NXT),
      Free (PE MX27_PIN_USBOTG_CLK),
      Free (PE MX27_PIN_USBOTG_DATA7),
      Free (PB MX27_PIN_USB_OC_B),
      Free (PB MX27_PIN_USB_PWR),
      Free (PC MX27_PIN_SSI3_CLK)]"

definition gpio_usbotg_fs_active :: "board_config \<Rightarrow> gpio_call list" where
  "gpio_usbotg_fs_active cfg = gpio_usbotg_hs_active cfg"

definition gpio_usbotg_fs_inactive :: "gpio_call list" where
  "gpio_usbotg_fs_inactive = gpio_usbotg_hs_inactive"

section \<open>I2C, SPI and NAND flash\<close>

definition gpio_i2c_active :: "int \<Rightarrow> gpio_call list" where
  "gpio_i2c_active i2c_num =
     (if i2c_num = 0 then
       [Request (PD MX27_PIN_I2C_CLK) GPIO_MUX_PRIMARY,
        Request (PD MX27_PIN_I2C_DATA) GPIO_MUX_PRIMARY]
      else if i2c_num = 1 then
       [Request (PC MX27_PIN_I2C2_SCL) GPIO_MUX_PRIMARY,
        Request (PC MX27_PIN_I2C2_SDA) GPIO_MUX_PRIMARY]
      else [])"

definition gpio_i2c_inactive :: "int \<Rightarrow> gpio_call list" where
  "gpio_i2c_inactive i2c_num =
     (if i2c_num = 0 then
       [Free (PD MX27_PIN_I2C_CLK),
        Free (PD MX27_PIN_I2C_DATA)]
      else if i2c_num = 1 then
       [Free (PC MX27_PIN_I2C2_SCL),
        Free (PC MX27_PIN_I2C2_SDA)]
      else [])"

definition gpio_spi_active :: "int \<Rightarrow> gpio_call list" where
  "gpio_spi_active cspi_mod =
     (if cspi_mod = 0 then
       [Request (PD MX27_PIN_CSPI1_MOSI) GPIO_MUX_PRIMARY,
        Request (PD MX27_PIN_CSPI1_MISO) GPIO_MUX_PRIMARY,
        Request (PD MX27_PIN_CSPI1_SCLK) GPIO_MUX_PRIMARY,
        Request (PD MX27_PIN_CSPI1_RDY) GPIO_MUX_PRIMARY,
        Request (PD MX27_PIN_CSPI1_SS0) GPIO_MUX_PRIMARY]
      else if cspi_mod = 1 then
       [Request (PD MX27_PIN_CSPI2_MOSI) GPIO_MUX_PRIMARY,
        Request (PD MX27_PIN_CSPI2_MISO) GPIO_MUX_PRIMARY,
        Request (PD MX27_PIN_CSPI2_SCLK) GPIO_MUX_PRIMARY,
        Request (PD MX27_PIN_CSPI2_SS0) GPIO_MUX_PRIMARY]
      else if cspi_mod = 2 then
       [Request (PE MX27_PIN_SD1_D0) GPIO_MUX_ALT,
        Request (PE MX27_PIN_SD1_CMD) GPIO_MUX_ALT,
        Request (PE MX27_PIN_SD1_CLK) GPIO_MUX_ALT,
        Request (PE MX27_PIN_SD1_D3) GPIO_MUX_ALT]
      else [])"

definition gpio_spi_inactive :: "int \<Rightarrow> gpio_call list" where
  "gpio_spi_inactive cspi_mod =
     (if cspi_mod = 0 then
       [Free (PD MX27_PIN_CSPI1_MOSI),
        Free (PD MX27_PIN_CSPI1_MISO),
        Free (PD MX27_PIN_CSPI1_SCLK),
        Free (PD MX27_PIN_CSPI1_RDY),
        Free (PD MX27_PIN_CSPI1_SS0),
        Free (PD MX27_PIN_CSPI1_SS2)]
      else if cspi_mod = 1 then
       [Free (PD MX27_PIN_CSPI2_MOSI),
        Free (PD MX27_PIN_CSPI2_MISO),
        Free (PD MX27_PIN_CSPI2_SCLK),
        Free (PD MX27_PIN_CSPI2_SS0)]
      else if cspi_mod = 2 then
       [Free (PE MX27_PIN_SD1_D0),
        Free (PE MX27_PIN_SD1_CMD),
        Free (PE MX27_PIN_SD1_CLK),
        Free (PE MX27_PIN_SD1_D3)]
      else [])"

definition gpio_nand_active :: "gpio_call list" where
  "gpio_nand_active =
     [Readl_Writel (IO_ADDRESS SYSCTRL_BASE_ADDR + SYS_FMCR) (\<lambda>reg. reg AND NOT (push_bit 4 1)),
      Request (PF MX27_PIN_NFRB) GPIO_MUX_PRIMARY,
      Request (PF MX27_PIN_NFCE_B) GPIO_MUX_PRIMARY,
      Request (PF MX27_PIN_NFWP_B) GPIO_MUX_PRIMARY,
      Request (PF MX27_PIN_NFCLE) GPIO_MUX_PRIMARY,
      Request (PF MX27_PIN_NFALE) GPIO_MUX_PRIMARY,
      Request (PF MX27_PIN_NFRE_B) GPIO_MUX_PRIMARY,
      Request (PF MX27_PIN_NFWE_B) GPIO_MUX_PRIMARY]"

definition gpio_nand_inactive :: "gpio_call list" where
  "gpio_nand_inactive =
     [Free (PF MX27_PIN_NFRB),
      Free (PF MX27_PIN_NFCE_B),
      Free (PF MX27_PIN_NFWP_B),
      Free (PF MX27_PIN_NFCLE),
      Free (PF MX27_PIN_NFALE),
      Free (PF MX27_PIN_NFRE_B),
      Free (PF MX27_PIN_NFWE_B)]"

section \<open>Cameras and video decoders\<close>

definition gpio_sensor_active :: "gpio_call list" where
  "gpio_sensor_active =
     [Request (PB MX27_PIN_CSI_D0) GPIO_MUX_PRIMARY,
      Request (PB MX27_PIN_CSI_D1) GPIO_MUX_PRIMARY,
      Request (PB MX27_PIN_CSI_D2) GPIO_MUX_PRIMARY,
      Request (PB MX27_PIN_CSI_D3) GPIO_MUX_PRIMARY,
      Request (PB MX27_PIN_CSI_D4) GPIO_MUX_PRIMARY,
      Request (PB MX27_PIN_CSI_MCLK) GPIO_MUX_PRIMARY,
      Request (PB MX27_PIN_CSI_PIXCLK) GPIO_MUX_PRIMARY,
      Request (PB MX27_PIN_CSI_D5) GPIO_MUX_PRIMARY,
      Request (PB MX27_PIN_CSI_D6) GPIO_MUX_PRIMARY,
      Request (PB MX27_PIN_CSI_D7) GPIO_MUX_PRIMARY,
      Request (PB MX27_PIN_CSI_VSYNC) GPIO_MUX_PRIMARY,
      Request (PB MX27_PIN_CSI_HSYNC) GPIO_MUX_PRIMARY,
      Request (PB MX27_PIN_USBH1_SUSP) GPIO_MUX_GPIO,
      Direction (PB MX27_PIN_USBH1_SUSP) False,
      Dataout (PB MX27_PIN_USBH1_SUSP) 1,
      Request (PC MX27_PIN_SSI3_FS) GPIO_MUX_GPIO,
      Direction (PC MX27_PIN_SSI3_FS) False,
      Dataout (PC MX27_PIN_SSI3_FS) 1,
      Request (PB MX27_PIN_USBH1_RXDM) GPIO_MUX_GPIO,
      Direction (PB MX27_PIN_USBH1_RXDM) False,
      Dataout (PB MX27_PIN_USBH1_RXDM) 0,
      Dataout (PB MX27_PIN_USBH1_SUSP) 0,
      Delay,
      Dataout (PB MX27_PIN_USBH1_SUSP) 1]"

definition gpio_sensor_inactive :: "gpio_call list" where
  "gpio_sensor_inactive =
     [Free (PB MX27_PIN_CSI_D0),
      Free (PB MX27_PIN_CSI_D1),
      Free (PB MX27_PIN_CSI_D2),
      Free (PB MX27_PIN_CSI_D3),
      Free (PB MX27_PIN_CSI_D4),
      Free (PB MX27_PIN_CSI_MCLK),
      Free (PB MX27_PIN_CSI_PIXCLK),
      Free (PB MX27_PIN_CSI_D5),
      Free (PB MX27_PIN_CSI_D6),
      Free (PB MX27_PIN_CSI_D7),
      Free (PB MX27_PIN_CSI_VSYNC),
      Free (PB MX27_PIN_CSI_HSYNC),
      Free (PC MX27_PIN_SSI3_FS),
      Dataout (PB MX27_PIN_USBH1_RXDM) 1,
      Free (PB MX27_PIN_USBH1_RXDM),
      Free (PB MX27_PIN_USBH1_SUSP)]"

definition gpio_adv7180_active :: "gpio_call list" where
  "gpio_adv7180_active =
     [Request (PB MX27_PIN_CSI_D0) GPIO_MUX_PRIMARY,
      Request (PB MX27_PIN_CSI_D1) GPIO_MUX_PRIMARY,
      Request (PB MX27_PIN_CSI_D2) GPIO_MUX_PRIMARY,
      Request (PB MX27_PIN_CSI_D3) GPIO_MUX_PRIMARY,
      Request (PB MX27_PIN_CSI_D4) GPIO_MUX_PRIMARY,
      Request (PB MX27_PIN_CSI_MCLK) GPIO_MUX_PRIMARY,
      Request (PB MX27_PIN_CSI_PIXCLK) GPIO_MUX_PRIMARY,
      Request (PB MX27_PIN_CSI_D5) GPIO_MUX_PRIMARY,
      Request (PB MX27_PIN_CSI_D6) GPIO_MUX_PRIMARY,
      Request (PB MX27_PIN_CSI_D7) GPIO_MUX_PRIMARY,
      Request (PB MX27_PIN_CSI_VSYNC) GPIO_MUX_PRIMARY,
      Request (PB MX27_PIN_CSI_HSYNC) GPIO_MUX_PRIMARY,
      Delay,
      Request (PB MX27_PIN_USBH1_RXDM) GPIO_MUX_GPIO,
      Direction (PB MX27_PIN_USBH1_RXDM) False,
      Dataout (PB MX27_PIN_USBH1_RXDM) 1,
      Delay,
      Request (PD MX27_PIN_CSPI1_RDY) GPIO_MUX_GPIO,
      Direction (PD MX27_PIN_CSPI1_RDY) False,
      Dataout (PD MX27_PIN_CSPI1_RDY) 0,
      Delay,
      Dataout (PD MX27_PIN_CSPI1_RDY) 1,
      Delay]"

definition gpio_adv7180_inactive :: "gpio_call list" where
  "gpio_adv7180_inactive =
     [Free (PB MX27_PIN_CSI_D0),
      Free (PB MX27_PIN_CSI_D1),
      Free (PB MX27_PIN_CSI_D2),
      Free (PB MX27_PIN_CSI_D3),
      Free (PB MX27_PIN_CSI_D4),
      Free (PB MX27_PIN_CSI_MCLK),
      Free (PB MX27_PIN_CSI_PIXCLK),
      Free (PB MX27_PIN_CSI_D5),
      Free (PB MX27_PIN_CSI_D6),
      Free (PB MX27_PIN_CSI_D7),
      Free (PB MX27_PIN_CSI_VSYNC),
      Free (PB MX27_PIN_CSI_HSYNC),
      Delay,
      Request (PB MX27_PIN_USBH1_RXDM) GPIO_MUX_GPIO,
      Direction (PB MX27_PIN_USBH1_RXDM) False,
      Dataout (PB MX27_PIN_USBH1_RXDM) 0,
      Delay,
      Request (PD MX27_PIN_CSPI1_RDY) GPIO_MUX_GPIO,
      Direction (PD MX27_PIN_CSPI1_RDY) False,
      Dataout (PD MX27_PIN_CSPI1_RDY) 0,
      Delay,
      Dataout (PD MX27_PIN_CSPI1_RDY) 1,
      Delay]"

definition gpio_tw2835_active :: "board_config \<Rightarrow> gpio_call list" where
  "gpio_tw2835_active cfg =
     [Request (PB MX27_PIN_CSI_D0) GPIO_MUX_PRIMARY,
      Request (PB MX27_PIN_CSI_D1) GPIO_MUX_PRIMARY,
      Request (PB MX27_PIN_CSI_D2) GPIO_MUX_PRIMARY,
      Request (PB MX27_PIN_CSI_D3) GPIO_MUX_PRIMARY,
      Request (PB MX27_PIN_CSI_D4) GPIO_MUX_PRIMARY,
      Request (PB MX27_PIN_CSI_MCLK) GPIO_MUX_PRIMARY,
      Request (PB MX27_PIN_CSI_PIXCLK) GPIO_MUX_PRIMARY,
      Request (PB MX27_PIN_CSI_D5) GPIO_MUX_PRIMARY,
      Request (PB MX27_PIN_CSI_D6) GPIO_MUX_PRIMARY,
      Request (PB MX27_PIN_CSI_D7) GPIO_MUX_PRIMARY,
      Request (PB MX27_PIN_CSI_VSYNC) GPIO_MUX_PRIMARY,
      Request (PB MX27_PIN_CSI_HSYNC) GPIO_MUX_PRIMARY] @
     (if MPK271 cfg then
        [Delay,
         Request (PB MX27_PIN_USBH1_RXDM) GPIO_MUX_GPIO,
         Direction (PB MX27_PIN_USBH1_RXDM) False,
         Dataout (PB MX27_PIN_USBH1_RXDM) 1,
         Delay,
         Request (PD MX27_PIN_CSPI1_RDY) GPIO_MUX_GPIO,
         Direction (PD MX27_PIN_CSPI1_RDY) False,
         Dataout (PD MX27_PIN_CSPI1_RDY) 0,
         Delay,
         Dataout (PD MX27_PIN_CSPI1_RDY) 1,
         Delay]
      else [])"

definition gpio_tw2835_inactive :: "board_config \<Rightarrow> gpio_call list" where
  "gpio_tw2835_inactive cfg =
     [Free (PB MX27_PIN_CSI_D0),
      Free (PB MX27_PIN_CSI_D1),
      Free (PB MX27_PIN_CSI_D2),
      Free (PB MX27_PIN_CSI_D3),
      Free (PB MX27_PIN_CSI_D4),
      Free (PB MX27_PIN_CSI_MCLK),
      Free (PB MX27_PIN_CSI_PIXCLK),
      Free (PB MX27_PIN_CSI_D5),
      Free (PB MX27_PIN_CSI_D6),
      Free (PB MX27_PIN_CSI_D7),
      Free (PB MX27_PIN_CSI_VSYNC),
      Free (PB MX27_PIN_CSI_HSYNC)] @
     (if MPK271 cfg then
        [Delay,
         Request (PB MX27_PIN_USBH1_RXDM) GPIO_MUX_GPIO,
         Direction (PB MX27_PIN_USBH1_RXDM) False,
         Dataout (PB MX27_PIN_USBH1_RXDM) 0,
         Delay,
         Request (PD MX27_PIN_CSPI1_RDY) GPIO_MUX_GPIO,
         Direction (PD MX27_PIN_CSPI1_RDY) False,
         Dataout (PD MX27_PIN_CSPI1_RDY) 0,
         Delay,
         Dataout (PD MX27_PIN_CSPI1_RDY) 1,
         Delay]
      else [])"

section \<open>Radio and display\<close>

definition gpio_si4702_active :: "board_config \<Rightarrow> gpio_call list" where
  "gpio_si4702_active cfg =
     [Request (PA MX27_PIN_USBH2_DIR) GPIO_MUX_GPIO,
      Direction (PA MX27_PIN_USBH2_DIR) False,
      Dataout (PA MX27_PIN_USBH2_DIR) 1] @
     (if SYP cfg \<or> TUOSI cfg \<or> MPK271 cfg then
        []
      else [Request (PC MX27_PIN_SSI2_TXDAT) GPIO_MUX_GPIO,
            Direction (PC MX27_PIN_SSI2_TXDAT) False,
            Dataout (PC MX27_PIN_SSI2_TXDAT) 0])"

definition gpio_si4702_inactive :: "gpio_call list" where
  "gpio_si4702_inactive =
     [Request (PA MX27_PIN_USBH2_DIR) GPIO_MUX_GPIO,
      Direction (PA MX27_PIN_USBH2_DIR) False,
      Dataout (PA MX27_PIN_USBH2_DIR) 0]"

definition gpio_si4702_reset :: "gpio_call list" where
  "gpio_si4702_reset =
     [Request (PD MX27_PIN_CSPI2_SS1) GPIO_MUX_GPIO,
      Direction (PD MX27_PIN_CSPI2_SS1) False,
      Dataout (PD MX27_PIN_CSPI2_SS1) 0,
      Delay,
      Dataout (PD MX27_PIN_CSPI2_SS1) 1,
      Delay]"

definition gpio_si4702_powerdown :: "gpio_call list" where
  "gpio_si4702_powerdown =
     [Request (PA MX27_PIN_USBH2_DIR) GPIO_MUX_GPIO,
      Direction (PA MX27_PIN_USBH2_DIR) False,
      Dataout (PA MX27_PIN_USBH2_DIR) 0]"

definition gpio_lcdc_active :: "board_config \<Rightarrow> gpio_call list" where
  "gpio_lcdc_active cfg =
     [Request (PA MX27_PIN_LSCLK) GPIO_MUX_PRIMARY,
      Request (PA MX27_PIN_LD0) GPIO_MUX_PRIMARY,
      Request (PA MX27_PIN_LD1) GPIO_MUX_PRIMARY,
      Request (PA MX27_PIN_LD2) GPIO_MUX_PRIMARY,
      Request (PA MX27_PIN_LD3) GPIO_MUX_PRIMARY,
      Request (PA MX27_PIN_LD4) GPIO_MUX_PRIMARY,
      Request (PA MX27_PIN_LD5) GPIO_MUX_PRIMARY,
      Request (PA MX27_PIN_LD6) GPIO_MUX_PRIMARY,
      Request (PA MX27_PIN_LD7) GPIO_MUX_PRIMARY,
      Request (PA MX27_PIN_LD8) GPIO_MUX_PRIMARY,
      Request (PA MX27_PIN_LD9) GPIO_MUX_PRIMARY,
      Request (PA MX27_PIN_LD10) GPIO_MUX_PRIMARY,
      Request (PA MX27_PIN_LD11) GPIO_MUX_PRIMARY,
      Request (PA MX27_PIN_LD12) GPIO_MUX_PRIMARY,
      Request (PA MX27_PIN_LD13) GPIO_MUX_PRIMARY,
      Request (PA MX27_PIN_LD14) GPIO_MUX_PRIMARY,
      Request (PA MX27_PIN_LD15) GPIO_MUX_PRIMARY,
      Request (PA MX27_PIN_LD16) GPIO_MUX_PRIMARY,
      Request (PA MX27_PIN_LD17) GPIO_MUX_PRIMARY,
      Request (PA MX27_PIN_HSYNC) GPIO_MUX_PRIMARY,
      Request (PA MX27_PIN_VSYNC) GPIO_MUX_PRIMARY,
      Request (PA MX27_PIN_CONTRAST) GPIO_MUX_PRIMARY,
      Request (PA MX27_PIN_OE_ACD) GPIO_MUX_PRIMARY] @
     (if TUOSI cfg then
        [Require (PA MX27_PIN_USBH2_DIR) GPIO_MUX_GPIO,
         Direction (PA MX27_PIN_USBH2_DIR) False,
         Config (PA MX27_PIN_USBH2_DIR) GPIO_MUX_GPIO,
         Dataout (PA MX27_PIN_USBH2_DIR) 0,
         Delay,
         Dataout (PA MX27_PIN_USBH2_DIR) 1]
      else (if MPK271 cfg then
              []
            else if SYP cfg then
              []
            else [Require (PA MX27_PIN_USBH2_NXT) GPIO_MUX_GPIO,
                  Direction (PA MX27_PIN_USBH2_NXT) False,
                  Config (PA MX27_PIN_USBH2_NXT) GPIO_MUX_GPIO,
                  Dataout (PA MX27_PIN_USBH2_NXT) 0,
                  Delay,
                  Dataout (PA MX27_PIN_USBH2_NXT) 1])) @
     (if SYP cfg \<or> TUOSI cfg \<or> MPK271 cfg then
        [Request (PA MX27_PIN_REV) GPIO_MUX_GPIO,
         Direction (PA MX27_PIN_REV) False,
         Config (PA MX27_PIN_REV) GPIO_MUX_GPIO,
         Dataout (PA MX27_PIN_REV) 0]
      else if MDK27V1 cfg then
        [Request (PA MX27_PIN_REV) GPIO_MUX_GPIO,
         Direction (PA MX27_PIN_REV) True,
         Config (PA MX27_PIN_REV) GPIO_MUX_GPIO]
      else [])"

definition gpio_lcdc_inactive :: "gpio_call list" where
  "gpio_lcdc_inactive =
     [Dataout (PA MX27_PIN_REV) 1,
      Free (PA MX27_PIN_REV),
      Free (PA MX27_PIN_LSCLK),
      Free (PA MX27_PIN_LD0),
      Free (PA MX27_PIN_LD1),
      Free (PA MX27_PIN_LD2),
      Free (PA MX27_PIN_LD3),
      Free (PA MX27_PIN_LD4),
      Free (PA MX27_PIN_LD5),
      Free (PA MX27_PIN_LD6),
      Free (PA MX27_PIN_LD7),
      Free (PA MX27_PIN_LD8),
      Free (PA MX27_PIN_LD9),
      Free (PA MX27_PIN_LD10),
      Free (PA MX27_PIN_LD11),
      Free (PA MX27_PIN_LD12),
      Free (PA MX27_PIN_LD13),
      Free (PA MX27_PIN_LD14),
      Free (PA MX27_PIN_LD15),
      Free (PA MX27_PIN_LD16),
      Free (PA MX27_PIN_LD17),
      Free (PA MX27_PIN_HSYNC),
      Free (PA MX27_PIN_VSYNC),
      Free (PA MX27_PIN_CONTRAST),
      Free (PA MX27_PIN_OE_ACD)]"

definition gpio_fs453_reset_low :: "gpio_call list" where
  "gpio_fs453_reset_low =
     [Free (PA MX27_PIN_CLS),
      Require (PA MX27_PIN_CLS) GPIO_MUX_GPIO,
      Direction (PA MX27_PIN_CLS) False,
      Config (PA MX27_PIN_CLS) GPIO_MUX_GPIO,
      Dataout (PA MX27_PIN_CLS) 0]"

definition gpio_fs453_reset_high :: "gpio_call list" where
  "gpio_fs453_reset_high =
     [Free (PA MX27_PIN_CLS),
      Require (PA MX27_PIN_CLS) GPIO_MUX_GPIO,
      Direction (PA MX27_PIN_CLS) False,
      Config (PA MX27_PIN_CLS) GPIO_MUX_GPIO,
      Dataout (PA MX27_PIN_CLS) 1]"

definition gpio_pmic_active :: "gpio_call list" where
  "gpio_pmic_active =
     [Config (PC MX27_PIN_TOUT) GPIO_MUX_GPIO,
      Direction (PC MX27_PIN_TOUT) True,
      Config (PC MX27_PIN_TIN) GPIO_MUX_GPIO,
      Direction (PC MX27_PIN_TIN) True,
      Config (PB MX27_PIN_USBH1_TXDP) GPIO_MUX_GPIO,
      Direction (PB MX27_PIN_USBH1_TXDP) True,
      Config (PB MX27_PIN_USBH1_OE_B) GPIO_MUX_GPIO,
      Direction (PB MX27_PIN_USBH1_OE_B) False,
      Dataout (PB MX27_PIN_USBH1_OE_B) 1,
      Config (PB MX27_PIN_USBH1_RXDP) GPIO_MUX_GPIO,
      Direction (PB MX27_PIN_USBH1_RXDP) False,
      Dataout (PB MX27_PIN_USBH1_RXDP) 1]"

section \<open>Ethernet and audio\<close>

definition gpio_fec_active :: "board_config \<Rightarrow> gpio_call list" where
  "gpio_fec_active cfg =
     [Request (PF MX27_PIN_ATA_DATA15) GPIO_MUX_OUTPUT1,
      Direction (PF MX27_PIN_ATA_DATA15) False,
      Request (PD MX27_PIN_ATA_DATA14) GPIO_MUX_OUTPUT1,
      Direction (PD MX27_PIN_ATA_DATA14) False,
      Request (PD MX27_PIN_ATA_DATA13) GPIO_MUX_INPUT1,
      Direction (PD MX27_PIN_ATA_DATA13) True,
      Request (PD MX27_PIN_ATA_DATA12) GPIO_MUX_INPUT1,
      Direction (PD MX27_PIN_ATA_DATA12) True,
      Request (PD MX27_PIN_ATA_DATA11) GPIO_MUX_INPUT1,
      Direction (PD MX27_PIN_ATA_DATA11) True,
      Request (PD MX27_PIN_ATA_DATA10) GPIO_MUX_INPUT1,
      Direction (PD MX27_PIN_ATA_DATA10) True,
      Request (PD MX27_PIN_ATA_DATA9) GPIO_MUX_INPUT1,
      Direction (PD MX27_PIN_ATA_DATA9) True,
      Request (PD MX27_PIN_ATA_DATA8) GPIO_MUX_INPUT1,
      Direction (PD MX27_PIN_ATA_DATA8) True,
      Request (PD MX27_PIN_ATA_DATA7) GPIO_MUX_OUTPUT1,
      Direction (PD MX27_PIN_ATA_DATA7) False,
      Request (PD MX27_PIN_ATA_DATA6) GPIO_MUX_ALT,
      Request (PD MX27_PIN_ATA_DATA5) GPIO_MUX_INPUT1,
      Direction (PD MX27_PIN_ATA_DATA5) True,
      Request (PD MX27_PIN_ATA_DATA4) GPIO_MUX_INPUT1,
      Direction (PD MX27_PIN_ATA_DATA4) True,
      Request (PD MX27_PIN_ATA_DATA3) GPIO_MUX_INPUT1,
      Direction (PD MX27_PIN_ATA_DATA3) True,
      Request (PD MX27_PIN_ATA_DATA2) GPIO_MUX_INPUT1,
      Direction (PD MX27_PIN_ATA_DATA2) True,
      Request (PD MX27_PIN_ATA_DATA1) GPIO_MUX_OUTPUT1,
      Direction (PD MX27_PIN_ATA_DATA1) False,
      Request (PD MX27_PIN_ATA_DATA0) GPIO_MUX_OUTPUT1,
      Direction (PD MX27_PIN_ATA_DATA0) False,
      Request (PD MX27_PIN_SD3_CLK) GPIO_MUX_OUTPUT1,
      Direction (PD MX27_PIN_SD3_CLK) False,
      Request (PD MX27_PIN_SD3_CMD) GPIO_MUX_OUTPUT1,
      Direction (PD MX27_PIN_SD3_CMD) False,
      Delay] @
     (if MDK27V1 cfg then
        [Require (PB MX27_PIN_USB_OC_B) GPIO_MUX_GPIO,
         Direction (PB MX27_PIN_USB_OC_B) False,
         Config (PB MX27_PIN_USB_OC_B) GPIO_MUX_GPIO,
         Dataout (PB MX27_PIN_USB_OC_B) 1,
         Delay,
         Require (PF MX27_PIN_PC_RST) GPIO_MUX_GPIO,
         Direction (PF MX27_PIN_PC_RST) False,
         Config (PF MX27_PIN_PC_RST) GPIO_MUX_GPIO,
         Dataout (PF MX27_PIN_PC_RST) 0,
         Delay,
         Dataout (PF MX27_PIN_PC_RST) 1,
         Delay]
      else [Request (PF MX27_PIN_IOIS16) GPIO_MUX_GPIO,
            Direction (PF MX27_PIN_IOIS16) True,
            Request (PB MX27_PIN_USB_OC_B) GPIO_MUX_GPIO,
            Request (PE MX27_PIN_PWMO) GPIO_MUX_GPIO,
            Direction (PB MX27_PIN_USB_OC_B) False,
            Direction (PE MX27_PIN_PWMO) False,
            Dataout (PB MX27_PIN_USB_OC_B) 0,
            Dataout (PE MX27_PIN_PWMO) 1,
            Request (PF MX27_PIN_PC_RST) GPIO_MUX_GPIO,
            Direction (PF MX27_PIN_PC_RST) False,
            Dataout (PF MX27_PIN_PC_RST) 0])"

definition gpio_fec_inactive :: "gpio_call list" where
  "gpio_fec_inactive =
     [Direction (PF MX27_PIN_IOIS16) False,
      Free (PF MX27_PIN_IOIS16),
      Free (PB MX27_PIN_USB_OC_B),
      Free (PE MX27_PIN_PWMO),
      Free (PF MX27_PIN_PC_RST),
      Free (PD MX27_PIN_ATA_DATA0),
      Free (PD MX27_PIN_ATA_DATA1),
      Free (PD MX27_PIN_ATA_DATA2),
      Free (PD MX27_PIN_ATA_DATA3),
      Free (PD MX27_PIN_ATA_DATA4),
      Free (PD MX27_PIN_ATA_DATA5),
      Free (PD MX27_PIN_ATA_DATA6),
      Free (PD MX27_PIN_ATA_DATA7),
      Free (PD MX27_PIN_ATA_DATA8),
      Free (PD MX27_PIN_ATA_DATA9),
      Free (PD MX27_PIN_ATA_DATA10),
      Free (PD MX27_PIN_ATA_DATA11),
      Free (PD MX27_PIN_ATA_DATA12),
      Free (PD MX27_PIN_ATA_DATA13),
      Free (PD MX27_PIN_ATA_DATA14),
      Free (PF MX27_PIN_ATA_DATA15),
      Free (PD MX27_PIN_SD3_CMD),
      Free (PD MX27_PIN_SD3_CLK)]"

definition gpio_ssi_active :: "int \<Rightarrow> gpio_call list" where
  "gpio_ssi_active ssi_num =
     (if ssi_num = 0 then
       [Request (PC MX27_PIN_SSI1_FS) GPIO_MUX_PRIMARY,
        Request (PC MX27_PIN_SSI1_RXDAT) GPIO_MUX_PRIMARY,
        Request (PC MX27_PIN_SSI1_TXDAT) GPIO_MUX_PRIMARY,
        Request (PC MX27_PIN_SSI1_CLK) GPIO_MUX_PRIMARY,
        Puen (PC MX27_PIN_SSI1_FS) False,
        Puen (PC MX27_PIN_SSI1_RXDAT) False,
        Puen (PC MX27_PIN_SSI1_TXDAT) False,
        Puen (PC MX27_PIN_SSI1_CLK) False]
      else if ssi_num = 1 then
       [Request (PC MX27_PIN_SSI2_FS) GPIO_MUX_PRIMARY,
        Request (PC MX27_PIN_SSI2_RXDAT) GPIO_MUX_PRIMARY,
        Request (PC MX27_PIN_SSI2_TXDAT) GPIO_MUX_PRIMARY,
        Request (PC MX27_PIN_SSI2_CLK) GPIO_MUX_PRIMARY,
        Puen (PC MX27_PIN_SSI2_FS) False,
        Puen (PC MX27_PIN_SSI2_RXDAT) False,
        Puen (PC MX27_PIN_SSI2_TXDAT) False,
        Puen (PC MX27_PIN_SSI2_CLK) False]
      else if ssi_num = 3 then
       [Request (PC MX27_PIN_SSI4_FS) GPIO_MUX_PRIMARY,
        Request (PC MX27_PIN_SSI4_RXDAT) GPIO_MUX_PRIMARY,
        Request (PC MX27_PIN_SSI4_TXDAT) GPIO_MUX_PRIMARY,
        Request (PC MX27_PIN_SSI4_CLK) GPIO_MUX_PRIMARY,
        Puen (PC MX27_PIN_SSI4_FS) False,
        Puen (PC MX27_PIN_SSI4_RXDAT) False,
        Puen (PC MX27_PIN_SSI4_TXDAT) False,
        Puen (PC MX27_PIN_SSI4_CLK) False]
      else [])"

definition gpio_ssi_inactive :: "int \<Rightarrow> gpio_call list" where
  "gpio_ssi_inactive ssi_num =
     (if ssi_num = 0 then
       [Free (PC MX27_PIN_SSI1_FS),
        Free (PC MX27_PIN_SSI1_RXDAT),
        Free (PC MX27_PIN_SSI1_TXDAT),
        Free (PC MX27_PIN_SSI1_CLK)]
      else if ssi_num = 1 then
       [Free (PC MX27_PIN_SSI2_FS),
        Free (PC MX27_PIN_SSI2_RXDAT),
        Free (PC MX27_PIN_SSI2_TXDAT),
        Free (PC MX27_PIN_SSI2_CLK)]
      else if ssi_num = 3 then
       [Free (PC MX27_PIN_SSI4_FS),
        Free (PC MX27_PIN_SSI4_RXDAT),
        Free (PC MX27_PIN_SSI4_TXDAT),
        Free (PC MX27_PIN_SSI4_CLK)]
      else [])"

definition gpio_jack_active :: "gpio_call list" where
  "gpio_jack_active =
     [Request (PC MX27_PIN_SSI3_RXDAT) GPIO_MUX_GPIO,
      Direction (PC MX27_PIN_SSI3_RXDAT) True,
      Puen (PC MX27_PIN_SSI3_RXDAT) False]"

definition gpio_jack_inactive :: "gpio_call list" where
  "gpio_jack_inactive =
     [Free (PC MX27_PIN_SSI3_RXDAT)]"

section \<open>Memory cards, one-wire bus, wireless\<close>

definition gpio_sdhc_active :: "board_config \<Rightarrow> int \<Rightarrow> gpio_call list" where
  "gpio_sdhc_active cfg module =
     (if module = 0 then
       [Request (PE MX27_PIN_SD1_CLK) GPIO_MUX_PRIMARY,
        Request (PE MX27_PIN_SD1_CMD) GPIO_MUX_PRIMARY,
        Request (PE MX27_PIN_SD1_D0) GPIO_MUX_PRIMARY,
        Request (PE MX27_PIN_SD1_D1) GPIO_MUX_PRIMARY,
        Request (PE MX27_PIN_SD1_D2) GPIO_MUX_PRIMARY,
        Request (PE MX27_PIN_SD1_D3) GPIO_MUX_PRIMARY,
        Readw_Writew (IO_ADDRESS (SYSCTRL_BASE_ADDR + 0x54)) (\<lambda>data. data OR 0x0c)] @
       (if MDK27V0 cfg then
          (if MDK27V1 cfg then
             [Request (PA MX27_PIN_SPL_SPR) GPIO_MUX_GPIO,
              Direction (PA MX27_PIN_SPL_SPR) True,
              Puen (PA MX27_PIN_SPL_SPR) False]
           else []) @
          (if TUOSI cfg then
             [Request (PD MX27_PIN_CSPI2_SS2) GPIO_MUX_GPIO,
              Direction (PD MX27_PIN_CSPI2_SS2) True,
              Puen (PD MX27_PIN_CSPI2_SS2) False]
           else [])
        else [])
      else if module = 1 then
       [Request (PB MX27_PIN_SD2_CLK) GPIO_MUX_PRIMARY,
        Request (PB MX27_PIN_SD2_CMD) GPIO_MUX_PRIMARY,
        Request (PB MX27_PIN_SD2_D0) GPIO_MUX_PRIMARY,
        Request (PB MX27_PIN_SD2_D1) GPIO_MUX_PRIMARY,
        Request (PB MX27_PIN_SD2_D2) GPIO_MUX_PRIMARY,
        Request (PB MX27_PIN_SD2_D3) GPIO_MUX_PRIMARY,
        Readw_Writew (IO_ADDRESS (SYSCTRL_BASE_ADDR + 0x54)) (\<lambda>data. (data AND NOT 0xfff0) OR 0xfff0)]
      else if module = 2 then
       [Request (PD MX27_PIN_SD3_CLK) GPIO_MUX_PRIMARY,
        Request (PD MX27_PIN_SD3_CMD) GPIO_MUX_PRIMARY,
        Request (PD MX27_PIN_ATA_DATA0) GPIO_MUX_ALT,
        Request (PD MX27_PIN_ATA_DATA1) GPIO_MUX_ALT,
        Request (PD MX27_PIN_ATA_DATA2) GPIO_MUX_ALT,
        Request (PD MX27_PIN_ATA_DATA3) GPIO_MUX_ALT]
      else [])"

definition gpio_sdhc_inactive :: "board_config \<Rightarrow> int \<Rightarrow> gpio_call list" where
  "gpio_sdhc_inactive cfg module =
     (if module = 0 then
       [Free (PE MX27_PIN_SD1_CLK),
        Free (PE MX27_PIN_SD1_CMD),
        Free (PE MX27_PIN_SD1_D0),
        Free (PE MX27_PIN_SD1_D1),
        Free (PE MX27_PIN_SD1_D2),
        Free (PE MX27_PIN_SD1_D3)] @
       (if MDK27V0 cfg then
          []
        else [])
      else if module = 1 then
       [Free (PB MX27_PIN_SD2_CLK),
        Free (PB MX27_PIN_SD2_CMD),
        Free (PB MX27_PIN_SD2_D0),
        Free (PB MX27_PIN_SD2_D1),
        Free (PB MX27_PIN_SD2_D2),
        Free (PB MX27_PIN_SD2_D3)]
      else if module = 2 then
       [Free (PD MX27_PIN_SD3_CLK),
        Free (PD MX27_PIN_SD3_CMD),
        Free (PD MX27_PIN_ATA_DATA0),
        Free (PD MX27_PIN_ATA_DATA1),
        Free (PD MX27_PIN_ATA_DATA2),
        Free (PD MX27_PIN_ATA_DATA3)]
      else [])"

definition gpio_owire_active :: "gpio_call list" where
  "gpio_owire_active =
     [Request (PE MX27_PIN_RTCK) GPIO_MUX_ALT]"

definition gpio_owire_inactive :: "gpio_call list" where
  "gpio_owire_inactive =
     [Request (PE MX27_PIN_RTCK) GPIO_MUX_PRIMARY]"

definition gpio_apmwifi_power_on :: "gpio_call list" where
  "gpio_apmwifi_power_on =
     [Request (PA MX27_PIN_CLS) GPIO_MUX_GPIO,
      Direction (PA MX27_PIN_CLS) False,
      Dataout (PA MX27_PIN_CLS) 1,
      Delay,
      Request (PB MX27_PIN_USBH1_TXDM) GPIO_MUX_GPIO,
      Direction (PB MX27_PIN_USBH1_TXDM) False,
      Dataout (PB MX27_PIN_USBH1_TXDM) 0,
      Delay,
      Dataout (PB MX27_PIN_USBH1_TXDM) 1,
      Delay]"

definition gpio_apmwifi_power_off :: "gpio_call list" where
  "gpio_apmwifi_power_off =
     [Dataout (PA MX27_PIN_CLS) 0]"

section \<open>Camera selection\<close>

definition mxc_ccd_enable :: "u32 \<Rightarrow> mx27_mach \<Rightarrow> mx27_mach" where
  "mxc_ccd_enable i m = mxc_set_gpio_dataout (pin_code (PC MX27_PIN_SSI3_FS)) ((i AND 0x01) XOR 1) m"

definition mxc_cmos_enable :: "u32 \<Rightarrow> mx27_mach \<Rightarrow> mx27_mach" where
  "mxc_cmos_enable i m = mxc_set_gpio_dataout (pin_code (PB MX27_PIN_USBH1_RXDM)) (1 - (i AND 0x01)) m"

definition mxc_camera_select :: "u32 \<Rightarrow> mx27_mach \<Rightarrow> mx27_mach" where
  "mxc_camera_select i m =
     (if i = 0 then
        mxc_set_gpio_dataout (pin_code (PB MX27_PIN_USBH1_RXDM)) 0
          (mxc_set_gpio_dataout (pin_code (PC MX27_PIN_SSI3_FS)) 1 m)
      else
        mxc_set_gpio_dataout (pin_code (PC MX27_PIN_SSI3_FS)) 0
          (mxc_set_gpio_dataout (pin_code (PB MX27_PIN_USBH1_RXDM)) 1 m))"

section \<open>Card detection\<close>

definition sdhc_get_card_det_status :: "board_config \<Rightarrow> int \<Rightarrow> mx27_mach \<Rightarrow> int" where
  "sdhc_get_card_det_status cfg dev_id m =
     (if dev_id = 0 then
        (if MPK271 cfg then mxc_get_gpio_ssr (pin_code (PB MX27_PIN_USBH1_OE_B)) m
         else mxc_get_gpio_ssr (pin_code (PB MX27_PIN_USBH1_FS)) m)
      else
        (if TUOSI cfg then mxc_get_gpio_ssr (pin_code (PC MX27_PIN_SSI4_TXDAT)) m
         else mxc_get_gpio_ssr (pin_code (PB MX27_PIN_USBH1_FS)) m))"

text \<open>The calls of \<^verbatim>\<open>sdhc_init_card_det\<close> and the interrupt it returns.\<close>

definition sdhc_init_card_det :: "board_config \<Rightarrow> int \<Rightarrow> gpio_call list \<times> u32" where
  "sdhc_init_card_det cfg dev_id =
     (if dev_id = 0 then
        (if MPK271 cfg then
           ([Config (PB MX27_PIN_USBH1_OE_B) GPIO_MUX_GPIO,
             Direction (PB MX27_PIN_USBH1_OE_B) True,
             Puen (PB MX27_PIN_USBH1_OE_B) False], IOMUX_TO_IRQ (pin_code (PB MX27_PIN_USBH1_OE_B)))
         else
           ([Request (PB MX27_PIN_USBH1_FS) GPIO_MUX_GPIO,
             Direction (PB MX27_PIN_USBH1_FS) True,
             Puen (PB MX27_PIN_USBH1_FS) False], IOMUX_TO_IRQ (pin_code (PB MX27_PIN_USBH1_FS))))
      else
        (if TUOSI cfg then
           ([Config (PC MX27_PIN_SSI4_TXDAT) GPIO_MUX_GPIO,
             Direction (PC MX27_PIN_SSI4_TXDAT) True,
             Puen (PC MX27_PIN_SSI4_TXDAT) False], IOMUX_TO_IRQ (pin_code (PC MX27_PIN_SSI4_TXDAT)))
         else
           ([Config (PB MX27_PIN_USBH1_FS) GPIO_MUX_GPIO,
             Direction (PB MX27_PIN_USBH1_FS) True,
             Puen (PB MX27_PIN_USBH1_FS) False], IOMUX_TO_IRQ (pin_code (PB MX27_PIN_USBH1_FS)))))"

text \<open>\<open>rc\<close> is what the converter of the power management chip reads.\<close>

definition sdhc_write_protect :: "board_config \<Rightarrow> u16 \<Rightarrow> int \<Rightarrow> mx27_mach \<Rightarrow> int" where
  "sdhc_write_protect cfg rc dev_id m =
     (if TUOSI cfg then
        (if dev_id = 0 then (if mxc_get_gpio_ssr (pin_code (PA MX27_PIN_SPL_SPR)) m \<noteq> 0 then 1 else 0)
         else (if mxc_get_gpio_ssr (pin_code (PD MX27_PIN_CSPI2_SS2)) m \<noteq> 0 then 1 else 0))
      else if MDK27V1 cfg then (if mxc_get_gpio_ssr (pin_code (PA MX27_PIN_SPL_SPR)) m \<noteq> 0 then 1 else 0)
      else (if rc > 0 then 1 else 0))"

section \<open>The CS8900 network chip\<close>

text \<open>The calls on pins come first, then the type of the interrupt of the pin is set.\<close>

definition cs8900_calls :: "gpio_call list" where
  "cs8900_calls =
     [Request (PC MX27_PIN_I2C2_SDA) GPIO_MUX_GPIO,
      Direction (PC MX27_PIN_I2C2_SDA) False,
      Dataout (PC MX27_PIN_I2C2_SDA) 1,
      Delay,
      Dataout (PC MX27_PIN_I2C2_SDA) 0,
      Delay,
      Request (PC MX27_PIN_SSI3_FS) GPIO_MUX_GPIO,
      Direction (PC MX27_PIN_SSI3_FS) True,
      Puen (PC MX27_PIN_SSI3_FS) False]"

definition gpio_cs8900_init ::
  "(mx27_mach \<Rightarrow> mx27_mach) \<Rightarrow> (mx27_chip, mx27_fn, mx27_mach) irq_fns \<Rightarrow> mx27_irqsys \<Rightarrow> mx27_irqsys result" where
  "gpio_cs8900_init pmic F s =
     rbind (set_irq_type F (IOMUX_TO_IRQ (pin_code (PC MX27_PIN_SSI3_FS))) IRQT_HIGH
              (on_mach (run_calls pmic cs8900_calls) s)) (\<lambda>(ret, s). Inr s)"

section \<open>Functions with nothing to set up\<close>

definition gpio_keypad_active :: "gpio_call list" where "gpio_keypad_active = []"
definition gpio_keypad_inactive :: "gpio_call list" where "gpio_keypad_inactive = []"
definition board_power_lcd :: "int \<Rightarrow> gpio_call list" where "board_power_lcd on = []"
definition config_uartdma_event :: "int \<Rightarrow> gpio_call list" where "config_uartdma_event port = []"

end
