(* ===== verification/Board_Pins.thy ===== *)
theory Board_Pins
  imports Board_Gpio
begin

text \<open>
  What the set-up functions of a board do to the ownership and to the function of the pins.
\<close>

section \<open>Peripherals\<close>

text \<open>The peripherals with a function that takes their pins and one that gives them back.\<close>

datatype peripheral =
  Uart int | Usbh1 | Usbh2 | Usbotg_hs | Usbotg_fs | I2c int | Spi int | Nand | Sensor | Adv7180 | Tw2835
| Si4702 | Lcdc | Fec | Ssi int | Jack | Sdhc int | Owire | Keypad

fun set_up :: "board_config \<Rightarrow> peripheral \<Rightarrow> gpio_call list" where
  "set_up cfg (Uart port) = uart_active_calls port"
| "set_up cfg Usbh1 = gpio_usbh1_active"
| "set_up cfg Usbh2 = gpio_usbh2_active"
| "set_up cfg Usbotg_hs = gpio_usbotg_hs_active cfg"
| "set_up cfg Usbotg_fs = gpio_usbotg_fs_active cfg"
| "set_up cfg (I2c num) = gpio_i2c_active num"
| "set_up cfg (Spi modul) = gpio_spi_active modul"
| "set_up cfg Nand = gpio_nand_active"
| "set_up cfg Sensor = gpio_sensor_active"
| "set_up cfg Adv7180 = gpio_adv7180_active"
| "set_up cfg Tw2835 = gpio_tw2835_active cfg"
| "set_up cfg Si4702 = gpio_si4702_active cfg"
| "set_up cfg Lcdc = gpio_lcdc_active cfg"
| "set_up cfg Fec = gpio_fec_active cfg"
| "set_up cfg (Ssi num) = gpio_ssi_active num"
| "set_up cfg Jack = gpio_jack_active"
| "set_up cfg (Sdhc modul) = gpio_sdhc_active cfg modul"
| "set_up cfg Owire = gpio_owire_active"
| "set_up cfg Keypad = gpio_keypad_active"

fun tear_down :: "board_config \<Rightarrow> peripheral \<Rightarrow> gpio_call list" where
  "tear_down cfg (Uart port) = uart_inactive_calls port"
| "tear_down cfg Usbh1 = gpio_usbh1_inactive"
| "tear_down cfg Usbh2 = gpio_usbh2_inactive"
| "tear_down cfg Usbotg_hs = gpio_usbotg_hs_inactive"
| "tear_down cfg Usbotg_fs = gpio_usbotg_fs_inactive"
| "tear_down cfg (I2c num) = gpio_i2c_inactive num"
| "tear_down cfg (Spi modul) = gpio_spi_inactive modul"
| "tear_down cfg Nand = gpio_nand_inactive"
| "tear_down cfg Sensor = gpio_sensor_inactive"
| "tear_down cfg Adv7180 = gpio_adv7180_inactive"
| "tear_down cfg Tw2835 = gpio_tw2835_inactive cfg"
| "tear_down cfg Si4702 = gpio_si4702_inactive"
| "tear_down cfg Lcdc = gpio_lcdc_inactive"
| "tear_down cfg Fec = gpio_fec_inactive"
| "tear_down cfg (Ssi num) = gpio_ssi_inactive num"
| "tear_down cfg Jack = gpio_jack_inactive"
| "tear_down cfg (Sdhc modul) = gpio_sdhc_inactive cfg modul"
| "tear_down cfg Owire = gpio_owire_inactive"
| "tear_down cfg Keypad = gpio_keypad_inactive"

lemmas board_lists = uart_active_calls_def uart_inactive_calls_def gpio_usbh1_active_def gpio_usbh1_inactive_def
  gpio_usbh2_active_def gpio_usbh2_inactive_def gpio_usbotg_hs_active_def gpio_usbotg_hs_inactive_def
  gpio_usbotg_fs_active_def gpio_usbotg_fs_inactive_def gpio_i2c_active_def gpio_i2c_inactive_def
  gpio_spi_active_def gpio_spi_inactive_def gpio_nand_active_def gpio_nand_inactive_def
  gpio_sensor_active_def gpio_sensor_inactive_def gpio_adv7180_active_def gpio_adv7180_inactive_def
  gpio_tw2835_active_def gpio_tw2835_inactive_def gpio_si4702_active_def gpio_si4702_inactive_def
  gpio_lcdc_active_def gpio_lcdc_inactive_def gpio_fec_active_def gpio_fec_inactive_def
  gpio_ssi_active_def gpio_ssi_inactive_def gpio_jack_active_def gpio_jack_inactive_def
  gpio_sdhc_active_def gpio_sdhc_inactive_def gpio_owire_active_def gpio_owire_inactive_def
  gpio_keypad_active_def gpio_keypad_inactive_def

section \<open>Ownership over a cycle of set-up and tear-down\<close>

text \<open>
  The pins a peripheral keeps when it is torn down, and the pins it gives back although its set-up did
  not take them.
\<close>

fun kept :: "board_config \<Rightarrow> peripheral \<Rightarrow> iomux_pins set" where
  "kept cfg Usbh2 = {PD MX27_PIN_CSPI2_SS2, PD MX27_PIN_CSPI2_SS1}"
| "kept cfg Adv7180 = {PB MX27_PIN_USBH1_RXDM, PD MX27_PIN_CSPI1_RDY}"
| "kept cfg Tw2835 = (if MPK271 cfg then {PB MX27_PIN_USBH1_RXDM, PD MX27_PIN_CSPI1_RDY} else {})"
| "kept cfg Si4702 = (if SYP cfg \<or> TUOSI cfg \<or> MPK271 cfg then {PA MX27_PIN_USBH2_DIR}
     else {PA MX27_PIN_USBH2_DIR, PC MX27_PIN_SSI2_TXDAT})"
| "kept cfg Lcdc = (if TUOSI cfg then {PA MX27_PIN_USBH2_DIR}
     else if MPK271 cfg \<or> SYP cfg then {} else {PA MX27_PIN_USBH2_NXT})"
| "kept cfg (Sdhc modul) = (if modul = 0 \<and> MDK27V0 cfg
     then (if MDK27V1 cfg then {PA MX27_PIN_SPL_SPR} else {}) \<union> (if TUOSI cfg then {PD MX27_PIN_CSPI2_SS2} else {})
     else {})"
| "kept cfg Owire = {PE MX27_PIN_RTCK}"
| "kept cfg _ = {}"

fun overfreed :: "board_config \<Rightarrow> peripheral \<Rightarrow> iomux_pins set" where
  "overfreed cfg Usbh1 = {PB MX27_PIN_USBH1_TXDP}"
| "overfreed cfg (Spi modul) = (if modul = 0 then {PD MX27_PIN_CSPI1_SS2} else {})"
| "overfreed cfg Lcdc = (if SYP cfg \<or> TUOSI cfg \<or> MPK271 cfg \<or> MDK27V1 cfg then {} else {PA MX27_PIN_REV})"
| "overfreed cfg Fec = (if MDK27V1 cfg then {PF MX27_PIN_IOIS16, PE MX27_PIN_PWMO} else {})"
| "overfreed cfg _ = {}"

lemma set_up_takes: "given_back (set_up cfg x) = []" "distinct (taken (set_up cfg x))"
  by (cases x; simp add: board_lists)+

lemma tear_down_mixed: "no_require (tear_down cfg x)" "set (taken (tear_down cfg x)) \<inter> set (given_back (tear_down cfg x)) = {}"
  by (cases x; simp add: board_lists)+

lemma cycle_pins:
  "set (taken (set_up cfg x)) \<union> set (taken (tear_down cfg x)) - set (given_back (tear_down cfg x)) = kept cfg x"
  "set (given_back (tear_down cfg x)) - set (taken (set_up cfg x)) = overfreed cfg x"
  by (cases x; force simp add: board_lists)+

lemma cycle_sets: "T \<inter> A = {} \<Longrightarrow> A \<union> T \<union> T' - G = (A - (G - T)) \<union> (T \<union> T' - G)"
  by blast

lemma set_up_no_pins: "owned_pins demo_pins = {}"
  by (simp add: owned_pins_def demo_pins_facts)

lemma keeps_table_id: "keeps_table (\<lambda>m. m)"
  by (simp add: keeps_table_def)

text \<open>
  C30: over a cycle of set-up and tear-down of a peripheral whose pins are free, on every
  configuration.  The set-up takes exactly its pins.  The cycle gives all of them back except the pins in
  \<open>kept\<close>, which stay owned for good: the tear-down does not mention them, or requests them again.  It also
  frees the pins in \<open>overfreed\<close>, whoever owns them.  Both tables are empty for most peripherals.
\<close>

theorem board_cycle_pins:
  assumes "keeps_table pmic" and "set (taken (set_up cfg x)) \<inter> owned_pins m = {}"
  shows "owned_pins (run_calls pmic (set_up cfg x) m) = owned_pins m \<union> set (taken (set_up cfg x)) \<and>
    owned_pins (run_calls pmic (tear_down cfg x) (run_calls pmic (set_up cfg x) m)) =
      (owned_pins m - overfreed cfg x) \<union> kept cfg x"
proof -
  have up: "owned_after (set_up cfg x) (owned_pins m) = owned_pins m \<union> set (taken (set_up cfg x))"
    using after_taking [OF set_up_takes assms(2)] .
  have "owned_after (tear_down cfg x) S = S \<union> set (taken (tear_down cfg x)) - set (given_back (tear_down cfg x))" for S
    by (rule after_mixed [OF tear_down_mixed])
  then show ?thesis unfolding run_calls_owned [OF assms(1)] up cycle_pins [symmetric] using cycle_sets [OF assms(2)] by simp
qed

theorem board_cycle_pins_witness:
  "owned_pins (run_calls (\<lambda>m. m) (tear_down autoconf Adv7180) (run_calls (\<lambda>m. m) (set_up autoconf Adv7180) demo_pins)) =
     {PB MX27_PIN_USBH1_RXDM, PD MX27_PIN_CSPI1_RDY}"
  unfolding board_cycle_pins [OF keeps_table_id, of autoconf Adv7180 demo_pins, unfolded set_up_no_pins Int_empty_right,
    OF refl, THEN conjunct2]
  by simp

section \<open>Sequences of set-ups and tear-downs\<close>

definition switch_board :: "(mx27_mach \<Rightarrow> mx27_mach) \<Rightarrow> board_config \<Rightarrow> (bool \<times> peripheral) list \<Rightarrow> mx27_mach \<Rightarrow> mx27_mach" where
  "switch_board pmic cfg evs m =
     fold (\<lambda>(on, x). run_calls pmic (if on then set_up cfg x else tear_down cfg x)) evs m"

lemma sysctrl_outside:
  "outside_ports (IO_ADDRESS (SYSCTRL_BASE_ADDR + 0x54))" "outside_ports (IO_ADDRESS SYSCTRL_BASE_ADDR + SYS_FMCR)"
  by (simp_all add: outside_ports_def IO_ADDRESS_def SYS_FMCR_def)

lemma boards_keep_off: "keeps_off (set_up cfg x)" "keeps_off (tear_down cfg x)"
  using sysctrl_outside by (cases x; simp add: board_lists del: SYSCTRL_BASE_ADDR_def)+

text \<open>
  C29: whatever sequence of peripherals is set up and torn down, the table of owned pins and the
  multiplexer registers of all pins are as the specification computes from the calls alone:
  the first request of a pin wins and sets its function, later requests change nothing, freeing does
  not ask who the owner is, and configuring does not ask at all.
\<close>

theorem board_sequences_refine:
  assumes "pmic_apart pmic" and "steady m"
  shows "pins_view (switch_board pmic cfg evs m) =
    fold (\<lambda>(on, x). view_after (if on then set_up cfg x else tear_down cfg x)) evs (pins_view m)"
  using assms(2)
proof (induction evs arbitrary: m)
  case (Cons e evs)
  obtain on x where e: "e = (on, x)" by (cases e)
  have "keeps_off (if on then set_up cfg x else tear_down cfg x)" by (simp add: boards_keep_off)
  from run_calls_view [OF assms(1) Cons.prems this]
  show ?case using Cons.IH by (simp add: switch_board_def e)
qed (simp add: switch_board_def)

lemma demo_steady: "steady demo_pins"
proof -
  have "pin_storage demo_pins"
    by (auto simp: pin_storage_def storage_def w1c_def demo_pins_def port_ok_def port_low port_low [of _ 0, simplified] gpio_regs)
  then show ?thesis using demo_pins_facts by (simp add: steady_def) (simp add: demo_pins_def)
qed

lemma pmic_apart_id: "pmic_apart (\<lambda>m. m)"
  by (simp add: pmic_apart_def keeps_table_id)

theorem board_sequences_refine_witness:
  "owned_pins (switch_board (\<lambda>m. m) autoconf [(True, Uart 3), (True, Owire), (True, Usbh1), (False, Usbh1)] demo_pins) =
     {PE MX27_PIN_RTCK}"
proof -
  let ?evs = "[(True, Uart 3), (True, Owire), (True, Usbh1), (False, Usbh1)]"
  have "pins_view (switch_board (\<lambda>m. m) autoconf ?evs demo_pins) =
      fold (\<lambda>(on, x). view_after (if on then set_up autoconf x else tear_down autoconf x)) ?evs ({}, \<lambda>p. pin_function p demo_pins)"
    using board_sequences_refine [OF pmic_apart_id demo_steady] by (simp add: pins_view_def [of demo_pins] set_up_no_pins)
  then have "fst (pins_view (switch_board (\<lambda>m. m) autoconf ?evs demo_pins)) = {PE MX27_PIN_RTCK}"
    by (simp add: board_lists take_pin_def insert_Diff_if)
  then show ?thesis by (simp add: pins_view_def)
qed

section \<open>Pins that have an owner\<close>

text \<open>The pins a set-up configures although its request for them may have been refused.\<close>

fun careless :: "board_config \<Rightarrow> peripheral \<Rightarrow> iomux_pins set" where
  "careless cfg Usbotg_hs = {PC MX27_PIN_SSI3_CLK}"
| "careless cfg Usbotg_fs = {PC MX27_PIN_SSI3_CLK}"
| "careless cfg Lcdc = (if SYP cfg \<or> TUOSI cfg \<or> MPK271 cfg \<or> MDK27V1 cfg then {PA MX27_PIN_REV} else {})"
| "careless cfg _ = {}"

lemma set_up_leaves_alone: "p \<notin> careless cfg x \<Longrightarrow> leaves_alone p (set_up cfg x)"
  by (cases x; simp add: board_lists split: if_splits)

text \<open>
  C31: setting up any peripheral never takes a pin away from its owner and never changes the function
  of a pin that is owned, except for the pins in \<open>careless\<close>: those are configured without looking at
  the result of the request.
\<close>

theorem set_up_respects_owner:
  assumes "pmic_apart pmic" and "steady m" and "owned p m" and "p \<notin> careless cfg x"
  shows "owned p (run_calls pmic (set_up cfg x) m) \<and> pin_function p (run_calls pmic (set_up cfg x) m) = pin_function p m"
proof -
  have "pins_view (run_calls pmic (set_up cfg x) m) = view_after (set_up cfg x) (pins_view m)"
    using run_calls_view [OF assms(1,2) boards_keep_off(1)] by blast
  moreover have "p \<in> fst (pins_view m)" using assms(3) by simp
  ultimately show ?thesis using view_leaves_alone [OF set_up_leaves_alone [OF assms(4)], of "pins_view m"]
    by (metis view_sel)
qed

theorem set_up_respects_owner_witness:
  "\<exists>m. owned (PE MX27_PIN_RTCK) m \<and> owned (PE MX27_PIN_RTCK) (run_calls (\<lambda>m. m) (set_up autoconf Lcdc) m) \<and>
     pin_function (PE MX27_PIN_RTCK) (run_calls (\<lambda>m. m) (set_up autoconf Lcdc) m) = pin_function (PE MX27_PIN_RTCK) m"
proof -
  let ?m = "snd (gpio_request_mux (PE MX27_PIN_RTCK) GPIO_MUX_ALT demo_pins)"
  have "steady ?m" "owned (PE MX27_PIN_RTCK) ?m" using request_step(1) [OF demo_steady] by (simp_all add: mux.owned_request)
  then show ?thesis using set_up_respects_owner [OF pmic_apart_id, of ?m "PE MX27_PIN_RTCK" autoconf Lcdc] by auto
qed

section \<open>UARTs\<close>

definition uart_pins :: "int \<Rightarrow> iomux_pins set" where
  "uart_pins port = set (taken (uart_active_calls port))"

text \<open>The flags tell the truth: the pins of an active port are owned, those of an inactive one are free.\<close>

definition uarts_ok :: "board \<Rightarrow> bool" where
  "uarts_ok b \<longleftrightarrow> (\<forall>port\<in>{0..<MXC_UART_NR}. if g_uart_activated b port then uart_pins port \<subseteq> owned_pins (bmach b)
     else uart_pins port \<inter> owned_pins (bmach b) = {})"

definition uart_step :: "(mx27_mach \<Rightarrow> mx27_mach) \<Rightarrow> bool \<times> int \<times> int \<Rightarrow> board \<Rightarrow> board result" where
  "uart_step pmic = (\<lambda>(on, port, ir_mode). if on then gpio_uart_active pmic port ir_mode else gpio_uart_inactive pmic port ir_mode)"

lemma uart_pins_apart: "port \<noteq> port' \<Longrightarrow> uart_pins port \<inter> uart_pins port' = {}"
  by (simp add: uart_pins_def uart_active_calls_def)

lemma uart_calls_pins:
  assumes "keeps_table pmic"
  shows "uart_pins port \<inter> owned_pins m = {} \<Longrightarrow>
      owned_pins (run_calls pmic (uart_active_calls port) m) = owned_pins m \<union> uart_pins port"
    "owned_pins (run_calls pmic (uart_inactive_calls port) m) = owned_pins m - uart_pins port"
  using after_taking [OF set_up_takes(1,2) [of autoconf "Uart port"]] after_mixed [OF tear_down_mixed [of autoconf "Uart port"]]
    cycle_pins [of autoconf "Uart port"]
  by (auto simp: run_calls_owned [OF assms] uart_pins_def)

lemma uart_step_ok:
  assumes "keeps_table pmic" and "uarts_ok b" and "0 \<le> port" and "port < MXC_UART_NR"
  shows "\<exists>b'. uart_step pmic (on, port, ir_mode) b = Inr b' \<and> uarts_ok b' \<and>
    g_uart_activated b' = (g_uart_activated b)(port := on)"
proof (cases "g_uart_activated b port = on")
  case True
  then have "uart_step pmic (on, port, ir_mode) b = Inr b"
    using assms(3,4) by (auto simp: uart_step_def gpio_uart_active_def gpio_uart_inactive_def)
  moreover have "g_uart_activated b = (g_uart_activated b)(port := on)" using True by (simp add: fun_upd_idem)
  ultimately show ?thesis using assms(2) by blast
next
  case False
  let ?cs = "if on then uart_active_calls port else uart_inactive_calls port"
  let ?b = "b\<lparr>g_uart_activated := (g_uart_activated b)(port := on), bmach := run_calls pmic ?cs (bmach b)\<rparr>"
  have run: "uart_step pmic (on, port, ir_mode) b = Inr ?b"
    using False assms(3,4) by (simp add: uart_step_def gpio_uart_active_def gpio_uart_inactive_def Let_def)
  have "on \<Longrightarrow> uart_pins port \<inter> owned_pins (bmach b) = {}" using assms(2-4) False by (auto simp: uarts_ok_def)
  then have pins: "owned_pins (bmach ?b) = (if on then owned_pins (bmach b) \<union> uart_pins port else owned_pins (bmach b) - uart_pins port)"
    by (simp add: uart_calls_pins [OF assms(1)])
  have "uarts_ok ?b" unfolding uarts_ok_def
  proof
    fix q assume "q \<in> {0..<MXC_UART_NR}"
    then have old: "if g_uart_activated b q then uart_pins q \<subseteq> owned_pins (bmach b) else uart_pins q \<inter> owned_pins (bmach b) = {}"
      using assms(2) unfolding uarts_ok_def by blast
    show "if g_uart_activated ?b q then uart_pins q \<subseteq> owned_pins (bmach ?b) else uart_pins q \<inter> owned_pins (bmach ?b) = {}"
    proof (cases "q = port")
      case True
      then show ?thesis unfolding pins by (simp add: Int_commute Diff_disjoint)
    next
      case False
      then show ?thesis using old uart_pins_apart [OF False] unfolding pins by (simp split: if_splits) blast+
    qed
  qed
  then show ?thesis using run by auto
qed

text \<open>
  C32: over every sequence of \<^verbatim>\<open>gpio_uart_active\<close> and \<^verbatim>\<open>gpio_uart_inactive\<close> on existing ports, in any
  order and with repetitions, no call faults, the flag of a port is what the last call for it said, and
  the pins of exactly the active ports are owned.
\<close>

theorem uarts_invariant:
  assumes "keeps_table pmic" and "uarts_ok b" and "\<forall>(on, port, ir_mode)\<in>set evs. 0 \<le> port \<and> port < MXC_UART_NR"
  shows "\<exists>b'. rfold (uart_step pmic) evs b = Inr b' \<and> uarts_ok b' \<and>
    g_uart_activated b' = fold (\<lambda>(on, port, ir_mode) g. g(port := on)) evs (g_uart_activated b)"
  using assms(2,3)
proof (induction evs arbitrary: b)
  case (Cons e evs)
  obtain on port ir_mode where e: "e = (on, port, ir_mode)" by (cases e)
  obtain b1 where "uart_step pmic (on, port, ir_mode) b = Inr b1" "uarts_ok b1"
    "g_uart_activated b1 = (g_uart_activated b)(port := on)"
    using uart_step_ok [OF assms(1) Cons.prems(1), of port on ir_mode] Cons.prems(2) e by auto
  then show ?case using Cons.IH [of b1] Cons.prems(2) by (simp add: e)
qed simp

definition demo_board :: board where
  "demo_board = \<lparr>bmach = demo_pins, g_uart_activated = (\<lambda>_. False)\<rparr>"

theorem uarts_invariant_witness:
  "\<exists>b'. rfold (uart_step (\<lambda>m. m)) [(True, 0, 0), (True, 3, 0), (True, 0, 0), (False, 3, 0)] demo_board = Inr b' \<and> uarts_ok b' \<and>
     g_uart_activated b' 0 \<and> \<not> g_uart_activated b' 3"
proof -
  have "uarts_ok demo_board" by (simp add: uarts_ok_def demo_board_def set_up_no_pins)
  from uarts_invariant [OF keeps_table_id this, of "[(True, 0, 0), (True, 3, 0), (True, 0, 0), (False, 3, 0)]"]
  show ?thesis by (auto simp: MXC_UART_NR_def)
qed

text \<open>
  C33: the fourth UART shares its pins with USB host 1.  With the UART active, the set-up of the host is
  refused all shared pins and says nothing, and its tear-down then frees the pins of the UART: the flag
  still says active, but nobody owns any pin of it.
\<close>

theorem usbh1_frees_uart_pins:
  assumes "keeps_table pmic"
  shows "\<exists>b. gpio_uart_active pmic 3 ir_mode \<lparr>bmach = m, g_uart_activated = (\<lambda>_. False)\<rparr> = Inr b \<and> g_uart_activated b 3 \<and>
    uart_pins 3 \<subseteq> owned_pins (run_calls pmic gpio_usbh1_active (bmach b)) \<and>
    uart_pins 3 \<inter> owned_pins (run_calls pmic gpio_usbh1_inactive (run_calls pmic gpio_usbh1_active (bmach b))) = {}"
  by (simp add: gpio_uart_active_def MXC_UART_NR_def uart_pins_def run_calls_owned [OF assms] uart_active_calls_def
      gpio_usbh1_active_def gpio_usbh1_inactive_def pool_pins)

theorem usbh1_frees_uart_pins_witness:
  "\<exists>b. gpio_uart_active (\<lambda>m. m) 3 0 demo_board = Inr b \<and> g_uart_activated b 3 \<and>
    uart_pins 3 \<inter> owned_pins (run_calls (\<lambda>m. m) gpio_usbh1_inactive (run_calls (\<lambda>m. m) gpio_usbh1_active (bmach b))) = {}"
  using usbh1_frees_uart_pins [OF keeps_table_id, of 0 demo_pins] unfolding demo_board_def by blast

section \<open>Levels of the pins\<close>

lemma dataout_level:
  assumes "pin_storage m"
  shows "pin_flag GPIO_DR q (mxc_set_gpio_dataout (pin_code p) v m) = (if q = p then v \<noteq> 0 else pin_flag GPIO_DR q m)"
    "pin_storage (mxc_set_gpio_dataout (pin_code p) v m)"
proof -
  note st = pin_storageD [OF assms, of p]
  have run: "mxc_set_gpio_dataout (pin_code p) v m =
    mwr ((mrd (port_base (pin_port p) + GPIO_DR) m AND NOT (pin_bit (pin_index p))) OR
      push_bit (unat (pin_index p)) (if v = 0 then 0 else 1)) (port_base (pin_port p) + GPIO_DR) m"
    unfolding mxc_set_gpio_dataout_def Let_def pin_macros u_set_gpio_dataout_def st(1) by simp
  show "pin_flag GPIO_DR q (mxc_set_gpio_dataout (pin_code p) v m) = (if q = p then v \<noteq> 0 else pin_flag GPIO_DR q m)"
    unfolding run flag_write [OF st(3)] using index_unat [of q] same_pin [of q p] by (auto simp: pin_flag_def bit_simps)
  show "pin_storage (mxc_set_gpio_dataout (pin_code p) v m)"
    unfolding run using assms by (simp add: pin_storage_def)
qed

lemma one_bit: "drop_bit n w AND 1 = (if bit w n then 1 else 0 :: u32)"
  by (simp add: bit_iff_odd_drop_bit and_one_eq mod_2_eq_odd)

lemma datain_level:
  assumes "pin_storage m"
  shows "mxc_get_gpio_datain (pin_code p) m = (if pin_flag GPIO_DR p m then 1 else 0)"
  unfolding mxc_get_gpio_datain_def Let_def pin_macros pin_storageD(1) [OF assms] one_bit pin_flag_def by simp

text \<open>
  C34: \<^verbatim>\<open>mxc_get_gpio_datain\<close> reads back what \<^verbatim>\<open>mxc_set_gpio_dataout\<close> wrote, any nonzero value being high;
  the level of every other pin, of the same port or of another, stays.
\<close>

theorem dataout_datain:
  assumes "pin_storage m"
  shows "mxc_get_gpio_datain (pin_code q) (mxc_set_gpio_dataout (pin_code p) v m) =
    (if q = p then if v = 0 then 0 else 1 else mxc_get_gpio_datain (pin_code q) m)"
  using dataout_level [OF assms] by (simp add: datain_level assms)

text \<open>Selecting a camera switches exactly one of the two on.\<close>

lemma camera_select_exclusive:
  assumes "pin_storage m"
  shows "mxc_get_gpio_datain (pin_code (PC MX27_PIN_SSI3_FS)) (mxc_camera_select i m) = (if i = 0 then 1 else 0) \<and>
    mxc_get_gpio_datain (pin_code (PB MX27_PIN_USBH1_RXDM)) (mxc_camera_select i m) = (if i = 0 then 0 else 1) \<and>
    (\<forall>p. p \<noteq> PC MX27_PIN_SSI3_FS \<and> p \<noteq> PB MX27_PIN_USBH1_RXDM \<longrightarrow>
      mxc_get_gpio_datain (pin_code p) (mxc_camera_select i m) = mxc_get_gpio_datain (pin_code p) m)"
  using assms by (simp add: mxc_camera_select_def datain_level dataout_level del: pin_code.simps)

theorem dataout_datain_witness:
  "mxc_get_gpio_datain (pin_code (PE MX27_PIN_RTCK)) (mxc_set_gpio_dataout (pin_code (PE MX27_PIN_RTCK)) 7
     (upd_port 0 (p_reserved_map_update (\<lambda>_. 0)) demo_pins)) = 1"
  unfolding dataout_datain [OF demo_pin_storage] by simp

end
