(* ===== verification/Sdio_Irq.thy ===== *)
theory Sdio_Irq
  imports Irq_Spec
begin

text \<open>
  The interrupt chip of SDIO cards (\<^verbatim>\<open>mxc_sdio_irq_chip\<close> of \<^verbatim>\<open>arch/arm/mach-mx27/mx27mdk27v0_gpio.c\<close>): a second
  machine plugged into the interrupt core.  The card's interrupt is a line of its own that the
  SD host controller switches; the chip functions find the host in the data of the line.  The lines
  of cards form a system of their own here, with this chip alone; in the code they share the array
  of descriptors with the lines of the AVIC and of the ports, whose chips never look at them.
\<close>

section \<open>Chip functions\<close>

definition MMC_STATUS :: u32 where "MMC_STATUS = 0x04"
definition MMC_INT_CNTR :: u32 where "MMC_INT_CNTR = 0x24"
definition STATUS_SDIO_INT_ACTIVE :: u32 where "STATUS_SDIO_INT_ACTIVE = push_bit 14 1"
definition INT_CNTR_SDIO_IRQ_EN :: u32 where "INT_CNTR_SDIO_IRQ_EN = push_bit 13 1"

text \<open>Of the host structures the interrupt, the register base and the wake-up flag matter.\<close>

record sdio_host =
  sdio_irq :: u32
  sdhc_base :: u32
  sdio_set_wake_enable :: bool

record sdio_mach =
  sbus :: bus
  hosts :: "nat \<Rightarrow> sdio_host"

datatype sdio_chip = mxc_sdio_irq_chip

datatype sdio_fn =
  mxc_sdio_ack_fn | mxc_sdio_mask_fn | mxc_sdio_unmask_fn | mxc_sdio_set_wake_fn | Sdio_driver nat

type_synonym sdio_sys = "(sdio_chip, sdio_fn, sdio_mach) irqsys"

definition mxc_sdio_mask_irq :: "u32 \<Rightarrow> sdio_sys \<Rightarrow> sdio_sys result" where
  "mxc_sdio_mask_irq irq s =
     rbind (deref (chip_data (descs s irq))) (\<lambda>h.
     let host = hosts (mach s) h; a = sdhc_base host + MMC_INT_CNTR in
     if sdio_irq host \<noteq> irq then Inr s
     else Inr (s\<lparr>mach := sbus_update (\<lambda>b. raw_writel (raw_readl a b AND NOT INT_CNTR_SDIO_IRQ_EN) a b) (mach s)\<rparr>))"

definition mxc_sdio_ack_irq :: "u32 \<Rightarrow> sdio_sys \<Rightarrow> sdio_sys result" where
  "mxc_sdio_ack_irq irq s =
     rbind (deref (chip_data (descs s irq))) (\<lambda>h.
     let host = hosts (mach s) h in
     if sdio_irq host \<noteq> irq then Inr s
     else rbind (mxc_sdio_mask_irq irq s) (\<lambda>s.
       Inr (s\<lparr>mach := sbus_update (raw_writel STATUS_SDIO_INT_ACTIVE (sdhc_base host + MMC_STATUS)) (mach s)\<rparr>)))"

definition mxc_sdio_unmask_irq :: "u32 \<Rightarrow> sdio_sys \<Rightarrow> sdio_sys result" where
  "mxc_sdio_unmask_irq irq s =
     rbind (deref (chip_data (descs s irq))) (\<lambda>h.
     let host = hosts (mach s) h; a = sdhc_base host + MMC_INT_CNTR in
     if sdio_irq host \<noteq> irq then Inr s
     else Inr (s\<lparr>mach := sbus_update (\<lambda>b.
       let b = raw_writel STATUS_SDIO_INT_ACTIVE (sdhc_base host + MMC_STATUS) b
       in raw_writel (raw_readl a b OR INT_CNTR_SDIO_IRQ_EN) a b) (mach s)\<rparr>))"

definition mxc_sdio_set_wake :: "u32 \<Rightarrow> bool \<Rightarrow> sdio_sys \<Rightarrow> (int \<times> sdio_sys) result" where
  "mxc_sdio_set_wake irq enable s =
     rbind (deref (chip_data (descs s irq))) (\<lambda>h.
     let host = hosts (mach s) h in
     if sdio_irq host \<noteq> irq then Inr (- EINVAL, s)
     else Inr (0, s\<lparr>mach := hosts_update (\<lambda>hs. hs(h := host\<lparr>sdio_set_wake_enable := enable\<rparr>)) (mach s)\<rparr>))"

definition mxc_sdio_irq_chip_init :: "sdio_fn irq_chip" where
  "mxc_sdio_irq_chip_init = \<lparr>chip_name = None, chip_typename = None, c_startup = None, c_shutdown = None,
     c_enable = None, c_disable = None, c_ack = Some (Mach mxc_sdio_ack_fn), c_mask = Some (Mach mxc_sdio_mask_fn),
     c_mask_ack = None, c_unmask = Some (Mach mxc_sdio_unmask_fn), c_eoi = None, c_end = None,
     c_retrigger = None, c_set_type = None, c_set_wake = Some mxc_sdio_set_wake_fn\<rparr>"

text \<open>The handlers of the drivers of cards are a parameter; they work on the registers and the hosts.\<close>

type_synonym sdio_drivers = "nat \<Rightarrow> u32 \<Rightarrow> nat option \<Rightarrow> sdio_mach \<Rightarrow> u32 \<times> sdio_mach"

definition sdio_fns :: "sdio_drivers \<Rightarrow> (sdio_chip, sdio_fn, sdio_mach) irq_fns" where
  "sdio_fns drv =
     \<lparr>call_chip = (\<lambda>f irq s. case f of mxc_sdio_ack_fn \<Rightarrow> mxc_sdio_ack_irq irq s | mxc_sdio_mask_fn \<Rightarrow> mxc_sdio_mask_irq irq s
        | mxc_sdio_unmask_fn \<Rightarrow> mxc_sdio_unmask_irq irq s | _ \<Rightarrow> Inl NullDeref),
      call_set_type = (\<lambda>f irq t s. Inl NullDeref), call_retrigger = (\<lambda>f irq s. Inl NullDeref),
      call_set_wake = (\<lambda>f irq on s. case f of mxc_sdio_set_wake_fn \<Rightarrow> mxc_sdio_set_wake irq on s | _ \<Rightarrow> Inl NullDeref),
      call_action = (\<lambda>f irq d s. case f of Sdio_driver n \<Rightarrow> (let (r, m) = drv n irq d (mach s) in Inr (r, s\<lparr>mach := m\<rparr>))
        | _ \<Rightarrow> Inl NullDeref),
      call_flow = (\<lambda>f irq s. Inl NullDeref)\<rparr>"

section \<open>Interface to the host driver\<close>

definition sdhc_setup_irq :: "sdio_drivers \<Rightarrow> u32 \<Rightarrow> nat \<Rightarrow> sdio_sys \<Rightarrow> sdio_sys result" where
  "sdhc_setup_irq drv irq mmc s =
     (let s = snd (set_irq_chip irq (Some (Chip mxc_sdio_irq_chip)) s);
          s = snd (set_irq_chip_data irq (Some mmc) s)
      in rbind (set_irq_handler (sdio_fns drv) irq handle_level_irq_fn s) (\<lambda>s.
         Inr (set_irq_flags irq IRQF_VALID s)))"

definition sdhc_irqchip_handle :: "sdio_drivers \<Rightarrow> u32 \<Rightarrow> sdio_sys \<Rightarrow> sdio_sys result" where
  "sdhc_irqchip_handle drv irq s =
     (if irq \<ge> NR_IRQS then Inl OutOfBounds
      else if handle_irq (descs s irq) = None then Inl BugOn
      else desc_handle_irq (sdio_fns drv) irq s)"

section \<open>The contract of the interrupt core\<close>

text \<open>The effect of the functions on the host of the line.\<close>

definition masked :: "nat \<Rightarrow> sdio_mach \<Rightarrow> sdio_mach" where
  "masked h m = (let a = sdhc_base (hosts m h) + MMC_INT_CNTR in
     sbus_update (\<lambda>b. raw_writel (raw_readl a b AND NOT INT_CNTR_SDIO_IRQ_EN) a b) m)"

definition acked :: "nat \<Rightarrow> sdio_mach \<Rightarrow> sdio_mach" where
  "acked h m = sbus_update (raw_writel STATUS_SDIO_INT_ACTIVE (sdhc_base (hosts m h) + MMC_STATUS)) m"

definition unmasked :: "nat \<Rightarrow> sdio_mach \<Rightarrow> sdio_mach" where
  "unmasked h m = (let a = sdhc_base (hosts m h) + MMC_INT_CNTR in
     sbus_update (\<lambda>b. raw_writel (raw_readl a b OR INT_CNTR_SDIO_IRQ_EN) a b) (acked h m))"

definition wake_set :: "bool \<Rightarrow> nat \<Rightarrow> sdio_mach \<Rightarrow> sdio_mach" where
  "wake_set on h m = hosts_update (\<lambda>hs. hs(h := hosts m h\<lparr>sdio_set_wake_enable := on\<rparr>)) m"

lemma card_keeps [simp]:
  "hosts (masked h m) = hosts m" "hosts (acked h m) = hosts m" "hosts (unmasked h m) = hosts m"
  "wsem (sbus (masked h m)) = wsem (sbus m)" "wsem (sbus (acked h m)) = wsem (sbus m)" "wsem (sbus (unmasked h m)) = wsem (sbus m)"
  by (simp_all add: masked_def acked_def unmasked_def Let_def)

lemma sdio_runs:
  assumes "chip_data (descs s irq) = Some h" and "sdio_irq (hosts (mach s) h) = irq"
  shows "mxc_sdio_mask_irq irq s = Inr (s\<lparr>mach := masked h (mach s)\<rparr>)"
    "mxc_sdio_ack_irq irq s = Inr (s\<lparr>mach := acked h (masked h (mach s))\<rparr>)"
    "mxc_sdio_unmask_irq irq s = Inr (s\<lparr>mach := unmasked h (mach s)\<rparr>)"
    "mxc_sdio_set_wake irq on s = Inr (0, s\<lparr>mach := wake_set on h (mach s)\<rparr>)"
  using assms by (simp_all add: mxc_sdio_mask_irq_def mxc_sdio_ack_irq_def mxc_sdio_unmask_irq_def mxc_sdio_set_wake_def
      Let_def masked_def acked_def unmasked_def wake_set_def comp_def)

lemma sdio_ignores:
  assumes "chip_data (descs s irq) = Some h" and "sdio_irq (hosts (mach s) h) \<noteq> irq"
  shows "mxc_sdio_mask_irq irq s = Inr s" "mxc_sdio_ack_irq irq s = Inr s" "mxc_sdio_unmask_irq irq s = Inr s"
    "mxc_sdio_set_wake irq on s = Inr (- EINVAL, s)"
  using assms by (simp_all add: mxc_sdio_mask_irq_def mxc_sdio_ack_irq_def mxc_sdio_unmask_irq_def mxc_sdio_set_wake_def Let_def)

lemma sdio_no_host:
  assumes "chip_data (descs s irq) = None"
  shows "mxc_sdio_mask_irq irq s = Inl NullDeref" "mxc_sdio_ack_irq irq s = Inl NullDeref"
    "mxc_sdio_unmask_irq irq s = Inl NullDeref" "mxc_sdio_set_wake irq on s = Inl NullDeref"
  using assms by (simp_all add: mxc_sdio_mask_irq_def mxc_sdio_ack_irq_def mxc_sdio_unmask_irq_def mxc_sdio_set_wake_def)

lemma sdio_line_cases:
  obtains (none) "chip_data (descs s irq) = None"
  | (other) h where "chip_data (descs s irq) = Some h" "sdio_irq (hosts (mach s) h) \<noteq> irq"
  | (line) h where "chip_data (descs s irq) = Some h" "sdio_irq (hosts (mach s) h) = irq"
  by (cases "chip_data (descs s irq)") auto

lemma mach_self: "\<exists>h. s = s\<lparr>mach := h\<rparr>"
  by (rule exI [of _ "mach s"]) simp

lemma sdio_frames:
  "mxc_sdio_mask_irq irq s = Inr s' \<Longrightarrow> \<exists>h. s' = s\<lparr>mach := h\<rparr>" "mxc_sdio_ack_irq irq s = Inr s' \<Longrightarrow> \<exists>h. s' = s\<lparr>mach := h\<rparr>"
  "mxc_sdio_unmask_irq irq s = Inr s' \<Longrightarrow> \<exists>h. s' = s\<lparr>mach := h\<rparr>"
  "mxc_sdio_set_wake irq on s = Inr (r, s') \<Longrightarrow> \<exists>h. s' = s\<lparr>mach := h\<rparr>"
  by (cases rule: sdio_line_cases [of s irq]; force simp: sdio_runs sdio_ignores sdio_no_host intro: mach_self)+

interpretation sdio: irq_lines "sdio_fns drv" for drv
proof
  fix f irq s s' on ty d and r :: int and q :: u32
  show "\<exists>h. s' = s\<lparr>mach := h\<rparr>" if "call_chip (sdio_fns drv) f irq s = Inr s'"
    using that sdio_frames(1-3) by (cases f) (simp_all add: sdio_fns_def)
  show "\<exists>h. s' = s\<lparr>mach := h\<rparr>" if "call_retrigger (sdio_fns drv) f irq s = Inr (r, s')"
    using that by (simp add: sdio_fns_def)
  show "\<exists>h. s' = s\<lparr>mach := h\<rparr>" if "call_set_wake (sdio_fns drv) f irq on s = Inr (r, s')"
    using that sdio_frames(4) by (cases f) (simp_all add: sdio_fns_def)
  show "\<exists>h fl nm. s' = (upd_desc irq (\<lambda>d. d\<lparr>handle_irq := fl, desc_name := nm\<rparr>) s)\<lparr>mach := h\<rparr>"
    if "call_set_type (sdio_fns drv) f irq ty s = Inr (r, s')"
    using that by (simp add: sdio_fns_def)
  show "calm s s'" if "call_action (sdio_fns drv) f irq d s = Inr (q, s')"
    using that by (auto simp: sdio_fns_def split: sdio_fn.splits prod.splits)
  show "calms s (call_flow (sdio_fns drv) f irq s)" by (simp add: sdio_fns_def calms_def)
qed

section \<open>A line of a card\<close>

text \<open>What setting a line up makes of its descriptor.\<close>

definition carded :: "nat \<Rightarrow> (sdio_chip, sdio_fn) irq_desc \<Rightarrow> (sdio_chip, sdio_fn) irq_desc" where
  "carded h d = status_update (\<lambda>x. ((x OR (IRQ_NOREQUEST OR IRQ_NOPROBE OR IRQ_NOAUTOEN)) AND NOT IRQ_NOREQUEST) AND NOT IRQ_NOAUTOEN)
     (d\<lparr>chip := Chip mxc_sdio_irq_chip, chip_data := Some h, handle_irq := Some handle_level_irq_fn, desc_name := None\<rparr>)"

lemma carded_simps [simp]:
  "chip (carded h d) = Chip mxc_sdio_irq_chip" "chip_data (carded h d) = Some h" "action (carded h d) = action d"
  "handle_irq (carded h d) = Some handle_level_irq_fn" "depth (carded h d) = depth d" "irqs_unhandled (carded h d) = irqs_unhandled d"
  "bit (status (carded h d)) n \<longleftrightarrow> n = 25 \<or> n \<noteq> 26 \<and> n \<noteq> 27 \<and> bit (status d) n"
  using bit_imp_le_length [of "status d" n] by (auto simp: carded_def status_simps)

lemma setup_run:
  assumes "irq < NR_IRQS"
  shows "sdhc_setup_irq drv irq h s = Inr (upd_desc irq (carded h) (chip_defaults (Chip mxc_sdio_irq_chip) s))"
  using assms by (simp add: sdhc_setup_irq_def set_irq_chip_def set_irq_chip_data_def u_set_irq_handler_def set_irq_flags_def
      IRQF_VALID_def IRQF_PROBE_def IRQF_NOAUTOEN_def Let_def carded_def [abs_def] comp_def linorder_not_le [symmetric])

text \<open>The discipline of the lines (\<open>irq_inv\<close>) holds for the lines of cards as well.\<close>

lemma card_usage_inv:
  assumes "irq_inv s" and "action (descs s irq) = [] \<or> \<not> has_status irq IRQ_NOREQUEST s" and "irq < NR_IRQS"
    and "sdhc_setup_irq drv irq h s = Inr s1" and "irq_usage (sdio_fns drv) s1 t"
  shows "irq_inv t"
proof -
  have s1: "descs s1 = (descs s)(irq := carded h (descs s irq))"
    using assms(4) unfolding setup_run [OF assms(3)] by (auto simp: upd_desc_def chip_defaults_def)
  have "line_ok (carded h (descs s irq))"
    using assms(1-3) by (auto simp: irq_inv_def line_ok_def status_simps)
  then have "irq_inv s1" using assms(1) unfolding irq_inv_def s1 by simp
  then show ?thesis by (rule sdio.usage_inv [OF assms(5)])
qed

text \<open>Which registers the functions write.\<close>

lemma sdio_reads:
  assumes "storage (sbus m) (sdhc_base (hosts m h) + MMC_INT_CNTR)" and "w1c (sbus m) (sdhc_base (hosts m h) + MMC_STATUS)"
  shows "raw_readl (sdhc_base (hosts m h) + MMC_INT_CNTR) (sbus (unmasked h m)) =
      raw_readl (sdhc_base (hosts m h) + MMC_INT_CNTR) (sbus m) OR INT_CNTR_SDIO_IRQ_EN"
    "raw_readl (sdhc_base (hosts m h) + MMC_STATUS) (sbus (unmasked h m)) =
      raw_readl (sdhc_base (hosts m h) + MMC_STATUS) (sbus m) AND NOT STATUS_SDIO_INT_ACTIVE"
    "a \<noteq> sdhc_base (hosts m h) + MMC_INT_CNTR \<Longrightarrow> a \<noteq> sdhc_base (hosts m h) + MMC_STATUS \<Longrightarrow>
      raw_readl a (sbus (unmasked h m)) = raw_readl a (sbus m)"
  using assms by (simp_all add: unmasked_def acked_def Let_def MMC_INT_CNTR_def MMC_STATUS_def readl_writel_same readl_writel_w1c)

lemma card_chip:
  "c_startup (irq_chip_set_defaults mxc_sdio_irq_chip_init) = Some default_startup_fn"
  "c_enable (irq_chip_set_defaults mxc_sdio_irq_chip_init) = Some default_enable_fn"
  "c_unmask (irq_chip_set_defaults mxc_sdio_irq_chip_init) = Some (Mach mxc_sdio_unmask_fn)"
  "irq_chip_set_defaults (irq_chip_set_defaults mxc_sdio_irq_chip_init) = irq_chip_set_defaults mxc_sdio_irq_chip_init"
  by (simp_all add: irq_chip_set_defaults_def mxc_sdio_irq_chip_init_def)

lemma card_startup:
  assumes "chip (descs s irq) = Chip mxc_sdio_irq_chip" and "handle_irq (descs s irq) = Some handle_level_irq_fn"
    and "chip_data (descs s irq) = Some h" and "sdio_irq (hosts (mach s) h) = irq" and "\<not> bit (status (descs s irq)) 27"
    and "chip_of s (Chip mxc_sdio_irq_chip) = irq_chip_set_defaults mxc_sdio_irq_chip_init"
  shows "\<exists>d. setup_first (sdio_fns drv) irq 0 s = Inr ((upd_desc irq (\<lambda>_. d) s)\<lparr>mach := unmasked h (mach s)\<rparr>) \<and>
    action d = action (descs s irq) \<and> \<not> bit (status d) 17 \<and> depth d = 0 \<and> \<not> bit (status d) 16 \<and>
    chip d = chip (descs s irq) \<and> chip_data d = chip_data (descs s irq) \<and> handle_irq d = handle_irq (descs s irq) \<and>
    irqs_unhandled d = irqs_unhandled (descs s irq)"
proof -
  have same: "chip_defaults (Chip mxc_sdio_irq_chip) s = s"
    using assms(6) by (simp add: chip_defaults_def card_chip fun_upd_idem)
  have compat: "compat_irq_chip_set_default_handler irq s = s" using assms(2) by (simp add: compat_irq_chip_set_default_handler_def)
  define t where "t = clr_status irq IRQ_DISABLED (upd_desc irq (depth_update (\<lambda>_. 0))
    (clr_status irq (IRQ_AUTODETECT OR IRQ_WAITING OR IRQ_INPROGRESS) s))"
  have c: "the_chip irq t = irq_chip_set_defaults mxc_sdio_irq_chip_init" using assms(1,6) by (simp add: t_def the_chip_def)
  have u: "mxc_sdio_unmask_irq irq t = Inr (t\<lparr>mach := unmasked h (mach t)\<rparr>)"
    by (rule sdio_runs(3)) (simp_all add: t_def assms)
  have up: "run_startup (sdio_fns drv) default_startup_fn irq t = Inr (clr_status irq IRQ_MASKED (t\<lparr>mach := unmasked h (mach t)\<rparr>))"
    by (simp add: run_startup_def default_startup_def run_gate_def default_enable_def run_chip_fn_def c u card_chip sdio_fns_def)
  have z: "((0 :: u32) AND IRQF_TRIGGER_MASK \<noteq> 0) = False"
    "has_status irq IRQ_NOAUTOEN (clr_status irq (IRQ_AUTODETECT OR IRQ_WAITING OR IRQ_INPROGRESS) s) = False"
    using assms(5) by (simp_all add: status_simps)
  define d where "d = descs (clr_status irq IRQ_MASKED t) irq"
  have "setup_first (sdio_fns drv) irq 0 s = Inr (clr_status irq IRQ_MASKED (t\<lparr>mach := unmasked h (mach t)\<rparr>))"
    unfolding setup_first_def assms(1) same Let_def z compat rbind_simps if_False not_False_eq_True if_True
      t_def [symmetric] c card_chip option.case up ..
  moreover have "clr_status irq IRQ_MASKED (t\<lparr>mach := unmasked h (mach t)\<rparr>) = (upd_desc irq (\<lambda>_. d) s)\<lparr>mach := unmasked h (mach s)\<rparr>"
    by (simp add: d_def t_def upd_desc_def)
  moreover have "action d = action (descs s irq)" "\<not> bit (status d) 17" "depth d = 0" "\<not> bit (status d) 16" "chip d = chip (descs s irq)"
    "chip_data d = chip_data (descs s irq)" "handle_irq d = handle_irq (descs s irq)" "irqs_unhandled d = irqs_unhandled (descs s irq)"
    by (simp_all add: d_def t_def status_simps)
  ultimately show ?thesis by auto
qed

text \<open>The line of host \<open>h\<close>, set up.\<close>

definition card_line :: "u32 \<Rightarrow> nat \<Rightarrow> sdio_sys \<Rightarrow> bool" where
  "card_line irq h s \<longleftrightarrow> irq < NR_IRQS \<and> chip (descs s irq) = Chip mxc_sdio_irq_chip \<and>
     chip_of s (Chip mxc_sdio_irq_chip) = irq_chip_set_defaults mxc_sdio_irq_chip_init \<and>
     chip_data (descs s irq) = Some h \<and> sdio_irq (hosts (mach s) h) = irq \<and> handle_irq (descs s irq) = Some handle_level_irq_fn"

lemma setup_line:
  assumes "irq < NR_IRQS" and "sdio_irq (hosts (mach s) h) = irq"
    and "chip_of s (Chip mxc_sdio_irq_chip) \<in> {mxc_sdio_irq_chip_init, irq_chip_set_defaults mxc_sdio_irq_chip_init}"
  shows "\<exists>s1. sdhc_setup_irq drv irq h s = Inr s1 \<and> card_line irq h s1 \<and> mach s1 = mach s \<and>
    descs s1 = (descs s)(irq := carded h (descs s irq)) \<and> irqfixup s1 = irqfixup s"
  using assms by (auto simp: setup_run chip_defaults_def card_chip card_line_def upd_desc_def)

lemma request_card:
  assumes "card_line irq h s" and "action (descs s irq) = []" and "\<not> bit (status (descs s irq)) 26" and "\<not> bit (status (descs s irq)) 27"
  shows "\<exists>s'. request_irq (sdio_fns drv) True irq (Some (Sdio_driver n)) 0 nm dev s = Inr (0, s') \<and> card_line irq h s' \<and>
    action (descs s' irq) = [\<lparr>a_handler = Sdio_driver n, a_flags = 0, a_name = nm, a_dev_id = dev, a_irq = irq\<rparr>] \<and>
    \<not> bit (status (descs s' irq)) 16 \<and> \<not> bit (status (descs s' irq)) 17 \<and> depth (descs s' irq) = 0 \<and>
    irqs_unhandled (descs s' irq) = irqs_unhandled (descs s irq) \<and> irqfixup s' = irqfixup s \<and>
    mach s' = unmasked h (mach s) \<and> (\<forall>j. j \<noteq> irq \<longrightarrow> descs s' j = descs s j)"
proof -
  let ?a = "\<lparr>a_handler = Sdio_driver n, a_flags = 0, a_name = nm, a_dev_id = dev, a_irq = irq\<rparr>"
  define t where "t = upd_desc irq (action_update (\<lambda>_. [?a])) s"
  obtain d where d: "setup_first (sdio_fns drv) irq 0 t = Inr ((upd_desc irq (\<lambda>_. d) t)\<lparr>mach := unmasked h (mach t)\<rparr>)"
    "action d = [?a]" "\<not> bit (status d) 17" "depth d = 0" "\<not> bit (status d) 16" "chip d = Chip mxc_sdio_irq_chip"
    "chip_data d = Some h" "handle_irq d = Some handle_level_irq_fn" "irqs_unhandled d = irqs_unhandled (descs s irq)"
    using card_startup [of t irq h drv] assms by (auto simp: t_def card_line_def)
  have "request_irq (sdio_fns drv) True irq (Some (Sdio_driver n)) 0 nm dev s =
      Inr (0, (upd_desc irq (\<lambda>_. d) t)\<lparr>mach := unmasked h (mach t)\<rparr>)"
    using assms d(1) by (auto simp: request_irq_def setup_irq_def t_def card_line_def status_simps)
  then show ?thesis using d(2-) assms(1)
    by (intro exI [of _ "(upd_desc irq (\<lambda>_. d) t)\<lparr>mach := unmasked h (mach t)\<rparr>"]) (simp add: t_def card_line_def)
qed

text \<open>
  C36: a driver that requests the line of a card after the host driver has set it up gets it, and the
  host controller then lets the interrupt of the card through: the request returns 0, the driver's
  handler is the one action of the line, the line is not disabled, the enable bit of the host is
  set, a stale interrupt is cleared, and no other register, host or line changes.  Nothing is asked
  of the line but that nobody has requested it, and the chip may have been used by another host.
\<close>

theorem sdio_request_opens:
  assumes "irq < NR_IRQS" and "action (descs s irq) = []"
    and "chip_of s (Chip mxc_sdio_irq_chip) \<in> {mxc_sdio_irq_chip_init, irq_chip_set_defaults mxc_sdio_irq_chip_init}"
    and "sdio_irq (hosts (mach s) h) = irq" and "b = sdhc_base (hosts (mach s) h)"
    and "storage (sbus (mach s)) (b + MMC_INT_CNTR)" and "w1c (sbus (mach s)) (b + MMC_STATUS)"
  shows "\<exists>s1 s2. sdhc_setup_irq drv irq h s = Inr s1 \<and> mach s1 = mach s \<and>
    request_irq (sdio_fns drv) True irq (Some (Sdio_driver n)) 0 nm dev s1 = Inr (0, s2) \<and>
    map a_handler (action (descs s2 irq)) = [Sdio_driver n] \<and> \<not> has_status irq IRQ_DISABLED s2 \<and> depth (descs s2 irq) = 0 \<and>
    raw_readl (b + MMC_INT_CNTR) (sbus (mach s2)) = raw_readl (b + MMC_INT_CNTR) (sbus (mach s)) OR INT_CNTR_SDIO_IRQ_EN \<and>
    raw_readl (b + MMC_STATUS) (sbus (mach s2)) = raw_readl (b + MMC_STATUS) (sbus (mach s)) AND NOT STATUS_SDIO_INT_ACTIVE \<and>
    (\<forall>a. a \<noteq> b + MMC_INT_CNTR \<and> a \<noteq> b + MMC_STATUS \<longrightarrow> raw_readl a (sbus (mach s2)) = raw_readl a (sbus (mach s))) \<and>
    hosts (mach s2) = hosts (mach s) \<and> (\<forall>j. j \<noteq> irq \<longrightarrow> descs s2 j = descs s j)"
proof -
  obtain s1 where s1: "sdhc_setup_irq drv irq h s = Inr s1" "card_line irq h s1" "mach s1 = mach s"
    "descs s1 = (descs s)(irq := carded h (descs s irq))" using setup_line [OF assms(1,4,3)] by blast
  then obtain s2 where "request_irq (sdio_fns drv) True irq (Some (Sdio_driver n)) 0 nm dev s1 = Inr (0, s2)"
    "map a_handler (action (descs s2 irq)) = [Sdio_driver n]" "\<not> bit (status (descs s2 irq)) 17" "depth (descs s2 irq) = 0"
    "mach s2 = unmasked h (mach s)" "\<forall>j. j \<noteq> irq \<longrightarrow> descs s2 j = descs s j"
    using request_card [of irq h s1 drv n nm dev] assms(2) by auto
  then show ?thesis
    using s1 sdio_reads [of "mach s" h] assms(5-)
    by (intro exI [of _ s1] exI [of _ s2]) (auto simp: unmasked_def acked_def Let_def status_simps)
qed

text \<open>Two hosts, on lines 260 and 261, and drivers that do nothing but say they have handled the interrupt.\<close>

definition demo_card :: sdio_sys where
  "demo_card = \<lparr>descs = (\<lambda>_. irq_desc_init), chip_of = (\<lambda>_. mxc_sdio_irq_chip_init), irqs_resend = (\<lambda>_. False),
     kstat_irqs = (\<lambda>_. 0), irq_err_count = 0, noirqdebug = False, irqfixup = 0,
     mach = \<lparr>sbus = \<lparr>mem = (\<lambda>_. 0), wsem = (\<lambda>a x v. if a = 0x104 \<or> a = 0x204 then x AND NOT v else v), tick = (\<lambda>m. m)\<rparr>,
             hosts = (\<lambda>h. \<lparr>sdio_irq = 260 + of_nat h, sdhc_base = 0x100 * (of_nat h + 1), sdio_set_wake_enable = False\<rparr>)\<rparr>\<rparr>"

abbreviation demo_wifi :: sdio_drivers where
  "demo_wifi \<equiv> \<lambda>n irq d m. (IRQ_HANDLED, m)"

lemma booted_card:
  "\<exists>s. init_IRQ Inr demo_card = Inr s \<and> (\<forall>i. action (descs s i) = [] \<and> irqs_unhandled (descs s i) = 0) \<and> chip_of s = chip_of demo_card \<and>
    mach s = mach demo_card \<and> irqfixup s = 0"
proof -
  have "(\<forall>i. action (descs s i) = [] \<and> irqs_unhandled (descs s i) = 0) \<Longrightarrow> irqfixup s = 0 \<Longrightarrow>
    \<exists>s'. fold (\<lambda>i. set_status (of_nat i) x) ns s = s' \<and> (\<forall>i. action (descs s' i) = [] \<and> irqs_unhandled (descs s' i) = 0) \<and>
      chip_of s' = chip_of s \<and> mach s' = mach s \<and> irqfixup s' = 0" for x ns and s :: sdio_sys
  proof (induction ns arbitrary: s)
    case (Cons n ns)
    then show ?case using Cons.IH [of "set_status (of_nat n) x s"] by (simp add: upd_desc_def)
  qed simp
  from this [of demo_card] show ?thesis by (simp add: init_IRQ_def demo_card_def irq_desc_init_def)
qed

theorem sdio_request_opens_witness:
  "\<exists>s s0 s1 s2. init_IRQ Inr demo_card = Inr s \<and> sdhc_setup_irq demo_wifi 260 0 s = Inr s0 \<and>
    sdhc_setup_irq demo_wifi 261 1 s0 = Inr s1 \<and>
    request_irq (sdio_fns demo_wifi) True 261 (Some (Sdio_driver 0)) 0 ''wifi'' None s1 = Inr (0, s2) \<and>
    \<not> has_status 261 IRQ_DISABLED s2 \<and> raw_readl 0x224 (sbus (mach s2)) = 0x2000"
proof -
  obtain s where s: "init_IRQ Inr demo_card = Inr s" "\<forall>i. action (descs s i) = []" "chip_of s = chip_of demo_card" "mach s = mach demo_card"
    using booted_card by blast
  have n: "(260 :: u32) < NR_IRQS" "(261 :: u32) < NR_IRQS" by (simp_all add: NR_IRQS_def)
  define s0 where "s0 = upd_desc 260 (carded 0) (chip_defaults (Chip mxc_sdio_irq_chip) s)"
  have set0: "sdhc_setup_irq demo_wifi 260 0 s = Inr s0" by (simp add: s0_def setup_run [OF n(1)])
  have c: "action (descs s0 261) = []" "mach s0 = mach demo_card"
    "chip_of s0 (Chip mxc_sdio_irq_chip) \<in> {mxc_sdio_irq_chip_init, irq_chip_set_defaults mxc_sdio_irq_chip_init}"
    using s(2-) by (simp_all add: s0_def chip_defaults_def demo_card_def upd_desc_def)
  have h: "sdio_irq (hosts (mach s0) 1) = 261" "0x200 = sdhc_base (hosts (mach s0) 1)"
    "storage (sbus (mach s0)) (0x200 + MMC_INT_CNTR)" "w1c (sbus (mach s0)) (0x200 + MMC_STATUS)"
    by (simp_all add: c(2) demo_card_def storage_def w1c_def MMC_INT_CNTR_def MMC_STATUS_def)
  have r: "raw_readl 0x224 (sbus (mach s0)) OR INT_CNTR_SDIO_IRQ_EN = 0x2000" "(0x200 + MMC_INT_CNTR) = 0x224"
    by (simp_all add: c(2) demo_card_def raw_readl_def MMC_INT_CNTR_def INT_CNTR_SDIO_IRQ_EN_def)
  show ?thesis
    using s(1) set0 sdio_request_opens [OF n(2) c(1,3) h, of demo_wifi 0 "''wifi''" None] unfolding r(2) r(1) by blast
qed

section \<open>An interrupt of a card\<close>

lemma card_calls:
  assumes "card_line irq h s"
  shows "mask_ack_irq (sdio_fns drv) irq s = Inr (s\<lparr>mach := acked h (masked h (masked h (mach s)))\<rparr>)"
    "c_unmask (the_chip irq s) \<noteq> None" "chip_unmask (sdio_fns drv) irq s = Inr (s\<lparr>mach := unmasked h (mach s)\<rparr>)"
proof -
  have c: "the_chip irq s = irq_chip_set_defaults mxc_sdio_irq_chip_init" if "card_line irq h s" for s
    using that by (simp add: card_line_def the_chip_def)
  let ?t = "s\<lparr>mach := masked h (mach s)\<rparr>"
  have t: "card_line irq h ?t" using assms by (simp add: card_line_def masked_def Let_def)
  have f: "c_mask (irq_chip_set_defaults mxc_sdio_irq_chip_init) = Some (Mach mxc_sdio_mask_fn)"
    "c_ack (irq_chip_set_defaults mxc_sdio_irq_chip_init) = Some (Mach mxc_sdio_ack_fn)"
    "c_mask_ack (irq_chip_set_defaults mxc_sdio_irq_chip_init) = None"
    by (simp_all add: irq_chip_set_defaults_def mxc_sdio_irq_chip_init_def)
  have "mxc_sdio_mask_irq irq s = Inr ?t" "mxc_sdio_ack_irq irq ?t = Inr (?t\<lparr>mach := acked h (masked h (mach ?t))\<rparr>)"
    "mxc_sdio_unmask_irq irq s = Inr (s\<lparr>mach := unmasked h (mach s)\<rparr>)"
    using sdio_runs [of s irq h] sdio_runs [of ?t irq h] assms t by (simp_all add: card_line_def)
  then show "mask_ack_irq (sdio_fns drv) irq s = Inr (s\<lparr>mach := acked h (masked h (masked h (mach s)))\<rparr>)"
    "c_unmask (the_chip irq s) \<noteq> None" "chip_unmask (sdio_fns drv) irq s = Inr (s\<lparr>mach := unmasked h (mach s)\<rparr>)"
    using c [OF assms] c [OF t] by (simp_all add: mask_ack_irq_def run_chip_fn_def f card_chip sdio_fns_def)
qed

text \<open>The watch for stuck lines after an interrupt that was handled.\<close>

lemma handled_note:
  assumes "irqfixup s = 0" and "irqs_unhandled (descs s i) \<le> 99900"
  shows "\<exists>c u. note_interrupt F i IRQ_HANDLED s = Inr (upd_desc i (\<lambda>d. d\<lparr>irq_count := c, irqs_unhandled := u\<rparr>) s)"
proof (cases "irq_count (descs s i) + 1 < 100000")
  case True
  then show ?thesis using assms
    by - (rule exI [of _ "irq_count (descs s i) + 1"], rule exI [of _ "irqs_unhandled (descs s i)"],
      cases "descs s i", simp add: note_interrupt_def Let_def upd_desc_def)
next
  case False
  then show ?thesis using assms
    by - (rule exI [of _ 0], rule exI [of _ 0],
      cases "descs s i", auto simp: note_interrupt_def Let_def upd_desc_def)
qed

lemma card_event:
  assumes "irqfixup s = 0" and "irqs_unhandled (descs s irq) \<le> 99900" and "a_handler a = Sdio_driver n"
    and "drv n irq (a_dev_id a) (mach s) = (IRQ_HANDLED, m)"
  shows "\<exists>g. run_event (sdio_fns drv) irq [a] s = Inr ((upd_desc irq g s)\<lparr>mach := m\<rparr>) \<and>
    (\<exists>c u. g = (\<lambda>d. d\<lparr>irq_count := c, irqs_unhandled := u\<rparr>))"
proof -
  have ev: "handle_IRQ_event (sdio_fns drv) irq [a] s = Inr (IRQ_HANDLED, s\<lparr>mach := m\<rparr>)"
    using assms(3,4) by (simp add: handle_IRQ_event_def sdio_fns_def IRQ_NONE_def)
  obtain c u where "note_interrupt (sdio_fns drv) irq IRQ_HANDLED (s\<lparr>mach := m\<rparr>) =
      Inr (upd_desc irq (\<lambda>d. d\<lparr>irq_count := c, irqs_unhandled := u\<rparr>) (s\<lparr>mach := m\<rparr>))"
    using handled_note [of "s\<lparr>mach := m\<rparr>" irq "sdio_fns drv"] assms(1,2) by auto
  then show ?thesis
  proof (cases "noirqdebug s")
    case True
    let ?g = "\<lambda>d. d\<lparr>irq_count := irq_count (descs s irq), irqs_unhandled := irqs_unhandled (descs s irq)\<rparr>"
    have "upd_desc irq ?g s = s" by (simp add: upd_desc_def)
    then have "run_event (sdio_fns drv) irq [a] s = Inr ((upd_desc irq ?g s)\<lparr>mach := m\<rparr>)" using True ev by (simp add: run_event_def)
    then show ?thesis by blast
  qed (use ev in \<open>auto simp: run_event_def\<close>)
qed

lemma card_level:
  assumes "card_line irq h s" and "action (descs s irq) = [a]" and "a_handler a = Sdio_driver n"
    and "\<not> has_status irq (IRQ_INPROGRESS OR IRQ_DISABLED) s" and "irqfixup s = 0" and "irqs_unhandled (descs s irq) \<le> 99900"
    and "drv n irq (a_dev_id a) (acked h (masked h (masked h (mach s)))) = (IRQ_HANDLED, m)" and "hosts m = hosts (mach s)"
  shows "\<exists>d. handle_level_irq (sdio_fns drv) irq s =
      Inr ((upd_desc irq (\<lambda>_. d) s)\<lparr>kstat_irqs := (kstat_irqs s)(irq := kstat_irqs s irq + 1), mach := unmasked h m\<rparr>) \<and>
    action d = [a] \<and> depth d = depth (descs s irq) \<and> \<not> bit (status d) 16 \<and> \<not> bit (status d) 17 \<and> \<not> bit (status d) 18"
proof -
  let ?F = "sdio_fns drv" and ?m = "acked h (masked h (masked h (mach s)))"
  define s2 where "s2 = (clr_status irq (IRQ_REPLAY OR IRQ_WAITING) (s\<lparr>mach := ?m\<rparr>))\<lparr>kstat_irqs := (kstat_irqs s)(irq := kstat_irqs s irq + 1)\<rparr>"
  define s3 where "s3 = clr_status irq IRQ_PENDING (set_status irq IRQ_INPROGRESS s2)"
  have k: "kstat_inc irq (clr_status irq (IRQ_REPLAY OR IRQ_WAITING) (s\<lparr>mach := ?m\<rparr>)) = Inr s2"
    using assms(1) by (simp add: kstat_inc_def s2_def card_line_def)
  have f: "action (descs s2 irq) = [a]" "\<not> ([a] = [] \<or> has_status irq IRQ_DISABLED s2)" "\<not> has_status irq IRQ_INPROGRESS (s\<lparr>mach := ?m\<rparr>)"
    using assms(2,4) by (simp_all add: s2_def status_simps)
  obtain g c u where g: "run_event ?F irq [a] s3 = Inr ((upd_desc irq g s3)\<lparr>mach := m\<rparr>)" "g = (\<lambda>d. d\<lparr>irq_count := c, irqs_unhandled := u\<rparr>)"
    using card_event [of s3 irq a n drv m] assms(3,5-7) by (auto simp: s3_def s2_def)
  define s4 where "s4 = clr_status irq IRQ_INPROGRESS ((upd_desc irq g s3)\<lparr>mach := m\<rparr>)"
  have line: "card_line irq h s4"
    using assms(1,8) by (simp add: card_line_def s4_def s3_def s2_def g(2))
  have st: "action (descs s4 irq) = [a]" "depth (descs s4 irq) = depth (descs s irq)" "\<not> bit (status (descs s4 irq)) 16"
    "\<not> bit (status (descs s4 irq)) 17" "\<not> bit (status (descs s4 irq)) 18"
    using assms(2,4) by (simp_all add: s4_def s3_def s2_def g(2) status_simps)
  have "handle_level_irq ?F irq s = Inr (s4\<lparr>mach := unmasked h (mach s4)\<rparr>)"
    unfolding handle_level_irq_def card_calls(1) [OF assms(1)] rbind_simps if_not_P [OF f(3)] k Let_def f(1) if_not_P [OF f(2)]
      s3_def [symmetric] g(1) s4_def [symmetric]
    using card_calls(2,3) [OF line] st(4) by (simp add: status_simps)
  moreover have "s4\<lparr>mach := unmasked h (mach s4)\<rparr> =
      (upd_desc irq (\<lambda>_. descs s4 irq) s)\<lparr>kstat_irqs := (kstat_irqs s)(irq := kstat_irqs s irq + 1), mach := unmasked h m\<rparr>"
    by (simp add: s4_def s3_def s2_def upd_desc_def)
  ultimately show ?thesis using st by (intro exI [of _ "descs s4 irq"]) simp
qed

lemma quiet_reads:
  assumes "storage (sbus m) (sdhc_base (hosts m h) + MMC_INT_CNTR)" and "w1c (sbus m) (sdhc_base (hosts m h) + MMC_STATUS)"
  shows "raw_readl (sdhc_base (hosts m h) + MMC_INT_CNTR) (sbus (acked h (masked h (masked h m)))) =
      raw_readl (sdhc_base (hosts m h) + MMC_INT_CNTR) (sbus m) AND NOT INT_CNTR_SDIO_IRQ_EN"
    "raw_readl (sdhc_base (hosts m h) + MMC_STATUS) (sbus (acked h (masked h (masked h m)))) =
      raw_readl (sdhc_base (hosts m h) + MMC_STATUS) (sbus m) AND NOT STATUS_SDIO_INT_ACTIVE"
    "a \<noteq> sdhc_base (hosts m h) + MMC_INT_CNTR \<Longrightarrow> a \<noteq> sdhc_base (hosts m h) + MMC_STATUS \<Longrightarrow>
      raw_readl a (sbus (acked h (masked h (masked h m)))) = raw_readl a (sbus m)"
  using assms by (simp_all add: masked_def acked_def Let_def MMC_INT_CNTR_def MMC_STATUS_def readl_writel_same readl_writel_w1c and.assoc)

text \<open>
  C37: an interrupt of a card on an open line is served with the card kept quiet: the handler of the
  card's driver runs once, on a machine where the enable bit of the host is clear, the interrupt is
  acknowledged and every other register is as it was; afterwards the enable bit is set again in what the handler
  left, what the card raised meanwhile is cleared with it, the line is open and no other line has changed.
  Asked of the handler is that it handles the interrupt and leaves the hosts alone.
\<close>

theorem card_interrupt_served:
  assumes "card_line irq h s" and "action (descs s irq) = [a]" and "a_handler a = Sdio_driver n"
    and "\<not> has_status irq (IRQ_INPROGRESS OR IRQ_DISABLED) s" and "irqfixup s = 0" and "irqs_unhandled (descs s irq) \<le> 99900"
    and "b = sdhc_base (hosts (mach s) h)" and "storage (sbus (mach s)) (b + MMC_INT_CNTR)" and "w1c (sbus (mach s)) (b + MMC_STATUS)"
    and "\<forall>m. \<exists>m'. drv n irq (a_dev_id a) m = (IRQ_HANDLED, m') \<and> hosts m' = hosts m \<and> wsem (sbus m') = wsem (sbus m)"
  shows "\<exists>m m' s'. sdhc_irqchip_handle drv irq s = Inr s' \<and> drv n irq (a_dev_id a) m = (IRQ_HANDLED, m') \<and>
    raw_readl (b + MMC_INT_CNTR) (sbus m) = raw_readl (b + MMC_INT_CNTR) (sbus (mach s)) AND NOT INT_CNTR_SDIO_IRQ_EN \<and>
    raw_readl (b + MMC_STATUS) (sbus m) = raw_readl (b + MMC_STATUS) (sbus (mach s)) AND NOT STATUS_SDIO_INT_ACTIVE \<and>
    raw_readl (b + MMC_INT_CNTR) (sbus (mach s')) = raw_readl (b + MMC_INT_CNTR) (sbus m') OR INT_CNTR_SDIO_IRQ_EN \<and>
    raw_readl (b + MMC_STATUS) (sbus (mach s')) = raw_readl (b + MMC_STATUS) (sbus m') AND NOT STATUS_SDIO_INT_ACTIVE \<and>
    (\<forall>r. r \<noteq> b + MMC_INT_CNTR \<and> r \<noteq> b + MMC_STATUS \<longrightarrow>
      raw_readl r (sbus m) = raw_readl r (sbus (mach s)) \<and> raw_readl r (sbus (mach s')) = raw_readl r (sbus m')) \<and>
    hosts (mach s') = hosts (mach s) \<and> action (descs s' irq) = [a] \<and> depth (descs s' irq) = depth (descs s irq) \<and>
    \<not> has_status irq (IRQ_INPROGRESS OR IRQ_DISABLED OR IRQ_PENDING) s' \<and> (\<forall>j. j \<noteq> irq \<longrightarrow> descs s' j = descs s j)"
proof -
  define m where "m = acked h (masked h (masked h (mach s)))"
  obtain m' where m': "drv n irq (a_dev_id a) m = (IRQ_HANDLED, m')" "hosts m' = hosts m" "wsem (sbus m') = wsem (sbus m)"
    using assms(10) by blast
  have k: "hosts m' = hosts (mach s)" "wsem (sbus m') = wsem (sbus (mach s))" using m'(2,3) by (simp_all add: m_def)
  obtain d where d: "handle_level_irq (sdio_fns drv) irq s =
      Inr ((upd_desc irq (\<lambda>_. d) s)\<lparr>kstat_irqs := (kstat_irqs s)(irq := kstat_irqs s irq + 1), mach := unmasked h m'\<rparr>)"
    "action d = [a]" "depth d = depth (descs s irq)" "\<not> bit (status d) 16" "\<not> bit (status d) 17" "\<not> bit (status d) 18"
    using card_level [of irq h s a n drv m'] assms(1-6) m'(1) k(1) by (auto simp: m_def)
  define s' where "s' = (upd_desc irq (\<lambda>_. d) s)\<lparr>kstat_irqs := (kstat_irqs s)(irq := kstat_irqs s irq + 1), mach := unmasked h m'\<rparr>"
  have "sdhc_irqchip_handle drv irq s = handle_level_irq (sdio_fns drv) irq s"
    using assms(1) by (auto simp: sdhc_irqchip_handle_def card_line_def desc_handle_irq_def run_flow_def)
  moreover note quiet_reads [of "mach s" h, folded m_def assms(7), OF assms(8,9)]
  moreover have "storage (sbus m') (b + MMC_INT_CNTR)" "w1c (sbus m') (b + MMC_STATUS)"
    using assms(8,9) k(2) by (simp_all add: storage_def w1c_def)
  moreover note sdio_reads [of m' h, unfolded k(1), folded assms(7)]
  ultimately show ?thesis using d m'(1) k(1)
    by - (rule exI [of _ m], rule exI [of _ m'], rule exI [of _ s'], simp add: s'_def status_simps)
qed

theorem card_interrupt_served_witness:
  "\<exists>s s1 s2 s3. init_IRQ Inr demo_card = Inr s \<and> sdhc_setup_irq demo_wifi 260 0 s = Inr s1 \<and>
    request_irq (sdio_fns demo_wifi) True 260 (Some (Sdio_driver 0)) 0 ''wifi'' None s1 = Inr (0, s2) \<and>
    sdhc_irqchip_handle demo_wifi 260 s2 = Inr s3 \<and> depth (descs s3 260) = 0 \<and>
    \<not> has_status 260 (IRQ_INPROGRESS OR IRQ_DISABLED OR IRQ_PENDING) s3"
proof -
  obtain s where s: "init_IRQ Inr demo_card = Inr s" "\<forall>i. action (descs s i) = [] \<and> irqs_unhandled (descs s i) = 0" "chip_of s = chip_of demo_card"
    "mach s = mach demo_card" "irqfixup s = 0" using booted_card by blast
  obtain s1 where s1: "sdhc_setup_irq demo_wifi 260 0 s = Inr s1" "card_line 260 0 s1" "mach s1 = mach demo_card"
    "descs s1 = (descs s)(260 := carded 0 (descs s 260))" "irqfixup s1 = 0"
    using setup_line [of 260 s 0 demo_wifi] s(3-5) by (auto simp: demo_card_def NR_IRQS_def)
  let ?a = "\<lparr>a_handler = Sdio_driver 0, a_flags = 0, a_name = ''wifi'', a_dev_id = None, a_irq = 260\<rparr>"
  obtain s2 where s2: "request_irq (sdio_fns demo_wifi) True 260 (Some (Sdio_driver 0)) 0 ''wifi'' None s1 = Inr (0, s2)"
    "card_line 260 0 s2" "action (descs s2 260) = [?a]" "\<not> has_status 260 (IRQ_INPROGRESS OR IRQ_DISABLED) s2" "depth (descs s2 260) = 0"
    "irqs_unhandled (descs s2 260) \<le> 99900" "irqfixup s2 = 0" "mach s2 = unmasked 0 (mach demo_card)"
    using request_card [of 260 0 s1 demo_wifi 0 "''wifi''" None] s1(2-) s(2) by (auto simp: status_simps)
  have h: "0x100 = sdhc_base (hosts (mach s2) 0)" "storage (sbus (mach s2)) (0x100 + MMC_INT_CNTR)" "w1c (sbus (mach s2)) (0x100 + MMC_STATUS)"
    by (simp_all add: s2(8) storage_def w1c_def MMC_INT_CNTR_def MMC_STATUS_def) (simp_all add: demo_card_def)
  show ?thesis
    using s(1) s1(1) s2(1,5) card_interrupt_served [OF s2(2,3) _ s2(4,7,6) h, of 0 demo_wifi] by auto
qed

end
