(* ===== verification/Irq_Request.thy ===== *)
theory Irq_Request
  imports Mx27_Irq
begin

text \<open>
  Requesting and freeing a line of the machine, from the driver's side down to the controller, and the
  discipline of the lines under all that happens to them after boot.
\<close>

lemma first_request:
  assumes "line_ready i s" and "handle_irq (descs s i) = Some fl" and "fl \<noteq> handle_bad_irq_fn" and "\<not> bit (status (descs s i)) 27"
    and "flags AND IRQF_TRIGGER_MASK = 0"
  shows "\<exists>d. setup_first (mx27_irq_fns drv) i flags s = Inr ((upd_desc i (\<lambda>_. d) s)\<lparr>mach := unmask_of i (mach s)\<rparr>) \<and>
    chip d = chip (descs s i) \<and> handle_irq d = handle_irq (descs s i) \<and> action d = action (descs s i) \<and>
    depth d = 0 \<and> \<not> bit (status d) 17 \<and> bit (status d) 28"
proof -
  let ?F = "mx27_irq_fns drv"
  have same: "chip_defaults (chip (descs s i)) s = s"
    using assms(1) by (auto simp: chip_defaults_def line_ready_def fun_upd_idem_iff set_defaults_eq)
  have compat: "compat_irq_chip_set_default_handler i s = s" using assms(2,3) by (simp add: compat_irq_chip_set_default_handler_def)
  define t where "t = clr_status i IRQ_DISABLED (upd_desc i (depth_update (\<lambda>_. 0))
    (clr_status i (IRQ_AUTODETECT OR IRQ_WAITING OR IRQ_INPROGRESS) s))"
  have r: "line_ready i t" using assms(1) by (simp add: t_def line_ready_def status_simps)
  have up: "run_startup ?F default_startup_fn i t = Inr (clr_status i IRQ_MASKED (t\<lparr>mach := unmask_of i (mach t)\<rparr>))"
    using chip_calls(5) [OF r] by (simp add: run_startup_def default_startup_def)
  have z: "(flags AND IRQF_TRIGGER_MASK \<noteq> 0) = False"
    "has_status i IRQ_NOAUTOEN (clr_status i (IRQ_AUTODETECT OR IRQ_WAITING OR IRQ_INPROGRESS) s) = False"
    using assms(4,5) by (simp_all add: status_simps)
  define d where "d = descs (clr_status i IRQ_MASKED t) i"
  have "setup_first ?F i flags s = Inr (clr_status i IRQ_MASKED (t\<lparr>mach := unmask_of i (mach t)\<rparr>))"
    unfolding setup_first_def same Let_def z compat rbind_simps if_False not_False_eq_True if_True
      t_def [symmetric] chip_calls(11) [OF r] option.case up ..
  moreover have "clr_status i IRQ_MASKED (t\<lparr>mach := unmask_of i (mach t)\<rparr>) = (upd_desc i (\<lambda>_. d) s)\<lparr>mach := unmask_of i (mach s)\<rparr>"
    by (simp add: d_def t_def upd_desc_def)
  moreover have "chip d = chip (descs s i)" "handle_irq d = handle_irq (descs s i)" "action d = action (descs s i)" "depth d = 0" "\<not> bit (status d) 17" "bit (status d) 28"
    using assms(1) by (simp_all add: d_def t_def status_simps line_ready_def)
  ultimately show ?thesis by auto
qed

abbreviation new_action :: "u32 \<Rightarrow> 'f \<Rightarrow> u32 \<Rightarrow> string \<Rightarrow> nat option \<Rightarrow> 'f irqaction" where
  "new_action i h flags nm dev \<equiv> \<lparr>a_handler = h, a_flags = flags, a_name = nm, a_dev_id = dev, a_irq = i\<rparr>"

lemma request_run:
  assumes "line_ready i s" and "action (descs s i) = []" and "handle_irq (descs s i) = Some fl" and "fl \<noteq> handle_bad_irq_fn"
    and "\<not> has_status i IRQ_NOREQUEST s" and "\<not> has_status i IRQ_NOAUTOEN s"
    and "flags AND IRQF_TRIGGER_MASK = 0" and "flags AND IRQF_SHARED = 0 \<or> dev \<noteq> None"
  shows "\<exists>d. request_irq (mx27_irq_fns drv) True i (Some h) flags nm dev s =
      Inr (0, (upd_desc i (\<lambda>_. d) s)\<lparr>mach := unmask_of i (mach s)\<rparr>) \<and>
    chip d = chip (descs s i) \<and> handle_irq d = Some fl \<and> action d = [new_action i h flags nm dev] \<and>
    depth d = 0 \<and> \<not> bit (status d) 17 \<and> bit (status d) 28"
proof -
  define t where "t = upd_desc i (action_update (\<lambda>_. [new_action i h flags nm dev])) s"
  have nr: "i < NR_IRQS" using assms(1) by (rule ready_nr)
  have ch: "chip (descs s i) \<noteq> no_irq_chip" using assms(1) by (simp add: line_ready_def)
  have "line_ready i t" using assms(1) by (simp add: t_def line_ready_def)
  then obtain d where d: "setup_first (mx27_irq_fns drv) i flags t = Inr ((upd_desc i (\<lambda>_. d) t)\<lparr>mach := unmask_of i (mach t)\<rparr>)"
    "chip d = chip (descs s i)" "handle_irq d = Some fl" "action d = [new_action i h flags nm dev]" "depth d = 0"
    "\<not> bit (status d) 17" "bit (status d) 28"
    using first_request [of i t fl flags drv] assms(3,4,6,7) by (auto simp: t_def status_simps)
  have "request_irq (mx27_irq_fns drv) True i (Some h) flags nm dev s = Inr (0, (upd_desc i (\<lambda>_. d) t)\<lparr>mach := unmask_of i (mach t)\<rparr>)"
    using assms(2,5,8) nr ch d(1) by (auto simp: request_irq_def setup_irq_def t_def)
  then show ?thesis using d(2-) by (intro exI [of _ d]) (simp add: t_def)
qed

text \<open>
  C38: a driver that requests an idle line gets it: the call returns 0, its handler is the one action, and
  the line is open at the controller.  Freeing it with another cookie changes nothing; freeing it with its
  own empties the line again and marks it disabled, with every other line as it was.  The
  controller, however, is left with the line unmasked, since disabling is delayed on this machine.
\<close>

theorem request_free_irq:
  assumes "line_ready i s" and "action (descs s i) = []" and "handle_irq (descs s i) = Some fl" and "fl \<noteq> handle_bad_irq_fn"
    and "\<not> has_status i IRQ_NOREQUEST s" and "\<not> has_status i IRQ_NOAUTOEN s"
    and "flags AND IRQF_TRIGGER_MASK = 0" and "flags AND IRQF_SHARED = 0 \<or> dev \<noteq> None"
  shows "\<exists>s1 s2. request_irq (mx27_irq_fns drv) True i (Some h) flags nm dev s = Inr (0, s1) \<and>
    map a_handler (action (descs s1 i)) = [h] \<and> \<not> has_status i IRQ_DISABLED s1 \<and> depth (descs s1 i) = 0 \<and>
    mach s1 = unmask_of i (mach s) \<and> (\<forall>dev'. dev' \<noteq> dev \<longrightarrow> free_irq (mx27_irq_fns drv) i dev' s1 = Inr s1) \<and>
    free_irq (mx27_irq_fns drv) i dev s1 = Inr s2 \<and> action (descs s2 i) = [] \<and> has_status i IRQ_DISABLED s2 \<and>
    (\<forall>j. j \<noteq> i \<longrightarrow> descs s2 j = descs s j) \<and> mach s2 = unmask_of i (mach s)"
proof -
  let ?F = "mx27_irq_fns drv" and ?a = "new_action i h flags nm dev"
  obtain d where d: "request_irq ?F True i (Some h) flags nm dev s = Inr (0, (upd_desc i (\<lambda>_. d) s)\<lparr>mach := unmask_of i (mach s)\<rparr>)"
    "chip d = chip (descs s i)" "action d = [?a]" "depth d = 0" "\<not> bit (status d) 17" "bit (status d) 28"
    using request_run [OF assms, of drv h nm] by blast
  define s1 where "s1 = (upd_desc i (\<lambda>_. d) s)\<lparr>mach := unmask_of i (mach s)\<rparr>"
  define s2 where "s2 = set_status i IRQ_DISABLED (upd_desc i (action_update (\<lambda>_. [])) s1)"
  have nr: "i < NR_IRQS" using assms(1) by (rule ready_nr)
  have r2: "line_ready i s2" using assms(1) d by (simp add: s2_def s1_def line_ready_def status_simps)
  then have gate: "run_gate ?F (Some default_disable_fn) i s2 = Inr s2"
    by (simp add: run_gate_def default_disable_def line_ready_def status_simps)
  have act: "action (descs s1 i) = [?a]" and rm: "remove_action dev [?a] = Some []" using d(3) by (simp_all add: s1_def)
  have free: "free_irq ?F i dev s1 = Inr s2"
    unfolding free_irq_def act rm option.case Let_def s2_def [symmetric] chip_calls(10) [OF r2] gate using nr by simp
  have other: "\<forall>dev'. dev' \<noteq> dev \<longrightarrow> free_irq ?F i dev' s1 = Inr s1" by (auto simp: free_irq_def act)
  show ?thesis using d(1,3-5) free other
    by (intro exI [of _ s1] exI [of _ s2]) (simp add: s1_def s2_def status_simps)
qed

theorem request_free_irq_witness:
  "\<exists>s s1 s2. request_irq (mx27_irq_fns demo_drv) True 70 (Some (Driver 0)) 0 ''demo'' None s = Inr (0, s1) \<and>
    free_irq (mx27_irq_fns demo_drv) 70 None s1 = Inr s2 \<and> action (descs s2 70) = [] \<and> has_status 70 IRQ_DISABLED s2"
proof -
  obtain s where s: "in_service s" using demo_served by blast
  have i: "(70 :: u32) < 256" by simp
  have "action (descs s 70) = []" "handle_irq (descs s 70) = Some handle_edge_irq_fn" "\<not> has_status 70 IRQ_NOREQUEST s"
    "\<not> has_status 70 IRQ_NOAUTOEN s"
    using s by (simp_all add: in_service_def status_simps)
  from request_free_irq [OF service_ready [OF s i] this(1,2) _ this(3,4), of 0 None demo_drv "Driver 0" "''demo''"]
  show ?thesis by auto
qed

section \<open>The discipline of the lines\<close>

text \<open>
  C20: after boot, for any sequence of requests, frees, disables, enables, changes of the trigger and of the wake-up
  setting, interrupts and replays, on any lines and with any change of the registers in between: a line with actions
  is disabled exactly as long as its depth is not zero, and shared only among actions that
  agreed to it and to its trigger.  The handlers are programs of the drivers that may disable and
  enable any lines, change the machine and be interrupted by any lines themselves, up to eight
  handlers deep.  The one thing nobody may do is disable a line that has been disabled two to the power of 32 minus one times already.
\<close>

theorem irq_lines_invariant:
  assumes "\<not> initialized m" and "init_IRQ (mxc_init_irq drv) (mx27_irq_boot m) = Inr s0" and "mxc_gpio_init drv s0 = Inr (r, s1)"
    and "irq_usage (mx27_irq_fns drv) s1 s" and "i < NR_IRQS"
  shows "(action (descs s i) \<noteq> [] \<longrightarrow> (has_status i IRQ_DISABLED s \<longleftrightarrow> depth (descs s i) \<noteq> 0)) \<and> shared_ok (action (descs s i))"
proof -
  have "irq_inv s1" using avic_init_run [of drv m] gpio_init_run [OF _ assms(1), of s0 drv] assms(2,3) by auto
  then have "irq_inv s" by (rule mx27_irq.usage_inv [OF assms(4)])
  then show ?thesis using assms(5) by (auto simp: irq_inv_def line_ok_def status_simps)
qed

theorem irq_lines_invariant_witness:
  "\<exists>s0 s1 s2 s3 s4. init_IRQ (mxc_init_irq demo_drv) (mx27_irq_boot demo_mach) = Inr s0 \<and> mxc_gpio_init demo_drv s0 = Inr (0, s1) \<and>
    request_irq (mx27_irq_fns demo_drv) True 70 (Some (Driver 0)) 0 ''demo'' None s1 = Inr (0, s2) \<and>
    disable_irq (mx27_irq_fns demo_drv) 70 s2 = Inr s3 \<and> asm_do_IRQ (mx27_irq_fns demo_drv) 70 s3 = Inr s4 \<and>
    action (descs s4 70) \<noteq> [] \<and> depth (descs s4 70) = 1 \<and> has_status 70 IRQ_DISABLED s4"
proof -
  let ?F = "mx27_irq_fns demo_drv"
  have new: "\<not> initialized demo_mach" by (simp add: demo_mach_def)
  obtain s0 s1 where b: "init_IRQ (mxc_init_irq demo_drv) (mx27_irq_boot demo_mach) = Inr s0" "mxc_gpio_init demo_drv s0 = Inr (0, s1)"
    and s1: "in_service s1" using avic_init_run [of demo_drv demo_mach] gpio_init_run [OF _ new, of _ demo_drv] by blast
  have r1: "line_ready 70 s1" by (rule service_ready [OF s1]) simp
  have l: "action (descs s1 70) = []" "handle_irq (descs s1 70) = Some handle_edge_irq_fn" "\<not> has_status 70 IRQ_NOREQUEST s1"
    "\<not> has_status 70 IRQ_NOAUTOEN s1" using s1 by (simp_all add: in_service_def status_simps)
  obtain s2 where s2: "request_irq ?F True 70 (Some (Driver 0)) 0 ''demo'' None s1 = Inr (0, s2)" "line_ready 70 s2"
    "handle_irq (descs s2 70) = Some handle_edge_irq_fn" "action (descs s2 70) \<noteq> []" "depth (descs s2 70) = 0"
    using request_run [OF r1 l(1,2) _ l(3,4), of 0 None demo_drv "Driver 0" "''demo''"] r1 by (auto simp: line_ready_def)
  define s3 where "s3 = upd_desc 70 deeper s2"
  have s3: "disable_irq ?F 70 s2 = Inr s3" "line_ready 70 s3" "bit (status (descs s3 70)) 17"
    using disable_run [OF s2(2)] s2(2,5) by (simp_all add: s3_def deeper_def line_ready_def status_simps)
  obtain s4 where s4: "handle_edge_irq ?F 70 s3 = Inr s4" "depth (descs s4 70) = depth (descs s3 70)" "action (descs s4 70) = action (descs s3 70)"
    using edge_is_noted [OF s3(2) disjI1 [OF s3(3)], of demo_drv] by auto
  have d4: "depth (descs s4 70) = 1" "action (descs s4 70) \<noteq> []"
    using s4(2,3) s2(4,5) by (simp_all add: s3_def deeper_def)
  have i4: "asm_do_IRQ ?F 70 s3 = Inr s4"
    using s4(1) s2(3) by (simp add: asm_do_IRQ_def desc_handle_irq_def run_flow_def s3_def deeper_def NR_IRQS_def)
  have n: "(70 :: u32) < NR_IRQS" "depth (descs s2 70) \<noteq> - 1" using s2(5) by (simp_all add: NR_IRQS_def)
  have "irq_usage ?F s1 s4"
    by (rule irq_usage.interrupt [OF irq_usage.disable [OF irq_usage.request [OF irq_usage.start s2(1)] n(2) s3(1)] i4])
  from irq_lines_invariant [OF new b this n(1)] show ?thesis using b s2(1) s3(1) i4 d4 by auto
qed

end
