(* ===== verification/Gpio_Pin_Irq.thy ===== *)
theory Gpio_Pin_Irq
  imports Gpio_Mux
begin

text \<open>
  Pins as interrupt lines: every pin of the enumeration has a line of its own, and setting the
  trigger of a line changes the trigger of its pin and of no other.
\<close>

section \<open>Pins and lines\<close>

lemma pin_irq_unat: "unat (IOMUX_TO_IRQ (pin_code p)) = 64 + 32 * pin_port p + unat (pin_index p)"
proof -
  have "unat (IOMUX_TO_GPIO (pin_code p)) < 192" using pin_port_less [of p] index_unat [of p] by (simp add: pin_gpio_unat)
  then show ?thesis by (simp add: IOMUX_TO_IRQ_def MXC_GPIO_BASE_def MXC_MAX_INT_LINES_def unat_word_ariths pin_gpio_unat)
qed

text \<open>
  C40: the pin numbers are well formed: every pin of the enumeration passes the check of the GPIO
  functions, its port is one of the six and its index one of the thirty-two; its interrupt is a line of the table
  above those of the interrupt controller and leads back to the pin; two pins never share a line.
\<close>

theorem pins_well_formed:
  "check_gpio (IOMUX_TO_GPIO (pin_code p)) = 0 \<and> GPIO_TO_PORT (IOMUX_TO_GPIO (pin_code p)) < unat GPIO_PORT_NUM \<and>
   GPIO_TO_INDEX (IOMUX_TO_GPIO (pin_code p)) < GPIO_NUM_PIN \<and>
   MXC_GPIO_BASE \<le> IOMUX_TO_IRQ (pin_code p) \<and> IOMUX_TO_IRQ (pin_code p) < NR_IRQS \<and>
   MXC_IRQ_TO_GPIO (IOMUX_TO_IRQ (pin_code p)) = IOMUX_TO_GPIO (pin_code p) \<and>
   (IOMUX_TO_IRQ (pin_code p) = IOMUX_TO_IRQ (pin_code q) \<longleftrightarrow> p = q)"
proof -
  note u = pin_irq_unat and i = index_unat and pp = pin_port_less
  have "p = q" if "unat (IOMUX_TO_IRQ (pin_code p)) = unat (IOMUX_TO_IRQ (pin_code q))"
  proof -
    have "32 * pin_port p + unat (pin_index p) = 32 * pin_port q + unat (pin_index q)" using that by (simp add: u)
    then have "pin_port p = pin_port q \<and> unat (pin_index p) = unat (pin_index q)"
      using i [of p] i [of q] by (metis add.commute div_mult_self2 div_less zero_neq_numeral add_left_imp_eq add_0)
    then show ?thesis by (simp add: pin_eq_iff word_unat_eq_iff)
  qed
  moreover have "unat (IOMUX_TO_IRQ (pin_code p)) < 256" using pp [of p] i [of p] by (simp add: u)
  ultimately show ?thesis using pp [of p] i [of p] u [of p] pin_index_less [of p]
    by (auto simp: GPIO_PORT_NUM_def GPIO_NUM_PIN_def word_le_nat_alt word_less_nat_alt NR_IRQS_def MXC_GPIO_BASE_def
        MXC_MAX_INT_LINES_def IOMUX_TO_IRQ_def MXC_IRQ_TO_GPIO_def)
qed

section \<open>The trigger of a pin\<close>

text \<open>The triggers the ports know, with the code of the control register, the flow handler and whether it is a level.\<close>

definition triggers :: "(u32 \<times> u32 \<times> mx27_fn flow \<times> bool) list" where
  "triggers = [(IRQT_RISING, GPIO_INT_RISE_EDGE, handle_edge_irq_fn, False), (IRQT_FALLING, GPIO_INT_FALL_EDGE, handle_edge_irq_fn, False),
     (IRQT_LOW, GPIO_INT_LOW_LEV, handle_level_irq_fn, True), (IRQT_HIGH, GPIO_INT_HIGH_LEV, handle_level_irq_fn, True)]"

lemma edge_ctrl_run:
  assumes "p_base (ports m (pin_port p)) = port_base (pin_port p)"
  shows "u_set_gpio_edge_ctrl (pin_port p) (pin_index p) edge m =
    mwr (pin_bit (pin_index p)) (port_base (pin_port p) + GPIO_ISR) (put_field (GPIO_ICR1, GPIO_ICR2) p edge m)"
proof -
  have "pin_index p \<le> 15 \<longleftrightarrow> \<not> pin_index p \<ge> 16" by (auto simp: word_le_nat_alt)
  moreover have "(x AND NOT (push_bit sh 3)) OR push_bit sh v = fld_set sh 2 v x" for x sh and v :: u32
    using or_field [of sh v x] by (simp add: or.commute)
  ultimately show ?thesis
    unfolding u_set_gpio_edge_ctrl_def Let_def u_clear_gpio_irqstatus_def put_field_def field_reg_def fst_conv snd_conv assms
    using field_shift(2,3) [of p] by (cases "pin_index p \<ge> 16") (simp_all add: assms)
qed

lemma edge_ctrl_effect:
  assumes "pin_storage m" and "fits 2 edge"
  shows "pin_field (GPIO_ICR1, GPIO_ICR2) q (u_set_gpio_edge_ctrl (pin_port p) (pin_index p) edge m) =
      (if q = p then edge else pin_field (GPIO_ICR1, GPIO_ICR2) q m)"
    "pin_flag GPIO_ISR q (u_set_gpio_edge_ctrl (pin_port p) (pin_index p) edge m) \<longleftrightarrow> q \<noteq> p \<and> pin_flag GPIO_ISR q m"
    "r \<in> {GPIO_DR, GPIO_GDIR, GPIO_IMR} \<Longrightarrow>
      pin_flag r q (u_set_gpio_edge_ctrl (pin_port p) (pin_index p) edge m) = pin_flag r q m"
    "ports (u_set_gpio_edge_ctrl (pin_port p) (pin_index p) edge m) = ports m"
proof -
  note st = pin_storageD [OF assms(1), of p]
  define m1 where "m1 = put_field (GPIO_ICR1, GPIO_ICR2) p edge m"
  note run = edge_ctrl_run [OF st(1), of edge, folded m1_def]
  have "storage (mio m) (field_reg (GPIO_ICR1, GPIO_ICR2) p)"
    using assms(1) pin_port_less [of p] by (auto simp: pin_storage_def field_reg_def)
  then have f: "pin_field (GPIO_ICR1, GPIO_ICR2) q m1 = (if q = p then edge else pin_field (GPIO_ICR1, GPIO_ICR2) q m)"
    unfolding m1_def by (rule field_get_put) (simp_all add: assms(2) gpio_regs)
  have other: "pin_flag r q m1 = pin_flag r q m" if "r \<in> {GPIO_DR, GPIO_GDIR, GPIO_IMR, GPIO_ISR}" for r
    unfolding pin_flag_def m1_def using that by (subst put_field_other(1)) (auto simp: gpio_regs)
  have w: "w1c (mio m1) (port_base (pin_port p) + GPIO_ISR)" using st(5) by (simp add: m1_def put_field_def)
  show "pin_field (GPIO_ICR1, GPIO_ICR2) q (u_set_gpio_edge_ctrl (pin_port p) (pin_index p) edge m) =
      (if q = p then edge else pin_field (GPIO_ICR1, GPIO_ICR2) q m)"
    unfolding run f [symmetric] by (simp add: pin_field_def field_reg_def same_place gpio_regs)
  show "pin_flag GPIO_ISR q (u_set_gpio_edge_ctrl (pin_port p) (pin_index p) edge m) \<longleftrightarrow> q \<noteq> p \<and> pin_flag GPIO_ISR q m"
    unfolding run flag_w1c [OF w] by (simp add: other)
  show "pin_flag r q (u_set_gpio_edge_ctrl (pin_port p) (pin_index p) edge m) = pin_flag r q m" if "r \<in> {GPIO_DR, GPIO_GDIR, GPIO_IMR}"
    unfolding run using that by (subst flag_other) (auto simp: other gpio_regs)
  show "ports (u_set_gpio_edge_ctrl (pin_port p) (pin_index p) edge m) = ports m" unfolding run by (simp add: m1_def)
qed

lemma edge_ctrl_function:
  assumes "pin_storage m"
  shows "pin_function q (u_set_gpio_edge_ctrl (pin_port p) (pin_index p) edge m) = pin_function q m"
  unfolding edge_ctrl_run [OF pin_storageD(1) [OF assms]]
  by (simp add: pin_function_def pin_flag_def pin_field_def put_field_def field_reg_def same_place mux_regs gpio_regs)

lemma pin_line:
  assumes "irq = IOMUX_TO_IRQ (pin_code p)"
  shows "MXC_IRQ_TO_GPIO irq = IOMUX_TO_GPIO (pin_code p)" "get_gpio_port (IOMUX_TO_GPIO (pin_code p)) = Inr (pin_port p)" "irq < NR_IRQS"
  using pin_port_less [of p] pin_irq_unat [of p] index_unat [of p]
  by (simp_all add: assms MXC_IRQ_TO_GPIO_def IOMUX_TO_IRQ_def get_gpio_port_def GPIO_PORT_NUM_def NR_IRQS_def word_less_nat_alt)

lemma trigger_facts:
  assumes "(ty, edge, fl, level) \<in> set triggers"
  shows "gpio_type ty = Some (edge, fl, level)" "fits 2 edge" "fl \<noteq> handle_bad_irq_fn"
  using assms by (auto simp: triggers_def gpio_type_def fits_iff_less IRQT_RISING_def IRQT_FALLING_def IRQT_LOW_def IRQT_HIGH_def
      GPIO_INT_RISE_EDGE_def GPIO_INT_FALL_EDGE_def GPIO_INT_LOW_LEV_def GPIO_INT_HIGH_LEV_def)

lemma pin_type_run:
  assumes "irq = IOMUX_TO_IRQ (pin_code p)" and "chip (descs s irq) \<noteq> no_irq_chip" and "(ty, edge, fl, level) \<in> set triggers"
  shows "gpio_set_irq_type F irq ty s = Inr (0, (upd_desc irq (\<lambda>d. d\<lparr>handle_irq := Some fl, desc_name := None\<rparr>) s)
    \<lparr>mach := upd_port (pin_port p) (p_irq_is_level_map_update (\<lambda>x. if level then x OR pin_bit (pin_index p) else x AND NOT (pin_bit (pin_index p))))
      (u_set_gpio_edge_ctrl (pin_port p) (pin_index p) edge (mach s))\<rparr>)"
proof -
  note l = pin_line [OF assms(1)] and ty = trigger_facts [OF assms(3)]
  let ?s = "on_mach (u_set_gpio_edge_ctrl (pin_port p) (pin_index p) edge) s"
  have h: "set_irq_handler F irq fl ?s = Inr (upd_desc irq (\<lambda>d. d\<lparr>handle_irq := Some fl, desc_name := None\<rparr>) ?s)"
    using gpio_handler_swap [OF ty(3), of ?s irq] assms(2) l(3) by simp
  show ?thesis
    unfolding gpio_set_irq_type_def Let_def l(1,2) pin_macros ty(1) option.case prod.case rbind_simps h
    by (cases s) (simp add: upd_desc_def)
qed

text \<open>
  C39: setting the trigger of a pin's line to a trigger the ports know programs that trigger for the pin,
  forgets an interrupt noted under the old one, and gives the line the flow handler for it; no other pin
  changes, nor does any other line.  Any other trigger, both edges for one, is refused without a change.
\<close>

theorem set_type_of_pin:
  assumes "pin_storage (mach s)" and "irq = IOMUX_TO_IRQ (pin_code p)" and "chip (descs s irq) \<noteq> no_irq_chip"
  shows "(ty \<notin> fst ` set triggers \<longrightarrow> gpio_set_irq_type F irq ty s = Inr (- EINVAL, s)) \<and>
    ((ty, edge, fl, level) \<in> set triggers \<longrightarrow> (\<exists>s'. gpio_set_irq_type F irq ty s = Inr (0, s') \<and>
      handle_irq (descs s' irq) = Some fl \<and> (\<forall>j. j \<noteq> irq \<longrightarrow> descs s' j = descs s j) \<and>
      (\<forall>q. pin_field (GPIO_ICR1, GPIO_ICR2) q (mach s') = (if q = p then edge else pin_field (GPIO_ICR1, GPIO_ICR2) q (mach s)) \<and>
        level_pin q (mach s') = (if q = p then level else level_pin q (mach s)) \<and>
        pin_flag GPIO_ISR q (mach s') = (q \<noteq> p \<and> pin_flag GPIO_ISR q (mach s)) \<and>
        (\<forall>r\<in>{GPIO_DR, GPIO_GDIR, GPIO_IMR}. pin_flag r q (mach s') = pin_flag r q (mach s)) \<and> (owned q (mach s') = owned q (mach s)))))"
proof (intro conjI impI)
  note l = pin_line [OF assms(2)]
  show "gpio_set_irq_type F irq ty s = Inr (- EINVAL, s)" if "ty \<notin> fst ` set triggers"
    using that by (simp add: gpio_set_irq_type_def gpio_type_def triggers_def l(1,2))
  assume t: "(ty, edge, fl, level) \<in> set triggers"
  define m where "m = u_set_gpio_edge_ctrl (pin_port p) (pin_index p) edge (mach s)"
  define m' where "m' = upd_port (pin_port p) (p_irq_is_level_map_update (\<lambda>x.
    if level then x OR pin_bit (pin_index p) else x AND NOT (pin_bit (pin_index p)))) m"
  define s' where "s' = (upd_desc irq (\<lambda>d. d\<lparr>handle_irq := Some fl, desc_name := None\<rparr>) s)\<lparr>mach := m'\<rparr>"
  note e = edge_ctrl_effect [OF assms(1) trigger_facts(2) [OF t], where p = p, folded m_def]
  have run: "gpio_set_irq_type F irq ty s = Inr (0, s')"
    using pin_type_run [OF assms(2,3) t] by (simp add: s'_def m'_def m_def)
  have fl: "pin_flag r q m' = pin_flag r q m" "pin_field rr q m' = pin_field rr q m" for r rr q
    by (simp_all add: m'_def pin_flag_def pin_field_def)
  have lv: "level_pin q m' = (if q = p then level else level_pin q (mach s))" for q
    using same_pin [of q p] index_unat [of q] by (auto simp: m'_def level_pin_def e(4) bit_simps)
  have own: "owned q m' = owned q (mach s)" for q by (simp add: owned_def m'_def e(4))
  have d: "handle_irq (descs s' irq) = Some fl" "\<forall>j. j \<noteq> irq \<longrightarrow> descs s' j = descs s j" "mach s' = m'" by (simp_all add: s'_def)
  show "\<exists>s'. gpio_set_irq_type F irq ty s = Inr (0, s') \<and>
      handle_irq (descs s' irq) = Some fl \<and> (\<forall>j. j \<noteq> irq \<longrightarrow> descs s' j = descs s j) \<and>
      (\<forall>q. pin_field (GPIO_ICR1, GPIO_ICR2) q (mach s') = (if q = p then edge else pin_field (GPIO_ICR1, GPIO_ICR2) q (mach s)) \<and>
        level_pin q (mach s') = (if q = p then level else level_pin q (mach s)) \<and>
        pin_flag GPIO_ISR q (mach s') = (q \<noteq> p \<and> pin_flag GPIO_ISR q (mach s)) \<and>
        (\<forall>r\<in>{GPIO_DR, GPIO_GDIR, GPIO_IMR}. pin_flag r q (mach s') = pin_flag r q (mach s)) \<and> (owned q (mach s') = owned q (mach s)))"
    using run d(1,2) by (intro exI [of _ s'] conjI allI ballI) (simp_all add: d(3) fl e lv own)
qed

theorem set_type_of_pin_witness:
  "\<exists>s s'. gpio_set_irq_type mx27_chip_fns (IOMUX_TO_IRQ (pin_code (PC MX27_PIN_SSI3_FS))) IRQT_HIGH s = Inr (0, s') \<and>
    level_pin (PC MX27_PIN_SSI3_FS) (mach s')"
proof -
  let ?m = "upd_port 0 (p_reserved_map_update (\<lambda>x. x)) demo_pins" and ?p = "PC MX27_PIN_SSI3_FS"
  define s where "s = (mx27_irq_boot ?m)\<lparr>descs := \<lambda>_. irq_desc_init\<lparr>chip := dummy_irq_chip\<rparr>\<rparr>"
  have "pin_storage (mach s)" "\<And>i. chip (descs s i) \<noteq> no_irq_chip" using demo_pin_storage [of 0 "\<lambda>x. x"] by (simp_all add: s_def mx27_irq_boot_def)
  from set_type_of_pin [OF this(1) refl this(2), where p = ?p and ty = IRQT_HIGH and F = mx27_chip_fns
      and edge = GPIO_INT_HIGH_LEV and fl = handle_level_irq_fn and level = True]
  obtain s' where "gpio_set_irq_type mx27_chip_fns (IOMUX_TO_IRQ (pin_code ?p)) IRQT_HIGH s = Inr (0, s')" "level_pin ?p (mach s')"
    by (auto simp: triggers_def)
  then show ?thesis by blast
qed

end
