(* ===== verification/Spec2Isabelle.thy ===== *)
theory Spec2Isabelle
  imports Mx27_Clk_Gates Mx27_Clk_Outputs Mx27_Irq_Nested Board_Pins Sdio_Irq Irq_Request Gpio_Pin_Irq
begin

text \<open>
  \<^bold>\<open>Clocks, interrupts and pins of the i.MX27 port of Linux.\<close>

  \<^bold>\<open>The program.\<close>  The repository holds the i.MX27 part of a Linux 2.6.19 kernel.  Drivers of devices
  use three services of the platform, which are modelled here down to the registers: the clock framework
  (\<^verbatim>\<open>arch/arm/plat-mxc/clock.c\<close>) with the clock tree of the chip (\<^verbatim>\<open>arch/arm/mach-mx27/clock.c\<close>); the
  interrupt core (\<^verbatim>\<open>kernel/irq\<close>) with its two controllers, the AVIC (\<^verbatim>\<open>arch/arm/plat-mxc/irq.c\<close>) and the GPIO
  ports (\<^verbatim>\<open>arch/arm/plat-mxc/gpio.c\<close>); and the multiplexing of pins (\<^verbatim>\<open>arch/arm/mach-mx27/gpio_mux.c\<close>) with the
  set-up functions of the boards (\<^verbatim>\<open>arch/arm/mach-mx27/mx27mdk27v0_gpio.c\<close>), which take and give back the pins
  of every peripheral.  The frameworks call the machine through function pointers; the boards call the ports
  and the interrupt core.

  \<^bold>\<open>Conventions.\<close>  An \<^verbatim>\<open>unsigned long\<close> or \<^verbatim>\<open>u32\<close> is a 32-bit word with its wrap-around.  What stops a kernel (\<^verbatim>\<open>BUG\<close>, a
  null pointer, a division by zero, an index out of bounds, a loop without end, an exhausted stack) is a value
  of \<open>fault\<close>; \<open>'a result\<close> is \<open>fault + 'a\<close> and \<open>rbind\<close> sequences such steps (\<open>Mx27_Prelude\<close>).  Structures are records,
  passed explicitly.  A function pointer is a value of a data type of the machine's functions, and a
  record of functions (\<open>clk_fns\<close>, \<open>irq_fns\<close>) says what a call of it does, so that the frameworks are
  polymorphic in the machine as the code is.

  \<^bold>\<open>Hardware.\<close>  \<open>Mx27_Bus\<close> is the bus: its memory, what a write makes of a register (\<open>wsem\<close>) and what time
  changes (\<open>tick\<close>) are parameters, as the behaviour of the peripherals is not in the sources.  The theorems
  name what they rely on: \<open>storage\<close> (a register holds what is written), \<open>w1c\<close> (a set bit clears the bit),
  \<open>pll_locks\<close> (a PLL whose enable bit is set locks in the end).  The handlers of device drivers and the driver of the power management
  chip are parameters too (\<open>drivers\<close>, \<open>pmic\<close>).  A handler is a program (\<open>handler\<close>): it changes the machine, disables and enables
  lines and is interrupted by lines, in any order it likes; \<open>plain\<close> handlers change the machine only.

  \<^bold>\<open>Clocks.\<close>  \<open>Plat_Clock\<close> models every function of \<^verbatim>\<open>plat-mxc/clock.c\<close> on \<^verbatim>\<open>struct clk\<close> (record \<open>clk\<close>) and the registry.
  \<open>Clock_Refs\<close>, \<open>Clock_Use\<close> and \<open>Clock_Rates\<close> prove what the framework promises, in the locales \<open>clk_gates\<close>,
  \<open>clk_gates_live\<close>, \<open>clk_rates\<close>, \<open>clk_machine\<close> and \<open>clk_tree\<close> that say what it relies on of a machine: the account of use counts, the
  roll-back of a failed enable, the round trip of enable and disable, and that rates stay consistent below a clock whose rate changed.
  \<open>usage\<close> is the relation of what drivers may do with the clocks: enable and disable in balance, with at most 32 users of a clock from outside
  at any time, and set rates and parents, the parent of a clock only while it is unused, since the code does not move the account then.
  \<open>Crm_Regs\<close>, \<open>Mx27_Clk_Tables\<close> and \<open>Mx27_Clk_Ops\<close> are the registers, the clock structures and the callbacks of
  \<^verbatim>\<open>mach-mx27\<close>; \<open>Mx27_Clk_Spec\<close>, \<open>Mx27_Clk_Tree\<close> and \<open>Mx27_Clk_Machine\<close> show that the callbacks satisfy the locales
  (\<open>recalc_value\<close> is what they compute), \<open>Mx27_Clk_Init\<close> follows the two boot functions, and \<open>Mx27_Clock\<close>
  states the results for the chip.  \<open>Mx27_Clk_Rate\<close> treats the dividers and compares the callbacks with the clock
  formulas on the register fields (\<open>clock_formula\<close>), \<open>Mx27_Clk_Gates\<close> with the gate bits the register header names (\<open>crm_gates\<close>), \<open>Mx27_Clk_Outputs\<close> the output pin and the processor clock, where the code has mistakes that are proved as
  such.

  \<^bold>\<open>Interrupts.\<close>  \<open>Irq_Core\<close> and \<open>Irq_Flow\<close> model the descriptors, the flow handlers, the watch for stuck lines, the resend,
  \<^verbatim>\<open>request_irq\<close>, \<^verbatim>\<open>free_irq\<close> and the nested disabling.  \<open>Irq_Spec\<close> proves the discipline of the lines in the locales \<open>irq_chips\<close>
  and \<open>irq_lines\<close>; \<open>irq_usage\<close> is the relation of what drivers and devices may do after boot: all of the driver interface, but that no line is disabled
  \<open>2 ^ 32\<close> times in a row, with arbitrary changes of the machine, interrupts and replays in between.  \<open>Gpio\<close> is the AVIC and
  the ports, \<open>Gpio_Irq\<close> the interpretation of the locales and the state after initialisation.  \<open>Mx27_Irq\<close>, \<open>Mx27_Irq_Delivery\<close> and
  \<open>Irq_Request\<close> state what happens on the lines of the machine: nesting, delivery, replay of missed edges, the
  equivalence of the demultiplexing loop with running the pending pins, requesting and freeing, and the discipline of the lines under \<open>irq_usage\<close>.
  \<open>Mx27_Irq_Nested\<close> shows that the entry from the exception vector returns although edges keep coming in while the handlers
  run.  \<open>Sdio_Irq\<close> plugs a second machine into the same core, the interrupt chip of SDIO cards: how a card's line is opened, and how its interrupt is
  served.  That machine is a system of its own, while the code keeps its lines in the same array of descriptors.

  \<^bold>\<open>Pins.\<close>  \<open>Mx27_Pins\<close> is the enumeration of pins (\<^verbatim>\<open>mx27_pins.h\<close>), \<open>Gpio_Pin_Irq\<close> the pins as interrupt lines.  \<open>Gpio_Mux\<close> models
  \<^verbatim>\<open>gpio_mux.c\<close> and reads its registers pin by pin (\<open>pin_function\<close>); requesting and freeing is the locale \<open>pin_pool\<close>.  The
  set-up functions are straight-line code, so \<open>Board_Calls\<close> represents them as lists of calls with an interpreter
  \<open>run_calls\<close>, and proves that the interpreter refines a specification on who owns a pin and what its
  function is.  \<open>Board_Gpio\<close> lists the calls of every compiled function for every kernel configuration the
  file distinguishes (\<open>board_config\<close>; \<open>autoconf\<close> is the one in the repository), and \<open>Board_Pins\<close> shows which peripherals give back what they take, which do not,
  and that setting one up respects the owner of a pin up to two named pins.

  \<^bold>\<open>This theory\<close> adds what spans the parts: a board function that takes pins, sets the trigger of
  an interrupt, and the driver's request that follows.

  \<^bold>\<open>Bounds.\<close>  Recursions over the clock tree carry the depth of nested calls, \<open>CLK_DEPTH\<close> = 32; no chain of clocks
  of the chip is longer than eight, and the theorems show the fault \<open>StackOverflow\<close> does not occur.  Flow handlers that call flow handlers, and handlers
  that are interrupted, nest at most \<open>IRQ_DEPTH\<close> = 8 deep, where chaining needs two.  The loop of the edge handler and the wait
  for the PLL may run forever in principle; they are partial functions into \<open>option\<close>, and \<open>None\<close> is excluded
  where the theorems say that a call returns.  Use counts are signed bytes as in the source; the theorems ask for room for one more user, or for at most 32 from outside.

  \<^bold>\<open>Not modelled.\<close>  Locking: the code runs each operation under a spin lock or a mutex on one processor, and
  an operation is one step here.  Printing and \<^verbatim>\<open>/proc\<close>.  Interrupt autoprobing and migration, which the port does not use.  Timers, DMA and the
  page tables of the machine, whose effect is in the hardware.  Functions the preprocessor or a comment removes from
  the board file (ATA, smart LCD, TVP5150, WM9712).  The device drivers, which are clients of the parts above, and the
  unmodified rest of the kernel.
\<close>

section \<open>A network chip on a pin\<close>


lemma cs8900_view:
  assumes "pmic_apart pmic" and "steady m" and "owned_pins m = {}"
  shows "steady (run_calls pmic cs8900_calls m)"
    "owned_pins (run_calls pmic cs8900_calls m) = {PC MX27_PIN_SSI3_FS, PC MX27_PIN_I2C2_SDA}"
    "pin_function (PC MX27_PIN_SSI3_FS) (run_calls pmic cs8900_calls m) =
      with_mode GPIO_MUX_GPIO (pin_function (PC MX27_PIN_SSI3_FS) m)"
proof -
  have "keeps_off cs8900_calls" by (simp add: cs8900_calls_def)
  from run_calls_view [OF assms(1,2) this]
  have r: "steady (run_calls pmic cs8900_calls m)" "pins_view (run_calls pmic cs8900_calls m) = view_after cs8900_calls (pins_view m)"
    by blast+
  then show "steady (run_calls pmic cs8900_calls m)" by blast
  have "view_after cs8900_calls (pins_view m) = ({PC MX27_PIN_SSI3_FS, PC MX27_PIN_I2C2_SDA},
      (snd (pins_view m))(PC MX27_PIN_I2C2_SDA := with_mode GPIO_MUX_GPIO (pin_function (PC MX27_PIN_I2C2_SDA) m),
        PC MX27_PIN_SSI3_FS := with_mode GPIO_MUX_GPIO (pin_function (PC MX27_PIN_SSI3_FS) m)))"
    by (simp add: cs8900_calls_def take_pin_def pins_view_def assms(3))
  note v = r(2) [unfolded this]
  have "fst (pins_view (run_calls pmic cs8900_calls m)) = {PC MX27_PIN_SSI3_FS, PC MX27_PIN_I2C2_SDA}" unfolding v by simp
  then show "owned_pins (run_calls pmic cs8900_calls m) = {PC MX27_PIN_SSI3_FS, PC MX27_PIN_I2C2_SDA}" by (simp only: pins_view_def fst_conv)
  have "snd (pins_view (run_calls pmic cs8900_calls m)) (PC MX27_PIN_SSI3_FS) = with_mode GPIO_MUX_GPIO (pin_function (PC MX27_PIN_SSI3_FS) m)"
    unfolding v by simp
  then show "pin_function (PC MX27_PIN_SSI3_FS) (run_calls pmic cs8900_calls m) =
      with_mode GPIO_MUX_GPIO (pin_function (PC MX27_PIN_SSI3_FS) m)" by (simp only: view_sel)
qed

lemma service_no_pins: "in_service s \<Longrightarrow> owned_pins (mach s) = {}"
  using pin_port_less by (auto simp: in_service_def owned_pins_def owned_def)

lemma gpio_line_type:
  assumes "line_ready i s" and "\<not> i < 64"
  shows "set_irq_type (mx27_irq_fns drv) i ty s = gpio_set_irq_type mx27_chip_fns i ty s"
proof -
  have "c_set_type (the_chip i s) = Some gpio_set_irq_type_fn"
    using assms by (simp add: the_chip_def line_ready_def set_defaults_eq gpio_irq_chip_init_def)
  then show ?thesis using ready_nr [OF assms(1)] by (auto simp: set_irq_type_def mx27_irq_fns_def mx27_set_type_def)
qed

text \<open>
  C35: the set-up of the network chip and the request of its interrupt go together: on a machine in service
  the function returns with both pins owned and the interrupt pin under the control of its
  port, triggering on a high level, and the driver's request then succeeds and opens exactly that line.
\<close>

theorem cs8900_interrupt:
  assumes "in_service s" and "steady (mach s)" and "pmic_apart pmic" and "p = PC MX27_PIN_SSI3_FS" and "i = IOMUX_TO_IRQ (pin_code p)"
  shows "\<exists>s1 s2. gpio_cs8900_init pmic (mx27_irq_fns drv) s = Inr s1 \<and> owned_pins (mach s1) = {p, PC MX27_PIN_I2C2_SDA} \<and>
    in_use_by_port (pin_function p (mach s1)) \<and> level_pin p (mach s1) \<and>
    pin_field (GPIO_ICR1, GPIO_ICR2) p (mach s1) = GPIO_INT_HIGH_LEV \<and>
    request_irq (mx27_irq_fns drv) True i (Some (Driver n)) 0 nm dev s1 = Inr (0, s2) \<and>
    handle_irq (descs s2 i) = Some handle_level_irq_fn \<and> map a_handler (action (descs s2 i)) = [Driver n] \<and>
    mach s2 = unmask_of i (mach s1) \<and> (\<forall>j. j \<noteq> i \<longrightarrow> descs s2 j = descs s j)"
proof -
  have i: "i < 256" "\<not> i < 64" "i \<noteq> 8" using pin_irq_unat [of p] by (auto simp: assms(4,5) word_less_nat_alt)
  define m0 where "m0 = run_calls pmic cs8900_calls (mach s)"
  note v = cs8900_view [OF assms(3,2) service_no_pins [OF assms(1)], folded m0_def]
  have st: "pin_storage m0" using v(1) by (simp add: steady_def)
  define m1 where "m1 = u_set_gpio_edge_ctrl (pin_port p) (pin_index p) GPIO_INT_HIGH_LEV m0"
  define m2 where "m2 = upd_port (pin_port p) (p_irq_is_level_map_update (\<lambda>x. x OR pin_bit (pin_index p))) m1"
  define s1 where "s1 = (upd_desc i (\<lambda>d. d\<lparr>handle_irq := Some handle_level_irq_fn, desc_name := None\<rparr>) s)\<lparr>mach := m2\<rparr>"
  have tr: "(IRQT_HIGH, GPIO_INT_HIGH_LEV, handle_level_irq_fn, True) \<in> set triggers" by (simp add: triggers_def)
  have ready: "line_ready i (s\<lparr>mach := m0\<rparr>)" "line_ready i s1" using service_ready [OF assms(1) i(1)] by (simp_all add: s1_def line_ready_def)
  have init: "gpio_cs8900_init pmic (mx27_irq_fns drv) s = Inr s1"
    using gpio_line_type [OF ready(1) i(2), of drv IRQT_HIGH] pin_type_run [OF assms(5) _ tr, of "s\<lparr>mach := m0\<rparr>" mx27_chip_fns] ready(1)
    unfolding gpio_cs8900_init_def on_mach_eq [of "run_calls pmic cs8900_calls"] m0_def [symmetric] assms(4) [symmetric] assms(5) [symmetric]
    by (simp add: s1_def m2_def m1_def line_ready_def)
  note e = edge_ctrl_effect [OF st trigger_facts(2) [OF tr], where p = p, folded m1_def]
  have m: "owned_pins m2 = {p, PC MX27_PIN_I2C2_SDA}" "in_use_by_port (pin_function p m2)" "level_pin p m2"
    "pin_field (GPIO_ICR1, GPIO_ICR2) p m2 = GPIO_INT_HIGH_LEV"
  proof -
    have "owned_pins m2 = owned_pins m0" by (auto simp: owned_pins_def owned_def m2_def e(4))
    then show "owned_pins m2 = {p, PC MX27_PIN_I2C2_SDA}" using v(2) by (simp add: assms(4))
    have "pin_function p m2 = pin_function p m1" by (simp add: m2_def)
    also have "\<dots> = pin_function p m0" unfolding m1_def by (rule edge_ctrl_function [OF st])
    finally show "in_use_by_port (pin_function p m2)" using v(3) by (simp add: assms(4))
    show "level_pin p m2" using index_unat [of p] by (simp add: m2_def level_pin_def bit_simps)
    have "pin_field (GPIO_ICR1, GPIO_ICR2) p m2 = pin_field (GPIO_ICR1, GPIO_ICR2) p m1" by (simp add: m2_def pin_field_def)
    then show "pin_field (GPIO_ICR1, GPIO_ICR2) p m2 = GPIO_INT_HIGH_LEV" using e(1) by simp
  qed
  have line: "action (descs s1 i) = []" "handle_irq (descs s1 i) = Some handle_level_irq_fn" "\<not> has_status i IRQ_NOREQUEST s1"
    "\<not> has_status i IRQ_NOAUTOEN s1"
    using assms(1) i(1,3) by (simp_all add: s1_def in_service_def status_simps)
  obtain d where "request_irq (mx27_irq_fns drv) True i (Some (Driver n)) 0 nm dev s1 =
      Inr (0, (upd_desc i (\<lambda>_. d) s1)\<lparr>mach := unmask_of i (mach s1)\<rparr>)"
    "handle_irq d = Some handle_level_irq_fn" "action d = [new_action i (Driver n) 0 nm dev]"
    using request_run [OF ready(2) line(1,2) _ line(3,4), of 0 dev drv "Driver n" nm] by auto
  moreover have "mach s1 = m2" "\<forall>j. j \<noteq> i \<longrightarrow> descs s1 j = descs s j" by (simp_all add: s1_def)
  ultimately show ?thesis using init m
    by (intro exI [of _ s1] exI [of _ "(upd_desc i (\<lambda>_. d) s1)\<lparr>mach := unmask_of i (mach s1)\<rparr>"]) simp
qed

theorem cs8900_interrupt_witness:
  "\<exists>s s1 s2. gpio_cs8900_init (\<lambda>m. m) (mx27_irq_fns demo_drv) s = Inr s1 \<and> level_pin (PC MX27_PIN_SSI3_FS) (mach s1) \<and>
    request_irq (mx27_irq_fns demo_drv) True (IOMUX_TO_IRQ (pin_code (PC MX27_PIN_SSI3_FS))) (Some (Driver 0)) 0 ''cs8900'' None s1 = Inr (0, s2)"
proof -
  obtain s where "in_service s" using demo_served by blast
  then have "in_service (s\<lparr>mach := demo_pins\<rparr>)"
    using demo_pins_facts(3) by (simp add: in_service_def) (simp add: demo_pins_def)
  moreover have "steady (mach (s\<lparr>mach := demo_pins\<rparr>))" using demo_steady by simp
  ultimately show ?thesis
    using cs8900_interrupt [OF _ _ pmic_apart_id refl refl, of "s\<lparr>mach := demo_pins\<rparr>" demo_drv 0 "''cs8900''" None] by blast
qed

end
